(* ===== verification/Prelude.thy ===== *)
theory Prelude
  imports Main "HOL-Library.Word"
begin

text \<open>
  Shared vocabulary of the development: the machine integers of the firmware, the outcome of a
  Rust computation (a value, a panic, an endless loop, undefined behaviour), the little-endian
  byte encodings that the wire formats use, and the generic lemmas about them.
\<close>

unbundle bit_operations_syntax

section \<open>Machine integers\<close>

type_synonym u8 = "8 word"
type_synonym u16 = "16 word"
type_synonym u32 = "32 word"

type_synonym bytes = "u8 list"

named_theorems rust_simps \<open>evaluation of outcomes\<close>
named_theorems codec_simps \<open>little-endian encodings\<close>
named_theorems frame_simps \<open>fields an operation leaves alone\<close>

section \<open>Outcomes of a computation\<close>

text \<open>
  \<open>Panic\<close> is an unwinding or aborting panic (index out of bounds, division by zero, failed slice),
  \<open>Hang\<close> is a loop that is never left (the firmware spins on an overflow it cannot report),
  \<open>Undef\<close> is behaviour that the language leaves undefined.
\<close>

datatype 'a rust = Ret 'a | Panic | Hang | Undef

fun rbind :: "'a rust \<Rightarrow> ('a \<Rightarrow> 'b rust) \<Rightarrow> 'b rust" where
  "rbind (Ret x) f = f x"
| "rbind Panic f = Panic"
| "rbind Hang f = Hang"
| "rbind Undef f = Undef"

fun returns :: "'a rust \<Rightarrow> bool" where
  "returns (Ret x) = True"
| "returns _ = False"

lemma rbind_Ret_iff [rust_simps]: "rbind m f = Ret y \<longleftrightarrow> (\<exists>x. m = Ret x \<and> f x = Ret y)"
  by (cases m) auto

lemma rbind_Ret_right [simp]: "rbind m Ret = m"
  by (cases m) auto

lemma rbind_pair: "rbind m (\<lambda>(x, y). Ret (x, y)) = m"
  by (cases m) auto

lemma rbind_assoc: "rbind (rbind m f) g = rbind m (\<lambda>x. rbind (f x) g)"
  by (cases m) auto

lemma returns_iff: "returns m \<longleftrightarrow> (\<exists>x. m = Ret x)"
  by (cases m) auto

lemma returns_rbind [rust_simps]:
  "returns (rbind m f) \<longleftrightarrow> (\<exists>x. m = Ret x \<and> returns (f x))"
  by (cases m) auto

lemma rbind_returnsI: "m = Ret x \<Longrightarrow> returns (f x) \<Longrightarrow> returns (rbind m f)"
  by simp

fun of_option :: "'a option \<Rightarrow> 'a rust" where
  "of_option (Some x) = Ret x"
| "of_option None = Hang"

lemma of_option_Ret [rust_simps]: "of_option m = Ret x \<longleftrightarrow> m = Some x"
  by (cases m) auto

text \<open>\<open>ok_or(e)?\<close> on an option, and the early return of the question mark on a result.\<close>

fun ok_or :: "'a option \<Rightarrow> 'e \<Rightarrow> 'e + 'a" where
  "ok_or None e = Inl e"
| "ok_or (Some x) e = Inr x"

fun try_bind :: "'e + 'a \<Rightarrow> ('a \<Rightarrow> 'e + 'b) \<Rightarrow> 'e + 'b" where
  "try_bind (Inl e) f = Inl e"
| "try_bind (Inr x) f = f x"

lemma try_bind_Inr_iff [rust_simps]:
  "try_bind m f = Inr y \<longleftrightarrow> (\<exists>x. m = Inr x \<and> f x = Inr y)"
  by (cases m) auto

lemma ok_or_Inr_iff [rust_simps]: "ok_or m e = Inr x \<longleftrightarrow> m = Some x"
  by (cases m) auto

lemma ok_or_Inl_iff [rust_simps]: "ok_or m e = Inl d \<longleftrightarrow> m = None \<and> d = e"
  by (cases m) auto

section \<open>Lists\<close>

lemma find_eq_Some: "x \<in> set xs \<Longrightarrow> find (\<lambda>y. y = x) xs = Some x"
  by (induction xs) auto

lemma find_Some_mem: "find p xs = Some x \<Longrightarrow> x \<in> set xs \<and> p x"
  by (auto simp: find_Some_iff)

section \<open>Little-endian encodings\<close>

text \<open>\<open>to_le_bytes\<close> and \<open>from_le_bytes\<close> of \<open>u16\<close> and \<open>u32\<close>.\<close>

definition le16 :: "u16 \<Rightarrow> bytes" where
  "le16 w = [ucast w, ucast (drop_bit 8 w)]"

definition le32 :: "u32 \<Rightarrow> bytes" where
  "le32 w = [ucast w, ucast (drop_bit 8 w), ucast (drop_bit 16 w), ucast (drop_bit 24 w)]"

definition u16_of :: "u8 \<Rightarrow> u8 \<Rightarrow> u16" where
  "u16_of a b = ucast a OR push_bit 8 (ucast b)"

definition u32_of :: "u8 \<Rightarrow> u8 \<Rightarrow> u8 \<Rightarrow> u8 \<Rightarrow> u32" where
  "u32_of a b c d =
     ucast a OR push_bit 8 (ucast b) OR push_bit 16 (ucast c) OR push_bit 24 (ucast d)"

lemma length_le16 [simp]: "length (le16 w) = 2"
  by (simp add: le16_def)

lemma length_le32 [simp]: "length (le32 w) = 4"
  by (simp add: le32_def)

lemma u16_of_parts [codec_simps]: "u16_of (ucast w) (ucast (drop_bit 8 w)) = w"
  unfolding u16_of_def
  by (rule bit_word_eqI) (auto simp: bit_simps)

lemma u16_parts_low [codec_simps]: "ucast (u16_of a b) = a"
  unfolding u16_of_def
  by (rule bit_word_eqI) (auto simp: bit_simps)

lemma u16_parts_high [codec_simps]: "ucast (drop_bit 8 (u16_of a b)) = b"
  unfolding u16_of_def
  by (rule bit_word_eqI) (auto simp: bit_simps dest: bit_imp_le_length)

lemma u32_of_parts [codec_simps]:
  "u32_of (ucast w) (ucast (drop_bit 8 w)) (ucast (drop_bit 16 w)) (ucast (drop_bit 24 w)) = w"
proof (rule bit_word_eqI)
  fix n assume "n < LENGTH(32)"
  then consider "n < 8" | "8 \<le> n" "n < 16" | "16 \<le> n" "n < 24" | "24 \<le> n" "n < 32"
    by fastforce
  then show "bit (u32_of (ucast w) (ucast (drop_bit 8 w)) (ucast (drop_bit 16 w))
      (ucast (drop_bit 24 w))) n = bit w n"
    by cases (auto simp: u32_of_def bit_simps)
qed

lemma u32_parts [codec_simps]:
  "ucast (u32_of a b c d) = a" "ucast (drop_bit 8 (u32_of a b c d)) = b"
  "ucast (drop_bit 16 (u32_of a b c d)) = c" "ucast (drop_bit 24 (u32_of a b c d)) = d"
  unfolding u32_of_def
  by (rule bit_word_eqI, auto simp: bit_simps dest: bit_imp_le_length)+

section \<open>Narrowing casts\<close>

lemma unat_of_nat_u8: "n < 256 \<Longrightarrow> unat (of_nat n :: u8) = n"
  by (simp add: unsigned_of_nat take_bit_nat_eq_self)

lemma unat_of_nat_u16: "n < 65536 \<Longrightarrow> unat (of_nat n :: u16) = n"
  by (simp add: unsigned_of_nat take_bit_nat_eq_self)

lemma unat_of_nat_u32: "n < 4294967296 \<Longrightarrow> unat (of_nat n :: u32) = n"
  by (simp add: unsigned_of_nat take_bit_nat_eq_self)

end
