(* ===== verification/ByteCodec.thy ===== *)
theory ByteCodec
  imports Prelude
begin

text \<open>
  Fixed-width wire structures. A \<open>#[repr(C)]\<close> structure of unaligned fields that derives
  \<open>FromBytes\<close> and \<open>AsBytes\<close> is an encoder, a decoder and a width; the locale \<open>byte_codec\<close> states
  what its users rely on, and every structure of the firmware that crosses the wire is shown to
  provide it. \<open>read_from\<close> and \<open>read_prefix\<close> are the two ways the code parses arguments.
\<close>

text \<open>\<open>Args::read_from(bytes)\<close>: exactly the width of the structure.\<close>

definition read_from :: "nat \<Rightarrow> (bytes \<Rightarrow> 'a option) \<Rightarrow> bytes \<Rightarrow> 'a option" where
  "read_from n dec bs = (if length bs = n then dec bs else None)"

text \<open>\<open>Ref::new_unaligned_from_prefix(bytes)\<close>: the structure and the bytes behind it.\<close>

definition read_prefix :: "nat \<Rightarrow> (bytes \<Rightarrow> 'a option) \<Rightarrow> bytes \<Rightarrow> ('a \<times> bytes) option" where
  "read_prefix n dec bs =
     (if length bs < n then None
      else case dec (take n bs) of None \<Rightarrow> None | Some x \<Rightarrow> Some (x, drop n bs))"

locale byte_codec =
  fixes enc :: "'a \<Rightarrow> bytes"
    and dec :: "bytes \<Rightarrow> 'a option"
    and width :: nat
  assumes enc_length: "length (enc x) = width"
    and dec_enc: "dec (enc x) = Some x"
    and dec_exact: "dec bs = Some x \<Longrightarrow> enc x = bs"
    and dec_total: "length bs = width \<Longrightarrow> dec bs \<noteq> None"
begin

lemma dec_Some_iff: "dec bs = Some x \<longleftrightarrow> bs = enc x"
  using dec_enc dec_exact by auto

lemma dec_None_iff: "dec bs = None \<longleftrightarrow> length bs \<noteq> width"
  using dec_Some_iff dec_total enc_length by (metis not_None_eq)

lemma enc_inject: "enc x = enc y \<longleftrightarrow> x = y"
  using dec_enc by (metis option.inject)

lemma read_from_enc: "read_from width dec (enc x) = Some x"
  by (simp add: read_from_def enc_length dec_enc)

lemma read_from_None_iff: "read_from width dec bs = None \<longleftrightarrow> length bs \<noteq> width"
  by (simp add: read_from_def dec_None_iff)

lemma read_from_Some_iff: "read_from width dec bs = Some x \<longleftrightarrow> bs = enc x"
  by (auto simp: read_from_def dec_Some_iff enc_length)

lemma read_prefix_enc: "read_prefix width dec (enc x @ rest) = Some (x, rest)"
  by (simp add: read_prefix_def enc_length dec_enc)

lemma read_prefix_None_iff: "read_prefix width dec bs = None \<longleftrightarrow> length bs < width"
proof -
  have "dec (take width bs) \<noteq> None" if "width \<le> length bs"
    using that by (intro dec_total) simp
  then show ?thesis by (cases "length bs < width") (auto simp: read_prefix_def split: option.splits)
qed

lemma read_prefix_Some_iff: "read_prefix width dec bs = Some (x, rest) \<longleftrightarrow> bs = enc x @ rest"
proof
  assume "read_prefix width dec bs = Some (x, rest)"
  then have "dec (take width bs) = Some x" and "rest = drop width bs"
    by (auto simp: read_prefix_def split: if_splits option.splits)
  then show "bs = enc x @ rest" by (metis append_take_drop_id dec_exact)
qed (simp add: read_prefix_enc)

lemma prefix_inject: "enc x @ r = enc y @ s \<longleftrightarrow> x = y \<and> r = s"
  by (auto simp: enc_length enc_inject dest!: append_eq_append_conv [THEN iffD1, rotated])

text \<open>A sequence of structures, as the array and descriptor tables of the code are sent.\<close>

lemma concat_enc_length: "length (concat (map enc xs)) = width * length xs"
  by (induction xs) (simp_all add: enc_length)

lemma concat_enc_inject:
  "length xs = length ys \<Longrightarrow> concat (map enc xs) = concat (map enc ys) \<longleftrightarrow> xs = ys"
  by (induction xs ys rule: list_induct2) (auto simp: enc_length enc_inject)

end

section \<open>The scalar codecs\<close>

fun dec8 :: "bytes \<Rightarrow> u8 option" where
  "dec8 [a] = Some a"
| "dec8 _ = None"

fun dec16 :: "bytes \<Rightarrow> u16 option" where
  "dec16 [a, b] = Some (u16_of a b)"
| "dec16 _ = None"

fun dec32 :: "bytes \<Rightarrow> u32 option" where
  "dec32 [a, b, c, d] = Some (u32_of a b c d)"
| "dec32 _ = None"

lemma dec8_Some_iff: "dec8 bs = Some x \<longleftrightarrow> bs = [x]"
  by (cases bs rule: dec8.cases) auto

lemma dec16_Some_iff: "dec16 bs = Some x \<longleftrightarrow> bs = le16 x"
  by (cases bs rule: dec16.cases) (auto simp: le16_def codec_simps)

lemma dec32_Some_iff: "dec32 bs = Some x \<longleftrightarrow> bs = le32 x"
  by (cases bs rule: dec32.cases) (auto simp: le32_def codec_simps)

lemma dec8_total: "length bs = 1 \<Longrightarrow> dec8 bs \<noteq> None"
  by (cases bs rule: dec8.cases) auto

lemma dec16_total: "length bs = 2 \<Longrightarrow> dec16 bs \<noteq> None"
  by (cases bs rule: dec16.cases) auto

lemma dec32_total: "length bs = 4 \<Longrightarrow> dec32 bs \<noteq> None"
  by (cases bs rule: dec32.cases) auto

interpretation codec8: byte_codec "\<lambda>x. [x]" dec8 1
  by unfold_locales (simp_all add: dec8_Some_iff dec8_total)

interpretation codec16: byte_codec le16 dec16 2
  by unfold_locales (simp_all add: dec16_Some_iff dec16_total)

interpretation codec32: byte_codec le32 dec32 4
  by unfold_locales (simp_all add: dec32_Some_iff dec32_total)

lemmas read_simps = read_from_def read_prefix_def

end
