(* ===== verification/Descriptor.thy ===== *)
theory Descriptor
  imports ByteCodec
begin

text \<open>
  \<open>smolusb/src/descriptor.rs\<close>: the USB descriptors and their wire format. Every \<open>repr(C, packed)\<close>
  header is a record with its encoder and decoder; field names carry a prefix for their structure.
  The composite descriptors (configuration, interface, string) are a head and their tails, and an
  iterator over a descriptor is the list of bytes it yields. A \<open>str\<close> is the list of its Unicode
  scalar values.
\<close>

section \<open>Descriptor types\<close>

datatype descriptor_type =
    DtDevice | DtConfiguration | DtString | DtInterface | DtEndpoint | DtDeviceQualifier
  | DtOtherSpeedConfiguration | DtInterfacePower | DtOnTheGo | DtDebug | DtInterfaceAssociation
  | DtSecurity | DtKey | DtEncryptionType | DtBinaryDeviceObjectStore | DtDeviceCapability
  | DtWirelessEndpointCompanion | DtClassSpecific | DtSuperSpeedEndpointCompanion | DtUnknown

fun descriptor_type_code :: "descriptor_type \<Rightarrow> u8" where
  "descriptor_type_code DtDevice = 0x01"
| "descriptor_type_code DtConfiguration = 0x02"
| "descriptor_type_code DtString = 0x03"
| "descriptor_type_code DtInterface = 0x04"
| "descriptor_type_code DtEndpoint = 0x05"
| "descriptor_type_code DtDeviceQualifier = 0x06"
| "descriptor_type_code DtOtherSpeedConfiguration = 0x07"
| "descriptor_type_code DtInterfacePower = 0x08"
| "descriptor_type_code DtOnTheGo = 0x09"
| "descriptor_type_code DtDebug = 0x0a"
| "descriptor_type_code DtInterfaceAssociation = 0x0b"
| "descriptor_type_code DtSecurity = 0x0c"
| "descriptor_type_code DtKey = 0x0d"
| "descriptor_type_code DtEncryptionType = 0x0e"
| "descriptor_type_code DtBinaryDeviceObjectStore = 0x0f"
| "descriptor_type_code DtDeviceCapability = 0x10"
| "descriptor_type_code DtWirelessEndpointCompanion = 0x11"
| "descriptor_type_code DtClassSpecific = 0x24"
| "descriptor_type_code DtSuperSpeedEndpointCompanion = 0x30"
| "descriptor_type_code DtUnknown = 0xff"

definition descriptor_type_from :: "u8 \<Rightarrow> descriptor_type" where
  "descriptor_type_from value =
     (if value = 0x01 then DtDevice
      else if value = 0x02 then DtConfiguration
      else if value = 0x03 then DtString
      else if value = 0x04 then DtInterface
      else if value = 0x05 then DtEndpoint
      else if value = 0x06 then DtDeviceQualifier
      else if value = 0x07 then DtOtherSpeedConfiguration
      else if value = 0x08 then DtInterfacePower
      else if value = 0x09 then DtOnTheGo
      else if value = 0x0a then DtDebug
      else if value = 0x0b then DtInterfaceAssociation
      else if value = 0x0c then DtSecurity
      else if value = 0x0d then DtKey
      else if value = 0x0e then DtEncryptionType
      else if value = 0x0f then DtBinaryDeviceObjectStore
      else if value = 0x10 then DtDeviceCapability
      else if value = 0x11 then DtWirelessEndpointCompanion
      else if value = 0x24 then DtClassSpecific
      else if value = 0x30 then DtSuperSpeedEndpointCompanion
      else DtUnknown)"

text \<open>\<open>StringDescriptorNumber\<close>\<close>

definition StringDescriptorNumber_Zero :: u8 where
  "StringDescriptorNumber_Zero = 0x00"

definition StringDescriptorNumber_Microsoft :: u8 where
  "StringDescriptorNumber_Microsoft = 0xee"

section \<open>Fixed-size descriptors\<close>

subsection \<open>Device\<close>

record device_descriptor =
  dd_bLength :: u8
  dd_bDescriptorType :: u8
  dd_bcdUSB :: u16
  dd_bDeviceClass :: u8
  dd_bDeviceSubClass :: u8
  dd_bDeviceProtocol :: u8
  dd_bMaxPacketSize :: u8
  dd_idVendor :: u16
  dd_idProduct :: u16
  dd_bcdDevice :: u16
  dd_iManufacturer :: u8
  dd_iProduct :: u8
  dd_iSerialNumber :: u8
  dd_bNumConfigurations :: u8

definition device_descriptor_new :: device_descriptor where
  "device_descriptor_new =
     \<lparr>dd_bLength = 18, dd_bDescriptorType = descriptor_type_code DtDevice, dd_bcdUSB = 0x0200,
      dd_bDeviceClass = 0, dd_bDeviceSubClass = 0, dd_bDeviceProtocol = 0, dd_bMaxPacketSize = 0,
      dd_idVendor = 0, dd_idProduct = 0, dd_bcdDevice = 0, dd_iManufacturer = 0, dd_iProduct = 0,
      dd_iSerialNumber = 0, dd_bNumConfigurations = 0\<rparr>"

definition device_descriptor_bytes :: "device_descriptor \<Rightarrow> bytes" where
  "device_descriptor_bytes d =
     [dd_bLength d, dd_bDescriptorType d] @ le16 (dd_bcdUSB d) @
     [dd_bDeviceClass d, dd_bDeviceSubClass d, dd_bDeviceProtocol d, dd_bMaxPacketSize d] @
     le16 (dd_idVendor d) @ le16 (dd_idProduct d) @ le16 (dd_bcdDevice d) @
     [dd_iManufacturer d, dd_iProduct d, dd_iSerialNumber d, dd_bNumConfigurations d]"

fun device_descriptor_dec :: "bytes \<Rightarrow> device_descriptor option" where
  "device_descriptor_dec [a, b, c, d, e, f, g, h, i, j, k, l, m, n, p, q, r, s] =
     Some \<lparr>dd_bLength = a, dd_bDescriptorType = b, dd_bcdUSB = u16_of c d, dd_bDeviceClass = e,
       dd_bDeviceSubClass = f, dd_bDeviceProtocol = g, dd_bMaxPacketSize = h,
       dd_idVendor = u16_of i j, dd_idProduct = u16_of k l, dd_bcdDevice = u16_of m n,
       dd_iManufacturer = p, dd_iProduct = q, dd_iSerialNumber = r, dd_bNumConfigurations = s\<rparr>"
| "device_descriptor_dec _ = None"

subsection \<open>Device qualifier\<close>

record device_qualifier_descriptor =
  dq_bLength :: u8
  dq_bDescriptorType :: u8
  dq_bcdUSB :: u16
  dq_bDeviceClass :: u8
  dq_bDeviceSubClass :: u8
  dq_bDeviceProtocol :: u8
  dq_bMaxPacketSize0 :: u8
  dq_bNumConfigurations :: u8
  dq_bReserved :: u8

definition device_qualifier_new :: device_qualifier_descriptor where
  "device_qualifier_new =
     \<lparr>dq_bLength = 10, dq_bDescriptorType = descriptor_type_code DtDeviceQualifier, dq_bcdUSB = 0,
      dq_bDeviceClass = 0, dq_bDeviceSubClass = 0, dq_bDeviceProtocol = 0, dq_bMaxPacketSize0 = 0,
      dq_bNumConfigurations = 0, dq_bReserved = 0\<rparr>"

definition device_qualifier_bytes :: "device_qualifier_descriptor \<Rightarrow> bytes" where
  "device_qualifier_bytes d =
     [dq_bLength d, dq_bDescriptorType d] @ le16 (dq_bcdUSB d) @
     [dq_bDeviceClass d, dq_bDeviceSubClass d, dq_bDeviceProtocol d, dq_bMaxPacketSize0 d,
      dq_bNumConfigurations d, dq_bReserved d]"

fun device_qualifier_dec :: "bytes \<Rightarrow> device_qualifier_descriptor option" where
  "device_qualifier_dec [a, b, c, d, e, f, g, h, i, j] =
     Some \<lparr>dq_bLength = a, dq_bDescriptorType = b, dq_bcdUSB = u16_of c d, dq_bDeviceClass = e,
       dq_bDeviceSubClass = f, dq_bDeviceProtocol = g, dq_bMaxPacketSize0 = h,
       dq_bNumConfigurations = i, dq_bReserved = j\<rparr>"
| "device_qualifier_dec _ = None"

subsection \<open>Configuration header\<close>

record configuration_header =
  cfg_bLength :: u8
  cfg_bDescriptorType :: u8
  cfg_wTotalLength :: u16
  cfg_bNumInterfaces :: u8
  cfg_bConfigurationValue :: u8
  cfg_iConfiguration :: u8
  cfg_bmAttributes :: u8
  cfg_bMaxPower :: u8

definition configuration_header_new :: configuration_header where
  "configuration_header_new =
     \<lparr>cfg_bLength = 9, cfg_bDescriptorType = descriptor_type_code DtConfiguration,
      cfg_wTotalLength = 0, cfg_bNumInterfaces = 0, cfg_bConfigurationValue = 0,
      cfg_iConfiguration = 0, cfg_bmAttributes = 0, cfg_bMaxPower = 0\<rparr>"

definition configuration_header_bytes :: "configuration_header \<Rightarrow> bytes" where
  "configuration_header_bytes d =
     [cfg_bLength d, cfg_bDescriptorType d] @ le16 (cfg_wTotalLength d) @
     [cfg_bNumInterfaces d, cfg_bConfigurationValue d, cfg_iConfiguration d, cfg_bmAttributes d,
      cfg_bMaxPower d]"

fun configuration_header_dec :: "bytes \<Rightarrow> configuration_header option" where
  "configuration_header_dec [a, b, c, d, e, f, g, h, i] =
     Some \<lparr>cfg_bLength = a, cfg_bDescriptorType = b, cfg_wTotalLength = u16_of c d,
       cfg_bNumInterfaces = e, cfg_bConfigurationValue = f, cfg_iConfiguration = g,
       cfg_bmAttributes = h, cfg_bMaxPower = i\<rparr>"
| "configuration_header_dec _ = None"

subsection \<open>Interface header\<close>

record interface_header =
  ifd_bLength :: u8
  ifd_bDescriptorType :: u8
  ifd_iInterfaceNumber :: u8
  ifd_bAlternateSetting :: u8
  ifd_bNumEndpoints :: u8
  ifd_bInterfaceClass :: u8
  ifd_bInterfaceSubClass :: u8
  ifd_bInterfaceProtocol :: u8
  ifd_iInterface :: u8

definition interface_header_new :: interface_header where
  "interface_header_new =
     \<lparr>ifd_bLength = 9, ifd_bDescriptorType = descriptor_type_code DtInterface,
      ifd_iInterfaceNumber = 0, ifd_bAlternateSetting = 0, ifd_bNumEndpoints = 0,
      ifd_bInterfaceClass = 0, ifd_bInterfaceSubClass = 0, ifd_bInterfaceProtocol = 0,
      ifd_iInterface = 0\<rparr>"

definition interface_header_bytes :: "interface_header \<Rightarrow> bytes" where
  "interface_header_bytes d =
     [ifd_bLength d, ifd_bDescriptorType d, ifd_iInterfaceNumber d, ifd_bAlternateSetting d,
      ifd_bNumEndpoints d, ifd_bInterfaceClass d, ifd_bInterfaceSubClass d,
      ifd_bInterfaceProtocol d, ifd_iInterface d]"

fun interface_header_dec :: "bytes \<Rightarrow> interface_header option" where
  "interface_header_dec [a, b, c, d, e, f, g, h, i] =
     Some \<lparr>ifd_bLength = a, ifd_bDescriptorType = b, ifd_iInterfaceNumber = c,
       ifd_bAlternateSetting = d, ifd_bNumEndpoints = e, ifd_bInterfaceClass = f,
       ifd_bInterfaceSubClass = g, ifd_bInterfaceProtocol = h, ifd_iInterface = i\<rparr>"
| "interface_header_dec _ = None"

subsection \<open>Class-specific\<close>

record class_specific_descriptor =
  cs_bLength :: u8
  cs_bDescriptorType :: u8
  cs_bDescriptorSubtype :: u8
  cs_bmRaw :: u16

definition class_specific_new :: class_specific_descriptor where
  "class_specific_new =
     \<lparr>cs_bLength = 5, cs_bDescriptorType = descriptor_type_code DtClassSpecific,
      cs_bDescriptorSubtype = 0, cs_bmRaw = 0\<rparr>"

definition class_specific_bytes :: "class_specific_descriptor \<Rightarrow> bytes" where
  "class_specific_bytes d =
     [cs_bLength d, cs_bDescriptorType d, cs_bDescriptorSubtype d] @ le16 (cs_bmRaw d)"

fun class_specific_dec :: "bytes \<Rightarrow> class_specific_descriptor option" where
  "class_specific_dec [a, b, c, d, e] =
     Some \<lparr>cs_bLength = a, cs_bDescriptorType = b, cs_bDescriptorSubtype = c,
       cs_bmRaw = u16_of d e\<rparr>"
| "class_specific_dec _ = None"

subsection \<open>Endpoint\<close>

record endpoint_descriptor =
  epd_bLength :: u8
  epd_bDescriptorType :: u8
  epd_bEndpointAddress :: u8
  epd_bmAttributes :: u8
  epd_wMaxPacketSize :: u16
  epd_bInterval :: u8

definition endpoint_descriptor_new :: endpoint_descriptor where
  "endpoint_descriptor_new =
     \<lparr>epd_bLength = 7, epd_bDescriptorType = descriptor_type_code DtEndpoint,
      epd_bEndpointAddress = 0, epd_bmAttributes = 0, epd_wMaxPacketSize = 0, epd_bInterval = 0\<rparr>"

definition endpoint_descriptor_bytes :: "endpoint_descriptor \<Rightarrow> bytes" where
  "endpoint_descriptor_bytes d =
     [epd_bLength d, epd_bDescriptorType d, epd_bEndpointAddress d, epd_bmAttributes d] @
     le16 (epd_wMaxPacketSize d) @ [epd_bInterval d]"

fun endpoint_descriptor_dec :: "bytes \<Rightarrow> endpoint_descriptor option" where
  "endpoint_descriptor_dec [a, b, c, d, e, f, g] =
     Some \<lparr>epd_bLength = a, epd_bDescriptorType = b, epd_bEndpointAddress = c,
       epd_bmAttributes = d, epd_wMaxPacketSize = u16_of e f, epd_bInterval = g\<rparr>"
| "endpoint_descriptor_dec _ = None"

section \<open>Composite iterators\<close>

text \<open>\<open>CompositeIterator\<close> and \<open>CompositeIterator3\<close>: a head chained to its flattened tails.\<close>

definition composite_iter :: "('h \<Rightarrow> bytes) \<Rightarrow> ('t \<Rightarrow> bytes) \<Rightarrow> 'h \<Rightarrow> 't list \<Rightarrow> bytes" where
  "composite_iter head_iter tail_iter head tail = head_iter head @ concat (map tail_iter tail)"

definition composite_iter3 ::
  "('h \<Rightarrow> bytes) \<Rightarrow> ('a \<Rightarrow> bytes) \<Rightarrow> ('b \<Rightarrow> bytes) \<Rightarrow> 'h \<Rightarrow> 'a list \<Rightarrow> 'b list \<Rightarrow> bytes" where
  "composite_iter3 head_iter tail1_iter tail2_iter head tail1 tail2 =
     (head_iter head @ concat (map tail1_iter tail1)) @ concat (map tail2_iter tail2)"

section \<open>Interfaces and configurations\<close>

record interface_descriptor =
  if_head :: interface_header
  if_tail1 :: "class_specific_descriptor list"
  if_tail2 :: "endpoint_descriptor list"

definition interface_new_cs ::
  "interface_header \<Rightarrow> class_specific_descriptor list \<Rightarrow> endpoint_descriptor list \<Rightarrow>
     interface_descriptor" where
  "interface_new_cs head tail1 tail2 =
     \<lparr>if_head = head\<lparr>ifd_bLength := 9, ifd_bNumEndpoints := of_nat (length tail2)\<rparr>,
      if_tail1 = tail1, if_tail2 = tail2\<rparr>"

definition interface_new ::
  "interface_header \<Rightarrow> endpoint_descriptor list \<Rightarrow> interface_descriptor" where
  "interface_new head tail2 =
     \<lparr>if_head = head\<lparr>ifd_bLength := 9, ifd_bNumEndpoints := of_nat (length tail2)\<rparr>,
      if_tail1 = [], if_tail2 = tail2\<rparr>"

definition interface_iter :: "interface_descriptor \<Rightarrow> bytes" where
  "interface_iter d =
     composite_iter3 interface_header_bytes class_specific_bytes endpoint_descriptor_bytes
       (if_head d) (if_tail1 d) (if_tail2 d)"

record configuration_descriptor =
  cd_head :: configuration_header
  cd_tail :: "interface_descriptor list"

definition configuration_new ::
  "configuration_header \<Rightarrow> interface_descriptor list \<Rightarrow> configuration_descriptor" where
  "configuration_new head tail =
     \<lparr>cd_head = head\<lparr>cfg_bLength := 9, cfg_bNumInterfaces := of_nat (length tail)\<rparr>, cd_tail = tail\<rparr>"

definition configuration_iter :: "configuration_descriptor \<Rightarrow> bytes" where
  "configuration_iter d =
     configuration_header_bytes (cd_head d) @ concat (map interface_iter (cd_tail d))"

definition set_total_length :: "configuration_descriptor \<Rightarrow> nat \<times> configuration_descriptor" where
  "set_total_length d =
     (let total_length = length (configuration_iter d);
          w = (if total_length \<le> 65535 then of_nat total_length else 65535)
      in (total_length, d\<lparr>cd_head := (cd_head d)\<lparr>cfg_wTotalLength := w\<rparr>\<rparr>))"

section \<open>String descriptors\<close>

datatype language_id =
    EnglishUnitedStates | EnglishUnitedKingdom | EnglishCanadian | EnglishSouthAfrica

fun language_id_code :: "language_id \<Rightarrow> u16" where
  "language_id_code EnglishUnitedStates = 0x0409"
| "language_id_code EnglishUnitedKingdom = 0x0809"
| "language_id_code EnglishCanadian = 0x1009"
| "language_id_code EnglishSouthAfrica = 0x1c09"

record string_header =
  sh_bLength :: u8
  sh_bDescriptorType :: u8

definition string_header_new :: string_header where
  "string_header_new = \<lparr>sh_bLength = 0, sh_bDescriptorType = descriptor_type_code DtString\<rparr>"

definition string_header_bytes :: "string_header \<Rightarrow> bytes" where
  "string_header_bytes h = [sh_bLength h, sh_bDescriptorType h]"

fun string_header_dec :: "bytes \<Rightarrow> string_header option" where
  "string_header_dec [a, b] = Some \<lparr>sh_bLength = a, sh_bDescriptorType = b\<rparr>"
| "string_header_dec _ = None"

record string_descriptor_zero =
  sz_head :: string_header
  sz_tail :: "language_id list"

definition string_zero_new :: "language_id list \<Rightarrow> string_descriptor_zero" where
  "string_zero_new language_ids =
     (let head_length = 2; tail_length = length language_ids * 2 in
      \<lparr>sz_head = \<lparr>sh_bLength = of_nat (head_length + tail_length),
                  sh_bDescriptorType = descriptor_type_code DtString\<rparr>,
       sz_tail = language_ids\<rparr>)"

definition string_zero_iter :: "string_descriptor_zero \<Rightarrow> bytes" where
  "string_zero_iter d =
     composite_iter string_header_bytes (le16 \<circ> language_id_code) (sz_head d) (sz_tail d)"

text \<open>A \<open>&str\<close>: its scalar values, its length in bytes, and its UTF-16 code units.\<close>

type_synonym rust_str = "nat list"

definition scalar :: "nat \<Rightarrow> bool" where
  "scalar c \<longleftrightarrow> c < 0xD800 \<or> (0xE000 \<le> c \<and> c < 0x110000)"

definition str_lit :: "string \<Rightarrow> rust_str" where
  "str_lit s = map of_char s"

definition utf8_width :: "nat \<Rightarrow> nat" where
  "utf8_width c = (if c < 0x80 then 1 else if c < 0x800 then 2 else if c < 0x10000 then 3 else 4)"

definition str_len :: "rust_str \<Rightarrow> nat" where
  "str_len s = sum_list (map utf8_width s)"

definition utf16_units :: "nat \<Rightarrow> u16 list" where
  "utf16_units c =
     (if c < 0x10000 then [of_nat c]
      else [of_nat (0xD800 + (c - 0x10000) div 0x400), of_nat (0xDC00 + (c - 0x10000) mod 0x400)])"

definition encode_utf16 :: "rust_str \<Rightarrow> u16 list" where
  "encode_utf16 s = concat (map utf16_units s)"

record string_descriptor =
  sd_head :: string_header
  sd_tail :: rust_str

definition string_descriptor_new :: "rust_str \<Rightarrow> string_descriptor" where
  "string_descriptor_new s =
     (let head_length = 2; tail_length = str_len s * 2 in
      \<lparr>sd_head = \<lparr>sh_bLength = of_nat (head_length + tail_length),
                  sh_bDescriptorType = descriptor_type_code DtString\<rparr>,
       sd_tail = s\<rparr>)"

text \<open>
  \<open>Utf16ByteIterator\<close>: the remaining code units and the high byte still to be yielded. \<open>next\<close>
  gives the byte, if any, and the iterator after it.
\<close>

type_synonym utf16_iter = "u16 list \<times> u8 option"

fun utf16_next :: "utf16_iter \<Rightarrow> u8 option \<times> utf16_iter" where
  "utf16_next (units, Some b) = (Some b, (units, None))"
| "utf16_next (unicode_char # units, None) =
     (Some (le16 unicode_char ! 0), (units, Some (le16 unicode_char ! 1)))"
| "utf16_next ([], None) = (None, ([], None))"

definition utf16_left :: "utf16_iter \<Rightarrow> nat" where
  "utf16_left it = 2 * length (fst it) + (if snd it = None then 0 else 1)"

lemma utf16_next_left: "utf16_next it = (Some b, it') \<Longrightarrow> utf16_left it' < utf16_left it"
  by (cases it rule: utf16_next.cases) (auto simp: utf16_left_def)

text \<open>Everything the iterator yields.\<close>

function utf16_collect :: "utf16_iter \<Rightarrow> bytes" where
  "utf16_collect it =
     (case utf16_next it of (None, it) \<Rightarrow> [] | (Some b, it) \<Rightarrow> b # utf16_collect it)"
  by pat_completeness auto
termination
  by (relation "measure utf16_left") (auto dest: utf16_next_left [OF sym])

declare utf16_collect.simps [simp del]

definition string_descriptor_iter :: "string_descriptor \<Rightarrow> bytes" where
  "string_descriptor_iter d =
     string_header_bytes (sd_head d) @ utf16_collect (encode_utf16 (sd_tail d), None)"

end
