(* ===== verification/DescriptorFacts.thy ===== *)
theory DescriptorFacts
  imports Descriptor
begin

text \<open>
  What the descriptors promise the host: every fixed-size descriptor is a wire structure of the
  length it announces; a host that walks a configuration by the length bytes finds exactly the
  descriptors it is made of; the length byte of a string descriptor is right for ASCII text.
\<close>

section \<open>The fixed-size descriptors are wire structures\<close>

lemma descriptor_type_from_code: "descriptor_type_from (descriptor_type_code t) = t"
  by (cases t) (simp_all add: descriptor_type_from_def)

lemma descriptor_type_code_from:
  "descriptor_type_from v \<noteq> DtUnknown \<Longrightarrow> descriptor_type_code (descriptor_type_from v) = v"
  by (auto simp: descriptor_type_from_def split: if_splits)

lemma length_descriptor_bytes [simp]:
  "length (device_descriptor_bytes d) = 18"
  "length (device_qualifier_bytes q) = 10"
  "length (configuration_header_bytes c) = 9"
  "length (interface_header_bytes i) = 9"
  "length (class_specific_bytes s) = 5"
  "length (endpoint_descriptor_bytes e) = 7"
  "length (string_header_bytes h) = 2"
  by (simp_all add: device_descriptor_bytes_def device_qualifier_bytes_def
      configuration_header_bytes_def interface_header_bytes_def class_specific_bytes_def
      endpoint_descriptor_bytes_def string_header_bytes_def)

lemma device_descriptor_dec_iff:
  "device_descriptor_dec bs = Some d \<longleftrightarrow> bs = device_descriptor_bytes d"
  by (cases bs rule: device_descriptor_dec.cases)
    (auto simp: device_descriptor_bytes_def le16_def codec_simps)

lemma device_descriptor_dec_total: "length bs = 18 \<Longrightarrow> device_descriptor_dec bs \<noteq> None"
  by (cases bs rule: device_descriptor_dec.cases) auto

lemma device_qualifier_dec_iff:
  "device_qualifier_dec bs = Some d \<longleftrightarrow> bs = device_qualifier_bytes d"
  by (cases bs rule: device_qualifier_dec.cases)
    (auto simp: device_qualifier_bytes_def le16_def codec_simps)

lemma device_qualifier_dec_total: "length bs = 10 \<Longrightarrow> device_qualifier_dec bs \<noteq> None"
  by (cases bs rule: device_qualifier_dec.cases) auto

lemma configuration_header_dec_iff:
  "configuration_header_dec bs = Some d \<longleftrightarrow> bs = configuration_header_bytes d"
  by (cases bs rule: configuration_header_dec.cases)
    (auto simp: configuration_header_bytes_def le16_def codec_simps)

lemma configuration_header_dec_total: "length bs = 9 \<Longrightarrow> configuration_header_dec bs \<noteq> None"
  by (cases bs rule: configuration_header_dec.cases) auto

lemma interface_header_dec_iff:
  "interface_header_dec bs = Some d \<longleftrightarrow> bs = interface_header_bytes d"
  by (cases bs rule: interface_header_dec.cases) (auto simp: interface_header_bytes_def)

lemma interface_header_dec_total: "length bs = 9 \<Longrightarrow> interface_header_dec bs \<noteq> None"
  by (cases bs rule: interface_header_dec.cases) auto

lemma class_specific_dec_iff:
  "class_specific_dec bs = Some d \<longleftrightarrow> bs = class_specific_bytes d"
  by (cases bs rule: class_specific_dec.cases)
    (auto simp: class_specific_bytes_def le16_def codec_simps)

lemma class_specific_dec_total: "length bs = 5 \<Longrightarrow> class_specific_dec bs \<noteq> None"
  by (cases bs rule: class_specific_dec.cases) auto

lemma endpoint_descriptor_dec_iff:
  "endpoint_descriptor_dec bs = Some d \<longleftrightarrow> bs = endpoint_descriptor_bytes d"
  by (cases bs rule: endpoint_descriptor_dec.cases)
    (auto simp: endpoint_descriptor_bytes_def le16_def codec_simps)

lemma endpoint_descriptor_dec_total: "length bs = 7 \<Longrightarrow> endpoint_descriptor_dec bs \<noteq> None"
  by (cases bs rule: endpoint_descriptor_dec.cases) auto

lemma string_header_dec_iff: "string_header_dec bs = Some d \<longleftrightarrow> bs = string_header_bytes d"
  by (cases bs rule: string_header_dec.cases) (auto simp: string_header_bytes_def)

lemma string_header_dec_total: "length bs = 2 \<Longrightarrow> string_header_dec bs \<noteq> None"
  by (cases bs rule: string_header_dec.cases) auto

interpretation dd: byte_codec device_descriptor_bytes device_descriptor_dec 18
  by unfold_locales (simp_all add: device_descriptor_dec_iff device_descriptor_dec_total)

interpretation dq: byte_codec device_qualifier_bytes device_qualifier_dec 10
  by unfold_locales (simp_all add: device_qualifier_dec_iff device_qualifier_dec_total)

interpretation cfg: byte_codec configuration_header_bytes configuration_header_dec 9
  by unfold_locales (simp_all add: configuration_header_dec_iff configuration_header_dec_total)

interpretation ifd: byte_codec interface_header_bytes interface_header_dec 9
  by unfold_locales (simp_all add: interface_header_dec_iff interface_header_dec_total)

interpretation csd: byte_codec class_specific_bytes class_specific_dec 5
  by unfold_locales (simp_all add: class_specific_dec_iff class_specific_dec_total)

interpretation epd: byte_codec endpoint_descriptor_bytes endpoint_descriptor_dec 7
  by unfold_locales (simp_all add: endpoint_descriptor_dec_iff endpoint_descriptor_dec_total)

interpretation shd: byte_codec string_header_bytes string_header_dec 2
  by unfold_locales (simp_all add: string_header_dec_iff string_header_dec_total)

section \<open>Walking a configuration\<close>

text \<open>
  How a host reads the block: every descriptor starts with its own length. \<open>None\<close> where a length
  byte is zero or runs past the end.
\<close>

function walk :: "bytes \<Rightarrow> bytes list option" where
  "walk [] = Some []"
| "walk (n # bs) =
     (if n = 0 \<or> length (n # bs) < unat n then None
      else map_option ((#) (take (unat n) (n # bs))) (walk (drop (unat n) (n # bs))))"
  by pat_completeness auto
termination
  by (relation "measure length") (auto simp: unat_gt_0)

declare walk.simps(2) [simp del]

definition self_sized :: "bytes \<Rightarrow> bool" where
  "self_sized d \<longleftrightarrow> d \<noteq> [] \<and> unat (hd d) = length d"

lemma walk_self_sized:
  assumes "self_sized d"
  shows "walk (d @ bs) = map_option ((#) d) (walk bs)"
proof (cases d)
  case (Cons n ds)
  with assms have "unat n = length d" "n \<noteq> 0" by (auto simp: self_sized_def)
  with Cons show ?thesis by (simp add: walk.simps(2))
qed (use assms in \<open>simp add: self_sized_def\<close>)

lemma walk_concat: "\<forall>d \<in> set ds. self_sized d \<Longrightarrow> walk (concat ds) = Some ds"
  by (induction ds) (simp_all add: walk_self_sized)

definition interface_parts :: "interface_descriptor \<Rightarrow> bytes list" where
  "interface_parts d =
     interface_header_bytes (if_head d) # map class_specific_bytes (if_tail1 d) @
       map endpoint_descriptor_bytes (if_tail2 d)"

definition configuration_parts :: "configuration_descriptor \<Rightarrow> bytes list" where
  "configuration_parts d =
     configuration_header_bytes (cd_head d) # concat (map interface_parts (cd_tail d))"

lemma interface_iter_parts: "interface_iter d = concat (interface_parts d)"
  by (simp add: interface_iter_def composite_iter3_def interface_parts_def)

lemma concat_interface_parts:
  "concat (map interface_iter ds) = concat (concat (map interface_parts ds))"
  by (induction ds) (simp_all add: interface_iter_parts)

lemma configuration_iter_parts: "configuration_iter d = concat (configuration_parts d)"
  by (simp add: configuration_iter_def configuration_parts_def concat_interface_parts)

text \<open>The length bytes that the constructors and \<open>new\<close> leave right.\<close>

definition interface_sized :: "interface_descriptor \<Rightarrow> bool" where
  "interface_sized d \<longleftrightarrow> ifd_bLength (if_head d) = 9 \<and>
     (\<forall>c \<in> set (if_tail1 d). cs_bLength c = 5) \<and> (\<forall>e \<in> set (if_tail2 d). epd_bLength e = 7)"

definition configuration_sized :: "configuration_descriptor \<Rightarrow> bool" where
  "configuration_sized d \<longleftrightarrow> cfg_bLength (cd_head d) = 9 \<and> (\<forall>i \<in> set (cd_tail d). interface_sized i)"

lemma interface_parts_sized: "interface_sized d \<Longrightarrow> p \<in> set (interface_parts d) \<Longrightarrow> self_sized p"
  by (auto simp: interface_sized_def interface_parts_def self_sized_def interface_header_bytes_def
      class_specific_bytes_def endpoint_descriptor_bytes_def)

lemma configuration_parts_sized:
  "configuration_sized d \<Longrightarrow> p \<in> set (configuration_parts d) \<Longrightarrow> self_sized p"
  by (auto simp: configuration_parts_def configuration_sized_def interface_parts_sized)
    (simp add: self_sized_def configuration_header_bytes_def)

lemma walk_configuration: "configuration_sized d \<Longrightarrow> walk (configuration_iter d) = Some (configuration_parts d)"
  by (simp add: configuration_iter_parts walk_concat configuration_parts_sized)

lemma interface_new_sized:
  "\<forall>c \<in> set t1. cs_bLength c = 5 \<Longrightarrow> \<forall>e \<in> set t2. epd_bLength e = 7 \<Longrightarrow>
     interface_sized (interface_new_cs h t1 t2) \<and> interface_sized (interface_new h t2)"
  by (simp add: interface_sized_def interface_new_cs_def interface_new_def)

lemma configuration_new_sized:
  "\<forall>i \<in> set t. interface_sized i \<Longrightarrow> configuration_sized (configuration_new h t)"
  by (simp add: configuration_sized_def configuration_new_def)

lemma configuration_sized_total [simp]:
  "configuration_sized (snd (set_total_length d)) = configuration_sized d"
  by (simp add: configuration_sized_def set_total_length_def Let_def)

lemma cd_tail_set_total_length [simp]: "cd_tail (snd (set_total_length d)) = cd_tail d"
  by (simp add: set_total_length_def Let_def)

lemma length_interface_iter:
  "length (interface_iter d) = 9 + 5 * length (if_tail1 d) + 7 * length (if_tail2 d)"
  by (simp add: interface_iter_def composite_iter3_def csd.concat_enc_length epd.concat_enc_length)

lemma length_configuration_iter:
  "length (configuration_iter d) =
     9 + (\<Sum>i \<leftarrow> cd_tail d. 9 + 5 * length (if_tail1 i) + 7 * length (if_tail2 i))"
  by (simp add: configuration_iter_def length_concat length_interface_iter comp_def)

lemma length_iter_set_total_length [simp]:
  "length (configuration_iter (snd (set_total_length d))) = length (configuration_iter d)"
  by (simp add: length_configuration_iter)

lemma set_total_length_value:
  "unat (cfg_wTotalLength (cd_head (snd (set_total_length d)))) =
     min 65535 (length (configuration_iter (snd (set_total_length d))))"
proof -
  have "unat (if n \<le> 65535 then of_nat n else 65535 :: u16) = min 65535 n" for n
    by (simp add: unat_of_nat_u16)
  then show ?thesis
    unfolding length_iter_set_total_length by (simp add: set_total_length_def Let_def)
qed

section \<open>String descriptors\<close>

lemma utf16_collect_units: "utf16_collect (units, None) = concat (map le16 units)"
proof (induction units)
  case (Cons u units)
  have "utf16_collect (u # units, None) = le16 u @ utf16_collect (units, None)"
    by (subst utf16_collect.simps, simp, subst utf16_collect.simps, simp add: le16_def)
  with Cons show ?case by simp
qed (simp add: utf16_collect.simps)

lemma string_descriptor_iter_eq:
  "string_descriptor_iter d = string_header_bytes (sd_head d) @ concat (map le16 (encode_utf16 (sd_tail d)))"
  by (simp add: string_descriptor_iter_def utf16_collect_units)

lemma length_utf16_units: "length (utf16_units c) = (if c < 0x10000 then 1 else 2)"
  by (simp add: utf16_units_def)

lemma units_le_utf8: "length (utf16_units c) \<le> utf8_width c"
  by (simp add: utf16_units_def utf8_width_def)

lemma units_eq_utf8: "length (utf16_units c) = utf8_width c \<longleftrightarrow> c < 0x80"
  by (auto simp: utf16_units_def utf8_width_def)

lemma length_encode_utf16_le: "length (encode_utf16 s) \<le> str_len s"
  by (induction s) (auto simp: encode_utf16_def str_len_def intro: add_mono units_le_utf8)

lemma length_encode_utf16_eq: "length (encode_utf16 s) = str_len s \<longleftrightarrow> (\<forall>c \<in> set s. c < 0x80)"
proof (induction s)
  case (Cons c s)
  have "length (encode_utf16 (c # s)) = length (utf16_units c) + length (encode_utf16 s)"
    and "str_len (c # s) = utf8_width c + str_len s"
    by (simp_all add: encode_utf16_def str_len_def)
  with Cons units_le_utf8 [of c] units_eq_utf8 [of c] length_encode_utf16_le [of s]
  show ?case by auto
qed (simp add: encode_utf16_def str_len_def)

lemma length_string_descriptor_iter:
  "length (string_descriptor_iter (string_descriptor_new s)) = 2 + 2 * length (encode_utf16 s)"
  by (simp add: string_descriptor_iter_eq codec16.concat_enc_length string_descriptor_new_def Let_def)

lemma string_descriptor_bLength:
  "2 + 2 * str_len s < 256 \<Longrightarrow>
     unat (hd (string_descriptor_iter (string_descriptor_new s))) = 2 + 2 * str_len s"
  using unat_of_nat_u8 [of "2 + 2 * str_len s"]
  by (simp add: string_descriptor_iter_eq string_descriptor_new_def Let_def string_header_bytes_def
      mult.commute)

lemma string_descriptor_sized:
  "2 + 2 * str_len s < 256 \<Longrightarrow>
     self_sized (string_descriptor_iter (string_descriptor_new s)) \<longleftrightarrow> (\<forall>c \<in> set s. c < 0x80)"
  using string_descriptor_bLength [of s] length_string_descriptor_iter [of s]
    length_encode_utf16_eq [of s]
  by (auto simp: self_sized_def)

text \<open>Reading the code units back: the host's view of the text.\<close>

fun decode_utf16 :: "u16 list \<Rightarrow> rust_str option" where
  "decode_utf16 [] = Some []"
| "decode_utf16 (u # us) =
     (let a = unat u in
      if a < 0xD800 \<or> 0xE000 \<le> a then map_option ((#) a) (decode_utf16 us)
      else case us of
          [] \<Rightarrow> None
        | v # vs \<Rightarrow>
            let b = unat v in
            if a < 0xDC00 \<and> 0xDC00 \<le> b \<and> b < 0xE000
            then map_option ((#) (0x10000 + (a - 0xD800) * 0x400 + (b - 0xDC00))) (decode_utf16 vs)
            else None)"

lemma decode_units:
  assumes "scalar c"
  shows "decode_utf16 (utf16_units c @ us) = map_option ((#) c) (decode_utf16 us)"
proof (cases "c < 0x10000")
  case True
  then have "unat (of_nat c :: u16) = c" by (simp add: unsigned_of_nat take_bit_nat_eq_self)
  with True assms show ?thesis by (auto simp: utf16_units_def scalar_def Let_def)
next
  case False
  define h where "h = (c - 0x10000) div 0x400"
  define l where "l = (c - 0x10000) mod 0x400"
  have c: "c = 0x10000 + h * 0x400 + l" using False by (simp add: h_def l_def)
  have "h < 0x400" "l < 0x400" using assms False by (auto simp: h_def l_def scalar_def)
  then have "unat (of_nat (0xD800 + h) :: u16) = 0xD800 + h"
    "unat (of_nat (0xDC00 + l) :: u16) = 0xDC00 + l"
    by (simp_all only: unsigned_of_nat) (simp_all add: take_bit_nat_eq_self)
  then have "decode_utf16 (of_nat (0xD800 + h) # of_nat (0xDC00 + l) # us) =
      map_option ((#) (0x10000 + h * 0x400 + l)) (decode_utf16 us)"
    using \<open>h < 0x400\<close> \<open>l < 0x400\<close> by (simp add: Let_def del: of_nat_add)
  moreover have "utf16_units c = [of_nat (0xD800 + h), of_nat (0xDC00 + l)]"
    using False by (simp add: utf16_units_def h_def l_def)
  ultimately show ?thesis by (simp only: append_Cons append_Nil c [symmetric])
qed

lemma decode_encode_utf16: "\<forall>c \<in> set s. scalar c \<Longrightarrow> decode_utf16 (encode_utf16 s) = Some s"
  by (induction s) (simp_all add: encode_utf16_def decode_units)

end
