(* ===== verification/Microsoft10.thy ===== *)
theory Microsoft10
  imports DescriptorFacts
begin

text \<open>
  \<open>smolusb/src/descriptor/microsoft10.rs\<close>: the Microsoft OS 1.0 descriptors, with which Windows
  binds a driver to the device.
\<close>

definition VendorRequest_Microsoft :: u8 where
  "VendorRequest_Microsoft = 0xee"

datatype vendor_index =
    CompatibleIdFeatureDescriptor | ExtendedPropertiesFeatureDescriptor | VendorIndexUnknown u16

definition vendor_index_from :: "u16 \<Rightarrow> vendor_index" where
  "vendor_index_from value =
     (if value = 0x0004 then CompatibleIdFeatureDescriptor
      else if value = 0x0005 then ExtendedPropertiesFeatureDescriptor
      else VendorIndexUnknown value)"

section \<open>String descriptor\<close>

record ms_string_descriptor =
  mss_head :: string_header
  mss_tail :: bytes

text \<open>Text of a byte string literal, and as UTF-16 units of ASCII characters.\<close>

definition byte_str :: "string \<Rightarrow> bytes" where
  "byte_str s = map of_char s"

definition wide :: "string \<Rightarrow> bytes" where
  "wide s = concat (map (\<lambda>c. [of_char c, 0]) s)"

definition ms_string_new :: "u8 \<Rightarrow> ms_string_descriptor" where
  "ms_string_new vendor_code =
     \<lparr>mss_head = \<lparr>sh_bLength = 18, sh_bDescriptorType = descriptor_type_code DtString\<rparr>,
      mss_tail = wide ''MSFT100'' @ [vendor_code] @ [0x0]\<rparr>"

definition ms_string_iter :: "ms_string_descriptor \<Rightarrow> bytes" where
  "ms_string_iter d = string_header_bytes (mss_head d) @ mss_tail d"

section \<open>Compatible ID feature descriptor\<close>

record compat_id_header =
  cih_dwLength :: u32
  cih_bcdVersion :: u16
  cih_wIndex :: u16
  cih_bCount :: u8
  cih_aReserved :: bytes

definition compat_id_header_new :: compat_id_header where
  "compat_id_header_new =
     \<lparr>cih_dwLength = 0, cih_bcdVersion = 0x0100, cih_wIndex = 0x0004, cih_bCount = 0,
      cih_aReserved = replicate 7 0\<rparr>"

definition compat_id_header_bytes :: "compat_id_header \<Rightarrow> bytes" where
  "compat_id_header_bytes h =
     le32 (cih_dwLength h) @ le16 (cih_bcdVersion h) @ le16 (cih_wIndex h) @ [cih_bCount h] @
     cih_aReserved h"

record compat_id_function =
  cif_bFirstInterfaceNumber :: u8
  cif_bReserved :: u8
  cif_aCompatibleId :: bytes
  cif_aSubCompatibleId :: bytes
  cif_aReserved :: bytes

definition compat_id_function_new :: compat_id_function where
  "compat_id_function_new =
     \<lparr>cif_bFirstInterfaceNumber = 0, cif_bReserved = 0x01, cif_aCompatibleId = replicate 8 0,
      cif_aSubCompatibleId = replicate 8 0, cif_aReserved = replicate 6 0\<rparr>"

definition compat_id_function_bytes :: "compat_id_function \<Rightarrow> bytes" where
  "compat_id_function_bytes f =
     [cif_bFirstInterfaceNumber f, cif_bReserved f] @ cif_aCompatibleId f @
     cif_aSubCompatibleId f @ cif_aReserved f"

record compat_id_descriptor =
  cid_head :: compat_id_header
  cid_tail :: "compat_id_function list"

definition compat_id_new :: "compat_id_function list \<Rightarrow> compat_id_descriptor" where
  "compat_id_new tail =
     \<lparr>cid_head = compat_id_header_new
        \<lparr>cih_dwLength := of_nat (16 + 24 * length tail), cih_bCount := of_nat (length tail)\<rparr>,
      cid_tail = tail\<rparr>"

definition compat_id_iter :: "compat_id_descriptor \<Rightarrow> bytes" where
  "compat_id_iter d =
     composite_iter compat_id_header_bytes compat_id_function_bytes (cid_head d) (cid_tail d)"

section \<open>Extended properties feature descriptor\<close>

record extended_properties =
  xp_dwLength :: u32
  xp_bcdVersion :: u16
  xp_wIndex :: u16
  xp_wCount :: u16
  xp_dwSize :: u32
  xp_dwPropertyDataType :: u32
  xp_wPropertyNameLength :: u16
  xp_bPropertyName :: bytes
  xp_dwPropertyDataLength :: u32
  xp_bPropertyData :: bytes

definition extended_properties_new :: extended_properties where
  "extended_properties_new =
     \<lparr>xp_dwLength = 0x0000008E, xp_bcdVersion = 0x0100, xp_wIndex = 0x0005, xp_wCount = 0x0001,
      xp_dwSize = 0x00000084, xp_dwPropertyDataType = 0x00000001, xp_wPropertyNameLength = 0x0028,
      xp_bPropertyName = wide ''DeviceInterfaceGUID'' @ [0, 0],
      xp_dwPropertyDataLength = 0x0000004E,
      xp_bPropertyData = wide ''{88bae032-5a81-49f0-bc3d-a4ff138216d6}'' @ [0, 0]\<rparr>"

definition extended_properties_bytes :: "extended_properties \<Rightarrow> bytes" where
  "extended_properties_bytes x =
     le32 (xp_dwLength x) @ le16 (xp_bcdVersion x) @ le16 (xp_wIndex x) @ le16 (xp_wCount x) @
     le32 (xp_dwSize x) @ le32 (xp_dwPropertyDataType x) @ le16 (xp_wPropertyNameLength x) @
     xp_bPropertyName x @ le32 (xp_dwPropertyDataLength x) @ xp_bPropertyData x"

record ms_descriptors =
  msd_string_descriptor :: ms_string_descriptor
  msd_compat_id :: compat_id_descriptor
  msd_extended_properties :: extended_properties

section \<open>Lemmas\<close>

text \<open>The array fields of a function section have the size of their type.\<close>

definition compat_id_function_ok :: "compat_id_function \<Rightarrow> bool" where
  "compat_id_function_ok f \<longleftrightarrow>
     length (cif_aCompatibleId f) = 8 \<and> length (cif_aSubCompatibleId f) = 8 \<and>
     length (cif_aReserved f) = 6"

lemma length_compat_id_function: "compat_id_function_ok f \<Longrightarrow> length (compat_id_function_bytes f) = 24"
  by (simp add: compat_id_function_ok_def compat_id_function_bytes_def)

lemma length_compat_id_iter:
  assumes "\<forall>f \<in> set fs. compat_id_function_ok f"
  shows "length (compat_id_iter (compat_id_new fs)) = 16 + 24 * length fs"
proof -
  have "length (concat (map compat_id_function_bytes fs)) = 24 * length fs"
    using assms by (induction fs) (simp_all add: length_compat_id_function)
  then show ?thesis
    by (simp add: compat_id_iter_def composite_iter_def compat_id_new_def
        compat_id_header_bytes_def compat_id_header_new_def)
qed

lemma take_compat_id_iter:
  "take 4 (compat_id_iter (compat_id_new fs)) = le32 (of_nat (16 + 24 * length fs))"
  by (simp add: compat_id_iter_def composite_iter_def compat_id_new_def compat_id_header_bytes_def)

lemma compat_id_length_field:
  assumes "\<forall>f \<in> set fs. compat_id_function_ok f" and "length fs < 256"
  shows "dec32 (take 4 (compat_id_iter (compat_id_new fs))) =
    Some (of_nat (length (compat_id_iter (compat_id_new fs))))"
  by (simp only: take_compat_id_iter length_compat_id_iter [OF assms(1)] dec32_Some_iff)

lemma extended_properties_lengths:
  "length (extended_properties_bytes extended_properties_new) = 142 \<and>
   xp_dwLength extended_properties_new = 142 \<and>
   length (xp_bPropertyName extended_properties_new) = 40 \<and>
   length (xp_bPropertyData extended_properties_new) = 78"
  by (simp add: extended_properties_bytes_def extended_properties_new_def wide_def)

lemma ms_string_self_sized: "self_sized (ms_string_iter (ms_string_new v))"
  by (simp add: self_sized_def ms_string_iter_def ms_string_new_def string_header_bytes_def wide_def)

end
