(* ===== verification/Setup.thy ===== *)
theory Setup
  imports ByteCodec
begin

text \<open>
  \<open>smolusb/src/setup.rs\<close>, \<open>event.rs\<close>, the device speed of \<open>device.rs\<close> and \<open>max_packet_size\<close> of
  \<open>lib.rs\<close>: the SETUP packet and the classification of its request, and the events that the
  interrupt handler passes to the USB stack.
\<close>

section \<open>The SETUP packet\<close>

record setup_packet =
  sp_request_type :: u8
  sp_request :: u8
  sp_value :: u16
  sp_index :: u16
  sp_length :: u16

text \<open>Both directions are a \<open>transmute\<close> of the \<open>repr(C)\<close> layout on a little-endian core.\<close>

fun setup_from :: "bytes \<Rightarrow> setup_packet option" where
  "setup_from [a, b, c, d, e, f, g, h] =
     Some \<lparr>sp_request_type = a, sp_request = b, sp_value = u16_of c d, sp_index = u16_of e f,
       sp_length = u16_of g h\<rparr>"
| "setup_from _ = None"

definition setup_as_bytes :: "setup_packet \<Rightarrow> bytes" where
  "setup_as_bytes p =
     [sp_request_type p, sp_request p] @ le16 (sp_value p) @ le16 (sp_index p) @ le16 (sp_length p)"

datatype recipient = RDevice | RInterface | REndpoint | ROther | RReserved

definition recipient_from :: "u8 \<Rightarrow> recipient" where
  "recipient_from value =
     (let r = value AND 0b00011111 in
      if r = 0 then RDevice
      else if r = 1 then RInterface
      else if r = 2 then REndpoint
      else if r = 3 then ROther
      else RReserved)"

datatype request_type = Standard | ClassType | Vendor | ReservedType u8

definition request_type_from :: "u8 \<Rightarrow> request_type" where
  "request_type_from value =
     (let t = drop_bit 5 value AND 0b00000011 in
      if t = 0 then Standard
      else if t = 1 then ClassType
      else if t = 2 then Vendor
      else ReservedType value)"

datatype direction = HostToDevice | DeviceToHost

definition direction_from :: "u8 \<Rightarrow> direction" where
  "direction_from endpoint_or_request_type =
     (if endpoint_or_request_type AND 0b10000000 = 0 then HostToDevice else DeviceToHost)"

datatype request =
    GetStatus | ClearFeature | SetFeature | SetAddress | GetDescriptor | SetDescriptor
  | GetConfiguration | SetConfiguration | GetInterface | SetInterface | SynchronizeFrame
  | ClassOrVendor u8 | ReservedRequest u8

definition request_from :: "u8 \<Rightarrow> request" where
  "request_from value =
     (if value = 0 then GetStatus
      else if value = 1 then ClearFeature
      else if value = 2 then ReservedRequest 2
      else if value = 3 then SetFeature
      else if value = 4 then ReservedRequest 4
      else if value = 5 then SetAddress
      else if value = 6 then GetDescriptor
      else if value = 7 then SetDescriptor
      else if value = 8 then GetConfiguration
      else if value = 9 then SetConfiguration
      else if value = 10 then GetInterface
      else if value = 11 then SetInterface
      else if value = 12 then SynchronizeFrame
      else ClassOrVendor value)"

datatype feature =
    EndpointHalt | DeviceRemoteWakeup | DeviceTestMode | DeviceBHnpEnable | DeviceAHnpSupport
  | DeviceAAltHnpSupport | FeatureUnknown u16

definition feature_from :: "u16 \<Rightarrow> feature" where
  "feature_from value =
     (if value = 0 then EndpointHalt
      else if value = 1 then DeviceRemoteWakeup
      else if value = 2 then DeviceTestMode
      else if value = 3 then DeviceBHnpEnable
      else if value = 4 then DeviceAHnpSupport
      else if value = 5 then DeviceAAltHnpSupport
      else FeatureUnknown value)"

definition setup_request_type :: "setup_packet \<Rightarrow> request_type" where
  "setup_request_type p = request_type_from (sp_request_type p)"

definition setup_recipient :: "setup_packet \<Rightarrow> recipient" where
  "setup_recipient p = recipient_from (sp_request_type p)"

definition setup_direction :: "setup_packet \<Rightarrow> direction" where
  "setup_direction p = direction_from (sp_request_type p)"

definition setup_request :: "setup_packet \<Rightarrow> request" where
  "setup_request p = request_from (sp_request p)"

section \<open>USB events\<close>

datatype usb_event =
    BusReset
  | ReceiveControl u8
  | ReceivePacket u8
  | SendComplete u8
  | ReceiveSetupPacket u8 setup_packet

fun usb_event_code :: "usb_event \<Rightarrow> u8" where
  "usb_event_code BusReset = 10"
| "usb_event_code (ReceiveControl _) = 11"
| "usb_event_code (ReceivePacket _) = 12"
| "usb_event_code (SendComplete _) = 13"
| "usb_event_code (ReceiveSetupPacket _ _) = 201"

fun usb_event_into_bytes :: "usb_event \<Rightarrow> bytes" where
  "usb_event_into_bytes BusReset = [usb_event_code BusReset, 0]"
| "usb_event_into_bytes (ReceiveControl endpoint_number) =
     [usb_event_code (ReceiveControl endpoint_number), endpoint_number]"
| "usb_event_into_bytes (ReceiveSetupPacket endpoint_number setup_packet) =
     [usb_event_code (ReceiveSetupPacket endpoint_number setup_packet), endpoint_number]"
| "usb_event_into_bytes (ReceivePacket endpoint_number) =
     [usb_event_code (ReceivePacket endpoint_number), endpoint_number]"
| "usb_event_into_bytes (SendComplete endpoint_number) =
     [usb_event_code (SendComplete endpoint_number), endpoint_number]"

section \<open>Device speed and packet size\<close>

datatype speed = SpeedHigh | SpeedFull | SpeedLow | SpeedSuper | SpeedSuperPlus | SpeedUnknown

text \<open>The last arm of the conversion is \<open>unimplemented!()\<close>.\<close>

definition speed_from :: "u8 \<Rightarrow> speed rust" where
  "speed_from value =
     (let s = value AND 0b11 in
      if s = 0 then Ret SpeedHigh
      else if s = 1 then Ret SpeedFull
      else if s = 2 then Ret SpeedLow
      else if s = 3 then Ret SpeedSuper
      else Panic)"

definition from_libusb :: "u8 \<Rightarrow> speed" where
  "from_libusb value =
     (if value = 1 then SpeedLow
      else if value = 2 then SpeedFull
      else if value = 3 then SpeedHigh
      else if value = 4 \<or> value = 5 then SpeedSuper
      else SpeedUnknown)"

fun to_libusb :: "speed \<Rightarrow> u8" where
  "to_libusb SpeedLow = 1"
| "to_libusb SpeedFull = 2"
| "to_libusb SpeedHigh = 3"
| "to_libusb SpeedSuper = 4"
| "to_libusb _ = 0"

definition EP_MAX_ENDPOINTS :: nat where
  "EP_MAX_ENDPOINTS = 16"

definition EP_MAX_PACKET_SIZE :: nat where
  "EP_MAX_PACKET_SIZE = 512"

definition max_packet_size :: "speed \<Rightarrow> u8 \<Rightarrow> nat" where
  "max_packet_size device_speed endpoint_number =
     (if endpoint_number = 0 then 64
      else case device_speed of
        SpeedHigh \<Rightarrow> EP_MAX_PACKET_SIZE
      | SpeedFull \<Rightarrow> 64
      | SpeedLow \<Rightarrow> 8
      | _ \<Rightarrow> 64)"

section \<open>Lemmas\<close>

lemma setup_from_Some_iff: "setup_from bs = Some p \<longleftrightarrow> bs = setup_as_bytes p"
  by (cases bs rule: setup_from.cases) (auto simp: setup_as_bytes_def le16_def codec_simps)

lemma length_setup_as_bytes [simp]: "length (setup_as_bytes p) = 8"
  by (simp add: setup_as_bytes_def)

lemma setup_from_total: "length bs = 8 \<Longrightarrow> setup_from bs \<noteq> None"
  by (cases bs rule: setup_from.cases) auto

interpretation setup_pkt: byte_codec setup_as_bytes setup_from 8
  by unfold_locales (simp_all add: setup_from_Some_iff setup_from_total)

lemma and_mask_bound: "0 < n \<Longrightarrow> n \<le> 8 \<Longrightarrow> unat (v AND mask n :: u8) < 2 ^ n"
  by (simp add: take_bit_eq_mask [symmetric] unsigned_take_bit_eq take_bit_nat_less_exp)

lemma and_3_cases:
  fixes v :: u8
  obtains "v AND 3 = 0" | "v AND 3 = 1" | "v AND 3 = 2" | "v AND 3 = 3"
proof -
  have "unat (v AND 3) < 4" using and_mask_bound [of 2 v] by (simp add: mask_eq_exp_minus_1)
  then have "unat (v AND 3) \<in> {0, 1, 2, 3}" by auto
  then have "v AND 3 \<in> {0, 1, 2, 3}"
    by (auto dest: arg_cong [of _ _ "word_of_nat :: nat \<Rightarrow> u8"])
  then show thesis using that by auto
qed

lemma speed_from_returns: "\<exists>s. speed_from v = Ret s \<and> s \<in> {SpeedHigh, SpeedFull, SpeedLow, SpeedSuper}"
  by (rule and_3_cases [of v]) (simp_all add: speed_from_def)

lemma from_to_libusb: "from_libusb (to_libusb s) = (if s = SpeedSuperPlus then SpeedUnknown else s)"
  by (cases s) (simp_all add: from_libusb_def)

lemma max_packet_size_pos [simp]: "0 < max_packet_size s e"
  by (cases s) (simp_all add: max_packet_size_def EP_MAX_PACKET_SIZE_def)

lemma max_packet_size_le: "max_packet_size s e \<le> EP_MAX_PACKET_SIZE"
  by (cases s) (simp_all add: max_packet_size_def EP_MAX_PACKET_SIZE_def)

lemma max_packet_size_control [simp]: "max_packet_size s 0 = 64"
  by (simp add: max_packet_size_def)

lemma length_usb_event_into_bytes [simp]: "length (usb_event_into_bytes e) = 2"
  by (cases e) simp_all

end
