(* ===== verification/UsbDriver.thy ===== *)
theory UsbDriver
  imports Setup
begin

text \<open>
  \<open>smolusb/src/traits.rs\<close>: the driver traits the USB stack is generic over, as the record of their
  methods on a driver state \<open>'w\<close>. The locale \<open>usb_driver\<close> is the part of their contract that the
  stack depends on; theory \<open>UsbHal\<close> interprets it for the peripherals of the SoC.
\<close>

record 'w usb_driver =
  drv_connect :: "speed \<Rightarrow> 'w \<Rightarrow> 'w"
  drv_disconnect :: "'w \<Rightarrow> 'w"
  drv_bus_reset :: "'w \<Rightarrow> 'w rust"
  drv_ack :: "u8 \<Rightarrow> direction \<Rightarrow> 'w \<Rightarrow> 'w rust"
  drv_set_address :: "u8 \<Rightarrow> 'w \<Rightarrow> 'w"
  drv_stall_endpoint_in :: "u8 \<Rightarrow> 'w \<Rightarrow> 'w"
  drv_stall_endpoint_out :: "u8 \<Rightarrow> 'w \<Rightarrow> 'w"
  drv_clear_feature_endpoint_halt :: "u8 \<Rightarrow> direction \<Rightarrow> 'w \<Rightarrow> 'w"
  drv_read_control :: "bytes \<Rightarrow> 'w \<Rightarrow> (nat \<times> bytes \<times> 'w) rust"
  drv_ep_out_prime_receive :: "u8 \<Rightarrow> 'w \<Rightarrow> 'w"
  drv_read :: "u8 \<Rightarrow> bytes \<Rightarrow> 'w \<Rightarrow> (nat \<times> bytes \<times> 'w) rust"
  drv_write :: "u8 \<Rightarrow> bytes \<Rightarrow> 'w \<Rightarrow> (nat \<times> 'w) rust"
  drv_write_requested :: "u8 \<Rightarrow> nat \<Rightarrow> bytes \<Rightarrow> 'w \<Rightarrow> (nat \<times> 'w) rust"
  drv_write_with_packet_size :: "u8 \<Rightarrow> nat option \<Rightarrow> bytes \<Rightarrow> nat \<Rightarrow> 'w \<Rightarrow> (nat \<times> 'w) rust"

locale usb_driver_contract =
  fixes D :: "'w usb_driver"
  assumes read_buffer:
      "drv_read D ep buffer w = Ret (n, buffer', w') \<Longrightarrow>
         length buffer' = length buffer \<and> drop n buffer' = drop n buffer"
    and read_control_buffer:
      "drv_read_control D buffer w = Ret (n, buffer', w') \<Longrightarrow>
         length buffer' = length buffer \<and> drop n buffer' = drop n buffer"
    and write_count: "drv_write D ep data w = Ret (n, w') \<Longrightarrow> n \<le> length data"
    and write_requested_count:
      "drv_write_requested D ep len data w = Ret (n, w') \<Longrightarrow> n \<le> length data"
begin

lemma read_prefix_of_zeros:
  "drv_read D ep (replicate k 0) w = Ret (n, buffer', w') \<Longrightarrow> n \<le> k \<Longrightarrow>
     buffer' = take n buffer' @ replicate (k - n) 0"
  by (drule read_buffer) (metis append_take_drop_id drop_replicate)

lemma write_zlp_count: "drv_write D ep [] w = Ret (n, w') \<Longrightarrow> n = 0"
  by (drule write_count) simp

end

end
