(* ===== verification/Device.thy ===== *)
theory Device
  imports Microsoft10 UsbDriver
begin

text \<open>
  \<open>Descriptors\<close> of \<open>smolusb/src/device.rs\<close>: the set of descriptors of a device, and the answer to a
  GET_DESCRIPTOR request over any driver \<open>D\<close>.
\<close>

record descriptors =
  ds_device_speed :: speed
  ds_device_descriptor :: device_descriptor
  ds_configuration_descriptor :: configuration_descriptor
  ds_string_descriptor_zero :: string_descriptor_zero
  ds_string_descriptors :: "string_descriptor list"
  ds_device_qualifier_descriptor :: "device_qualifier_descriptor option"
  ds_other_speed_configuration_descriptor :: "configuration_descriptor option"
  ds_microsoft10 :: "ms_descriptors option"

definition set_total_lengths :: "descriptors \<Rightarrow> descriptors" where
  "set_total_lengths ds =
     (let ds = ds\<lparr>ds_configuration_descriptor :=
                    snd (set_total_length (ds_configuration_descriptor ds))\<rparr>
      in (case ds_other_speed_configuration_descriptor ds of
            Some c \<Rightarrow> ds\<lparr>ds_other_speed_configuration_descriptor := Some (snd (set_total_length c))\<rparr>
          | None \<Rightarrow> ds))"

text \<open>
  \<open>Descriptors::write\<close>. The result is \<open>None\<close> when the request was answered and the SETUP packet when
  it was not; an index behind the string table panics.
\<close>

definition descriptors_write ::
  "'w usb_driver \<Rightarrow> descriptors \<Rightarrow> u8 \<Rightarrow> setup_packet \<Rightarrow> 'w \<Rightarrow> (setup_packet option \<times> 'w) rust" where
  "descriptors_write D ds endpoint_number setup_packet w =
     (let descriptor_number = le16 (sp_value setup_packet) ! 0;
          descriptor_type = descriptor_type_from (le16 (sp_value setup_packet) ! 1);
          requested_length = unat (sp_length setup_packet);
          consumed = (\<lambda>m. rbind m (\<lambda>(bytes_written, w). Ret (None, w)));
          reply = (\<lambda>iter. consumed (drv_write_requested D endpoint_number requested_length iter w));
          ack = consumed (drv_write D endpoint_number [] w)
      in
      case descriptor_type of
        DtConfiguration \<Rightarrow>
          reply (take requested_length (configuration_iter (ds_configuration_descriptor ds)))
      | DtDeviceQualifier \<Rightarrow>
          if ds_device_speed ds = SpeedHigh then
            (case ds_device_qualifier_descriptor ds of
               Some descriptor \<Rightarrow> reply (take requested_length (device_qualifier_bytes descriptor))
             | None \<Rightarrow> ack)
          else ack
      | DtOtherSpeedConfiguration \<Rightarrow>
          (case ds_other_speed_configuration_descriptor ds of
             Some descriptor \<Rightarrow> reply (take requested_length (configuration_iter descriptor))
           | None \<Rightarrow> ack)
      | DtString \<Rightarrow>
          if descriptor_number = StringDescriptorNumber_Zero then
            reply (take requested_length (string_zero_iter (ds_string_descriptor_zero ds)))
          else if descriptor_number = StringDescriptorNumber_Microsoft then
            (case ds_microsoft10 ds of
               Some descriptors \<Rightarrow> reply (ms_string_iter (msd_string_descriptor descriptors))
             | None \<Rightarrow> Ret (Some setup_packet, drv_stall_endpoint_in D endpoint_number w))
          else
            let offset_index = unat (descriptor_number - 1) in
            if offset_index > length (ds_string_descriptors ds) then Ret (Some setup_packet, w)
            else if offset_index < length (ds_string_descriptors ds) then
              reply (take requested_length
                (string_descriptor_iter (ds_string_descriptors ds ! offset_index)))
            else Panic
      | DtDevice \<Rightarrow>
          if descriptor_number = 0
          then reply (take requested_length (device_descriptor_bytes (ds_device_descriptor ds)))
          else Ret (Some setup_packet, w)
      | _ \<Rightarrow> Ret (Some setup_packet, w))"

section \<open>Lemmas\<close>

lemma le16_u16_of [simp]: "le16 (u16_of a b) = [a, b]"
  by (simp add: le16_def codec_simps)

text \<open>A GET_DESCRIPTOR request for a type and a number.\<close>

definition descriptor_request :: "u8 \<Rightarrow> u8 \<Rightarrow> setup_packet \<Rightarrow> bool" where
  "descriptor_request ty n sp \<longleftrightarrow> sp_value sp = u16_of n ty"

lemma string_index_panics:
  assumes "descriptor_request 0x03 n sp" and "n \<noteq> 0" and "n \<noteq> 0xee"
    and "length (ds_string_descriptors ds) = unat (n - 1)"
  shows "descriptors_write D ds ep sp w = Panic"
  using assms
  by (simp add: descriptors_write_def descriptor_request_def descriptor_type_from_def Let_def
      StringDescriptorNumber_Zero_def StringDescriptorNumber_Microsoft_def)

lemma string_index_answered:
  assumes "descriptor_request 0x03 n sp" and "n \<noteq> 0" and "n \<noteq> 0xee"
    and "unat (n - 1) < length (ds_string_descriptors ds)"
  shows "descriptors_write D ds ep sp w =
    rbind (drv_write_requested D ep (unat (sp_length sp))
      (take (unat (sp_length sp)) (string_descriptor_iter (ds_string_descriptors ds ! unat (n - 1)))) w)
      (\<lambda>(_, w). Ret (None, w))"
  using assms
  by (simp add: descriptors_write_def descriptor_request_def descriptor_type_from_def Let_def
      StringDescriptorNumber_Zero_def StringDescriptorNumber_Microsoft_def)

text \<open>The Microsoft string is the one reply that is not cut to the requested length.\<close>

lemma microsoft_string_uncut:
  assumes "descriptor_request 0x03 0xee sp" and "ds_microsoft10 ds = Some ms"
  shows "descriptors_write D ds ep sp w =
    rbind (drv_write_requested D ep (unat (sp_length sp)) (ms_string_iter (msd_string_descriptor ms)) w)
      (\<lambda>(_, w). Ret (None, w))"
  using assms
  by (simp add: descriptors_write_def descriptor_request_def descriptor_type_from_def Let_def
      StringDescriptorNumber_Zero_def StringDescriptorNumber_Microsoft_def)

text \<open>The lengths in the set are right after \<open>set_total_lengths\<close>, and only they changed.\<close>

lemma set_total_lengths_fields:
  "ds_configuration_descriptor (set_total_lengths ds) =
     snd (set_total_length (ds_configuration_descriptor ds))"
  "ds_other_speed_configuration_descriptor (set_total_lengths ds) =
     map_option (snd \<circ> set_total_length) (ds_other_speed_configuration_descriptor ds)"
  "ds_string_descriptors (set_total_lengths ds) = ds_string_descriptors ds"
  "ds_device_descriptor (set_total_lengths ds) = ds_device_descriptor ds"
  "ds_microsoft10 (set_total_lengths ds) = ds_microsoft10 ds"
  by (auto simp: set_total_lengths_def Let_def split: option.splits)

end
