(* ===== verification/Control.thy ===== *)
theory Control
  imports Device
begin

text \<open>
  \<open>smolusb/src/control.rs\<close>: the control endpoint state machine, over any driver \<open>D\<close>. The size of
  the receive buffer is a const parameter of the type; here it is the length of the array. The
  result of an event is the SETUP packet that the interface leaves to its user, if any.
\<close>

datatype control_state =
    StIdle | StSend | StWaitForZlp | StSetAddress u8 | StReceiveHostData setup_packet
  | StFinishHostData setup_packet | StComplete | StStall

record control =
  ctl_endpoint_number :: u8
  ctl_descriptors :: descriptors
  ctl_next :: control_state
  ctl_configuration :: "u8 option"
  ctl_feature_remote_wakeup :: bool
  ctl_rx_buffer :: bytes
  ctl_rx_buffer_position :: nat

type_synonym 'w control_result = "(setup_packet option \<times> control \<times> 'w) rust"

definition control_new :: "nat \<Rightarrow> u8 \<Rightarrow> descriptors \<Rightarrow> control" where
  "control_new RX_BUFFER_SIZE endpoint_number ds =
     \<lparr>ctl_endpoint_number = endpoint_number, ctl_descriptors = set_total_lengths ds,
      ctl_next = StIdle, ctl_configuration = None, ctl_feature_remote_wakeup = False,
      ctl_rx_buffer = replicate RX_BUFFER_SIZE 0, ctl_rx_buffer_position = 0\<rparr>"

text \<open>\<open>&self.rx_buffer[..self.rx_buffer_position]\<close>\<close>

definition control_data :: "control \<Rightarrow> bytes rust" where
  "control_data c =
     (if ctl_rx_buffer_position c \<le> length (ctl_rx_buffer c)
      then Ret (take (ctl_rx_buffer_position c) (ctl_rx_buffer c)) else Panic)"

definition write_zlp :: "'w usb_driver \<Rightarrow> control \<Rightarrow> 'w \<Rightarrow> 'w rust" where
  "write_zlp D c w = rbind (drv_write D (ctl_endpoint_number c) [] w) (\<lambda>(_, w). Ret w)"

definition read_zlp :: "'w usb_driver \<Rightarrow> control \<Rightarrow> 'w \<Rightarrow> (bool \<times> 'w) rust" where
  "read_zlp D c w =
     rbind (drv_read D (ctl_endpoint_number c) (replicate EP_MAX_PACKET_SIZE 0) w)
       (\<lambda>(bytes_read, _, w). Ret (bytes_read = 0, w))"

text \<open>The common tails: enter a state, and finish with a zero length packet or a written reply.\<close>

definition to_state :: "control_state \<Rightarrow> control \<Rightarrow> control" where
  "to_state s c = c\<lparr>ctl_next := s\<rparr>"

definition status_zlp :: "'w usb_driver \<Rightarrow> control \<Rightarrow> 'w \<Rightarrow> 'w control_result" where
  "status_zlp D c w = rbind (write_zlp D c w) (\<lambda>w. Ret (None, c, w))"

definition sent :: "control \<Rightarrow> (nat \<times> 'w) rust \<Rightarrow> 'w control_result" where
  "sent c m = rbind m (\<lambda>(_, w). Ret (None, c, w))"

section \<open>The SETUP stage\<close>

definition setup_microsoft ::
  "'w usb_driver \<Rightarrow> setup_packet \<Rightarrow> control \<Rightarrow> 'w \<Rightarrow> 'w control_result" where
  "setup_microsoft D sp c w =
     (let ep = ctl_endpoint_number c;
          requested_length = unat (sp_length sp)
      in
      case (setup_recipient sp, vendor_index_from (sp_index sp), ds_microsoft10 (ctl_descriptors c)) of
        (RDevice, CompatibleIdFeatureDescriptor, Some descriptors) \<Rightarrow>
          sent (to_state StSend c)
            (drv_write_requested D ep requested_length
              (take requested_length (compat_id_iter (msd_compat_id descriptors))) w)
      | (RInterface, ExtendedPropertiesFeatureDescriptor, Some descriptors) \<Rightarrow>
          sent (to_state StSend c)
            (drv_write_requested D ep requested_length
              (take requested_length (extended_properties_bytes (msd_extended_properties descriptors))) w)
      | _ \<Rightarrow> Ret (None, to_state StStall c, drv_stall_endpoint_in D ep w))"

definition setup_clear_feature ::
  "'w usb_driver \<Rightarrow> setup_packet \<Rightarrow> control \<Rightarrow> 'w \<Rightarrow> 'w control_result" where
  "setup_clear_feature D sp c w =
     (case (setup_recipient sp, feature_from (sp_value sp)) of
        (REndpoint, EndpointHalt) \<Rightarrow>
          let endpoint_address = ucast (sp_index sp AND 0xff) :: u8;
              endpoint_number = endpoint_address AND 0x7f;
              direction = direction_from endpoint_address
          in status_zlp D (to_state StComplete c)
               (drv_clear_feature_endpoint_halt D endpoint_number direction w)
      | (RDevice, DeviceRemoteWakeup) \<Rightarrow>
          status_zlp D (to_state StComplete (c\<lparr>ctl_feature_remote_wakeup := False\<rparr>)) w
      | _ \<Rightarrow>
          Ret (None, to_state StStall c, drv_stall_endpoint_in D (ctl_endpoint_number c) w))"

definition setup_set_feature ::
  "'w usb_driver \<Rightarrow> setup_packet \<Rightarrow> control \<Rightarrow> 'w \<Rightarrow> 'w control_result" where
  "setup_set_feature D sp c w =
     (case (setup_recipient sp, feature_from (sp_value sp)) of
        (RDevice, DeviceRemoteWakeup) \<Rightarrow>
          status_zlp D (to_state StComplete (c\<lparr>ctl_feature_remote_wakeup := True\<rparr>)) w
      | _ \<Rightarrow>
          Ret (None, to_state StStall c, drv_stall_endpoint_in D (ctl_endpoint_number c) w))"

definition setup_set_configuration ::
  "'w usb_driver \<Rightarrow> setup_packet \<Rightarrow> control \<Rightarrow> 'w \<Rightarrow> 'w control_result" where
  "setup_set_configuration D sp c w =
     (let configuration = ucast (sp_value sp AND 0xff) :: u8 in
      if configuration > 1 then
        Ret (None, to_state StStall (c\<lparr>ctl_configuration := None\<rparr>),
          drv_stall_endpoint_out D (ctl_endpoint_number c) w)
      else status_zlp D (to_state StComplete (c\<lparr>ctl_configuration := Some configuration\<rparr>)) w)"

text \<open>The two arms for requests the interface does not handle itself.\<close>

definition setup_other ::
  "'w usb_driver \<Rightarrow> setup_packet \<Rightarrow> control \<Rightarrow> 'w \<Rightarrow> 'w control_result" where
  "setup_other D sp c w =
     (if setup_direction sp = HostToDevice \<and> sp_length sp > 0 then
        Ret (None, to_state (StReceiveHostData sp) (c\<lparr>ctl_rx_buffer_position := 0\<rparr>),
          drv_ep_out_prime_receive D (ctl_endpoint_number c) w)
      else Ret (Some sp, to_state StIdle c, w))"

text \<open>\<open>0b01 | u16::from(self.feature_remote_wakeup) << 1\<close>, sent on endpoint 0.\<close>

definition setup_get_status ::
  "'w usb_driver \<Rightarrow> setup_packet \<Rightarrow> control \<Rightarrow> 'w \<Rightarrow> 'w control_result" where
  "setup_get_status D sp c w =
     (let status = 0b01 OR push_bit 1 (of_bool (ctl_feature_remote_wakeup c)) :: u16 in
      sent (to_state StSend c) (drv_write D 0 (le16 status) w))"

definition control_setup ::
  "'w usb_driver \<Rightarrow> setup_packet \<Rightarrow> control \<Rightarrow> 'w \<Rightarrow> 'w control_result" where
  "control_setup D sp c w =
     (let c = (if ctl_next c = StStall then to_state StIdle c else c);
          ep = ctl_endpoint_number c
      in
      case (setup_direction sp, setup_request_type sp, setup_request sp) of
        (DeviceToHost, Vendor, ClassOrVendor v) \<Rightarrow>
          if v = VendorRequest_Microsoft then setup_microsoft D sp c w else setup_other D sp c w
      | (DeviceToHost, Standard, GetDescriptor) \<Rightarrow>
          rbind (descriptors_write D (ctl_descriptors c) ep sp w) (\<lambda>(r, w).
          Ret (r, to_state StSend c, w))
      | (HostToDevice, Standard, SetAddress) \<Rightarrow>
          status_zlp D (to_state (StSetAddress (ucast (sp_value sp AND 0x7f))) c) w
      | (HostToDevice, Standard, SetConfiguration) \<Rightarrow> setup_set_configuration D sp c w
      | (DeviceToHost, Standard, GetConfiguration) \<Rightarrow>
          sent (to_state StSend c)
            (drv_write D ep
              [case ctl_configuration c of Some configuration \<Rightarrow> configuration | None \<Rightarrow> 0] w)
      | (DeviceToHost, Standard, GetStatus) \<Rightarrow> setup_get_status D sp c w
      | (_, Standard, ClearFeature) \<Rightarrow> setup_clear_feature D sp c w
      | (_, Standard, SetFeature) \<Rightarrow> setup_set_feature D sp c w
      | _ \<Rightarrow> setup_other D sp c w)"

section \<open>The data stage\<close>

definition rx_append :: "bytes \<Rightarrow> control \<Rightarrow> control" where
  "rx_append bs c =
     (let offset = ctl_rx_buffer_position c; rx = ctl_rx_buffer c in
      c\<lparr>ctl_rx_buffer := take offset rx @ bs @ drop (offset + length bs) rx,
        ctl_rx_buffer_position := offset + length bs\<rparr>)"

definition control_receive ::
  "'w usb_driver \<Rightarrow> setup_packet \<Rightarrow> control \<Rightarrow> 'w \<Rightarrow> 'w control_result" where
  "control_receive D sp c w =
     (let ep = ctl_endpoint_number c in
      rbind (drv_read D ep (replicate EP_MAX_PACKET_SIZE 0) w) (\<lambda>(bytes_read, packet_buffer, w).
      if bytes_read = 0 then status_zlp D (to_state (StFinishHostData sp) c) w
      else if ctl_rx_buffer_position c + bytes_read > length (ctl_rx_buffer c) then
        Ret (None, to_state (StReceiveHostData sp) c, drv_ep_out_prime_receive D ep w)
      else if bytes_read > length packet_buffer then Panic
      else
        let c = rx_append (take bytes_read packet_buffer) c in
        if ctl_rx_buffer_position c \<ge> unat (sp_length sp)
        then status_zlp D (to_state (StFinishHostData sp) c) w
        else Ret (None, to_state (StReceiveHostData sp) c, drv_ep_out_prime_receive D ep w)))"

section \<open>Events\<close>

definition control_receive_zlp :: "'w usb_driver \<Rightarrow> control \<Rightarrow> 'w \<Rightarrow> 'w control_result" where
  "control_receive_zlp D c w =
     rbind (read_zlp D (to_state StIdle c) w) (\<lambda>(_, w). Ret (None, to_state StIdle c, w))"

fun control_event ::
  "'w usb_driver \<Rightarrow> usb_event \<Rightarrow> control_state \<Rightarrow> control \<Rightarrow> 'w \<Rightarrow> 'w control_result" where
  "control_event D BusReset _ c w = Ret (None, to_state StIdle c, w)"
| "control_event D (ReceiveSetupPacket ep sp) StIdle c w = control_setup D sp c w"
| "control_event D (ReceiveSetupPacket ep sp) StStall c w = control_setup D sp c w"
| "control_event D (SendComplete ep) StSend c w =
     Ret (None, to_state StWaitForZlp c, drv_ep_out_prime_receive D (ctl_endpoint_number c) w)"
| "control_event D (SendComplete ep) StWaitForZlp c w = Ret (None, c, w)"
| "control_event D (ReceivePacket ep) StWaitForZlp c w = control_receive_zlp D c w"
| "control_event D (SendComplete ep) (StSetAddress address) c w =
     Ret (None, to_state StIdle c, drv_set_address D address w)"
| "control_event D (SendComplete ep) StComplete c w = Ret (None, to_state StIdle c, w)"
| "control_event D (ReceivePacket ep) (StReceiveHostData sp) c w = control_receive D sp c w"
| "control_event D (SendComplete ep) (StFinishHostData sp) c w = Ret (Some sp, to_state StIdle c, w)"
| "control_event D (ReceivePacket ep) StIdle c w = control_receive_zlp D c w"
| "control_event D (SendComplete ep) StIdle c w = Ret (None, c, w)"
| "control_event D _ _ c w = Ret (None, to_state StIdle c, w)"

text \<open>The endpoint of an event that has one; every arm but the bus reset guards on it.\<close>

fun event_endpoint :: "usb_event \<Rightarrow> u8 option" where
  "event_endpoint BusReset = None"
| "event_endpoint (ReceiveControl ep) = Some ep"
| "event_endpoint (ReceivePacket ep) = Some ep"
| "event_endpoint (SendComplete ep) = Some ep"
| "event_endpoint (ReceiveSetupPacket ep _) = Some ep"

definition control_dispatch_event ::
  "'w usb_driver \<Rightarrow> usb_event \<Rightarrow> control \<Rightarrow> 'w \<Rightarrow> 'w control_result" where
  "control_dispatch_event D event c w =
     (if event = BusReset \<or> event_endpoint event = Some (ctl_endpoint_number c)
      then control_event D event (ctl_next c) c w
      else Ret (None, to_state StIdle c, w))"

end
