(* ===== verification/ControlFacts.thy ===== *)
theory ControlFacts
  imports Control
begin

text \<open>
  The control endpoint keeps its invariant over every driver, loses no byte of a data stage it
  accepts, and hands a request with data to its user exactly once, after the status stage.
\<close>

section \<open>Invariant\<close>

definition ctl_ok :: "control \<Rightarrow> bool" where
  "ctl_ok c \<longleftrightarrow>
     ctl_rx_buffer_position c \<le> length (ctl_rx_buffer c) \<and>
     ctl_configuration c \<in> {None, Some 0, Some 1} \<and>
     (\<forall>address. ctl_next c = StSetAddress address \<longrightarrow> address AND 0x80 = 0)"

text \<open>What an event may not change.\<close>

definition ctl_frame :: "control \<Rightarrow> control \<Rightarrow> bool" where
  "ctl_frame c c' \<longleftrightarrow>
     ctl_endpoint_number c' = ctl_endpoint_number c \<and> ctl_descriptors c' = ctl_descriptors c \<and>
     length (ctl_rx_buffer c') = length (ctl_rx_buffer c)"

definition ctl_step_ok :: "control \<Rightarrow> control \<Rightarrow> bool" where
  "ctl_step_ok c c' \<longleftrightarrow> ctl_frame c c' \<and> (ctl_ok c \<longrightarrow> ctl_ok c')"

lemma ctl_frame_refl [simp]: "ctl_frame c c"
  by (simp add: ctl_frame_def)

lemma ctl_frame_trans: "ctl_frame a b \<Longrightarrow> ctl_frame b c \<Longrightarrow> ctl_frame a c"
  by (simp add: ctl_frame_def)

lemma ctl_step_ok_refl [simp]: "ctl_step_ok c c"
  by (simp add: ctl_step_ok_def)

lemma ctl_step_ok_trans: "ctl_step_ok a b \<Longrightarrow> ctl_step_ok b c \<Longrightarrow> ctl_step_ok a c"
  by (auto simp: ctl_step_ok_def intro: ctl_frame_trans)

lemma ctl_next_to_state [simp]: "ctl_next (to_state s c) = s"
  by (simp add: to_state_def)

lemma to_state_fields [simp]:
  "ctl_endpoint_number (to_state s c) = ctl_endpoint_number c"
  "ctl_descriptors (to_state s c) = ctl_descriptors c"
  "ctl_configuration (to_state s c) = ctl_configuration c"
  "ctl_feature_remote_wakeup (to_state s c) = ctl_feature_remote_wakeup c"
  "ctl_rx_buffer (to_state s c) = ctl_rx_buffer c"
  "ctl_rx_buffer_position (to_state s c) = ctl_rx_buffer_position c"
  by (simp_all add: to_state_def)

lemma to_state_step_ok [simp]:
  "(\<forall>a. s \<noteq> StSetAddress a) \<Longrightarrow> ctl_step_ok c (to_state s c)"
  by (auto simp: ctl_step_ok_def ctl_ok_def ctl_frame_def)

lemma status_zlp_Ret: "status_zlp D c w = Ret (r, c', w') \<Longrightarrow> r = None \<and> c' = c"
  by (auto simp: status_zlp_def rust_simps)

lemma sent_Ret: "sent c m = Ret (r, c', w') \<Longrightarrow> r = None \<and> c' = c"
  by (auto simp: sent_def rust_simps)

lemmas tail_Ret = status_zlp_Ret sent_Ret

lemma setup_microsoft_ok:
  "setup_microsoft D sp c w = Ret (r, c', w') \<Longrightarrow> ctl_step_ok c c'"
  by (auto simp: setup_microsoft_def Let_def dest!: tail_Ret
      split: recipient.splits vendor_index.splits option.splits)

lemma setup_clear_feature_ok:
  "setup_clear_feature D sp c w = Ret (r, c', w') \<Longrightarrow> ctl_step_ok c c'"
  by (auto simp: setup_clear_feature_def Let_def dest!: tail_Ret
      split: recipient.splits feature.splits)
    (auto simp: ctl_step_ok_def ctl_ok_def ctl_frame_def)

lemma setup_set_feature_ok:
  "setup_set_feature D sp c w = Ret (r, c', w') \<Longrightarrow> ctl_step_ok c c'"
  by (auto simp: setup_set_feature_def Let_def dest!: tail_Ret
      split: recipient.splits feature.splits)
    (auto simp: ctl_step_ok_def ctl_ok_def ctl_frame_def)

lemma word_le_1_cases: "\<not> (v :: u8) > 1 \<Longrightarrow> v = 0 \<or> v = 1"
  by (metis antisym_conv3 not_less_iff_gr_or_eq order_le_imp_less_or_eq word_less_1 word_not_simps(1)
      linorder_not_less)

lemma setup_set_configuration_ok:
  "setup_set_configuration D sp c w = Ret (r, c', w') \<Longrightarrow> ctl_step_ok c c'"
  by (auto simp: setup_set_configuration_def Let_def dest!: tail_Ret split: if_splits)
    (auto simp: ctl_step_ok_def ctl_ok_def ctl_frame_def dest: word_le_1_cases)

lemma setup_other_ok: "setup_other D sp c w = Ret (r, c', w') \<Longrightarrow> ctl_step_ok c c'"
  by (auto simp: setup_other_def ctl_step_ok_def ctl_ok_def ctl_frame_def split: if_splits)

lemma setup_get_status_ok: "setup_get_status D sp c w = Ret (r, c', w') \<Longrightarrow> ctl_step_ok c c'"
  by (auto simp: setup_get_status_def Let_def dest!: tail_Ret)

lemma address_high_bit: "(ucast (v AND 0x7f :: u16) :: u8) AND 0x80 = 0"
proof (rule bit_word_eqI)
  fix n assume "n < LENGTH(8)"
  then have "n \<in> {0, 1, 2, 3, 4, 5, 6, 7}" by auto
  then show "bit ((ucast (v AND 0x7f) :: u8) AND 0x80) n = bit (0 :: u8) n"
    by (auto simp: bit_simps)
qed

lemma set_address_ok:
  "ctl_step_ok c (to_state (StSetAddress (ucast (sp_value sp AND 0x7f))) c)"
  by (auto simp: ctl_step_ok_def ctl_ok_def ctl_frame_def address_high_bit)

lemmas setup_arm_ok =
  setup_microsoft_ok setup_clear_feature_ok setup_set_feature_ok setup_set_configuration_ok
  setup_other_ok setup_get_status_ok

text \<open>The arms of the SETUP stage, after a stall has been cleared.\<close>

definition clear_stall :: "control \<Rightarrow> control" where
  "clear_stall c = (if ctl_next c = StStall then to_state StIdle c else c)"

lemma control_setup_arms:
  fixes sp c
  defines "d \<equiv> clear_stall c"
  obtains "control_setup D sp c w = setup_microsoft D sp d w"
  | "control_setup D sp c w = setup_other D sp d w"
  | "control_setup D sp c w = setup_set_configuration D sp d w"
  | "control_setup D sp c w = setup_get_status D sp d w"
  | "control_setup D sp c w = setup_clear_feature D sp d w"
  | "control_setup D sp c w = setup_set_feature D sp d w"
  | bs where "control_setup D sp c w = sent (to_state StSend d) (drv_write D (ctl_endpoint_number d) bs w)"
  | "control_setup D sp c w =
      status_zlp D (to_state (StSetAddress (ucast (sp_value sp AND 0x7f))) d) w"
  | "control_setup D sp c w =
      rbind (descriptors_write D (ctl_descriptors d) (ctl_endpoint_number d) sp w)
        (\<lambda>(r, w). Ret (r, to_state StSend d, w))"
proof -
  note def = control_setup_def [of D sp c w, folded clear_stall_def, unfolded Let_def, folded d_def]
  show thesis
  proof (cases "setup_request_type sp")
    case Standard
    show thesis
    proof (cases "setup_direction sp")
      case HostToDevice
      with Standard that def show thesis by (cases "setup_request sp") simp_all
    next
      case DeviceToHost
      with Standard that def show thesis by (cases "setup_request sp") simp_all
    qed
  next
    case Vendor
    show thesis
    proof (cases "setup_direction sp")
      case HostToDevice
      with Vendor that(2) def show thesis by simp
    next
      case DeviceToHost
      with Vendor that(1,2) def show thesis
        by (cases "setup_request sp") (simp_all split: if_splits)
    qed
  qed (use that(2) def in \<open>cases "setup_direction sp"; simp\<close>)+
qed

lemma clear_stall_ok: "ctl_step_ok c (clear_stall c)"
  by (simp add: clear_stall_def)

lemma control_setup_ok:
  assumes "control_setup D sp c w = Ret (r, c', w')"
  shows "ctl_step_ok c c'"
proof -
  have "ctl_step_ok (clear_stall c) c'"
    by (rule control_setup_arms [of D sp c w]; drule assms [symmetric, THEN trans, THEN sym])
      (auto dest: setup_arm_ok dest!: tail_Ret simp: rust_simps set_address_ok)
  with clear_stall_ok show ?thesis by (rule ctl_step_ok_trans)
qed

lemma rx_append_ok:
  "ctl_rx_buffer_position c + length bs \<le> length (ctl_rx_buffer c) \<Longrightarrow>
     ctl_step_ok c (rx_append bs c)"
  by (simp add: ctl_step_ok_def ctl_ok_def ctl_frame_def rx_append_def Let_def)

lemma control_receive_ok:
  assumes "control_receive D sp c w = Ret (r, c', w')"
  shows "ctl_step_ok c c'"
proof -
  obtain n buf w1 where read: "drv_read D (ctl_endpoint_number c) (replicate EP_MAX_PACKET_SIZE 0) w =
      Ret (n, buf, w1)"
    using assms by (cases "drv_read D (ctl_endpoint_number c) (replicate EP_MAX_PACKET_SIZE 0) w")
      (auto simp: control_receive_def Let_def)
  note eq = assms [unfolded control_receive_def Let_def, unfolded read rbind.simps prod.case]
  consider "n = 0"
    | "n \<noteq> 0" "ctl_rx_buffer_position c + n > length (ctl_rx_buffer c)"
    | "n \<noteq> 0" "ctl_rx_buffer_position c + n \<le> length (ctl_rx_buffer c)" "n \<le> length buf"
    | "n \<noteq> 0" "ctl_rx_buffer_position c + n \<le> length (ctl_rx_buffer c)" "n > length buf"
    by linarith
  then show ?thesis
  proof cases
    case 1
    with eq show ?thesis by (auto dest!: status_zlp_Ret)
  next
    case 2
    with eq show ?thesis by auto
  next
    case 3
    then have "ctl_step_ok c (rx_append (take n buf) c)" by (simp add: rx_append_ok)
    moreover have "ctl_step_ok (rx_append (take n buf) c) c'"
      using eq 3 by (auto dest!: status_zlp_Ret split: if_splits)
    ultimately show ?thesis by (rule ctl_step_ok_trans)
  next
    case 4
    with eq show ?thesis by simp
  qed
qed

lemma control_receive_zlp_ok:
  "control_receive_zlp D c w = Ret (r, c', w') \<Longrightarrow> r = None \<and> c' = to_state StIdle c"
  by (auto simp: control_receive_zlp_def rust_simps)

lemma control_receive_zlp_step: "control_receive_zlp D c w = Ret (r, c', w') \<Longrightarrow> ctl_step_ok c c'"
  by (drule control_receive_zlp_ok) simp

lemmas event_arm_ok = control_setup_ok control_receive_ok control_receive_zlp_step

lemma control_event_ok:
  "control_event D ev s c w = Ret (r, c', w') \<Longrightarrow> ctl_step_ok c c'"
  by (cases ev; cases s) (simp_all, (clarsimp | erule event_arm_ok)+)

lemma control_dispatch_event_ok:
  "control_dispatch_event D ev c w = Ret (r, c', w') \<Longrightarrow> ctl_step_ok c c'"
  by (auto simp: control_dispatch_event_def split: if_splits dest: control_event_ok)

text \<open>Every run of the endpoint from its constructor, whatever the driver and the events.\<close>

inductive control_reaches ::
  "'w usb_driver \<Rightarrow> control \<Rightarrow> 'w \<Rightarrow> control \<Rightarrow> 'w \<Rightarrow> bool" for D where
  reach_refl: "control_reaches D c w c w"
| reach_step: "control_reaches D c w c1 w1 \<Longrightarrow>
     control_dispatch_event D ev c1 w1 = Ret (r, c2, w2) \<Longrightarrow> control_reaches D c w c2 w2"
| reach_driver: "control_reaches D c w c1 w1 \<Longrightarrow> control_reaches D c w c1 w2"

lemma control_new_ok: "ctl_ok (control_new n ep ds)"
  by (simp add: ctl_ok_def control_new_def)

lemma control_reaches_ok: "control_reaches D c w c' w' \<Longrightarrow> ctl_step_ok c c'"
  by (induction rule: control_reaches.induct)
    (auto intro: ctl_step_ok_trans dest: control_dispatch_event_ok)

lemma control_data_Ret: "ctl_ok c \<Longrightarrow>
    control_data c = Ret (take (ctl_rx_buffer_position c) (ctl_rx_buffer c))"
  by (simp add: control_data_def ctl_ok_def)

section \<open>A host-to-device transfer\<close>

text \<open>
  What the data stage needs of a driver, seen through three functions of its state: an invariant, the
  packet that has arrived, and the packets the host has still to send. Priming the endpoint lets
  the next packet in, reading takes the one that arrived, and sending an empty packet disturbs
  neither. Theory \<open>ControlPort\<close> shows it for the driver of the SoC.
\<close>

definition delivers ::
  "'w usb_driver \<Rightarrow> u8 \<Rightarrow> ('w \<Rightarrow> bool) \<Rightarrow> ('w \<Rightarrow> bytes option) \<Rightarrow> ('w \<Rightarrow> bytes list) \<Rightarrow> bool" where
  "delivers D ep ok inbox host \<longleftrightarrow>
     (\<forall>w p. ok w \<longrightarrow> inbox w = Some p \<longrightarrow> length p \<le> EP_MAX_PACKET_SIZE \<longrightarrow>
        (\<exists>w'. drv_read D ep (replicate EP_MAX_PACKET_SIZE 0) w =
                Ret (length p, p @ replicate (EP_MAX_PACKET_SIZE - length p) 0, w') \<and>
              ok w' \<and> inbox w' = None \<and> host w' = host w)) \<and>
     (\<forall>w p ps. ok w \<longrightarrow> inbox w = None \<longrightarrow> host w = p # ps \<longrightarrow>
        (let w' = drv_ep_out_prime_receive D ep w in ok w' \<and> inbox w' = Some p \<and> host w' = ps)) \<and>
     (\<forall>w. ok w \<longrightarrow>
        (\<exists>w'. drv_write D ep [] w = Ret (0, w') \<and> ok w' \<and> inbox w' = inbox w \<and> host w' = host w))"

lemma delivers_read:
  "delivers D ep ok inbox host \<Longrightarrow> ok w \<Longrightarrow> inbox w = Some p \<Longrightarrow> length p \<le> EP_MAX_PACKET_SIZE \<Longrightarrow>
     \<exists>w'. drv_read D ep (replicate EP_MAX_PACKET_SIZE 0) w =
            Ret (length p, p @ replicate (EP_MAX_PACKET_SIZE - length p) 0, w') \<and>
          ok w' \<and> inbox w' = None \<and> host w' = host w"
  unfolding delivers_def by blast

lemma delivers_prime:
  "delivers D ep ok inbox host \<Longrightarrow> ok w \<Longrightarrow> inbox w = None \<Longrightarrow> host w = p # ps \<Longrightarrow>
     ok (drv_ep_out_prime_receive D ep w) \<and> inbox (drv_ep_out_prime_receive D ep w) = Some p \<and>
     host (drv_ep_out_prime_receive D ep w) = ps"
  unfolding delivers_def Let_def by blast

lemma delivers_zlp:
  "delivers D ep ok inbox host \<Longrightarrow> ok w \<Longrightarrow>
     \<exists>w'. drv_write D ep [] w = Ret (0, w') \<and> ok w' \<and> inbox w' = inbox w \<and> host w' = host w"
  unfolding delivers_def by blast

text \<open>The events one after the other, collecting the requests handed out.\<close>

fun control_run ::
  "'w usb_driver \<Rightarrow> usb_event list \<Rightarrow> control \<Rightarrow> 'w \<Rightarrow> (setup_packet list \<times> control \<times> 'w) rust" where
  "control_run D [] c w = Ret ([], c, w)"
| "control_run D (e # es) c w =
     rbind (control_dispatch_event D e c w) (\<lambda>(r, c, w).
     rbind (control_run D es c w) (\<lambda>(rs, c, w).
     Ret (case r of None \<Rightarrow> rs | Some sp \<Rightarrow> sp # rs, c, w)))"

lemma control_run_append:
  "control_run D (es @ fs) c w =
     rbind (control_run D es c w) (\<lambda>(rs, c, w).
     rbind (control_run D fs c w) (\<lambda>(ss, c, w). Ret (rs @ ss, c, w)))"
proof (induction es arbitrary: c w)
  case (Cons e es)
  show ?case
  proof (cases "control_dispatch_event D e c w")
    case (Ret x)
    obtain r c1 w1 where x: "x = (r, c1, w1)" by (cases x) auto
    with Cons [of c1 w1] Ret show ?thesis
      by (cases "control_run D es c1 w1") (auto simp: rbind_assoc case_prod_beta' split: option.splits)
  qed simp_all
next
  case Nil
  have "(\<lambda>x. Ret (case x of (ss, c, w) \<Rightarrow> ([] @ ss, c, w))) = Ret" by auto
  then show ?case by (simp add: case_prod_beta')
qed

lemma control_run_ok: "control_run D es c w = Ret (rs, c', w') \<Longrightarrow> ctl_step_ok c c'"
proof (induction es arbitrary: c w rs)
  case (Cons e es)
  then obtain r c1 w1 ss where "control_dispatch_event D e c w = Ret (r, c1, w1)"
    "control_run D es c1 w1 = Ret (ss, c', w')"
    by (auto simp: rust_simps)
  with Cons.IH show ?case by (blast intro: ctl_step_ok_trans control_dispatch_event_ok)
qed simp

definition received :: "control \<Rightarrow> bytes" where
  "received c = take (ctl_rx_buffer_position c) (ctl_rx_buffer c)"

lemma received_append:
  "ctl_rx_buffer_position c + length bs \<le> length (ctl_rx_buffer c) \<Longrightarrow>
     received (rx_append bs c) = received c @ bs"
  by (cases bs) (auto simp: received_def rx_append_def Let_def min_def)

lemma received_to_state [simp]: "received (to_state s c) = received c"
  by (simp add: received_def)

lemma length_received:
  "ctl_rx_buffer_position c \<le> length (ctl_rx_buffer c) \<Longrightarrow> length (received c) = ctl_rx_buffer_position c"
  by (simp add: received_def)

lemma rx_append_fields [simp]:
  "ctl_endpoint_number (rx_append bs c) = ctl_endpoint_number c"
  "ctl_rx_buffer_position (rx_append bs c) = ctl_rx_buffer_position c + length bs"
  "ctl_configuration (rx_append bs c) = ctl_configuration c"
  "ctl_rx_buffer_position c + length bs \<le> length (ctl_rx_buffer c) \<Longrightarrow>
     length (ctl_rx_buffer (rx_append bs c)) = length (ctl_rx_buffer c)"
  by (simp_all add: rx_append_def Let_def)

text \<open>
  The packets of the data stage: none is empty or larger than an endpoint packet, the announced
  length is reached by the last one and not before, and together they fit the receive buffer.
\<close>

definition data_stage :: "nat \<Rightarrow> nat \<Rightarrow> bytes list \<Rightarrow> bool" where
  "data_stage cap len ps \<longleftrightarrow>
     ps \<noteq> [] \<and> list_all (\<lambda>p. p \<noteq> [] \<and> length p \<le> EP_MAX_PACKET_SIZE) ps \<and>
     length (concat (butlast ps)) < len \<and> len \<le> length (concat ps) \<and> length (concat ps) \<le> cap"

text \<open>One packet of the data stage: the last one, and one that has a successor.\<close>

lemma control_packet_last:
  assumes "delivers D (ctl_endpoint_number c) ok inbox host" and "ok w" and "inbox w = Some p"
    and "ctl_next c = StReceiveHostData sp" and "p \<noteq> []" and "length p \<le> EP_MAX_PACKET_SIZE"
    and "ctl_rx_buffer_position c + length p \<le> length (ctl_rx_buffer c)"
    and "unat (sp_length sp) \<le> ctl_rx_buffer_position c + length p"
  shows "\<exists>w'. control_dispatch_event D (ReceivePacket (ctl_endpoint_number c)) c w =
      Ret (None, to_state (StFinishHostData sp) (rx_append p c), w') \<and> ok w'"
proof -
  let ?ep = "ctl_endpoint_number c"
  obtain w1 where w1: "drv_read D ?ep (replicate EP_MAX_PACKET_SIZE 0) w =
      Ret (length p, p @ replicate (EP_MAX_PACKET_SIZE - length p) 0, w1)" "ok w1"
    using delivers_read [OF assms(1-3,6)] by blast
  obtain w2 where "drv_write D ?ep [] w1 = Ret (0, w2)" "ok w2"
    using delivers_zlp [OF assms(1) w1(2)] by blast
  with w1 show ?thesis
    using assms(4-8)
    by (simp add: control_dispatch_event_def control_receive_def Let_def status_zlp_def write_zlp_def)
qed

lemma control_packet_more:
  assumes "delivers D (ctl_endpoint_number c) ok inbox host" and "ok w" and "inbox w = Some p"
    and "host w = q # qs"
    and "ctl_next c = StReceiveHostData sp" and "p \<noteq> []" and "length p \<le> EP_MAX_PACKET_SIZE"
    and "ctl_rx_buffer_position c + length p \<le> length (ctl_rx_buffer c)"
    and "ctl_rx_buffer_position c + length p < unat (sp_length sp)"
  shows "\<exists>w'. control_dispatch_event D (ReceivePacket (ctl_endpoint_number c)) c w =
      Ret (None, to_state (StReceiveHostData sp) (rx_append p c), w') \<and> ok w' \<and>
    inbox w' = Some q \<and> host w' = qs"
proof -
  let ?ep = "ctl_endpoint_number c"
  obtain w1 where w1: "drv_read D ?ep (replicate EP_MAX_PACKET_SIZE 0) w =
      Ret (length p, p @ replicate (EP_MAX_PACKET_SIZE - length p) 0, w1)" "ok w1"
      "inbox w1 = None" "host w1 = q # qs"
    using delivers_read [OF assms(1-3,7)] assms(4) by auto
  with delivers_prime [OF assms(1) w1(2-4)] show ?thesis
    using assms(5-9)
    by (simp add: control_dispatch_event_def control_receive_def Let_def)
qed

lemma control_packets:
  assumes "delivers D ep ok inbox host"
  shows "ctl_endpoint_number c = ep \<Longrightarrow> ok w \<Longrightarrow> inbox w = Some p \<Longrightarrow> host w = ps \<Longrightarrow>
    ctl_next c = StReceiveHostData sp \<Longrightarrow>
    list_all (\<lambda>p. p \<noteq> [] \<and> length p \<le> EP_MAX_PACKET_SIZE) (p # ps) \<Longrightarrow>
    ctl_rx_buffer_position c + length (concat (butlast (p # ps))) < unat (sp_length sp) \<Longrightarrow>
    unat (sp_length sp) \<le> ctl_rx_buffer_position c + length (concat (p # ps)) \<Longrightarrow>
    ctl_rx_buffer_position c + length (concat (p # ps)) \<le> length (ctl_rx_buffer c) \<Longrightarrow>
    \<exists>c' w'. control_run D (replicate (length (p # ps)) (ReceivePacket ep)) c w = Ret ([], c', w') \<and>
      ctl_next c' = StFinishHostData sp \<and> received c' = received c @ concat (p # ps) \<and>
      ctl_endpoint_number c' = ep \<and> ok w'"
proof (induction ps arbitrary: c w p)
  case Nil
  then obtain w1 where "control_dispatch_event D (ReceivePacket ep) c w =
      Ret (None, to_state (StFinishHostData sp) (rx_append p c), w1)" "ok w1"
    using control_packet_last [of D c ok inbox host w p sp] assms by auto
  with Nil show ?case by (simp add: received_append)
next
  case (Cons q ps)
  let ?c = "to_state (StReceiveHostData sp) (rx_append p c)"
  obtain w1 where w1: "control_dispatch_event D (ReceivePacket ep) c w = Ret (None, ?c, w1)"
      "ok w1" "inbox w1 = Some q" "host w1 = ps"
    using control_packet_more [of D c ok inbox host w p q ps sp] assms Cons.prems by auto
  obtain c' w' where
    "control_run D (replicate (length (q # ps)) (ReceivePacket ep)) ?c w1 = Ret ([], c', w')"
    "ctl_next c' = StFinishHostData sp" "received c' = received ?c @ concat (q # ps)"
    "ctl_endpoint_number c' = ep" "ok w'"
    using Cons.IH [of ?c w1 q] Cons.prems w1 by auto
  then show ?case using w1 Cons.prems by (simp add: received_append)
qed

text \<open>The SETUP packet starts the data stage: the position is reset and the endpoint primed.\<close>

definition receiving :: "setup_packet \<Rightarrow> control \<Rightarrow> control" where
  "receiving sp c = to_state (StReceiveHostData sp) (clear_stall c\<lparr>ctl_rx_buffer_position := 0\<rparr>)"

lemma receiving_sel [simp]:
  "ctl_endpoint_number (receiving sp c) = ctl_endpoint_number c"
  "ctl_next (receiving sp c) = StReceiveHostData sp" "ctl_rx_buffer_position (receiving sp c) = 0"
  "length (ctl_rx_buffer (receiving sp c)) = length (ctl_rx_buffer c)" "received (receiving sp c) = []"
  by (simp_all add: receiving_def received_def clear_stall_def)

lemma control_out_setup:
  assumes "ctl_next c \<in> {StIdle, StStall}" and "setup_direction sp = HostToDevice"
    and "setup_request_type sp \<noteq> Standard" and "sp_length sp > 0"
  shows "control_dispatch_event D (ReceiveSetupPacket (ctl_endpoint_number c) sp) c w =
    Ret (None, receiving sp c, drv_ep_out_prime_receive D (ctl_endpoint_number c) w)"
proof -
  have "control_setup D sp c w =
      Ret (None, receiving sp c, drv_ep_out_prime_receive D (ctl_endpoint_number c) w)"
    using assms(2-4)
    by (cases "setup_request_type sp"; cases "setup_request sp")
      (auto simp: control_setup_def Let_def setup_other_def receiving_def clear_stall_def)
  then show ?thesis using assms(1) by (auto simp: control_dispatch_event_def)
qed

text \<open>The SETUP packet and the data stage.\<close>

lemma control_out_data:
  assumes "delivers D (ctl_endpoint_number c) ok inbox host" and "ok w" and "inbox w = None"
    and "host w = ps" and "ctl_next c \<in> {StIdle, StStall}"
    and "setup_direction sp = HostToDevice" and "setup_request_type sp \<noteq> Standard"
    and "data_stage (length (ctl_rx_buffer c)) (unat (sp_length sp)) ps"
  shows "\<exists>c' w'. control_run D (ReceiveSetupPacket (ctl_endpoint_number c) sp #
        replicate (length ps) (ReceivePacket (ctl_endpoint_number c))) c w = Ret ([], c', w') \<and>
      ctl_next c' = StFinishHostData sp \<and> received c' = concat ps \<and>
      ctl_endpoint_number c' = ctl_endpoint_number c \<and> ok w'"
proof -
  let ?ep = "ctl_endpoint_number c"
  define w1 where "w1 = drv_ep_out_prime_receive D ?ep w"
  obtain p qs where ps: "ps = p # qs"
    using assms(8) by (cases ps) (auto simp: data_stage_def)
  have "sp_length sp > 0"
    using assms(8) by (auto simp: data_stage_def unat_gt_0 word_gt_0)
  note first = control_out_setup [OF assms(5-7) this, of D w, folded w1_def]
  have w1: "ok w1" "inbox w1 = Some p" "host w1 = qs"
    using delivers_prime [OF assms(1-3), of p qs] assms(4) by (simp_all add: ps w1_def)
  obtain c2 w2 where
    "control_run D (replicate (length ps) (ReceivePacket ?ep)) (receiving sp c) w1 = Ret ([], c2, w2)"
    "ctl_next c2 = StFinishHostData sp" "received c2 = concat ps" "ctl_endpoint_number c2 = ?ep"
    "ok w2"
    using control_packets [OF assms(1), of "receiving sp c" w1 p qs sp] w1 assms(8)
    by (auto simp: data_stage_def ps)
  with first show ?thesis by simp
qed

lemma control_out_transfer:
  assumes "delivers D (ctl_endpoint_number c) ok inbox host" and "ok w" and "inbox w = None"
    and "host w = ps" and "ctl_next c \<in> {StIdle, StStall}"
    and "setup_direction sp = HostToDevice" and "setup_request_type sp \<noteq> Standard"
    and "data_stage (length (ctl_rx_buffer c)) (unat (sp_length sp)) ps"
  shows "\<exists>c' w'. control_run D ((ReceiveSetupPacket (ctl_endpoint_number c) sp #
        replicate (length ps) (ReceivePacket (ctl_endpoint_number c))) @
        [SendComplete (ctl_endpoint_number c)]) c w = Ret ([sp], c', w') \<and>
      ctl_next c' = StIdle \<and> received c' = concat ps"
proof -
  obtain c2 w2 where "control_run D (ReceiveSetupPacket (ctl_endpoint_number c) sp #
        replicate (length ps) (ReceivePacket (ctl_endpoint_number c))) c w = Ret ([], c2, w2)"
      "ctl_next c2 = StFinishHostData sp" "received c2 = concat ps"
      "ctl_endpoint_number c2 = ctl_endpoint_number c"
    using control_out_data [OF assms] by blast
  then show ?thesis
    unfolding control_run_append by (simp add: control_dispatch_event_def)
qed

section \<open>A data stage that is longer than the buffer\<close>

text \<open>
  A packet that no longer fits is dropped, so the position never reaches a length that is larger
  than the buffer, and the endpoint stays in the data stage. What is kept:
\<close>

fun keep_fitting :: "nat \<Rightarrow> bytes \<Rightarrow> bytes list \<Rightarrow> bytes" where
  "keep_fitting cap bs [] = bs"
| "keep_fitting cap bs (p # ps) =
     keep_fitting cap (if length bs + length p \<le> cap then bs @ p else bs) ps"

lemma control_packet_oversized:
  assumes "delivers D (ctl_endpoint_number c) ok inbox host" and "ok w" and "inbox w = Some p"
    and "ctl_next c = StReceiveHostData sp" and "p \<noteq> []" and "length p \<le> EP_MAX_PACKET_SIZE"
    and "length (ctl_rx_buffer c) < unat (sp_length sp)"
  shows "\<exists>w'. control_dispatch_event D (ReceivePacket (ctl_endpoint_number c)) c w =
      Ret (None, to_state (StReceiveHostData sp)
        (if ctl_rx_buffer_position c + length p \<le> length (ctl_rx_buffer c) then rx_append p c else c), w') \<and>
    (\<forall>q qs. host w = q # qs \<longrightarrow> ok w' \<and> inbox w' = Some q \<and> host w' = qs)"
proof -
  let ?ep = "ctl_endpoint_number c"
  obtain w1 where w1: "drv_read D ?ep (replicate EP_MAX_PACKET_SIZE 0) w =
      Ret (length p, p @ replicate (EP_MAX_PACKET_SIZE - length p) 0, w1)" "ok w1"
      "inbox w1 = None" "host w1 = host w"
    using delivers_read [OF assms(1-3,6)] by blast
  let ?w = "drv_ep_out_prime_receive D ?ep w1"
  have "control_dispatch_event D (ReceivePacket ?ep) c w = Ret (None, to_state (StReceiveHostData sp)
      (if ctl_rx_buffer_position c + length p \<le> length (ctl_rx_buffer c) then rx_append p c else c), ?w)"
    using assms(4-7) w1(1)
    by (auto simp: control_dispatch_event_def control_receive_def Let_def)
  moreover have "\<forall>q qs. host w = q # qs \<longrightarrow> ok ?w \<and> inbox ?w = Some q \<and> host ?w = qs"
    using delivers_prime [OF assms(1) w1(2,3)] w1(4) by simp
  ultimately show ?thesis by blast
qed

lemma control_packets_oversized:
  assumes "delivers D ep ok inbox host"
  shows "ctl_endpoint_number c = ep \<Longrightarrow> ok w \<Longrightarrow> inbox w = Some p \<Longrightarrow> host w = ps \<Longrightarrow>
    ctl_next c = StReceiveHostData sp \<Longrightarrow> ctl_ok c \<Longrightarrow>
    list_all (\<lambda>p. p \<noteq> [] \<and> length p \<le> EP_MAX_PACKET_SIZE) (p # ps) \<Longrightarrow>
    length (ctl_rx_buffer c) < unat (sp_length sp) \<Longrightarrow>
    \<exists>c' w'. control_run D (replicate (length (p # ps)) (ReceivePacket ep)) c w = Ret ([], c', w') \<and>
      ctl_next c' = StReceiveHostData sp \<and>
      received c' = keep_fitting (length (ctl_rx_buffer c)) (received c) (p # ps)"
proof (induction ps arbitrary: c w p)
  case Nil
  then obtain w1 where "control_dispatch_event D (ReceivePacket ep) c w =
      Ret (None, to_state (StReceiveHostData sp)
        (if ctl_rx_buffer_position c + length p \<le> length (ctl_rx_buffer c) then rx_append p c else c), w1)"
    using control_packet_oversized [of D c ok inbox host w p sp] assms by auto
  with Nil show ?case by (simp add: received_append length_received ctl_ok_def)
next
  case (Cons q ps)
  let ?c = "to_state (StReceiveHostData sp)
    (if ctl_rx_buffer_position c + length p \<le> length (ctl_rx_buffer c) then rx_append p c else c)"
  obtain w1 where w1: "control_dispatch_event D (ReceivePacket ep) c w = Ret (None, ?c, w1)"
      "ok w1" "inbox w1 = Some q" "host w1 = ps"
    using control_packet_oversized [of D c ok inbox host w p sp] assms Cons.prems by auto
  have c: "ctl_ok ?c" "ctl_endpoint_number ?c = ep" "ctl_next ?c = StReceiveHostData sp"
    "length (ctl_rx_buffer ?c) = length (ctl_rx_buffer c)"
    "received ?c = (if length (received c) + length p \<le> length (ctl_rx_buffer c)
       then received c @ p else received c)"
    using Cons.prems
    by (auto simp: ctl_ok_def received_append length_received)
  show ?case
    using Cons.IH [OF c(2) w1(2-4) c(3,1)] Cons.prems(7,8) w1(1) c(4,5) by auto
qed

lemma control_oversized_transfer:
  assumes "delivers D (ctl_endpoint_number c) ok inbox host" and "ok w" and "inbox w = None"
    and "host w = ps" and "ctl_next c \<in> {StIdle, StStall}" and "ctl_ok c"
    and "setup_direction sp = HostToDevice" and "setup_request_type sp \<noteq> Standard"
    and "length (ctl_rx_buffer c) < unat (sp_length sp)"
    and "ps \<noteq> []" and "list_all (\<lambda>p. p \<noteq> [] \<and> length p \<le> EP_MAX_PACKET_SIZE) ps"
  shows "\<exists>c' w'. control_run D (ReceiveSetupPacket (ctl_endpoint_number c) sp #
        replicate (length ps) (ReceivePacket (ctl_endpoint_number c))) c w = Ret ([], c', w') \<and>
      ctl_next c' = StReceiveHostData sp \<and>
      received c' = keep_fitting (length (ctl_rx_buffer c)) [] ps"
proof -
  let ?ep = "ctl_endpoint_number c"
  define w1 where "w1 = drv_ep_out_prime_receive D ?ep w"
  obtain p qs where ps: "ps = p # qs" using assms(10) by (cases ps) auto
  have "sp_length sp > 0" using assms(9) by (auto simp: unat_gt_0 word_gt_0)
  note first = control_out_setup [OF assms(5,7,8) this, of D w, folded w1_def]
  have w1: "ok w1" "inbox w1 = Some p" "host w1 = qs"
    using delivers_prime [OF assms(1-3), of p qs] assms(4) by (simp_all add: ps w1_def)
  have "ctl_ok (receiving sp c)"
    using assms(6) by (auto simp: receiving_def ctl_ok_def clear_stall_def)
  with control_packets_oversized [OF assms(1), of "receiving sp c" w1 p qs sp] w1 assms(9,11) first
  show ?thesis by (auto simp: ps)
qed

section \<open>Requests that are lost\<close>

text \<open>
  A SETUP packet is only taken in the states \<open>Idle\<close> and \<open>Stall\<close>; in every other one it is dropped
  without an answer. An unhandled GET_DESCRIPTOR leaves the interface in \<open>Send\<close>.
\<close>

lemma setup_dropped:
  "ctl_next c \<notin> {StIdle, StStall} \<Longrightarrow>
     control_dispatch_event D (ReceiveSetupPacket (ctl_endpoint_number c) sp) c w =
       Ret (None, to_state StIdle c, w)"
  by (cases "ctl_next c") (simp_all add: control_dispatch_event_def)

lemma unknown_descriptor_sends:
  assumes "ctl_next c = StIdle" and "setup_direction sp = DeviceToHost"
    and "setup_request_type sp = Standard" and "setup_request sp = GetDescriptor"
    and "descriptors_write D (ctl_descriptors c) (ctl_endpoint_number c) sp w = Ret (Some sp, w')"
  shows "control_dispatch_event D (ReceiveSetupPacket (ctl_endpoint_number c) sp) c w =
    Ret (Some sp, to_state StSend c, w')"
  using assms by (simp add: control_dispatch_event_def control_setup_def Let_def)

end
