(* ===== verification/GreatErr.thy ===== *)
theory GreatErr
  imports Prelude
begin

text \<open>
  \<open>libgreat/src/error.rs\<close>: the error codes of the protocol. The firmware is built with the feature
  \<open>errno_minimal\<close>, whose enumeration is the datatype \<open>great_error\<close>. A code travels to the host as
  its \<open>u32\<close> discriminant (\<open>e as u32\<close>) and is printed as its name. The larger enumeration used
  without the feature is the table \<open>great_error_full\<close> of its variants and discriminants.
\<close>

datatype great_error =
    IoError | ArgumentListTooLong | OperationWouldBlock | NotEnoughSpace |
    DeviceOrResourceBusy | InvalidArgument | ArgumentOutOfRange | ResultTooLarge |
    NoMessageOfType | InvalidRequestDescriptor | InvalidRequestCode | NoData |
    StreamIoctlTimeout | ProtocolError | BadMessage | FunctionNotImplemented |
    ConnectionResetByPeer | NoBufferSpaceAvailable | ConnectionRefused | AddressAlreadyInUse |
    ConnectionTimedOut | OperationAlreadyInProgress | AddressNotAvailable | NotSupported |
    IllegalByteSequence | ValueTooLargeForDefinedDataType | OperationCanceled |
    StateNotRecoverable

fun great_error_code :: "great_error \<Rightarrow> u32" where
  "great_error_code IoError = 5"
| "great_error_code ArgumentListTooLong = 7"
| "great_error_code OperationWouldBlock = 11"
| "great_error_code NotEnoughSpace = 12"
| "great_error_code DeviceOrResourceBusy = 16"
| "great_error_code InvalidArgument = 22"
| "great_error_code ArgumentOutOfRange = 33"
| "great_error_code ResultTooLarge = 34"
| "great_error_code NoMessageOfType = 35"
| "great_error_code InvalidRequestDescriptor = 51"
| "great_error_code InvalidRequestCode = 54"
| "great_error_code NoData = 61"
| "great_error_code StreamIoctlTimeout = 62"
| "great_error_code ProtocolError = 71"
| "great_error_code BadMessage = 77"
| "great_error_code FunctionNotImplemented = 88"
| "great_error_code ConnectionResetByPeer = 104"
| "great_error_code NoBufferSpaceAvailable = 105"
| "great_error_code ConnectionRefused = 111"
| "great_error_code AddressAlreadyInUse = 112"
| "great_error_code ConnectionTimedOut = 116"
| "great_error_code OperationAlreadyInProgress = 120"
| "great_error_code AddressNotAvailable = 125"
| "great_error_code NotSupported = 134"
| "great_error_code IllegalByteSequence = 138"
| "great_error_code ValueTooLargeForDefinedDataType = 139"
| "great_error_code OperationCanceled = 140"
| "great_error_code StateNotRecoverable = 141"

text \<open>The derived \<open>Debug\<close>, which \<open>Display\<close> forwards to, writes the name of the variant.\<close>

fun great_error_fmt :: "great_error \<Rightarrow> string" where
  "great_error_fmt IoError = ''IoError''"
| "great_error_fmt ArgumentListTooLong = ''ArgumentListTooLong''"
| "great_error_fmt OperationWouldBlock = ''OperationWouldBlock''"
| "great_error_fmt NotEnoughSpace = ''NotEnoughSpace''"
| "great_error_fmt DeviceOrResourceBusy = ''DeviceOrResourceBusy''"
| "great_error_fmt InvalidArgument = ''InvalidArgument''"
| "great_error_fmt ArgumentOutOfRange = ''ArgumentOutOfRange''"
| "great_error_fmt ResultTooLarge = ''ResultTooLarge''"
| "great_error_fmt NoMessageOfType = ''NoMessageOfType''"
| "great_error_fmt InvalidRequestDescriptor = ''InvalidRequestDescriptor''"
| "great_error_fmt InvalidRequestCode = ''InvalidRequestCode''"
| "great_error_fmt NoData = ''NoData''"
| "great_error_fmt StreamIoctlTimeout = ''StreamIoctlTimeout''"
| "great_error_fmt ProtocolError = ''ProtocolError''"
| "great_error_fmt BadMessage = ''BadMessage''"
| "great_error_fmt FunctionNotImplemented = ''FunctionNotImplemented''"
| "great_error_fmt ConnectionResetByPeer = ''ConnectionResetByPeer''"
| "great_error_fmt NoBufferSpaceAvailable = ''NoBufferSpaceAvailable''"
| "great_error_fmt ConnectionRefused = ''ConnectionRefused''"
| "great_error_fmt AddressAlreadyInUse = ''AddressAlreadyInUse''"
| "great_error_fmt ConnectionTimedOut = ''ConnectionTimedOut''"
| "great_error_fmt OperationAlreadyInProgress = ''OperationAlreadyInProgress''"
| "great_error_fmt AddressNotAvailable = ''AddressNotAvailable''"
| "great_error_fmt NotSupported = ''NotSupported''"
| "great_error_fmt IllegalByteSequence = ''IllegalByteSequence''"
| "great_error_fmt ValueTooLargeForDefinedDataType = ''ValueTooLargeForDefinedDataType''"
| "great_error_fmt OperationCanceled = ''OperationCanceled''"
| "great_error_fmt StateNotRecoverable = ''StateNotRecoverable''"

definition great_errors :: "great_error list" where
  "great_errors =
    [IoError, ArgumentListTooLong, OperationWouldBlock, NotEnoughSpace, DeviceOrResourceBusy,
     InvalidArgument, ArgumentOutOfRange, ResultTooLarge, NoMessageOfType,
     InvalidRequestDescriptor, InvalidRequestCode, NoData, StreamIoctlTimeout, ProtocolError,
     BadMessage, FunctionNotImplemented, ConnectionResetByPeer, NoBufferSpaceAvailable,
     ConnectionRefused, AddressAlreadyInUse, ConnectionTimedOut, OperationAlreadyInProgress,
     AddressNotAvailable, NotSupported, IllegalByteSequence, ValueTooLargeForDefinedDataType,
     OperationCanceled, StateNotRecoverable]"

definition great_error_full :: "(string \<times> u32) list" where
  "great_error_full =
    [(''NotOwner'', 1), (''NoSuchFileOrDirectory'', 2), (''NoSuchProcess'', 3),
     (''InterruptedSystemCall'', 4), (''IoError'', 5), (''NoSuchDeviceOrAddress'', 6),
     (''ArgumentListTooLong'', 7), (''ExecFormatError'', 8), (''BadFileNumber'', 9),
     (''NoChildren'', 10), (''OperationWouldBlock'', 11), (''NotEnoughSpace'', 12),
     (''PermissionDenied'', 13), (''BadAddress'', 14), (''BlockDeviceRequired'', 15),
     (''DeviceOrResourceBusy'', 16), (''FileExists'', 17), (''CrossDeviceLink'', 18),
     (''NoSuchDevice'', 19), (''NotDirectory'', 20), (''IsDirectory'', 21),
     (''InvalidArgument'', 22), (''TooManyOpenFiles'', 23), (''FileDescriptorTooLarge'', 24),
     (''NotCharacterDevice'', 25), (''TextFileBusy'', 26), (''FileTooLarge'', 27),
     (''NoSpaceLeftOnDevice'', 28), (''IllegalSeek'', 29), (''ReadOnlyFileSystem'', 30),
     (''TooManyLink'', 31), (''BrokenPipe'', 32), (''ArgumentOutOfRange'', 33),
     (''ResultTooLarge'', 34), (''NoMessageOfType'', 35), (''IdentifierRemoved'', 36),
     (''ChannelOutOfRange'', 37), (''LevelTwoNotSynchronized'', 38),
     (''LevelThreeHalted'', 39), (''LevelThreeReset'', 40), (''LinkNumberOutOfRange'', 41),
     (''ProtocolDriverNotAttached'', 42), (''NoCsiStructureAvailable'', 43),
     (''LevelTwoHalted'', 44), (''Deadlock'', 45), (''NoLock'', 46), (''InvalidExchange'', 50),
     (''InvalidRequestDescriptor'', 51), (''ExchangeFull'', 52), (''NoAnode'', 53),
     (''InvalidRequestCode'', 54), (''InvalidSlot'', 55), (''FileLockingDeadLockError'', 56),
     (''BadFontFileFormat'', 57), (''NotStream'', 60), (''NoData'', 61),
     (''StreamIoctlTimeout'', 62), (''NoStreamResources'', 63), (''NoNetwork'', 64),
     (''PackageNotInstalled'', 65), (''ObjectIsRemote'', 66), (''VirtualCircuitGone'', 67),
     (''AdvertiseError'', 68), (''SrmountError'', 69), (''CommunicationErrorOnSend'', 70),
     (''ProtocolError'', 71), (''MultihopAttempted'', 72), (''InodeRemote'', 75),
     (''CrossMountPoint'', 76), (''BadMessage'', 77), (''WrongFileTypeOrFromat'', 79),
     (''GivenNameNotUnique'', 80), (''InvalidFileDescriptor'', 81),
     (''RemoteAddressChanged'', 82), (''CantAccessLibrary'', 83), (''CorruptedLibrary'', 84),
     (''LibrarySectionCorrupted'', 85), (''LinkLimitExceeded'', 86),
     (''InvalidExecutable'', 87), (''FunctionNotImplemented'', 88), (''NoMoreFiles'', 89),
     (''DirectoryNotEmpty'', 90), (''NameTooLong'', 91), (''TooManySymbolicLinks'', 92),
     (''SocketOperationNotSupported'', 95), (''ProtocolFamilyNotSupported'', 96),
     (''ConnectionResetByPeer'', 104), (''NoBufferSpaceAvailable'', 105),
     (''AddressFamilyNotSupported'', 106), (''WrongProtocolType'', 107),
     (''SocketOperationOnNonSocket'', 108), (''ProtocolNotAvailable'', 109),
     (''CantSendAfterSocketShutdown'', 110), (''ConnectionRefused'', 111),
     (''AddressAlreadyInUse'', 112), (''SoftwareCausedConnectionAbort'', 113),
     (''NetworkIsUnreachable'', 114), (''NetworkInterfaceIsNotConfigured'', 115),
     (''ConnectionTimedOut'', 116), (''HostIsDown'', 117), (''HostIsUnreachable'', 118),
     (''ConnectionAlreadyInProgress'', 119), (''OperationAlreadyInProgress'', 120),
     (''DestinationAddressRequired'', 121), (''MessageTooLong'', 122),
     (''UnknownProtocol'', 123), (''SocketTypeNotSupported'', 124),
     (''AddressNotAvailable'', 125), (''ConnectionAbortedByNetwork'', 126),
     (''SocketAlreadyConnected'', 127), (''SocketNotConnected'', 128),
     (''TooManyReferences'', 129), (''ProcessLimitExceeded'', 130), (''TooManyUSers'', 131),
     (''QuotaExeeded'', 132), (''StaleNfsFileHandle'', 133), (''NotSupported'', 134),
     (''NoMedium'', 135), (''NoSuchHostOrNetworkPath'', 136),
     (''FilenameExistsWithDifferentCase'', 137), (''IllegalByteSequence'', 138),
     (''ValueTooLargeForDefinedDataType'', 139), (''OperationCanceled'', 140),
     (''StateNotRecoverable'', 141), (''PreviousOwnerDied'', 142), (''StreamsPipeError'', 143)]"

text \<open>Reading a \<open>u32\<close> as the enumeration (\<open>transmute\<close>): defined for its discriminants only.\<close>

definition great_error_of_code :: "u32 \<Rightarrow> great_error option" where
  "great_error_of_code c = find (\<lambda>e. great_error_code e = c) great_errors"

section \<open>The discriminants name the errors\<close>

lemma great_errors_all: "e \<in> set great_errors"
  by (cases e) (simp_all add: great_errors_def)

lemma great_error_codes_distinct: "distinct (map great_error_code great_errors)"
  by (simp add: great_errors_def)

lemma great_error_code_inject: "great_error_code d = great_error_code e \<longleftrightarrow> d = e"
  using great_error_codes_distinct great_errors_all
  by (auto simp: distinct_map dest: inj_onD)

lemma great_error_code_nonzero: "great_error_code e \<noteq> 0"
  by (cases e) simp_all

lemma great_error_of_code_code [simp]: "great_error_of_code (great_error_code e) = Some e"
  unfolding great_error_of_code_def great_error_code_inject
  using great_errors_all by (rule find_eq_Some)

lemma great_error_of_code_Some: "great_error_of_code c = Some e \<longleftrightarrow> great_error_code e = c"
proof
  assume "great_error_of_code c = Some e"
  then show "great_error_code e = c" by (auto simp: great_error_of_code_def find_Some_iff)
qed auto

lemma great_error_of_code_None: "great_error_of_code c = None \<longleftrightarrow> (\<forall>e. great_error_code e \<noteq> c)"
  using great_error_of_code_Some by (cases "great_error_of_code c") force+

text \<open>Both builds of the protocol give an error the same number.\<close>

lemma great_error_full_sorted: "successively (<) (map snd great_error_full)"
  by code_simp

lemma great_error_builds_agree:
  "map (\<lambda>e. (great_error_fmt e, great_error_code e)) great_errors =
     filter (\<lambda>(_, c). great_error_of_code c \<noteq> None) great_error_full"
  by code_simp

end
