(* ===== verification/Gcp.thy ===== *)
theory Gcp
  imports ByteCodec GreatErr
begin

text \<open>
  \<open>libgreat/src/gcp.rs\<close>, \<open>gcp/class.rs\<close> and \<open>firmware.rs\<close>: the framing of the Great Communications
  Protocol. A command is a prelude of two little-endian words (class and verb) and its arguments;
  a response is at most \<open>LIBGREAT_MAX_COMMAND_SIZE\<close> bytes. Classes and verbs are registered in
  static tables. String literals of the tables end in a NUL character, which \<open>cstr\<close> appends.
\<close>

section \<open>Class and verb registry\<close>

definition cstr :: "string \<Rightarrow> string" where
  "cstr s = s @ [CHR 0x00]"

text \<open>\<open>str::as_bytes\<close> of an ASCII string.\<close>

definition as_bytes :: "string \<Rightarrow> bytes" where
  "as_bytes s = map of_char s"

datatype class_id =
    ClassCore | ClassFirmware | ClassSelftest | ClassGpio | ClassGreatdancer | ClassMoondancer
  | ClassUnsupported u32

definition class_id_from :: "u32 \<Rightarrow> class_id" where
  "class_id_from value =
     (if value = 0x0000 then ClassCore
      else if value = 0x0001 then ClassFirmware
      else if value = 0x0011 then ClassSelftest
      else if value = 0x0103 then ClassGpio
      else if value = 0x0104 then ClassGreatdancer
      else if value = 0x0120 then ClassMoondancer
      else ClassUnsupported value)"

fun into_u32 :: "class_id \<Rightarrow> u32" where
  "into_u32 ClassCore = 0x0000"
| "into_u32 ClassFirmware = 0x0001"
| "into_u32 ClassSelftest = 0x0011"
| "into_u32 ClassGpio = 0x0103"
| "into_u32 ClassGreatdancer = 0x0104"
| "into_u32 ClassMoondancer = 0x0120"
| "into_u32 (ClassUnsupported value) = value"

record verb =
  verb_id :: u32
  verb_name :: string
  verb_doc :: string
  in_signature :: string
  in_param_names :: string
  out_signature :: string
  out_param_names :: string

record gcp_class =
  class_id :: class_id
  class_name :: string
  class_docs :: string
  class_verbs :: "verb list"

type_synonym classes = "gcp_class list"

text \<open>\<open>Classes::class\<close> and \<open>Class::verb\<close>: the first entry with the given id.\<close>

definition classes_class :: "classes \<Rightarrow> class_id \<Rightarrow> gcp_class option" where
  "classes_class cs i = find (\<lambda>c. class_id c = i) cs"

definition class_verb :: "gcp_class \<Rightarrow> u32 \<Rightarrow> verb option" where
  "class_verb c i = find (\<lambda>v. verb_id v = i) (class_verbs c)"

datatype verb_descriptor =
    OutSignature | InSignature | VDoc | OutParamNames | InParamNames | VUnknown u8

definition verb_descriptor_from :: "u8 \<Rightarrow> verb_descriptor" where
  "verb_descriptor_from value =
     (if value = 0 then OutSignature
      else if value = 1 then InSignature
      else if value = 2 then VDoc
      else if value = 3 then OutParamNames
      else if value = 4 then InParamNames
      else VUnknown value)"

text \<open>\<open>libgreat::firmware::BoardInformation\<close>\<close>

record board_information =
  board_id :: bytes
  version_string :: string
  part_id :: bytes
  serial_number :: bytes

section \<open>Commands\<close>

record command_prelude =
  prelude_class :: u32
  prelude_verb :: u32

definition prelude_enc :: "command_prelude \<Rightarrow> bytes" where
  "prelude_enc p = le32 (prelude_class p) @ le32 (prelude_verb p)"

fun prelude_dec :: "bytes \<Rightarrow> command_prelude option" where
  "prelude_dec [a, b, c, d, e, f, g, h] =
     Some \<lparr>prelude_class = u32_of a b c d, prelude_verb = u32_of e f g h\<rparr>"
| "prelude_dec _ = None"

record command =
  cmd_prelude :: command_prelude
  cmd_arguments :: bytes

definition command_parse :: "bytes \<Rightarrow> command option" where
  "command_parse bs =
     (case read_prefix 8 prelude_dec bs of
        None \<Rightarrow> None
      | Some (p, arguments) \<Rightarrow> Some \<lparr>cmd_prelude = p, cmd_arguments = arguments\<rparr>)"

definition command_class_id :: "command \<Rightarrow> class_id" where
  "command_class_id c = class_id_from (prelude_class (cmd_prelude c))"

definition command_class_number :: "command \<Rightarrow> u32" where
  "command_class_number c = prelude_class (cmd_prelude c)"

definition command_verb_number :: "command \<Rightarrow> u32" where
  "command_verb_number c = prelude_verb (cmd_prelude c)"

section \<open>Responses\<close>

definition LIBGREAT_MAX_COMMAND_SIZE :: nat where
  "LIBGREAT_MAX_COMMAND_SIZE = 1024"

type_synonym great_response = bytes
type_synonym 'a great_result = "great_error + 'a"

text \<open>
  \<open>iter_to_response\<close>: the loop writes the iterator over the front of the response buffer and
  counts, as long as both have elements; the response is the counted prefix of the buffer.
\<close>

fun copy_into :: "bytes \<Rightarrow> bytes \<Rightarrow> bytes \<times> nat" where
  "copy_into (ret # response) (src # iter) =
     (let (response', n) = copy_into response iter in (src # response', Suc n))"
| "copy_into response _ = (response, 0)"

definition iter_to_response :: "bytes \<Rightarrow> bytes \<Rightarrow> great_response" where
  "iter_to_response iter response = (let (buffer, n) = copy_into response iter in take n buffer)"

definition response_buffer :: bytes where
  "response_buffer = replicate LIBGREAT_MAX_COMMAND_SIZE 0"

section \<open>Lemmas\<close>

lemma class_id_from_into [simp]:
  "class_id_from v = ClassUnsupported w \<Longrightarrow> w = v"
  by (auto simp: class_id_from_def split: if_splits)

lemma into_u32_from [simp]: "into_u32 (class_id_from v) = v"
  by (simp add: class_id_from_def)

lemma class_id_from_inject: "class_id_from v = class_id_from w \<longleftrightarrow> v = w"
  by (metis into_u32_from)

lemma class_id_from_known:
  "class_id_from 0 = ClassCore" "class_id_from 1 = ClassFirmware" "class_id_from 0x11 = ClassSelftest"
  "class_id_from 0x103 = ClassGpio" "class_id_from 0x104 = ClassGreatdancer"
  "class_id_from 0x120 = ClassMoondancer"
  by (simp_all add: class_id_from_def)

lemma prelude_dec_Some_iff: "prelude_dec bs = Some p \<longleftrightarrow> bs = prelude_enc p"
  by (cases bs rule: prelude_dec.cases) (auto simp: prelude_enc_def le32_def codec_simps)

lemma length_prelude_enc [simp]: "length (prelude_enc p) = 8"
  by (simp add: prelude_enc_def)

lemma prelude_dec_total: "length bs = 8 \<Longrightarrow> prelude_dec bs \<noteq> None"
  by (cases bs rule: prelude_dec.cases) auto

interpretation prelude: byte_codec prelude_enc prelude_dec 8
  by unfold_locales (simp_all add: prelude_dec_Some_iff prelude_dec_total)

lemma command_parse_Some_iff:
  "command_parse bs = Some c \<longleftrightarrow> bs = prelude_enc (cmd_prelude c) @ cmd_arguments c"
proof
  assume "command_parse bs = Some c"
  then show "bs = prelude_enc (cmd_prelude c) @ cmd_arguments c"
    by (auto simp: command_parse_def prelude.read_prefix_Some_iff split: option.splits)
qed (simp add: command_parse_def prelude.read_prefix_enc)

lemma command_parse_None_iff: "command_parse bs = None \<longleftrightarrow> length bs < 8"
  by (auto simp: command_parse_def prelude.read_prefix_None_iff [symmetric] split: option.splits)

lemma copy_into_eq:
  "copy_into response iter =
     (take (length response) iter @ drop (length iter) response, min (length response) (length iter))"
  by (induction response iter rule: copy_into.induct) auto

lemma iter_to_response_eq: "iter_to_response iter response = take (length response) iter"
  by (simp add: iter_to_response_def copy_into_eq min_def)

lemma length_response_buffer [simp]: "length response_buffer = 1024"
  by (simp add: response_buffer_def LIBGREAT_MAX_COMMAND_SIZE_def)

lemma length_iter_to_response: "length (iter_to_response iter response_buffer) \<le> 1024"
  by (simp add: iter_to_response_eq)

lemma class_verb_Some: "class_verb c i = Some v \<Longrightarrow> v \<in> set (class_verbs c) \<and> verb_id v = i"
  by (auto simp: class_verb_def dest: find_Some_mem)

lemma classes_class_Some: "classes_class cs i = Some c \<Longrightarrow> c \<in> set cs \<and> class_id c = i"
  by (auto simp: classes_class_def dest: find_Some_mem)

end
