(* ===== verification/ClassCore.thy ===== *)
theory ClassCore
  imports Gcp
begin

text \<open>
  \<open>libgreat/src/gcp/class_core.rs\<close>: the class \<open>core\<close>, with which a host identifies the board and
  discovers the registered classes and verbs. The contract every class implementation keeps is the
  locale \<open>gcp_dispatcher\<close>, interpreted here for \<open>core\<close>.
\<close>

section \<open>The contract of a class implementation\<close>

text \<open>
  A class is dispatched by verb number on a state. A verb the class does not list is refused with
  \<open>InvalidArgument\<close> and nothing changes; a response fits the buffer that was handed in.
\<close>

locale gcp_dispatcher =
  fixes dispatch :: "u32 \<Rightarrow> bytes \<Rightarrow> bytes \<Rightarrow> 's \<Rightarrow> (great_response great_result \<times> 's) rust"
    and verbs :: "verb list"
  assumes dispatch_unknown:
      "v \<notin> verb_id ` set verbs \<Longrightarrow> dispatch v arguments buffer s = Ret (Inl InvalidArgument, s)"
    and dispatch_fits:
      "dispatch v arguments buffer s = Ret (Inr response, s') \<Longrightarrow> length response \<le> length buffer"
begin

lemma dispatch_success_listed:
  "dispatch v arguments buffer s = Ret (Inr response, s') \<Longrightarrow> v \<in> verb_id ` set verbs"
  using dispatch_unknown by fastforce

lemma dispatch_within_limit:
  "dispatch v arguments response_buffer s = Ret (Inr response, s') \<Longrightarrow>
     length response \<le> LIBGREAT_MAX_COMMAND_SIZE"
  by (drule dispatch_fits) (simp add: LIBGREAT_MAX_COMMAND_SIZE_def)

end

text \<open>A class without state, as the locale sees it.\<close>

definition stateless ::
  "(u32 \<Rightarrow> bytes \<Rightarrow> bytes \<Rightarrow> great_response great_result) \<Rightarrow>
     u32 \<Rightarrow> bytes \<Rightarrow> bytes \<Rightarrow> 's \<Rightarrow> (great_response great_result \<times> 's) rust" where
  "stateless f v arguments buffer s = Ret (f v arguments buffer, s)"

text \<open>The common tail of every arm of a dispatch: \<open>let iter = verb(arguments)?; Ok(iter_to_response(..))\<close>\<close>

definition respond :: "bytes great_result \<Rightarrow> bytes \<Rightarrow> great_response great_result" where
  "respond r buffer = try_bind r (\<lambda>iter. Inr (iter_to_response iter buffer))"

lemma respond_Inr_iff: "respond r buffer = Inr resp \<longleftrightarrow>
    (\<exists>iter. r = Inr iter \<and> resp = take (length buffer) iter)"
  by (cases r) (auto simp: respond_def iter_to_response_eq)

lemma respond_Inl_iff: "respond r buffer = Inl e \<longleftrightarrow> r = Inl e"
  by (cases r) (auto simp: respond_def)

lemma respond_Inr [simp]: "respond (Inr iter) buffer = Inr (take (length buffer) iter)"
  by (simp add: respond_def iter_to_response_eq)

lemma respond_Inl [simp]: "respond (Inl e) buffer = Inl e"
  by (simp add: respond_def)

section \<open>The class core\<close>

definition core_VERBS :: "verb list" where
  "core_VERBS =
    [
      \<lparr>verb_id = 0x0, verb_name = cstr ''read_board_id'', verb_doc = cstr ''*'',
       in_signature = cstr ''*'', in_param_names = cstr ''*'',
       out_signature = cstr ''*'', out_param_names = cstr ''*''\<rparr>,
      \<lparr>verb_id = 0x1, verb_name = cstr ''read_version_string'', verb_doc = cstr ''*'',
       in_signature = cstr ''*'', in_param_names = cstr ''*'',
       out_signature = cstr ''*'', out_param_names = cstr ''*''\<rparr>,
      \<lparr>verb_id = 0x2, verb_name = cstr ''read_part_id'', verb_doc = cstr ''*'',
       in_signature = cstr ''*'', in_param_names = cstr ''*'',
       out_signature = cstr ''*'', out_param_names = cstr ''*''\<rparr>,
      \<lparr>verb_id = 0x3, verb_name = cstr ''read_serial_number'', verb_doc = cstr ''*'',
       in_signature = cstr ''*'', in_param_names = cstr ''*'',
       out_signature = cstr ''*'', out_param_names = cstr ''*''\<rparr>,
      \<lparr>verb_id = 0x4, verb_name = cstr ''get_available_classes'', verb_doc = cstr ''*'',
       in_signature = cstr ''*'', in_param_names = cstr ''*'',
       out_signature = cstr ''*'', out_param_names = cstr ''*''\<rparr>,
      \<lparr>verb_id = 0x5, verb_name = cstr ''get_available_verbs'', verb_doc = cstr ''*'',
       in_signature = cstr ''<I'', in_param_names = cstr ''class_number'',
       out_signature = cstr ''*'', out_param_names = cstr ''*''\<rparr>,
      \<lparr>verb_id = 0x6, verb_name = cstr ''get_verb_name'', verb_doc = cstr ''*'',
       in_signature = cstr ''<II'', in_param_names = cstr ''class_number, verb_number'',
       out_signature = cstr ''*'', out_param_names = cstr ''*''\<rparr>,
      \<lparr>verb_id = 0x7, verb_name = cstr ''get_verb_descriptor'', verb_doc = cstr ''*'',
       in_signature = cstr ''<III'', in_param_names = cstr ''class_number, verb_number, descriptor_number'',
       out_signature = cstr ''*'', out_param_names = cstr ''*''\<rparr>,
      \<lparr>verb_id = 0x8, verb_name = cstr ''get_class_name'', verb_doc = cstr ''*'',
       in_signature = cstr ''<I'', in_param_names = cstr ''class_number'',
       out_signature = cstr ''*'', out_param_names = cstr ''*''\<rparr>,
      \<lparr>verb_id = 0x9, verb_name = cstr ''get_class_docs'', verb_doc = cstr ''*'',
       in_signature = cstr ''<I'', in_param_names = cstr ''class_number'',
       out_signature = cstr ''*'', out_param_names = cstr ''*''\<rparr>]"

definition core_CLASS_DOCS :: string where
  "core_CLASS_DOCS = cstr ''Core API''"

definition core_CLASS :: gcp_class where
  "core_CLASS = \<lparr>class_id = ClassCore, class_name = ''core'', class_docs = core_CLASS_DOCS,
     class_verbs = core_VERBS\<rparr>"

record core =
  core_classes :: classes
  core_board_information :: board_information

definition core_new :: "classes \<Rightarrow> board_information \<Rightarrow> core" where
  "core_new classes board_information =
     \<lparr>core_classes = classes, core_board_information = board_information\<rparr>"

subsection \<open>Board verbs\<close>

definition read_board_id :: "core \<Rightarrow> bytes \<Rightarrow> bytes great_result" where
  "read_board_id c arguments = Inr (board_id (core_board_information c))"

definition read_version_string :: "core \<Rightarrow> bytes \<Rightarrow> bytes great_result" where
  "read_version_string c arguments = Inr (as_bytes (version_string (core_board_information c)))"

definition read_part_id :: "core \<Rightarrow> bytes \<Rightarrow> bytes great_result" where
  "read_part_id c arguments = Inr (part_id (core_board_information c))"

definition read_serial_number :: "core \<Rightarrow> bytes \<Rightarrow> bytes great_result" where
  "read_serial_number c arguments = Inr (serial_number (core_board_information c))"

subsection \<open>Introspection verbs\<close>

definition get_available_classes :: "core \<Rightarrow> bytes \<Rightarrow> bytes great_result" where
  "get_available_classes c arguments =
     Inr (concat (map (\<lambda>cl. le32 (into_u32 (class_id cl))) (core_classes c)))"

text \<open>\<open>classes.class(class_number.into()).ok_or(InvalidArgument)\<close>\<close>

definition find_class :: "core \<Rightarrow> u32 \<Rightarrow> gcp_class great_result" where
  "find_class c class_number =
     ok_or (classes_class (core_classes c) (class_id_from class_number)) InvalidArgument"

definition get_available_verbs :: "core \<Rightarrow> bytes \<Rightarrow> bytes great_result" where
  "get_available_verbs c arguments =
     try_bind (ok_or (read_from 4 dec32 arguments) InvalidArgument) (\<lambda>class_number.
     try_bind (find_class c class_number) (\<lambda>cl.
     Inr (concat (map (\<lambda>v. le32 (verb_id v)) (class_verbs cl)))))"

fun dec_class_verb :: "bytes \<Rightarrow> (u32 \<times> u32) option" where
  "dec_class_verb [a, b, c, d, e, f, g, h] = Some (u32_of a b c d, u32_of e f g h)"
| "dec_class_verb _ = None"

definition get_verb_name :: "core \<Rightarrow> bytes \<Rightarrow> bytes great_result" where
  "get_verb_name c arguments =
     try_bind (ok_or (read_from 8 dec_class_verb arguments) InvalidArgument)
       (\<lambda>(class_number, verb_number).
     try_bind (find_class c class_number) (\<lambda>cl.
     try_bind (ok_or (class_verb cl verb_number) InvalidArgument) (\<lambda>v.
     Inr (as_bytes (verb_name v)))))"

fun dec_class_verb_descriptor :: "bytes \<Rightarrow> (u32 \<times> u32 \<times> u8) option" where
  "dec_class_verb_descriptor [a, b, c, d, e, f, g, h, i] =
     Some (u32_of a b c d, u32_of e f g h, i)"
| "dec_class_verb_descriptor _ = None"

definition get_verb_descriptor :: "core \<Rightarrow> bytes \<Rightarrow> bytes great_result" where
  "get_verb_descriptor c arguments =
     try_bind (ok_or (read_from 9 dec_class_verb_descriptor arguments) InvalidArgument)
       (\<lambda>(class_number, verb_number, descriptor).
     try_bind (find_class c class_number) (\<lambda>cl.
     try_bind (ok_or (class_verb cl verb_number) InvalidArgument) (\<lambda>v.
     (case verb_descriptor_from descriptor of
        InSignature \<Rightarrow> Inr (as_bytes (in_signature v))
      | InParamNames \<Rightarrow> Inr (as_bytes (in_param_names v))
      | OutSignature \<Rightarrow> Inr (as_bytes (out_signature v))
      | OutParamNames \<Rightarrow> Inr (as_bytes (out_param_names v))
      | VDoc \<Rightarrow> Inr (as_bytes (verb_doc v))
      | VUnknown _ \<Rightarrow> Inl InvalidRequestDescriptor))))"

definition get_class_name :: "core \<Rightarrow> bytes \<Rightarrow> bytes great_result" where
  "get_class_name c arguments =
     try_bind (ok_or (read_from 4 dec32 arguments) InvalidArgument) (\<lambda>class_number.
     try_bind (find_class c class_number) (\<lambda>cl. Inr (as_bytes (class_name cl))))"

definition get_class_docs :: "core \<Rightarrow> bytes \<Rightarrow> bytes great_result" where
  "get_class_docs c arguments =
     try_bind (ok_or (read_from 4 dec32 arguments) InvalidArgument) (\<lambda>class_number.
     try_bind (find_class c class_number) (\<lambda>cl. Inr (as_bytes (class_docs cl))))"

subsection \<open>Dispatch\<close>

definition core_dispatch :: "core \<Rightarrow> u32 \<Rightarrow> bytes \<Rightarrow> bytes \<Rightarrow> great_response great_result" where
  "core_dispatch c verb_number arguments buffer =
     (if verb_number = 0x0 then respond (read_board_id c arguments) buffer
      else if verb_number = 0x1 then respond (read_version_string c arguments) buffer
      else if verb_number = 0x2 then respond (read_part_id c arguments) buffer
      else if verb_number = 0x3 then respond (read_serial_number c arguments) buffer
      else if verb_number = 0x4 then respond (get_available_classes c arguments) buffer
      else if verb_number = 0x5 then respond (get_available_verbs c arguments) buffer
      else if verb_number = 0x6 then respond (get_verb_name c arguments) buffer
      else if verb_number = 0x7 then respond (get_verb_descriptor c arguments) buffer
      else if verb_number = 0x8 then respond (get_class_name c arguments) buffer
      else if verb_number = 0x9 then respond (get_class_docs c arguments) buffer
      else Inl InvalidArgument)"

section \<open>Lemmas\<close>

lemma stateless_Ret_iff: "stateless f v args buf s = Ret (r, s') \<longleftrightarrow> r = f v args buf \<and> s' = s"
  by (auto simp: stateless_def)

lemma core_verb_ids: "map verb_id core_VERBS = [0, 1, 2, 3, 4, 5, 6, 7, 8, 9]"
  by (simp add: core_VERBS_def)

lemma core_verb_id_set: "verb_id ` set core_VERBS = {0, 1, 2, 3, 4, 5, 6, 7, 8, 9}"
  unfolding set_map [symmetric] core_verb_ids by simp

lemma core_dispatch_Inr_fits: "core_dispatch c v args buf = Inr r \<Longrightarrow> length r \<le> length buf"
  by (auto simp: core_dispatch_def respond_Inr_iff split: if_splits)

interpretation core_disp: gcp_dispatcher "stateless (core_dispatch c)" core_VERBS for c
proof
  fix v args buf and s s' :: 'b and r
  show "stateless (core_dispatch c) v args buf s = Ret (Inl InvalidArgument, s)"
    if "v \<notin> verb_id ` set core_VERBS"
    using that by (simp add: core_verb_id_set stateless_def core_dispatch_def)
  show "length r \<le> length buf" if "stateless (core_dispatch c) v args buf s = Ret (Inr r, s')"
    using that by (auto simp: stateless_Ret_iff dest!: sym [of "Inr r"] core_dispatch_Inr_fits)
qed

lemma dec_class_verb_Some_iff: "dec_class_verb bs = Some (x, y) \<longleftrightarrow> bs = le32 x @ le32 y"
  by (cases bs rule: dec_class_verb.cases) (auto simp: le32_def codec_simps)

lemma dec_class_verb_descriptor_Some_iff:
  "dec_class_verb_descriptor bs = Some (x, y, z) \<longleftrightarrow> bs = le32 x @ le32 y @ [z]"
  by (cases bs rule: dec_class_verb_descriptor.cases) (auto simp: le32_def codec_simps)

lemma read_from_class_verb [simp]: "read_from 8 dec_class_verb (le32 x @ le32 y) = Some (x, y)"
  by (simp add: read_from_def dec_class_verb_Some_iff)

lemma read_from_class_verb_descriptor [simp]:
  "read_from 9 dec_class_verb_descriptor (le32 x @ le32 y @ [z]) = Some (x, y, z)"
  by (simp add: read_from_def dec_class_verb_descriptor_Some_iff)

lemma read_from_dec32 [simp]: "read_from 4 dec32 (le32 x) = Some x"
  by (rule codec32.read_from_enc)

lemma find_class_Inr_iff:
  "find_class c n = Inr cl \<longleftrightarrow> classes_class (core_classes c) (class_id_from n) = Some cl"
  by (auto simp: find_class_def ok_or_Inr_iff)

end
