(* ===== verification/Hardware.thy ===== *)
theory Hardware
  imports Setup
begin

text \<open>
  The boundary to the gateware. The peripherals are not Rust code: they are the parameter \<open>env\<close> of
  every definition that touches a register, a deterministic device with a state of any type \<open>'h\<close>
  that answers reads, takes writes, and decides when the CPU takes an interrupt (\<open>env_irq\<close>, which is
  given the whole world because the interrupt handler runs on it). The register access methods are
  those of \<open>moondancer-pac/src/generated/generic.rs\<close>; every register of the package has reset value
  0 and no bits of special meaning to \<open>modify\<close>, which theory \<open>RegisterFacts\<close> proves of its memory map.

  The world is what the firmware shares between its threads of control: the hardware, the static
  arrays \<open>TX_ACK_ACTIVE\<close>, the speed stored in each driver instance, and \<open>irq_ext\<close>, whatever else
  the interrupt handler writes (the event queue, in theory \<open>Interrupts\<close>).
\<close>

section \<open>Registers\<close>

datatype usb_idx = Usb0 | Usb1 | Usb2

datatype usb_reg =
    Connect | FullSpeedOnly | LowSpeedOnly | SpeedReg | CtrlEvPending | CtrlEvEnable
  | CtlData | CtlReset | CtlEpno | CtlHave | CtlAddress | CtlEvPending | CtlEvEnable
  | InData | InEpno | InReset | InStall | InIdle | InHave | InPid | InNak | InEvPending | InEvEnable
  | OutData | OutDataEp | OutReset | OutEpno | OutEnable | OutPrime | OutStall | OutHave | OutPid
  | OutAddress | OutEvPending | OutEvEnable

datatype csr_reg = Mim | Mip

datatype spi_reg = PhyLen | PhyWidth | PhyMask | SpiCs | TxRdy | RxRdy | RxTx

datatype timer_reg = TimerEn | TimerReload | TimerCtr | TimerEvEnable | TimerEvPending

datatype uart_reg = UartTxData | UartTxRdy

datatype gpio_reg = Moder | Odr | Idr | GpioEvPending | GpioEvEnable

datatype reg =
    USB usb_idx usb_reg | CSR csr_reg | SPI0 spi_reg | TimerReg nat timer_reg | UartReg nat uart_reg
  | GpioReg nat gpio_reg | LEDS | ADVERTISER | VersionMajor | VersionMinor

section \<open>World and environment\<close>

record ('h, 'q) world =
  hw :: 'h
  tx_ack_active :: "usb_idx \<Rightarrow> bool list"
  device_speed :: "usb_idx \<Rightarrow> speed"
  irq_ext :: 'q

record ('h, 'q) env =
  env_read :: "reg \<Rightarrow> 'h \<Rightarrow> u32 \<times> 'h"
  env_write :: "reg \<Rightarrow> u32 \<Rightarrow> 'h \<Rightarrow> 'h"
  env_irq :: "('h, 'q) world \<Rightarrow> ('h, 'q) world rust"

section \<open>Register access\<close>

text \<open>\<open>Reg::read().bits()\<close>, \<open>BitReader::bit\<close> and \<open>FieldReader::bits\<close>.\<close>

definition reg_read :: "('h, 'q) env \<Rightarrow> reg \<Rightarrow> ('h, 'q) world \<Rightarrow> u32 \<times> ('h, 'q) world" where
  "reg_read env r w = (let (v, h) = env_read env r (hw w) in (v, w\<lparr>hw := h\<rparr>))"

definition read_bit :: "('h, 'q) env \<Rightarrow> reg \<Rightarrow> ('h, 'q) world \<Rightarrow> bool \<times> ('h, 'q) world" where
  "read_bit env r w = (let (v, w) = reg_read env r w in (v AND 1 \<noteq> 0, w))"

definition read_field ::
  "('h, 'q) env \<Rightarrow> nat \<Rightarrow> reg \<Rightarrow> ('h, 'q) world \<Rightarrow> u32 \<times> ('h, 'q) world" where
  "read_field env n r w = (let (v, w) = reg_read env r w in (v AND mask n, w))"

text \<open>\<open>FieldWriter::bits\<close> of an \<open>n\<close> bit field at offset 0; a \<open>BitWriter\<close> is the case \<open>n = 1\<close>.\<close>

definition field_bits :: "nat \<Rightarrow> u32 \<Rightarrow> u32 \<Rightarrow> u32" where
  "field_bits n value bits = (bits AND NOT (mask n)) OR (value AND mask n)"

definition reset_value :: u32 where
  "reset_value = 0"

definition reg_write ::
  "('h, 'q) env \<Rightarrow> reg \<Rightarrow> (u32 \<Rightarrow> u32) \<Rightarrow> ('h, 'q) world \<Rightarrow> ('h, 'q) world" where
  "reg_write env r f w = w\<lparr>hw := env_write env r (f reset_value) (hw w)\<rparr>"

definition reg_modify ::
  "('h, 'q) env \<Rightarrow> reg \<Rightarrow> (u32 \<Rightarrow> u32 \<Rightarrow> u32) \<Rightarrow> ('h, 'q) world \<Rightarrow> ('h, 'q) world" where
  "reg_modify env r f w =
     (let (bits, w) = reg_read env r w in w\<lparr>hw := env_write env r (f bits bits) (hw w)\<rparr>)"

definition write_bit :: "('h, 'q) env \<Rightarrow> reg \<Rightarrow> bool \<Rightarrow> ('h, 'q) world \<Rightarrow> ('h, 'q) world" where
  "write_bit env r b = reg_write env r (field_bits 1 (of_bool b))"

definition write_field ::
  "('h, 'q) env \<Rightarrow> nat \<Rightarrow> reg \<Rightarrow> u8 \<Rightarrow> ('h, 'q) world \<Rightarrow> ('h, 'q) world" where
  "write_field env n r v = reg_write env r (field_bits n (ucast v))"

definition modify_bit :: "('h, 'q) env \<Rightarrow> reg \<Rightarrow> bool \<Rightarrow> ('h, 'q) world \<Rightarrow> ('h, 'q) world" where
  "modify_bit env r b = reg_modify env r (\<lambda>_. field_bits 1 (of_bool b))"

section \<open>Lemmas\<close>

lemma reg_read_eq:
  "reg_read env r w = (fst (env_read env r (hw w)), w\<lparr>hw := snd (env_read env r (hw w))\<rparr>)"
  by (simp add: reg_read_def case_prod_beta Let_def)

lemma read_bit_eq:
  "read_bit env r w =
     (fst (env_read env r (hw w)) AND 1 \<noteq> 0, w\<lparr>hw := snd (env_read env r (hw w))\<rparr>)"
  by (simp add: read_bit_def reg_read_eq)

lemma read_field_eq:
  "read_field env n r w =
     (fst (env_read env r (hw w)) AND mask n, w\<lparr>hw := snd (env_read env r (hw w))\<rparr>)"
  by (simp add: read_field_def reg_read_eq)

text \<open>Register access touches the hardware only.\<close>

lemma reg_read_frame [frame_simps]:
  "reg_read env r w = (v, w') \<Longrightarrow>
     tx_ack_active w' = tx_ack_active w \<and> device_speed w' = device_speed w \<and> irq_ext w' = irq_ext w"
  by (auto simp: reg_read_def split: prod.splits)

lemma read_bit_frame [frame_simps]:
  "read_bit env r w = (v, w') \<Longrightarrow>
     tx_ack_active w' = tx_ack_active w \<and> device_speed w' = device_speed w \<and> irq_ext w' = irq_ext w"
  by (auto simp: read_bit_def split: prod.splits dest: reg_read_frame)

lemma reg_write_frame [simp]:
  "tx_ack_active (reg_write env r f w) = tx_ack_active w"
  "device_speed (reg_write env r f w) = device_speed w"
  "irq_ext (reg_write env r f w) = irq_ext w"
  by (simp_all add: reg_write_def)

lemma reg_modify_frame [simp]:
  "tx_ack_active (reg_modify env r f w) = tx_ack_active w"
  "device_speed (reg_modify env r f w) = device_speed w"
  "irq_ext (reg_modify env r f w) = irq_ext w"
  by (auto simp: reg_modify_def split: prod.splits dest: reg_read_frame)

lemma write_bit_frame [simp]:
  "tx_ack_active (write_bit env r b w) = tx_ack_active w"
  "device_speed (write_bit env r b w) = device_speed w"
  "irq_ext (write_bit env r b w) = irq_ext w"
  by (simp_all add: write_bit_def)

lemma write_field_frame [simp]:
  "tx_ack_active (write_field env n r v w) = tx_ack_active w"
  "device_speed (write_field env n r v w) = device_speed w"
  "irq_ext (write_field env n r v w) = irq_ext w"
  by (simp_all add: write_field_def)

lemma modify_bit_frame [simp]:
  "tx_ack_active (modify_bit env r b w) = tx_ack_active w"
  "device_speed (modify_bit env r b w) = device_speed w"
  "irq_ext (modify_bit env r b w) = irq_ext w"
  by (simp_all add: modify_bit_def)

lemma field_bits_mask: "field_bits n value bits AND mask n = value AND mask n"
  by (rule bit_word_eqI) (auto simp: field_bits_def bit_simps)

lemma field_bits_above: "field_bits n value bits AND NOT (mask n) = bits AND NOT (mask n)"
  by (rule bit_word_eqI) (auto simp: field_bits_def bit_simps)

lemma field_bits_zero: "field_bits n value 0 = value AND mask n"
  by (simp add: field_bits_def)

end
