(* ===== verification/UsbHal.thy ===== *)
theory UsbHal
  imports Hardware UsbDriver
begin

text \<open>
  \<open>lunasoc-hal/src/usb.rs\<close>: the driver that \<open>impl_usb!\<close> generates for each USB peripheral, here one
  definition per method with the peripheral \<open>i\<close> as an argument. A \<open>&self\<close> method is a function on
  the world. Interrupts can arrive while a method polls: \<open>env_irq\<close> runs before every polled read
  and after every store to \<open>TX_ACK_ACTIVE\<close>, the only points where its effect on the memory the
  method reads can be seen. The FIFO drain loops end when the hardware says so: \<open>drain\<close> is \<open>None\<close>
  where it never does. The polling loops count to \<open>DEFAULT_TIMEOUT\<close>.
\<close>

definition DEFAULT_TIMEOUT :: nat where
  "DEFAULT_TIMEOUT = 1000000"

section \<open>Interrupt events of the peripheral\<close>

text \<open>\<open>ev_pending().modify(|r, w| w.pending().bit(r.pending().bit()))\<close>\<close>

definition clear_pending :: "('h, 'q) env \<Rightarrow> reg \<Rightarrow> ('h, 'q) world \<Rightarrow> ('h, 'q) world" where
  "clear_pending env r = reg_modify env r (\<lambda>bits. field_bits 1 (bits AND 1))"

definition enable_events :: "('h, 'q) env \<Rightarrow> usb_idx \<Rightarrow> ('h, 'q) world \<Rightarrow> ('h, 'q) world" where
  "enable_events env i w =
     (let w = clear_pending env (USB i CtrlEvPending) w;
          w = clear_pending env (USB i CtlEvPending) w;
          w = clear_pending env (USB i InEvPending) w;
          w = clear_pending env (USB i OutEvPending) w;
          w = write_bit env (USB i CtrlEvEnable) True w;
          w = write_bit env (USB i CtlEvEnable) True w;
          w = write_bit env (USB i InEvEnable) True w
      in write_bit env (USB i OutEvEnable) True w)"

definition disable_events :: "('h, 'q) env \<Rightarrow> usb_idx \<Rightarrow> ('h, 'q) world \<Rightarrow> ('h, 'q) world" where
  "disable_events env i w =
     (let w = clear_pending env (USB i CtrlEvPending) w;
          w = clear_pending env (USB i CtlEvPending) w;
          w = clear_pending env (USB i InEvPending) w;
          w = clear_pending env (USB i OutEvPending) w;
          w = write_bit env (USB i CtrlEvEnable) False w;
          w = write_bit env (USB i CtlEvEnable) False w;
          w = write_bit env (USB i InEvEnable) False w
      in write_bit env (USB i OutEvEnable) False w)"

definition ep_control_address ::
  "('h, 'q) env \<Rightarrow> usb_idx \<Rightarrow> ('h, 'q) world \<Rightarrow> u8 \<times> ('h, 'q) world" where
  "ep_control_address env i w =
     (let (v, w) = read_field env 8 (USB i CtlAddress) w in (ucast v, w))"

section \<open>The acknowledge flags\<close>

definition set_tx_ack_active :: "usb_idx \<Rightarrow> u8 \<Rightarrow> ('h, 'q) world \<Rightarrow> ('h, 'q) world rust" where
  "set_tx_ack_active i ep w =
     (let flags = tx_ack_active w i in
      if unat ep < length flags
      then Ret (w\<lparr>tx_ack_active := (tx_ack_active w)(i := flags[unat ep := True])\<rparr>)
      else Panic)"

definition clear_tx_ack_active :: "usb_idx \<Rightarrow> u8 \<Rightarrow> ('h, 'q) world \<Rightarrow> ('h, 'q) world rust" where
  "clear_tx_ack_active i ep w =
     (let flags = tx_ack_active w i in
      if unat ep < length flags
      then Ret (w\<lparr>tx_ack_active := (tx_ack_active w)(i := flags[unat ep := False])\<rparr>)
      else Panic)"

definition is_tx_ack_active :: "usb_idx \<Rightarrow> u8 \<Rightarrow> ('h, 'q) world \<Rightarrow> bool rust" where
  "is_tx_ack_active i ep w =
     (let flags = tx_ack_active w i in
      if unat ep < length flags then Ret (flags ! unat ep) else Panic)"

section \<open>Connection, address and stalls\<close>

definition set_address :: "('h, 'q) env \<Rightarrow> usb_idx \<Rightarrow> u8 \<Rightarrow> ('h, 'q) world \<Rightarrow> ('h, 'q) world" where
  "set_address env i address w =
     (let w = write_field env 8 (USB i OutAddress) (address AND 0x7f) w
      in write_field env 8 (USB i CtlAddress) (address AND 0x7f) w)"

text \<open>\<open>for endpoint_number in 0..EP_MAX_ENDPOINTS\<close>: select and un-prime every OUT endpoint.\<close>

fun unprime_all :: "('h, 'q) env \<Rightarrow> usb_idx \<Rightarrow> u8 list \<Rightarrow> ('h, 'q) world \<Rightarrow> ('h, 'q) world" where
  "unprime_all env i [] w = w"
| "unprime_all env i (ep # eps) w =
     unprime_all env i eps
       (write_bit env (USB i OutPrime) False (write_field env 4 (USB i OutEpno) ep w))"

definition endpoint_numbers :: "u8 list" where
  "endpoint_numbers = map of_nat [0..<EP_MAX_ENDPOINTS]"

definition reset_fifos :: "('h, 'q) env \<Rightarrow> usb_idx \<Rightarrow> ('h, 'q) world \<Rightarrow> ('h, 'q) world" where
  "reset_fifos env i w =
     (let w = write_bit env (USB i CtlReset) True w;
          w = write_bit env (USB i InReset) True w
      in write_bit env (USB i OutReset) True w)"

definition set_speed :: "usb_idx \<Rightarrow> speed \<Rightarrow> ('h, 'q) world \<Rightarrow> ('h, 'q) world" where
  "set_speed i s w = w\<lparr>device_speed := (device_speed w)(i := s)\<rparr>"

definition hal_connect ::
  "('h, 'q) env \<Rightarrow> usb_idx \<Rightarrow> speed \<Rightarrow> ('h, 'q) world \<Rightarrow> ('h, 'q) world" where
  "hal_connect env i s w =
     (let w = set_speed i s w;
          w = (case s of
                 SpeedHigh \<Rightarrow> modify_bit env (USB i LowSpeedOnly) False
                                (modify_bit env (USB i FullSpeedOnly) False w)
               | SpeedFull \<Rightarrow> modify_bit env (USB i LowSpeedOnly) False
                                (modify_bit env (USB i FullSpeedOnly) True w)
               | SpeedLow \<Rightarrow> modify_bit env (USB i LowSpeedOnly) True
                                (modify_bit env (USB i FullSpeedOnly) False w)
               | _ \<Rightarrow> set_speed i SpeedHigh w);
          w = write_bit env (USB i Connect) False w;
          w = disable_events env i w;
          w = unprime_all env i endpoint_numbers w;
          w = write_bit env (USB i OutEnable) False w;
          w = reset_fifos env i w
      in write_bit env (USB i Connect) True w)"

definition hal_disconnect ::
  "('h, 'q) env \<Rightarrow> usb_idx \<Rightarrow> ('h, 'q) world \<Rightarrow> ('h, 'q) world" where
  "hal_disconnect env i w =
     (let w = write_bit env (USB i FullSpeedOnly) False w;
          w = write_bit env (USB i LowSpeedOnly) False w;
          w = set_speed i SpeedUnknown w;
          w = disable_events env i w;
          w = set_address env i 0 w;
          w = write_bit env (USB i Connect) False w;
          w = unprime_all env i endpoint_numbers w;
          w = write_bit env (USB i OutEnable) False w
      in reset_fifos env i w)"

text \<open>
  \<open>for endpoint in 0..EP_MAX_ENDPOINTS { clear_tx_ack_active(endpoint) }\<close>; the indices are in range
  of the array, so the loop cannot panic and the flags of the peripheral are all false after it.
\<close>

fun clear_acks :: "usb_idx \<Rightarrow> u8 list \<Rightarrow> ('h, 'q) world \<Rightarrow> ('h, 'q) world rust" where
  "clear_acks i [] w = Ret w"
| "clear_acks i (ep # eps) w = rbind (clear_tx_ack_active i ep w) (clear_acks i eps)"

definition hal_bus_reset ::
  "('h, 'q) env \<Rightarrow> usb_idx \<Rightarrow> ('h, 'q) world \<Rightarrow> ('h, 'q) world rust" where
  "hal_bus_reset env i w =
     (let w = disable_events env i w;
          w = set_address env i 0 w;
          w = reset_fifos env i w
      in rbind (clear_acks i endpoint_numbers w) (\<lambda>w. Ret (enable_events env i w)))"

definition stall_endpoint_in ::
  "('h, 'q) env \<Rightarrow> usb_idx \<Rightarrow> u8 \<Rightarrow> ('h, 'q) world \<Rightarrow> ('h, 'q) world" where
  "stall_endpoint_in env i ep w =
     (let w = write_bit env (USB i InReset) True w;
          w = write_bit env (USB i InStall) True w
      in write_field env 4 (USB i InEpno) ep w)"

definition stall_endpoint_out ::
  "('h, 'q) env \<Rightarrow> usb_idx \<Rightarrow> u8 \<Rightarrow> ('h, 'q) world \<Rightarrow> ('h, 'q) world" where
  "stall_endpoint_out env i ep w =
     (let w = write_bit env (USB i OutReset) True w;
          w = write_field env 4 (USB i OutEpno) ep w
      in write_bit env (USB i OutStall) True w)"

definition clear_feature_endpoint_halt ::
  "('h, 'q) env \<Rightarrow> usb_idx \<Rightarrow> u8 \<Rightarrow> direction \<Rightarrow> ('h, 'q) world \<Rightarrow> ('h, 'q) world" where
  "clear_feature_endpoint_halt env i ep d w =
     (case d of
        HostToDevice \<Rightarrow>
          write_bit env (USB i OutPid) False (write_field env 4 (USB i OutEpno) ep w)
      | DeviceToHost \<Rightarrow>
          write_bit env (USB i InPid) False (write_field env 4 (USB i InEpno) ep w))"

section \<open>Reading\<close>

partial_function (option) read_control_loop ::
  "('h, 'q) env \<Rightarrow> usb_idx \<Rightarrow> bytes \<Rightarrow> nat \<Rightarrow> nat \<Rightarrow> ('h, 'q) world \<Rightarrow>
     (nat \<times> nat \<times> bytes \<times> ('h, 'q) world) option" where
  "read_control_loop env i buffer bytes_read overflow w =
     (let (have, w) = read_bit env (USB i CtlHave) w in
      if \<not> have then Some (bytes_read, overflow, buffer, w)
      else
        let (data, w) = read_field env 8 (USB i CtlData) w in
        if bytes_read \<ge> length buffer
        then read_control_loop env i buffer bytes_read (Suc overflow) w
        else read_control_loop env i (buffer[bytes_read := ucast data]) (Suc bytes_read) overflow w)"

definition read_control ::
  "('h, 'q) env \<Rightarrow> usb_idx \<Rightarrow> bytes \<Rightarrow> ('h, 'q) world \<Rightarrow> (nat \<times> bytes \<times> ('h, 'q) world) rust" where
  "read_control env i buffer w =
     rbind (of_option (read_control_loop env i buffer 0 0 w)) (\<lambda>(bytes_read, overflow, buffer, w).
     Ret (bytes_read + overflow, buffer, w))"

definition ep_out_prime_receive ::
  "('h, 'q) env \<Rightarrow> usb_idx \<Rightarrow> u8 \<Rightarrow> ('h, 'q) world \<Rightarrow> ('h, 'q) world" where
  "ep_out_prime_receive env i ep w =
     (let (have, w) = read_bit env (USB i OutHave) w;
          w = (if have then write_bit env (USB i OutReset) True w else w);
          w = write_field env 4 (USB i OutEpno) ep w;
          w = write_bit env (USB i OutPrime) True w
      in write_bit env (USB i OutEnable) True w)"

text \<open>The loop over the buffer: new buffer, bytes read, and whether the buffer was filled.\<close>

fun read_loop ::
  "('h, 'q) env \<Rightarrow> usb_idx \<Rightarrow> bytes \<Rightarrow> ('h, 'q) world \<Rightarrow> bytes \<times> nat \<times> bool \<times> ('h, 'q) world" where
  "read_loop env i [] w = ([], 0, True, w)"
| "read_loop env i (b # buffer) w =
     (let (have, w) = read_bit env (USB i OutHave) w in
      if have then
        let (data, w) = read_field env 8 (USB i OutData) w;
            (buffer, bytes_read, did_overflow, w) = read_loop env i buffer w
        in (ucast data # buffer, Suc bytes_read, did_overflow, w)
      else (b # buffer, 0, False, w))"

partial_function (option) drain ::
  "('h, 'q) env \<Rightarrow> usb_idx \<Rightarrow> nat \<Rightarrow> ('h, 'q) world \<Rightarrow> (nat \<times> ('h, 'q) world) option" where
  "drain env i overflow w =
     (let (have, w) = read_bit env (USB i OutHave) w in
      if \<not> have then Some (overflow, w)
      else
        let (data, w) = read_field env 8 (USB i OutData) w in
        drain env i (Suc overflow) w)"

definition hal_read ::
  "('h, 'q) env \<Rightarrow> usb_idx \<Rightarrow> u8 \<Rightarrow> bytes \<Rightarrow> ('h, 'q) world \<Rightarrow>
     (nat \<times> bytes \<times> ('h, 'q) world) rust" where
  "hal_read env i endpoint_number buffer w =
     (let (buffer, bytes_read, did_overflow, w) = read_loop env i buffer w in
      rbind (if did_overflow then of_option (drain env i 0 w) else Ret (0, w)) (\<lambda>(overflow, w).
      Ret (bytes_read + overflow, buffer, w)))"

section \<open>Writing\<close>

text \<open>Wait for the IN FIFO to empty: \<open>False\<close> when it timed out and was reset.\<close>

function wait_fifo_empty ::
  "('h, 'q) env \<Rightarrow> usb_idx \<Rightarrow> u8 \<Rightarrow> nat \<Rightarrow> ('h, 'q) world \<Rightarrow> (bool \<times> ('h, 'q) world) rust" where
  "wait_fifo_empty env i ep timeout w =
     rbind (env_irq env w) (\<lambda>w.
     let (have, w) = read_bit env (USB i InHave) w in
     if \<not> have then Ret (True, w)
     else if timeout > 0 \<and> timeout > DEFAULT_TIMEOUT then
       rbind (clear_tx_ack_active i ep (write_bit env (USB i InReset) True w)) (\<lambda>w.
       Ret (False, w))
     else wait_fifo_empty env i ep (timeout + 1) w)"
  by pat_completeness auto
termination
  by (relation "measure (\<lambda>(env, i, ep, timeout, w). Suc DEFAULT_TIMEOUT - timeout)") auto

text \<open>Wait for the acknowledge of a packet: \<open>False\<close> when it timed out.\<close>

function wait_tx_ack ::
  "('h, 'q) env \<Rightarrow> usb_idx \<Rightarrow> u8 \<Rightarrow> nat \<Rightarrow> ('h, 'q) world \<Rightarrow> (bool \<times> ('h, 'q) world) rust" where
  "wait_tx_ack env i ep timeout w =
     rbind (env_irq env w) (\<lambda>w.
     rbind (is_tx_ack_active i ep w) (\<lambda>active.
     if \<not> active then Ret (True, w)
     else if timeout + 1 > DEFAULT_TIMEOUT then
       rbind (clear_tx_ack_active i ep w) (\<lambda>w. Ret (False, w))
     else wait_tx_ack env i ep (timeout + 1) w))"
  by pat_completeness auto
termination
  by (relation "measure (\<lambda>(env, i, ep, timeout, w). DEFAULT_TIMEOUT - timeout)") auto

declare wait_fifo_empty.simps [simp del] wait_tx_ack.simps [simp del]

text \<open>Set the flag, take any interrupt that arrives, and prime the IN endpoint.\<close>

definition prime_in ::
  "('h, 'q) env \<Rightarrow> usb_idx \<Rightarrow> u8 \<Rightarrow> ('h, 'q) world \<Rightarrow> ('h, 'q) world rust" where
  "prime_in env i ep w =
     rbind (set_tx_ack_active i ep w) (\<lambda>w.
     rbind (env_irq env w) (\<lambda>w.
     Ret (write_field env 4 (USB i InEpno) ep w)))"

text \<open>
  The byte loop, with the count so far. \<open>False\<close> stands for the early return after a timeout.
\<close>

fun send_loop ::
  "('h, 'q) env \<Rightarrow> usb_idx \<Rightarrow> u8 \<Rightarrow> nat \<Rightarrow> bytes \<Rightarrow> nat \<Rightarrow> ('h, 'q) world \<Rightarrow>
     (bool \<times> nat \<times> ('h, 'q) world) rust" where
  "send_loop env i ep packet_size [] bytes_written w = Ret (True, bytes_written, w)"
| "send_loop env i ep packet_size (byte # iter) bytes_written w =
     (let w = write_field env 8 (USB i InData) byte w;
          bytes_written = bytes_written + 1
      in
      if packet_size = 0 then Panic
      else if bytes_written mod packet_size = 0 then
        rbind (prime_in env i ep w) (\<lambda>w.
        rbind (wait_tx_ack env i ep 0 w) (\<lambda>(acked, w).
        if acked then send_loop env i ep packet_size iter bytes_written w
        else Ret (False, bytes_written, w)))
      else send_loop env i ep packet_size iter bytes_written w)"

definition write_with_packet_size ::
  "('h, 'q) env \<Rightarrow> usb_idx \<Rightarrow> u8 \<Rightarrow> nat option \<Rightarrow> bytes \<Rightarrow> nat \<Rightarrow> ('h, 'q) world \<Rightarrow>
     (nat \<times> ('h, 'q) world) rust" where
  "write_with_packet_size env i ep requested_length iter packet_size w =
     rbind (set_tx_ack_active i ep w) (\<lambda>w.
     rbind (wait_fifo_empty env i ep 0 w) (\<lambda>(empty, w).
     if \<not> empty then Ret (0, w)
     else
       rbind (send_loop env i ep packet_size iter 0 w) (\<lambda>(completed, bytes_written, w).
       if \<not> completed then Ret (bytes_written, w)
       else if packet_size = 0 then Panic
       else
         let is_partial_packet = (bytes_written mod packet_size \<noteq> 0);
             is_requested_length = (case requested_length of
                 Some len \<Rightarrow> bytes_written = len | None \<Rightarrow> False);
             is_zlp = (bytes_written = 0)
         in
         if \<not> is_partial_packet \<and> is_requested_length \<and> \<not> is_zlp
         then Ret (bytes_written, w)
         else rbind (prime_in env i ep w) (\<lambda>w. Ret (bytes_written, w)))))"

definition hal_write ::
  "('h, 'q) env \<Rightarrow> usb_idx \<Rightarrow> u8 \<Rightarrow> bytes \<Rightarrow> ('h, 'q) world \<Rightarrow> (nat \<times> ('h, 'q) world) rust" where
  "hal_write env i ep iter w =
     write_with_packet_size env i ep None iter (max_packet_size (device_speed w i) ep) w"

definition write_requested ::
  "('h, 'q) env \<Rightarrow> usb_idx \<Rightarrow> u8 \<Rightarrow> nat \<Rightarrow> bytes \<Rightarrow> ('h, 'q) world \<Rightarrow>
     (nat \<times> ('h, 'q) world) rust" where
  "write_requested env i ep requested_length iter w =
     write_with_packet_size env i ep (Some requested_length) iter
       (max_packet_size (device_speed w i) ep) w"

definition hal_ack ::
  "('h, 'q) env \<Rightarrow> usb_idx \<Rightarrow> u8 \<Rightarrow> direction \<Rightarrow> ('h, 'q) world \<Rightarrow> ('h, 'q) world rust" where
  "hal_ack env i ep d w =
     (case d of
        DeviceToHost \<Rightarrow> Ret (ep_out_prime_receive env i ep w)
      | HostToDevice \<Rightarrow> rbind (hal_write env i ep [] w) (\<lambda>(_, w). Ret w))"

text \<open>The methods as the driver that the USB stack is instantiated with.\<close>

definition hal_driver :: "('h, 'q) env \<Rightarrow> usb_idx \<Rightarrow> ('h, 'q) world usb_driver" where
  "hal_driver env i =
     \<lparr>drv_connect = hal_connect env i,
      drv_disconnect = hal_disconnect env i,
      drv_bus_reset = hal_bus_reset env i,
      drv_ack = hal_ack env i,
      drv_set_address = set_address env i,
      drv_stall_endpoint_in = stall_endpoint_in env i,
      drv_stall_endpoint_out = stall_endpoint_out env i,
      drv_clear_feature_endpoint_halt = clear_feature_endpoint_halt env i,
      drv_read_control = read_control env i,
      drv_ep_out_prime_receive = ep_out_prime_receive env i,
      drv_read = hal_read env i,
      drv_write = hal_write env i,
      drv_write_requested = write_requested env i,
      drv_write_with_packet_size = write_with_packet_size env i\<rparr>"

end
