(* ===== verification/UsbHalFacts.thy ===== *)
theory UsbHalFacts
  imports UsbHal
begin

text \<open>
  What the driver guarantees for every hardware: methods return, counts are bounded, buffers keep
  their length, and only the memory a method is meant to write changes. The assumption about the
  environment is \<open>irq_returns\<close>: the interrupt handler comes back and leaves the arrays at their size.
\<close>

section \<open>Shape of the shared memory\<close>

definition acks_ok :: "('h, 'q) world \<Rightarrow> bool" where
  "acks_ok w \<longleftrightarrow> (\<forall>i. length (tx_ack_active w i) = EP_MAX_ENDPOINTS)"

definition irq_returns :: "('h, 'q) env \<Rightarrow> bool" where
  "irq_returns env \<longleftrightarrow>
     (\<forall>w. acks_ok w \<longrightarrow>
        (\<exists>w'. env_irq env w = Ret w' \<and> acks_ok w' \<and> device_speed w' = device_speed w))"

lemma irq_returnsE:
  assumes "irq_returns env" and "acks_ok w"
  obtains w' where "env_irq env w = Ret w'" "acks_ok w'" "device_speed w' = device_speed w"
  using assms by (auto simp: irq_returns_def)

lemma acks_ok_reg [simp]:
  "acks_ok (reg_write env r f w) = acks_ok w"
  "acks_ok (reg_modify env r g w) = acks_ok w"
  "acks_ok (write_bit env r b w) = acks_ok w"
  "acks_ok (write_field env n r v w) = acks_ok w"
  "acks_ok (modify_bit env r b w) = acks_ok w"
  by (simp_all add: acks_ok_def)

lemma acks_ok_read: "reg_read env r w = (v, w') \<Longrightarrow> acks_ok w' = acks_ok w"
  by (auto simp: acks_ok_def dest: reg_read_frame)

lemma acks_ok_read_bit: "read_bit env r w = (b, w') \<Longrightarrow> acks_ok w' = acks_ok w"
  by (auto simp: acks_ok_def dest: read_bit_frame)

lemma set_tx_ack_active_Ret:
  "acks_ok w \<Longrightarrow> unat ep < 16 \<Longrightarrow>
     \<exists>w'. set_tx_ack_active i ep w = Ret w' \<and> acks_ok w' \<and> device_speed w' = device_speed w"
  by (auto simp: set_tx_ack_active_def acks_ok_def EP_MAX_ENDPOINTS_def Let_def)

lemma clear_tx_ack_active_Ret:
  "acks_ok w \<Longrightarrow> unat ep < 16 \<Longrightarrow>
     \<exists>w'. clear_tx_ack_active i ep w = Ret w' \<and> acks_ok w' \<and> device_speed w' = device_speed w"
  by (auto simp: clear_tx_ack_active_def acks_ok_def EP_MAX_ENDPOINTS_def Let_def)

lemma is_tx_ack_active_Ret:
  "acks_ok w \<Longrightarrow> unat ep < 16 \<Longrightarrow> is_tx_ack_active i ep w = Ret (tx_ack_active w i ! unat ep)"
  by (auto simp: is_tx_ack_active_def acks_ok_def EP_MAX_ENDPOINTS_def Let_def)

lemma set_tx_ack_active_Panic:
  "acks_ok w \<Longrightarrow> 16 \<le> unat ep \<Longrightarrow> set_tx_ack_active i ep w = Panic"
  by (auto simp: set_tx_ack_active_def acks_ok_def EP_MAX_ENDPOINTS_def Let_def)

section \<open>Polling ends\<close>

lemma wait_fifo_empty_Ret:
  assumes "irq_returns env" and "unat ep < 16" and "acks_ok w"
  shows "\<exists>b w'. wait_fifo_empty env i ep t w = Ret (b, w') \<and> acks_ok w' \<and>
           device_speed w' = device_speed w"
  using assms(3)
proof (induction env\<equiv>env i ep\<equiv>ep t w rule: wait_fifo_empty.induct)
  case (1 i t w)
  obtain w1 where w1: "env_irq env w = Ret w1" "acks_ok w1" "device_speed w1 = device_speed w"
    using assms(1) 1(2) by (rule irq_returnsE)
  obtain have' w2 where r: "read_bit env (USB i InHave) w1 = (have', w2)" by fastforce
  then have w2: "acks_ok w2" "device_speed w2 = device_speed w"
    using w1 by (auto simp: acks_ok_read_bit dest: read_bit_frame)
  show ?case
  proof (cases "have' \<and> \<not> (t > 0 \<and> t > DEFAULT_TIMEOUT)")
    case True
    then have "\<exists>b w'. wait_fifo_empty env i ep (t + 1) w2 = Ret (b, w') \<and> acks_ok w' \<and>
        device_speed w' = device_speed w2"
      by (intro 1(1) [OF r [symmetric]] w2) auto
    with True show ?thesis
      by (subst wait_fifo_empty.simps) (auto simp: w1 r w2)
  next
    case False
    obtain w3 where "clear_tx_ack_active i ep (write_bit env (USB i InReset) True w2) = Ret w3"
        "acks_ok w3" "device_speed w3 = device_speed w"
      using clear_tx_ack_active_Ret [of "write_bit env (USB i InReset) True w2" ep i] w2 assms(2)
      by auto
    with False show ?thesis
      by (subst wait_fifo_empty.simps) (auto simp: w1 r w2)
  qed
qed

lemma wait_tx_ack_Ret:
  assumes "irq_returns env" and "unat ep < 16" and "acks_ok w"
  shows "\<exists>b w'. wait_tx_ack env i ep t w = Ret (b, w') \<and> acks_ok w' \<and>
           device_speed w' = device_speed w"
  using assms(3)
proof (induction env\<equiv>env i ep\<equiv>ep t w rule: wait_tx_ack.induct)
  case (1 i t w)
  obtain w1 where w1: "env_irq env w = Ret w1" "acks_ok w1" "device_speed w1 = device_speed w"
    using assms(1) 1(2) by (rule irq_returnsE)
  note a = is_tx_ack_active_Ret [OF w1(2) assms(2), of i]
  show ?case
  proof (cases "tx_ack_active w1 i ! unat ep \<and> \<not> t + 1 > DEFAULT_TIMEOUT")
    case True
    then have "\<exists>b w'. wait_tx_ack env i ep (t + 1) w1 = Ret (b, w') \<and> acks_ok w' \<and>
        device_speed w' = device_speed w1"
      by (intro 1(1) w1) auto
    with True show ?thesis
      by (subst wait_tx_ack.simps) (auto simp: w1 a)
  next
    case False
    obtain w3 where "clear_tx_ack_active i ep w1 = Ret w3" "acks_ok w3"
        "device_speed w3 = device_speed w"
      using clear_tx_ack_active_Ret [OF w1(2) assms(2), of i] w1 by auto
    with False show ?thesis
      by (subst wait_tx_ack.simps) (auto simp: w1 a)
  qed
qed

lemma prime_in_Ret:
  assumes "irq_returns env" and "unat ep < 16" and "acks_ok w"
  shows "\<exists>w'. prime_in env i ep w = Ret w' \<and> acks_ok w' \<and> device_speed w' = device_speed w"
proof -
  obtain w1 where w1: "set_tx_ack_active i ep w = Ret w1" "acks_ok w1"
      "device_speed w1 = device_speed w"
    using set_tx_ack_active_Ret [OF assms(3,2)] by blast
  obtain w2 where "env_irq env w1 = Ret w2" "acks_ok w2" "device_speed w2 = device_speed w1"
    using assms(1) w1(2) by (rule irq_returnsE)
  with w1 show ?thesis by (auto simp: prime_in_def)
qed

lemma send_loop_Ret:
  assumes "irq_returns env" and "unat ep < 16" and "0 < ps" and "acks_ok w"
  shows "\<exists>b n w'. send_loop env i ep ps bs k w = Ret (b, n, w') \<and> acks_ok w' \<and>
           device_speed w' = device_speed w \<and> k \<le> n \<and> n \<le> k + length bs \<and>
           (b \<longrightarrow> n = k + length bs)"
  using assms(4)
proof (induction bs arbitrary: k w)
  case Nil
  then show ?case by auto
next
  case (Cons x bs)
  define w1 where "w1 = write_field env 8 (USB i InData) x w"
  have ok1: "acks_ok w1" "device_speed w1 = device_speed w"
    using Cons.prems by (simp_all add: w1_def)
  show ?case
  proof (cases "(k + 1) mod ps = 0")
    case False
    then show ?thesis using Cons.IH [OF ok1(1), of "k + 1"] assms(3) ok1
      by (fastforce simp: w1_def)
  next
    case True
    obtain w2 where w2: "prime_in env i ep w1 = Ret w2" "acks_ok w2"
        "device_speed w2 = device_speed w1"
      using prime_in_Ret [OF assms(1,2) ok1(1)] by blast
    obtain b w3 where w3: "wait_tx_ack env i ep 0 w2 = Ret (b, w3)" "acks_ok w3"
        "device_speed w3 = device_speed w2"
      using wait_tx_ack_Ret [OF assms(1,2) w2(2)] by blast
    show ?thesis using True assms(3) Cons.IH [OF w3(2), of "k + 1"] ok1 w2 w3
      by (cases b) (fastforce simp: w1_def)+
  qed
qed

lemma write_with_packet_size_Ret:
  assumes "irq_returns env" and "unat ep < 16" and "0 < ps" and "acks_ok w"
  shows "\<exists>n w'. write_with_packet_size env i ep req bs ps w = Ret (n, w') \<and> acks_ok w' \<and>
           device_speed w' = device_speed w \<and> n \<le> length bs"
proof -
  obtain w1 where w1: "set_tx_ack_active i ep w = Ret w1" "acks_ok w1"
      "device_speed w1 = device_speed w"
    using set_tx_ack_active_Ret [OF assms(4,2)] by blast
  obtain e w2 where w2: "wait_fifo_empty env i ep 0 w1 = Ret (e, w2)" "acks_ok w2"
      "device_speed w2 = device_speed w1"
    using wait_fifo_empty_Ret [OF assms(1,2) w1(2)] by blast
  obtain b n w3 where w3: "send_loop env i ep ps bs 0 w2 = Ret (b, n, w3)" "acks_ok w3"
      "device_speed w3 = device_speed w2" "n \<le> length bs"
    using send_loop_Ret [OF assms(1,2,3) w2(2), of i bs 0] by auto
  obtain w4 where "prime_in env i ep w3 = Ret w4" "acks_ok w4" "device_speed w4 = device_speed w3"
    using prime_in_Ret [OF assms(1,2) w3(2)] by blast
  with w1 w2 w3 assms(3) show ?thesis
    by (auto simp: write_with_packet_size_def Let_def)
qed

lemma write_with_packet_size_Panic:
  "acks_ok w \<Longrightarrow> 16 \<le> unat ep \<Longrightarrow> write_with_packet_size env i ep req bs ps w = Panic"
  by (simp add: write_with_packet_size_def set_tx_ack_active_Panic)

text \<open>Counts are bounded by the data whatever the hardware and the interrupts do.\<close>

lemma send_loop_count:
  "send_loop env i ep ps bs k w = Ret (b, n, w') \<Longrightarrow>
     k \<le> n \<and> n \<le> k + length bs \<and> (b \<longrightarrow> n = k + length bs)"
proof (induction bs arbitrary: k w)
  case (Cons byte bs)
  let ?w = "write_field env 8 (USB i InData) byte w"
  show ?case
  proof (cases "Suc k mod ps = 0")
    case True
    with Cons.prems consider w2 where "send_loop env i ep ps bs (Suc k) w2 = Ret (b, n, w')"
      | "\<not> b" "n = Suc k"
      by (auto simp: rust_simps Let_def split: if_splits)
    then show ?thesis using Cons.IH by cases fastforce+
  next
    case False
    with Cons.prems have "send_loop env i ep ps bs (Suc k) ?w = Ret (b, n, w')"
      by (auto simp: Let_def mod_eq_0_iff_dvd split: if_splits)
    then show ?thesis using Cons.IH [of "Suc k" ?w] by auto
  qed
qed simp

lemma write_with_packet_size_count:
  "write_with_packet_size env i ep req bs ps w = Ret (n, w') \<Longrightarrow> n \<le> length bs"
  by (auto simp: write_with_packet_size_def rust_simps Let_def split: if_splits prod.splits
      dest!: send_loop_count)

section \<open>Reading keeps the buffer's shape\<close>

lemma read_loop_buffer:
  "read_loop env i buffer w = (buffer', n, full, w') \<Longrightarrow>
     length buffer' = length buffer \<and> n \<le> length buffer \<and> drop n buffer' = drop n buffer \<and>
     (full \<longrightarrow> n = length buffer)"
  by (induction env i buffer w arbitrary: buffer' n full w' rule: read_loop.induct)
    (auto simp: Let_def split: prod.splits if_splits)

lemma hal_read_buffer:
  assumes "hal_read env i ep buffer w = Ret (n, buffer', w')"
  shows "length buffer' = length buffer \<and> drop n buffer' = drop n buffer"
proof -
  obtain k ov full w1 where r: "read_loop env i buffer w = (buffer', k, full, w1)"
    and n: "n = k + ov" and "\<not> full \<Longrightarrow> ov = 0"
    using assms by (auto simp: hal_read_def rust_simps split: prod.splits if_splits)
  then show ?thesis using read_loop_buffer [OF r] by (cases full) auto
qed

lemma read_control_loop_buffer:
  assumes "read_control_loop env i buffer k ov w = Some r" and "k \<le> length buffer"
  shows "length (fst (snd (snd r))) = length buffer \<and> k \<le> fst r \<and> fst r \<le> length buffer \<and>
    drop (fst r) (fst (snd (snd r))) = drop (fst r) buffer"
proof (rule read_control_loop.raw_induct [where P = "\<lambda>env i buffer k ov w r. k \<le> length buffer \<longrightarrow>
    length (fst (snd (snd r))) = length buffer \<and> k \<le> fst r \<and> fst r \<le> length buffer \<and>
    drop (fst r) (fst (snd (snd r))) = drop (fst r) buffer", OF _ assms(1), THEN mp, OF _ assms(2)])
  fix loop env i buffer k ov w r
  let ?P = "\<lambda>buffer k r. length (fst (snd (snd r))) = length buffer \<and> k \<le> fst r \<and>
    fst r \<le> length buffer \<and> drop (fst r) (fst (snd (snd r))) = drop (fst r) buffer"
  assume IH: "\<And>env i buffer k ov w r. loop env i buffer k ov w = Some r \<Longrightarrow>
      k \<le> length buffer \<longrightarrow> ?P buffer k r"
    and eq: "(let (have, w) = read_bit env (USB i CtlHave) w in
      if \<not> have then Some (k, ov, buffer, w)
      else let (data, w) = read_field env 8 (USB i CtlData) w in
        if k \<ge> length buffer then loop env i buffer k (Suc ov) w
        else loop env i (buffer[k := ucast data]) (Suc k) ov w) = Some r"
  show "k \<le> length buffer \<longrightarrow> ?P buffer k r"
  proof
    assume k: "k \<le> length buffer"
    obtain "have" w1 where h: "read_bit env (USB i CtlHave) w = (have, w1)" by fastforce
    obtain data w2 where d: "read_field env 8 (USB i CtlData) w1 = (data, w2)" by fastforce
    consider "\<not> have" | "have" "length buffer \<le> k" | "have" "k < length buffer" by linarith
    then show "?P buffer k r"
    proof cases
      case 1
      with eq h have "Some (k, ov, buffer, w1) = Some r" by simp
      then have "r = (k, ov, buffer, w1)" by simp
      with k show ?thesis by simp
    next
      case 2
      with eq h d have "loop env i buffer k (Suc ov) w2 = Some r" by simp
      with IH k show ?thesis by blast
    next
      case 3
      with eq h d have "loop env i (buffer[k := ucast data]) (Suc k) ov w2 = Some r" by simp
      from IH [OF this] 3 have "?P (buffer[k := ucast data]) (Suc k) r" by simp
      then show ?thesis by auto
    qed
  qed
qed

lemma read_control_buffer:
  assumes "read_control env i buffer w = Ret (n, buffer', w')"
  shows "length buffer' = length buffer \<and> drop n buffer' = drop n buffer"
proof -
  obtain k ov where "read_control_loop env i buffer 0 0 w = Some (k, ov, buffer', w')" "n = k + ov"
    using assms by (auto simp: read_control_def rust_simps)
  then have "length buffer' = length buffer" "drop k buffer' = drop k buffer"
    using read_control_loop_buffer [of env i buffer 0 0 w] by auto
  then show ?thesis using \<open>n = k + ov\<close> by (metis add.commute drop_drop)
qed

lemmas hal_driver_sel = hal_driver_def usb_driver.simps

interpretation hal: usb_driver_contract "hal_driver env i" for env i
proof
  fix ep buffer n len data and buffer' :: bytes and w w' :: "('a, 'b) world"
  show "length buffer' = length buffer \<and> drop n buffer' = drop n buffer"
    if "drv_read (hal_driver env i) ep buffer w = Ret (n, buffer', w')"
    using that by (simp add: hal_driver_def hal_read_buffer)
  show "length buffer' = length buffer \<and> drop n buffer' = drop n buffer"
    if "drv_read_control (hal_driver env i) buffer w = Ret (n, buffer', w')"
    using that by (simp add: hal_driver_def read_control_buffer)
  show "n \<le> length data" if "drv_write (hal_driver env i) ep data w = Ret (n, w')"
    using that by (simp add: hal_driver_def hal_write_def write_with_packet_size_count)
  show "n \<le> length data" if "drv_write_requested (hal_driver env i) ep len data w = Ret (n, w')"
    using that by (simp add: hal_driver_def write_requested_def write_with_packet_size_count)
qed

section \<open>Bus reset\<close>

lemma tx_ack_active_simple [simp]:
  "tx_ack_active (clear_pending env r w) = tx_ack_active w"
  "tx_ack_active (disable_events env i w) = tx_ack_active w"
  "tx_ack_active (enable_events env i w) = tx_ack_active w"
  "tx_ack_active (set_address env i a w) = tx_ack_active w"
  "tx_ack_active (reset_fifos env i w) = tx_ack_active w"
  by (simp_all add: clear_pending_def disable_events_def enable_events_def set_address_def
      reset_fifos_def Let_def)

lemma clear_acks_Ret:
  assumes "\<forall>ep \<in> set eps. unat ep < length (tx_ack_active w i)"
  shows "\<exists>w'. clear_acks i eps w = Ret w' \<and> hw w' = hw w \<and>
    length (tx_ack_active w' i) = length (tx_ack_active w i) \<and>
    (\<forall>j. j \<noteq> i \<longrightarrow> tx_ack_active w' j = tx_ack_active w j) \<and>
    (\<forall>k < length (tx_ack_active w i).
       tx_ack_active w' i ! k = (tx_ack_active w i ! k \<and> k \<notin> unat ` set eps))"
  using assms
proof (induction eps arbitrary: w)
  case (Cons ep eps)
  define w1 where "w1 = w\<lparr>tx_ack_active :=
    (tx_ack_active w)(i := (tx_ack_active w i)[unat ep := False])\<rparr>"
  have c: "clear_tx_ack_active i ep w = Ret w1"
    using Cons.prems by (simp add: clear_tx_ack_active_def w1_def Let_def)
  have "\<forall>ep \<in> set eps. unat ep < length (tx_ack_active w1 i)"
    using Cons.prems by (simp add: w1_def)
  from Cons.IH [OF this] obtain w2 where "clear_acks i eps w1 = Ret w2" "hw w2 = hw w1"
    "length (tx_ack_active w2 i) = length (tx_ack_active w1 i)"
    "\<forall>j. j \<noteq> i \<longrightarrow> tx_ack_active w2 j = tx_ack_active w1 j"
    "\<forall>k < length (tx_ack_active w1 i).
       tx_ack_active w2 i ! k = (tx_ack_active w1 i ! k \<and> k \<notin> unat ` set eps)"
    by blast
  moreover have "tx_ack_active w1 i ! k = (tx_ack_active w i ! k \<and> k \<noteq> unat ep)"
    if "k < length (tx_ack_active w i)" for k
    using that Cons.prems by (cases "k = unat ep") (auto simp: w1_def)
  ultimately show ?case using c by (auto simp: w1_def)
qed simp

lemma set_endpoint_numbers: "unat ` set endpoint_numbers = {..<16}"
proof -
  have "unat ` set endpoint_numbers = (\<lambda>n. unat (of_nat n :: u8)) ` {0..<16}"
    by (simp add: endpoint_numbers_def EP_MAX_ENDPOINTS_def image_image)
  also have "\<dots> = (\<lambda>n. n) ` {0..<16}"
    by (rule image_cong) (auto simp: unsigned_of_nat take_bit_nat_eq_self)
  finally show ?thesis by auto
qed

lemma hal_bus_reset_acks:
  assumes "acks_ok w"
  shows "\<exists>w'. hal_bus_reset env i w = Ret w' \<and> acks_ok w' \<and>
    tx_ack_active w' i = replicate 16 False \<and>
    (\<forall>j. j \<noteq> i \<longrightarrow> tx_ack_active w' j = tx_ack_active w j)"
proof -
  let ?w = "reset_fifos env i (set_address env i 0 (disable_events env i w))"
  have "\<forall>ep \<in> set endpoint_numbers. unat ep < length (tx_ack_active ?w i)"
    using assms set_endpoint_numbers by (auto simp: acks_ok_def EP_MAX_ENDPOINTS_def)
  from clear_acks_Ret [OF this] obtain w' where w': "clear_acks i endpoint_numbers ?w = Ret w'"
    "length (tx_ack_active w' i) = length (tx_ack_active w i)"
    "\<forall>j. j \<noteq> i \<longrightarrow> tx_ack_active w' j = tx_ack_active w j"
    "\<forall>k < length (tx_ack_active w i). \<not> tx_ack_active w' i ! k"
    using assms by (auto simp: set_endpoint_numbers acks_ok_def EP_MAX_ENDPOINTS_def)
  have "tx_ack_active w' i = replicate 16 False"
    using w' assms by (auto simp: list_eq_iff_nth_eq acks_ok_def EP_MAX_ENDPOINTS_def)
  with w' assms show ?thesis
    by (auto simp: hal_bus_reset_def Let_def acks_ok_def) (metis length_replicate)
qed

end
