(* ===== verification/UsbTransfer.thy ===== *)
theory UsbTransfer
  imports UsbHalFacts
begin

text \<open>
  What a transfer looks like from outside. A write to an IN endpoint is a sequence of packets, each
  the bytes written to the FIFO followed by a write of the endpoint number, which sends them. The
  abstract specification \<open>in_packets\<close> splits a message into packets and decides the final short or
  empty packet; the driver refines it whenever the host takes the packets before the driver gives
  up. A read from an OUT endpoint hands over what the FIFO held.
\<close>

section \<open>Packets of an IN transfer\<close>

function full_packets :: "nat \<Rightarrow> bytes \<Rightarrow> bytes list" where
  "full_packets ps bs =
     (if ps = 0 \<or> length bs < ps then [] else take ps bs # full_packets ps (drop ps bs))"
  by pat_completeness auto
termination
  by (relation "measure (\<lambda>(ps, bs). length bs)") auto

declare full_packets.simps [simp del]

definition last_packet :: "nat \<Rightarrow> bytes \<Rightarrow> bytes" where
  "last_packet ps bs = drop (ps * (length bs div ps)) bs"

definition in_packets :: "nat \<Rightarrow> nat option \<Rightarrow> bytes \<Rightarrow> bytes list" where
  "in_packets ps requested bs =
     full_packets ps bs @
       (if last_packet ps bs = [] \<and> requested = Some (length bs) \<and> bs \<noteq> [] then []
        else [last_packet ps bs])"

definition packet_writes :: "usb_idx \<Rightarrow> u8 \<Rightarrow> bytes \<Rightarrow> (reg \<times> u32) list" where
  "packet_writes i ep p =
     map (\<lambda>b. (USB i InData, ucast b)) p @ [(USB i InEpno, ucast ep AND mask 4)]"

lemma full_packets_length: "p \<in> set (full_packets ps bs) \<Longrightarrow> length p = ps"
  by (induction ps bs rule: full_packets.induct) (subst (asm) (2) full_packets.simps, auto split: if_splits)

lemma concat_full_packets: "0 < ps \<Longrightarrow> concat (full_packets ps bs) @ last_packet ps bs = bs"
proof (induction ps bs rule: full_packets.induct)
  case (1 ps bs)
  show ?case
  proof (cases "length bs < ps")
    case True
    then show ?thesis by (subst full_packets.simps) (simp add: last_packet_def)
  next
    case False
    then have q: "length bs div ps = Suc ((length bs - ps) div ps)"
      using 1(2) by (simp add: le_div_geq)
    have "last_packet ps bs = last_packet ps (drop ps bs)"
      using q by (simp add: last_packet_def add.commute)
    then have "concat (full_packets ps (drop ps bs)) @ last_packet ps bs = drop ps bs"
      using False 1 by simp
    then show ?thesis using False 1(2) by (subst full_packets.simps) simp
  qed
qed

lemma last_packet_short: "0 < ps \<Longrightarrow> length (last_packet ps bs) < ps"
  by (simp add: last_packet_def) (metis minus_mult_div_eq_mod mod_less_divisor)

lemma last_packet_Nil_iff: "0 < ps \<Longrightarrow> last_packet ps bs = [] \<longleftrightarrow> length bs mod ps = 0"
  by (metis last_packet_def length_drop length_0_conv minus_mult_div_eq_mod)

section \<open>The driver refines the packet specification\<close>

text \<open>
  \<open>log\<close> is the history of register writes as an observer of the hardware records it; a patient host
  is one for which no wait of the driver times out.
\<close>

definition logs_writes :: "('h, 'q) env \<Rightarrow> ('h \<Rightarrow> (reg \<times> u32) list) \<Rightarrow> bool" where
  "logs_writes env log \<longleftrightarrow> (\<forall>r v h. log (env_write env r v h) = log h @ [(r, v)])"

definition patient_host ::
  "('h, 'q) env \<Rightarrow> usb_idx \<Rightarrow> u8 \<Rightarrow> ('h \<Rightarrow> (reg \<times> u32) list) \<Rightarrow> bool" where
  "patient_host env i ep log \<longleftrightarrow>
     (\<forall>w. acks_ok w \<longrightarrow>
        (\<exists>w'. env_irq env w = Ret w' \<and> acks_ok w' \<and> log (hw w') = log (hw w)) \<and>
        (\<exists>w'. wait_fifo_empty env i ep 0 w = Ret (True, w') \<and> acks_ok w' \<and> log (hw w') = log (hw w)) \<and>
        (\<exists>w'. wait_tx_ack env i ep 0 w = Ret (True, w') \<and> acks_ok w' \<and> log (hw w') = log (hw w)))"

text \<open>The writes of the byte loop that has already written \<open>k\<close> bytes.\<close>

fun emitted :: "usb_idx \<Rightarrow> u8 \<Rightarrow> nat \<Rightarrow> nat \<Rightarrow> bytes \<Rightarrow> (reg \<times> u32) list" where
  "emitted i ep ps k [] = []"
| "emitted i ep ps k (b # bs) =
     (USB i InData, ucast b) #
       (if Suc k mod ps = 0 then [(USB i InEpno, ucast ep AND mask 4)] else []) @
       emitted i ep ps (Suc k) bs"

lemma emitted_partial:
  "k mod ps + length bs < ps \<Longrightarrow> emitted i ep ps k bs = map (\<lambda>b. (USB i InData, ucast b)) bs"
proof (induction bs arbitrary: k)
  case (Cons b bs)
  then have "Suc k mod ps = Suc (k mod ps)" by (auto simp: mod_Suc)
  with Cons show ?case by simp
qed simp

lemma emitted_cong:
  "k mod ps = k' mod ps \<Longrightarrow> emitted i ep ps k bs = emitted i ep ps k' bs"
proof (induction bs arbitrary: k k')
  case (Cons b bs)
  then have "Suc k mod ps = Suc k' mod ps" by (metis mod_Suc_eq)
  with Cons.IH [OF this] show ?case by simp
qed simp

lemma emitted_full:
  "0 < ps \<Longrightarrow> k mod ps + length p = ps \<Longrightarrow> p \<noteq> [] \<Longrightarrow>
     emitted i ep ps k (p @ bs) = packet_writes i ep p @ emitted i ep ps 0 bs"
proof (induction p arbitrary: k)
  case (Cons b p)
  show ?case
  proof (cases p)
    case Nil
    with Cons.prems have m: "Suc k mod ps = 0" by (simp add: mod_Suc)
    then have "emitted i ep ps (Suc k) bs = emitted i ep ps 0 bs" by (intro emitted_cong) simp
    with Nil m show ?thesis by (simp add: packet_writes_def)
  next
    case (Cons c q)
    with Cons.prems have m: "Suc k mod ps = Suc (k mod ps)" by (auto simp: mod_Suc)
    then show ?thesis
      using Cons.IH [of "Suc k"] Cons.prems Cons by (simp add: packet_writes_def)
  qed
qed simp

lemma emitted_packets:
  "0 < ps \<Longrightarrow> emitted i ep ps 0 bs =
     concat (map (packet_writes i ep) (full_packets ps bs)) @
     map (\<lambda>b. (USB i InData, ucast b)) (last_packet ps bs)"
proof (induction ps bs rule: full_packets.induct)
  case (1 ps bs)
  show ?case
  proof (cases "length bs < ps")
    case True
    then show ?thesis
      using emitted_partial [of 0 ps bs i ep]
      by (subst full_packets.simps) (simp add: last_packet_def)
  next
    case False
    then have "emitted i ep ps 0 (take ps bs @ drop ps bs) =
        packet_writes i ep (take ps bs) @ emitted i ep ps 0 (drop ps bs)"
      using 1(2) by (intro emitted_full) auto
    moreover have "last_packet ps bs = last_packet ps (drop ps bs)"
      using False 1(2) by (simp add: last_packet_def le_div_geq add.commute)
    ultimately show ?thesis
      using 1 False by (subst full_packets.simps) simp
  qed
qed

section \<open>The byte loop emits them\<close>

lemma log_write_field:
  "logs_writes env log \<Longrightarrow>
     log (hw (write_field env n r v w)) = log (hw w) @ [(r, ucast v AND mask n)]"
  by (simp add: logs_writes_def write_field_def reg_write_def field_bits_zero reset_value_def)

lemma ucast_mask_8: "(ucast (b :: u8) :: u32) AND mask 8 = ucast b"
  by (rule bit_word_eqI) (auto simp: bit_simps dest: bit_imp_le_length)

lemma patient_host_irq:
  "patient_host env i ep log \<Longrightarrow> acks_ok w \<Longrightarrow>
     \<exists>w'. env_irq env w = Ret w' \<and> acks_ok w' \<and> log (hw w') = log (hw w)"
  unfolding patient_host_def by blast

lemma patient_host_fifo:
  "patient_host env i ep log \<Longrightarrow> acks_ok w \<Longrightarrow>
     \<exists>w'. wait_fifo_empty env i ep 0 w = Ret (True, w') \<and> acks_ok w' \<and> log (hw w') = log (hw w)"
  unfolding patient_host_def by blast

lemma patient_host_ack:
  "patient_host env i ep log \<Longrightarrow> acks_ok w \<Longrightarrow>
     \<exists>w'. wait_tx_ack env i ep 0 w = Ret (True, w') \<and> acks_ok w' \<and> log (hw w') = log (hw w)"
  unfolding patient_host_def by blast

lemma set_tx_ack_active_hw:
  "acks_ok w \<Longrightarrow> unat ep < 16 \<Longrightarrow>
     \<exists>w'. set_tx_ack_active i ep w = Ret w' \<and> acks_ok w' \<and> hw w' = hw w"
  by (auto simp: set_tx_ack_active_def acks_ok_def EP_MAX_ENDPOINTS_def Let_def)

lemma prime_in_log:
  assumes "logs_writes env log" and "patient_host env i ep log"
    and "unat ep < 16" and "acks_ok w"
  shows "\<exists>w'. prime_in env i ep w = Ret w' \<and> acks_ok w' \<and>
    log (hw w') = log (hw w) @ [(USB i InEpno, ucast ep AND mask 4)]"
proof -
  obtain w1 where w1: "set_tx_ack_active i ep w = Ret w1" "acks_ok w1" "hw w1 = hw w"
    using set_tx_ack_active_hw assms(3,4) by blast
  obtain w2 where "env_irq env w1 = Ret w2" "acks_ok w2" "log (hw w2) = log (hw w1)"
    using patient_host_irq [OF assms(2) w1(2)] by blast
  with w1 show ?thesis by (simp add: prime_in_def log_write_field [OF assms(1)])
qed

lemma send_loop_log:
  assumes "logs_writes env log" and "patient_host env i ep log"
    and "unat ep < 16" and "0 < ps" and "acks_ok w"
  shows "\<exists>w'. send_loop env i ep ps bs k w = Ret (True, k + length bs, w') \<and> acks_ok w' \<and>
    log (hw w') = log (hw w) @ emitted i ep ps k bs"
  using assms(5)
proof (induction bs arbitrary: k w)
  case (Cons b bs)
  define w1 where "w1 = write_field env 8 (USB i InData) b w"
  have w1: "acks_ok w1" "log (hw w1) = log (hw w) @ [(USB i InData, ucast b)]"
    using Cons.prems by (simp_all add: w1_def log_write_field [OF assms(1)] ucast_mask_8)
  show ?case
  proof (cases "Suc k mod ps = 0")
    case False
    with Cons.IH [OF w1(1), of "Suc k"] show ?thesis using assms(4)
      by (auto simp: w1_def [symmetric] w1 Let_def mod_eq_0_iff_dvd)
  next
    case True
    obtain w2 where w2: "prime_in env i ep w1 = Ret w2" "acks_ok w2"
        "log (hw w2) = log (hw w1) @ [(USB i InEpno, ucast ep AND mask 4)]"
      using prime_in_log [OF assms(1-3) w1(1)] by blast
    obtain w3 where "wait_tx_ack env i ep 0 w2 = Ret (True, w3)" "acks_ok w3"
        "log (hw w3) = log (hw w2)"
      using patient_host_ack [OF assms(2) w2(2)] by blast
    with Cons.IH [of w3 "Suc k"] True show ?thesis using assms(4)
      by (auto simp: w1_def [symmetric] w1 w2 Let_def mod_eq_0_iff_dvd)
  qed
qed simp

lemma prime_in_last:
  "0 < ps \<Longrightarrow>
     concat (map (packet_writes i ep) (in_packets ps req bs)) =
       emitted i ep ps 0 bs @
       (if length bs mod ps = 0 \<and> req = Some (length bs) \<and> bs \<noteq> [] then []
        else [(USB i InEpno, ucast ep AND mask 4)])"
  by (simp add: in_packets_def emitted_packets last_packet_Nil_iff)
    (auto simp: packet_writes_def)

lemma write_refines_packets:
  assumes "logs_writes env log" and "patient_host env i ep log"
    and "unat ep < 16" and "0 < ps" and "acks_ok w"
  shows "\<exists>w'. write_with_packet_size env i ep req bs ps w = Ret (length bs, w') \<and> acks_ok w' \<and>
    log (hw w') = log (hw w) @ concat (map (packet_writes i ep) (in_packets ps req bs))"
proof -
  obtain w1 where w1: "set_tx_ack_active i ep w = Ret w1" "acks_ok w1" "hw w1 = hw w"
    using set_tx_ack_active_hw assms(3,5) by blast
  obtain w2 where w2: "wait_fifo_empty env i ep 0 w1 = Ret (True, w2)" "acks_ok w2"
      "log (hw w2) = log (hw w1)"
    using patient_host_fifo [OF assms(2) w1(2)] by blast
  obtain w3 where w3: "send_loop env i ep ps bs 0 w2 = Ret (True, length bs, w3)" "acks_ok w3"
      "log (hw w3) = log (hw w2) @ emitted i ep ps 0 bs"
    using send_loop_log [OF assms(1-4) w2(2), of bs 0] by auto
  obtain w4 where w4: "prime_in env i ep w3 = Ret w4" "acks_ok w4"
      "log (hw w4) = log (hw w3) @ [(USB i InEpno, ucast ep AND mask 4)]"
    using prime_in_log [OF assms(1-3) w3(2)] by blast
  show ?thesis using assms(4) w1 w2 w3 w4
    by (auto simp: write_with_packet_size_def Let_def prime_in_last split: option.splits)
qed

section \<open>Reads hand over the receive FIFO\<close>

text \<open>
  A receive FIFO with the registers \<open>have\<close> and \<open>data\<close>: the flag says whether it holds bytes, a read
  of the data register takes the oldest.
\<close>

definition rx_fifo :: "('h, 'q) env \<Rightarrow> reg \<Rightarrow> reg \<Rightarrow> ('h \<Rightarrow> bytes) \<Rightarrow> bool" where
  "rx_fifo env have_reg data_reg contents \<longleftrightarrow>
     (\<forall>h. (let (v, h') = env_read env have_reg h in
             (v AND 1 \<noteq> 0) = (contents h \<noteq> []) \<and> contents h' = contents h) \<and>
          (\<forall>b bs. contents h = b # bs \<longrightarrow>
             (let (v, h') = env_read env data_reg h in
                v AND mask 8 = ucast b \<and> contents h' = bs)))"

lemma rx_have:
  assumes "rx_fifo env hr dr contents"
  shows "\<exists>w'. read_bit env hr w = (contents (hw w) \<noteq> [], w') \<and> contents (hw w') = contents (hw w)"
  using assms [unfolded rx_fifo_def, rule_format, of "hw w"]
  by (auto simp: read_bit_def reg_read_def split: prod.splits)

lemma rx_have_Cons:
  assumes "rx_fifo env hr dr contents" and "c # cs = contents (hw w)"
  shows "\<exists>w'. read_bit env hr w = (True, w') \<and> contents (hw w') = c # cs"
  using rx_have [OF assms(1), of w] by (simp add: assms(2) [symmetric])

lemma rx_data:
  assumes "rx_fifo env hr dr contents" and "contents (hw w) = b # bs"
  shows "\<exists>w'. read_field env 8 dr w = (ucast b, w') \<and> contents (hw w') = bs"
  using assms(1) [unfolded rx_fifo_def, rule_format, of "hw w"] assms(2)
  by (auto simp: read_field_def reg_read_def split: prod.splits)

lemma ucast_ucast_8 [simp]: "ucast (ucast (b :: u8) :: u32) = b"
  by (rule bit_word_eqI) (auto simp: bit_simps)

lemma read_loop_fifo:
  assumes "rx_fifo env (USB i OutHave) (USB i OutData) contents"
  shows "\<exists>w'. read_loop env i buffer w =
      (take (length buffer) (contents (hw w)) @ drop (length (contents (hw w))) buffer,
       min (length buffer) (length (contents (hw w))), length buffer \<le> length (contents (hw w)), w') \<and>
    contents (hw w') = drop (length buffer) (contents (hw w))"
proof (induction buffer arbitrary: w)
  case (Cons b buffer)
  obtain w1 where w1: "read_bit env (USB i OutHave) w = (contents (hw w) \<noteq> [], w1)"
      "contents (hw w1) = contents (hw w)"
    using rx_have [OF assms] by blast
  show ?case
  proof (cases "contents (hw w)")
    case Nil
    with w1 show ?thesis by simp
  next
    case (Cons c cs)
    then obtain w2 where w2: "read_field env 8 (USB i OutData) w1 = (ucast c, w2)"
        "contents (hw w2) = cs"
      using rx_data [OF assms, of w1 c cs] w1 by auto
    then show ?thesis using Cons.IH [of w2] w1 Cons by auto
  qed
qed simp

lemma drain_fifo:
  assumes "rx_fifo env (USB i OutHave) (USB i OutData) contents"
  shows "\<exists>w'. drain env i n w = Some (n + length (contents (hw w)), w') \<and> contents (hw w') = []"
proof (induction "contents (hw w)" arbitrary: n w)
  case Nil
  with rx_have [OF assms, of w] show ?case by (subst drain.simps) auto
next
  case (Cons c cs)
  obtain w1 where w1: "read_bit env (USB i OutHave) w = (True, w1)" "contents (hw w1) = c # cs"
    using rx_have_Cons [OF assms Cons(2)] by blast
  obtain w2 where "read_field env 8 (USB i OutData) w1 = (ucast c, w2)" "contents (hw w2) = cs"
    using rx_data [OF assms w1(2)] by blast
  with Cons(1) [of w2 "Suc n"] w1 Cons(2) [symmetric] show ?case by (subst drain.simps) auto
qed

lemma hal_read_fifo:
  assumes "rx_fifo env (USB i OutHave) (USB i OutData) contents"
  shows "\<exists>w'. hal_read env i ep buffer w = Ret (length (contents (hw w)),
      take (length buffer) (contents (hw w)) @ drop (length (contents (hw w))) buffer, w') \<and>
    contents (hw w') = []"
proof -
  let ?c = "contents (hw w)"
  obtain w1 where w1: "read_loop env i buffer w =
      (take (length buffer) ?c @ drop (length ?c) buffer, min (length buffer) (length ?c),
       length buffer \<le> length ?c, w1)" "contents (hw w1) = drop (length buffer) ?c"
    using read_loop_fifo [OF assms] by blast
  obtain w2 where "drain env i 0 w1 = Some (length (contents (hw w1)), w2)" "contents (hw w2) = []"
    using drain_fifo [OF assms, of 0 w1] by auto
  with w1 show ?thesis by (auto simp: hal_read_def)
qed

lemma read_control_loop_fifo:
  assumes "rx_fifo env (USB i CtlHave) (USB i CtlData) contents"
  shows "k \<le> length buffer \<Longrightarrow> k < length buffer \<longrightarrow> ov = 0 \<Longrightarrow>
    \<exists>w' n m. read_control_loop env i buffer k ov w = Some (n, m,
      take k buffer @ take (length buffer - k) (contents (hw w)) @
        drop (k + length (contents (hw w))) buffer, w') \<and>
    n + m = k + ov + length (contents (hw w)) \<and> contents (hw w') = []"
proof (induction "contents (hw w)" arbitrary: k ov buffer w)
  case Nil
  with rx_have [OF assms, of w] show ?case by (subst read_control_loop.simps) auto
next
  case (Cons c cs)
  obtain w1 where w1: "read_bit env (USB i CtlHave) w = (True, w1)" "contents (hw w1) = c # cs"
    using rx_have_Cons [OF assms Cons(2)] by blast
  obtain w2 where w2: "read_field env 8 (USB i CtlData) w1 = (ucast c, w2)" "contents (hw w2) = cs"
    using rx_data [OF assms w1(2)] by blast
  show ?case
  proof (cases "k < length buffer")
    case False
    with Cons(1) [of w2 k buffer "Suc ov"] w1 w2 Cons(2) [symmetric] Cons.prems show ?thesis
      by (subst read_control_loop.simps) auto
  next
    case True
    then have t: "take (Suc k) (buffer[k := c]) = take k buffer @ [c]"
      by (simp add: take_Suc_conv_app_nth)
    from True Cons(1) [of w2 "Suc k" "buffer[k := c]" 0] w2 Cons.prems
    obtain w' n m where "read_control_loop env i (buffer[k := c]) (Suc k) 0 w2 = Some (n, m,
        take (Suc k) (buffer[k := c]) @ take (length buffer - Suc k) cs @
          drop (Suc k + length cs) (buffer[k := c]), w')"
        "n + m = Suc k + length cs" "contents (hw w') = []"
      by auto
    moreover have "take (length buffer - k) (c # cs) = c # take (length buffer - Suc k) cs"
      using True by (simp add: take_Cons')
    ultimately show ?thesis using True w1 w2 Cons(2) [symmetric] Cons.prems t
      by (subst read_control_loop.simps) auto
  qed
qed

lemma read_control_fifo:
  assumes "rx_fifo env (USB i CtlHave) (USB i CtlData) contents"
  shows "\<exists>w'. read_control env i buffer w = Ret (length (contents (hw w)),
      take (length buffer) (contents (hw w)) @ drop (length (contents (hw w))) buffer, w') \<and>
    contents (hw w') = []"
  using read_control_loop_fifo [OF assms, of 0 buffer 0 w]
  by (auto simp: read_control_def)

end
