(* ===== verification/Queues.thy ===== *)
theory Queues
  imports Prelude
begin

text \<open>
  The bounded first-in first-out queues between the interrupt handler, the main loop and the
  command handlers. The queue types are \<open>heapless\<close> containers: an \<open>spsc::Queue<T, N>\<close> stores up
  to \<open>N - 1\<close> elements, an \<open>mpmc::MpMcQueue<T, N>\<close> and a \<open>Vec<T, N>\<close> up to \<open>N\<close>. A queue is the list of
  its elements, oldest first; the capacity is a parameter of every operation that can be refused.
  The locale \<open>bounded_fifo\<close> is what the clients rely on.
\<close>

section \<open>The interface\<close>

locale bounded_fifo =
  fixes contents :: "'q \<Rightarrow> 'a list"
    and room :: "nat \<Rightarrow> 'q \<Rightarrow> bool"
    and enq :: "nat \<Rightarrow> 'a \<Rightarrow> 'q \<Rightarrow> 'q option"
    and deq :: "'q \<Rightarrow> ('a \<times> 'q) option"
  assumes enq_Some: "enq n x q = Some q' \<Longrightarrow> contents q' = contents q @ [x]"
    and enq_None_iff: "enq n x q = None \<longleftrightarrow> \<not> room n q"
    and room_iff: "room n q \<longleftrightarrow> length (contents q) < n"
    and deq_None_iff: "deq q = None \<longleftrightarrow> contents q = []"
    and deq_Some: "deq q = Some (x, q') \<Longrightarrow> contents q = x # contents q'"
begin

lemma enq_within: "enq n x q = Some q' \<Longrightarrow> length (contents q') \<le> n"
  using enq_None_iff [of n x q] by (simp add: enq_Some room_iff)

lemma enq_progress: "length (contents q) < n \<Longrightarrow> \<exists>q'. enq n x q = Some q' \<and> contents q' = contents q @ [x]"
  using enq_None_iff [of n x q] enq_Some [of n x q] by (cases "enq n x q") (auto simp: room_iff)

lemma deq_after_enq:
  "contents q = [] \<Longrightarrow> enq n x q = Some q' \<Longrightarrow> \<exists>q''. deq q' = Some (x, q'') \<and> contents q'' = []"
proof -
  assume "contents q = []" and "enq n x q = Some q'"
  then have c: "contents q' = [x]" by (simp add: enq_Some)
  then obtain y q'' where d: "deq q' = Some (y, q'')"
    using deq_None_iff [of q'] by (cases "deq q'") auto
  from deq_Some [OF this] c show ?thesis using d by simp
qed

text \<open>What an element put in comes out behind everything that was there before it.\<close>

lemma fifo_order:
  "enq n x q = Some q' \<Longrightarrow> deq q' = Some (y, q'') \<Longrightarrow>
     (if contents q = [] then y = x \<and> contents q'' = [] else y = hd (contents q) \<and>
        contents q'' = tl (contents q) @ [x])"
  by (drule enq_Some, drule deq_Some) (cases "contents q"; simp)

end

section \<open>The queues of the firmware\<close>

type_synonym 'a fifo = "'a list"

definition queue_new :: "'a fifo" where
  "queue_new = []"

definition enqueue :: "nat \<Rightarrow> 'a \<Rightarrow> 'a fifo \<Rightarrow> 'a fifo option" where
  "enqueue n x q = (if length q < n then Some (q @ [x]) else None)"

fun dequeue :: "'a fifo \<Rightarrow> ('a \<times> 'a fifo) option" where
  "dequeue [] = None"
| "dequeue (x # q) = Some (x, q)"

text \<open>\<open>while let Some(_) = q.dequeue() {}\<close>\<close>

fun flush :: "'a fifo \<Rightarrow> 'a fifo" where
  "flush [] = []"
| "flush (x # q) = flush q"

lemma flush_empty [simp]: "flush q = queue_new"
  by (induction q) (auto simp: queue_new_def)

text \<open>\<open>Vec::remove(index)\<close>\<close>

definition vec_remove :: "nat \<Rightarrow> 'a list \<Rightarrow> 'a list" where
  "vec_remove i xs = take i xs @ drop (Suc i) xs"

text \<open>\<open>iter().position(p)\<close>\<close>

fun position :: "('a \<Rightarrow> bool) \<Rightarrow> 'a list \<Rightarrow> nat option" where
  "position p [] = None"
| "position p (x # xs) = (if p x then Some 0 else map_option Suc (position p xs))"

interpretation fifo: bounded_fifo "\<lambda>q. q" "\<lambda>n q. length q < n" enqueue dequeue
  by unfold_locales (auto simp: enqueue_def elim: dequeue.elims split: if_splits)

lemma enqueue_Some_iff: "enqueue n x q = Some q' \<longleftrightarrow> length q < n \<and> q' = q @ [x]"
  by (auto simp: enqueue_def)

lemma position_None_iff: "position p xs = None \<longleftrightarrow> (\<forall>x \<in> set xs. \<not> p x)"
  by (induction xs) auto

lemma position_Some:
  "position p xs = Some i \<Longrightarrow> i < length xs \<and> p (xs ! i) \<and> (\<forall>x \<in> set (take i xs). \<not> p x)"
  by (induction xs arbitrary: i) (auto split: if_splits)

lemma length_vec_remove: "i < length xs \<Longrightarrow> length (vec_remove i xs) = length xs - 1"
  by (simp add: vec_remove_def)

lemma vec_remove_insert:
  "i < length xs \<Longrightarrow> take i xs @ (xs ! i) # drop i (vec_remove i xs) = xs"
  by (simp add: vec_remove_def id_take_nth_drop [symmetric])

lemma set_vec_remove: "set (vec_remove i xs) \<subseteq> set xs"
  by (auto simp: vec_remove_def dest: in_set_takeD in_set_dropD)

end
