(* ===== verification/Interrupts.thy ===== *)
theory Interrupts
  imports UsbTransfer Queues
begin

text \<open>
  Interrupts: the CPU's mask and pending registers (\<open>moondancer-pac/src/csr.rs\<close>), the interrupt
  numbers (\<open>generated/interrupt.rs\<close>), the events that the handler puts in the queue of the main loop
  (\<open>moondancer/src/event.rs\<close>), the handler itself (\<open>moondancer/src/util.rs\<close>, \<open>bin/moondancer.rs\<close>).
\<close>

section \<open>Interrupt numbers\<close>

datatype interrupt =
    TIMER | UART | GPIOA | GPIOB | USB0 | USB0_EP_CONTROL | USB0_EP_IN | USB0_EP_OUT
  | USB1 | USB1_EP_CONTROL | USB1_EP_IN | USB1_EP_OUT
  | USB2 | USB2_EP_CONTROL | USB2_EP_IN | USB2_EP_OUT | UART1

fun interrupt_number :: "interrupt \<Rightarrow> nat" where
  "interrupt_number TIMER = 0"
| "interrupt_number UART = 1"
| "interrupt_number GPIOA = 2"
| "interrupt_number GPIOB = 3"
| "interrupt_number USB0 = 4"
| "interrupt_number USB0_EP_CONTROL = 5"
| "interrupt_number USB0_EP_IN = 6"
| "interrupt_number USB0_EP_OUT = 7"
| "interrupt_number USB1 = 8"
| "interrupt_number USB1_EP_CONTROL = 9"
| "interrupt_number USB1_EP_IN = 10"
| "interrupt_number USB1_EP_OUT = 11"
| "interrupt_number USB2 = 12"
| "interrupt_number USB2_EP_CONTROL = 13"
| "interrupt_number USB2_EP_IN = 14"
| "interrupt_number USB2_EP_OUT = 15"
| "interrupt_number UART1 = 16"

definition interrupt_try_from :: "u8 \<Rightarrow> interrupt option" where
  "interrupt_try_from value =
     (if value = 0 then Some TIMER
      else if value = 1 then Some UART
      else if value = 2 then Some GPIOA
      else if value = 3 then Some GPIOB
      else if value = 4 then Some USB0
      else if value = 5 then Some USB0_EP_CONTROL
      else if value = 6 then Some USB0_EP_IN
      else if value = 7 then Some USB0_EP_OUT
      else if value = 8 then Some USB1
      else if value = 9 then Some USB1_EP_CONTROL
      else if value = 10 then Some USB1_EP_IN
      else if value = 11 then Some USB1_EP_OUT
      else if value = 12 then Some USB2
      else if value = 13 then Some USB2_EP_CONTROL
      else if value = 14 then Some USB2_EP_IN
      else if value = 15 then Some USB2_EP_OUT
      else if value = 16 then Some UART1
      else None)"

text \<open>
  The vectors \<open>__EXTERNAL_INTERRUPTS\<close> of \<open>generated.rs\<close>: the handler that belongs to each number. The
  handlers are external symbols with the names of the interrupts.
\<close>

definition EXTERNAL_INTERRUPTS :: "interrupt list" where
  "EXTERNAL_INTERRUPTS =
     [TIMER, UART, GPIOA, GPIOB, USB0, USB0_EP_CONTROL, USB0_EP_IN, USB0_EP_OUT,
      USB1, USB1_EP_CONTROL, USB1_EP_IN, USB1_EP_OUT, USB2, USB2_EP_CONTROL, USB2_EP_IN, USB2_EP_OUT,
      UART1]"

section \<open>Mask and pending registers\<close>

definition interrupt_bit :: "interrupt \<Rightarrow> u32" where
  "interrupt_bit interrupt = push_bit (interrupt_number interrupt) 1"

text \<open>\<open>while register::mim::read() != mask {}\<close>\<close>

partial_function (option) wait_mim ::
  "('h, 'q) env \<Rightarrow> u32 \<Rightarrow> ('h, 'q) world \<Rightarrow> ('h, 'q) world option" where
  "wait_mim env m w =
     (let (v, w) = reg_read env (CSR Mim) w in if v = m then Some w else wait_mim env m w)"

definition set_mim :: "('h, 'q) env \<Rightarrow> u32 \<Rightarrow> ('h, 'q) world \<Rightarrow> ('h, 'q) world rust" where
  "set_mim env m w =
     of_option (wait_mim env m (w\<lparr>hw := env_write env (CSR Mim) m (hw w)\<rparr>))"

definition interrupt_enable ::
  "('h, 'q) env \<Rightarrow> interrupt \<Rightarrow> ('h, 'q) world \<Rightarrow> ('h, 'q) world rust" where
  "interrupt_enable env interrupt w =
     (let (m, w) = reg_read env (CSR Mim) w in set_mim env (m OR interrupt_bit interrupt) w)"

definition interrupt_disable ::
  "('h, 'q) env \<Rightarrow> interrupt \<Rightarrow> ('h, 'q) world \<Rightarrow> ('h, 'q) world rust" where
  "interrupt_disable env interrupt w =
     (let (m, w) = reg_read env (CSR Mim) w in set_mim env (m AND NOT (interrupt_bit interrupt)) w)"

definition is_pending :: "('h, 'q) env \<Rightarrow> interrupt \<Rightarrow> ('h, 'q) world \<Rightarrow> bool \<times> ('h, 'q) world" where
  "is_pending env interrupt w =
     (let (pending, w) = reg_read env (CSR Mip) w
      in (pending AND interrupt_bit interrupt \<noteq> 0, w))"

fun ilog2 :: "nat \<Rightarrow> nat" where
  "ilog2 n = (if n < 2 then 0 else Suc (ilog2 (n div 2)))"

declare ilog2.simps [simp del]

text \<open>The interrupt pending, or the bits of the register where there is none or an unknown one.\<close>

definition interrupt_pending ::
  "('h, 'q) env \<Rightarrow> ('h, 'q) world \<Rightarrow> (u32 + interrupt) \<times> ('h, 'q) world" where
  "interrupt_pending env w =
     (let (bits, w) = reg_read env (CSR Mip) w in
      if bits = 0 then (Inl 0, w)
      else case interrupt_try_from (of_nat (ilog2 (unat bits))) of
          Some interrupt \<Rightarrow> (Inr interrupt, w)
        | None \<Rightarrow> (Inl bits, w))"

section \<open>Interrupt events\<close>

datatype usb_interface = Target | Aux | ControlPort

datatype interrupt_event =
    Interrupt interrupt
  | UnknownInterrupt u32
  | UnhandledInterrupt interrupt
  | TimerEvent nat
  | UsbEv usb_interface usb_event
  | ErrorMessage string
  | DebugMessage string

fun usb_event_try_from :: "interrupt_event \<Rightarrow> usb_event option" where
  "usb_event_try_from (UsbEv interface event) = Some event"
| "usb_event_try_from _ = None"

definition from_smolusb_event :: "usb_interface \<Rightarrow> usb_event \<Rightarrow> interrupt_event" where
  "from_smolusb_event interface event = UsbEv interface event"

section \<open>The interrupt handler\<close>

text \<open>The four arms of each peripheral: \<open>i\<close> is the driver instance, \<open>interface\<close> its name in events.\<close>

definition isr_bus_reset ::
  "('h, 'q) env \<Rightarrow> usb_idx \<Rightarrow> usb_interface \<Rightarrow> ('h, 'q) world \<Rightarrow>
     (interrupt_event \<times> ('h, 'q) world) rust" where
  "isr_bus_reset env i interface w =
     rbind (hal_bus_reset env i (clear_pending env (USB i CtrlEvPending) w)) (\<lambda>w.
     Ret (UsbEv interface BusReset, w))"

definition isr_ep_control ::
  "('h, 'q) env \<Rightarrow> usb_idx \<Rightarrow> usb_interface \<Rightarrow> string \<Rightarrow> ('h, 'q) world \<Rightarrow>
     (interrupt_event \<times> ('h, 'q) world) rust" where
  "isr_ep_control env i interface message w =
     (let w = clear_pending env (USB i CtlEvPending) w;
          (bits, w) = reg_read env (USB i CtlEpno) w;
          endpoint_number = ucast bits
      in
      rbind (read_control env i (replicate 8 0) w) (\<lambda>(bytes_read, setup_packet_buffer, w).
      case setup_from setup_packet_buffer of
        None \<Rightarrow> Undef
      | Some setup_packet \<Rightarrow>
          if bytes_read = 0 then Ret (ErrorMessage message, w)
          else Ret (UsbEv interface (ReceiveSetupPacket endpoint_number setup_packet), w)))"

definition isr_ep_in ::
  "('h, 'q) env \<Rightarrow> usb_idx \<Rightarrow> usb_interface \<Rightarrow> ('h, 'q) world \<Rightarrow>
     (interrupt_event \<times> ('h, 'q) world) rust" where
  "isr_ep_in env i interface w =
     (let w = clear_pending env (USB i InEvPending) w;
          (bits, w) = reg_read env (USB i InEpno) w;
          endpoint_number = ucast bits
      in
      rbind (clear_tx_ack_active i endpoint_number w) (\<lambda>w.
      Ret (UsbEv interface (SendComplete endpoint_number), w)))"

definition isr_ep_out ::
  "('h, 'q) env \<Rightarrow> usb_idx \<Rightarrow> usb_interface \<Rightarrow> ('h, 'q) world \<Rightarrow>
     (interrupt_event \<times> ('h, 'q) world) rust" where
  "isr_ep_out env i interface w =
     (let w = clear_pending env (USB i OutEvPending) w;
          (bits, w) = reg_read env (USB i OutDataEp) w;
          endpoint_number = ucast bits
      in Ret (UsbEv interface (ReceivePacket endpoint_number), w))"

definition get_usb_interrupt_event ::
  "('h, 'q) env \<Rightarrow> ('h, 'q) world \<Rightarrow> (interrupt_event \<times> ('h, 'q) world) rust" where
  "get_usb_interrupt_event env w =
     (let (r, w) = interrupt_pending env w in
      case r of
        Inl pending \<Rightarrow> Ret (UnknownInterrupt pending, w)
      | Inr pending \<Rightarrow>
          (case pending of
             USB0 \<Rightarrow> isr_bus_reset env Usb0 Target w
           | USB0_EP_CONTROL \<Rightarrow>
               isr_ep_control env Usb0 Target ''ERROR USB0 received 0 bytes for setup packet'' w
           | USB0_EP_IN \<Rightarrow> isr_ep_in env Usb0 Target w
           | USB0_EP_OUT \<Rightarrow> isr_ep_out env Usb0 Target w
           | USB1 \<Rightarrow> isr_bus_reset env Usb1 Aux w
           | USB1_EP_CONTROL \<Rightarrow>
               isr_ep_control env Usb1 Aux ''ERROR USB1 received 0 bytes for setup packet'' w
           | USB1_EP_IN \<Rightarrow> isr_ep_in env Usb1 Aux w
           | USB1_EP_OUT \<Rightarrow> isr_ep_out env Usb1 Aux w
           | USB2 \<Rightarrow> isr_bus_reset env Usb2 ControlPort w
           | USB2_EP_CONTROL \<Rightarrow>
               isr_ep_control env Usb2 ControlPort ''ERROR USB1 received 0 bytes for setup packet'' w
           | USB2_EP_IN \<Rightarrow> isr_ep_in env Usb2 ControlPort w
           | USB2_EP_OUT \<Rightarrow> isr_ep_out env Usb2 ControlPort w
           | _ \<Rightarrow> Ret (UnhandledInterrupt pending, w)))"

text \<open>
  \<open>dispatch_event\<close> of the binary: the event queue of 64 elements is the \<open>irq_ext\<close> of the world. When
  it is full the handler empties it into the log and spins.
\<close>

definition EVENT_QUEUE_SIZE :: nat where
  "EVENT_QUEUE_SIZE = 64"

type_synonym event_queue = "interrupt_event fifo"

definition dispatch_interrupt_event ::
  "interrupt_event \<Rightarrow> ('h, event_queue) world \<Rightarrow> ('h, event_queue) world rust" where
  "dispatch_interrupt_event event w =
     (case enqueue EVENT_QUEUE_SIZE event (irq_ext w) of
        Some q \<Rightarrow> Ret (w\<lparr>irq_ext := q\<rparr>)
      | None \<Rightarrow> (let w = w\<lparr>irq_ext := flush (irq_ext w)\<rparr> in Hang))"

definition MachineExternal ::
  "('h, event_queue) env \<Rightarrow> ('h, event_queue) world \<Rightarrow> ('h, event_queue) world rust" where
  "MachineExternal env w =
     rbind (get_usb_interrupt_event env w) (\<lambda>(event, w). dispatch_interrupt_event event w)"

section \<open>The queue with separate queues for large events\<close>

datatype receive_control_event = ReceiveControlEvent usb_interface u8 setup_packet

datatype receive_packet_event = ReceivePacketEvent usb_interface u8 nat bytes

record multi_event_queue =
  mq_receive_control :: "receive_control_event fifo"
  mq_receive_packet :: "receive_packet_event fifo"
  mq_interrupt_event :: "interrupt_event fifo"

text \<open>The dynamic type of an event, as \<open>downcast_ref\<close> finds it.\<close>

datatype any_event =
    AnyInterrupt interrupt_event | AnyControl receive_control_event | AnyPacket receive_packet_event
  | AnyOther

definition multi_queue_new :: multi_event_queue where
  "multi_queue_new =
     \<lparr>mq_receive_control = queue_new, mq_receive_packet = queue_new, mq_interrupt_event = queue_new\<rparr>"

definition multi_dequeue ::
  "multi_event_queue \<Rightarrow> interrupt_event option \<times> multi_event_queue" where
  "multi_dequeue m =
     (case dequeue (mq_interrupt_event m) of
        Some (e, q) \<Rightarrow> (Some e, m\<lparr>mq_interrupt_event := q\<rparr>)
      | None \<Rightarrow> (None, m))"

definition multi_dequeue_setup_packet ::
  "multi_event_queue \<Rightarrow> receive_control_event option \<times> multi_event_queue" where
  "multi_dequeue_setup_packet m =
     (case dequeue (mq_receive_control m) of
        Some (e, q) \<Rightarrow> (Some e, m\<lparr>mq_receive_control := q\<rparr>)
      | None \<Rightarrow> (None, m))"

definition multi_dequeue_buffer ::
  "multi_event_queue \<Rightarrow> receive_packet_event option \<times> multi_event_queue" where
  "multi_dequeue_buffer m =
     (case dequeue (mq_receive_packet m) of
        Some (e, q) \<Rightarrow> (Some e, m\<lparr>mq_receive_packet := q\<rparr>)
      | None \<Rightarrow> (None, m))"

fun multi_enqueue :: "any_event \<Rightarrow> multi_event_queue \<Rightarrow> (any_event + unit) \<times> multi_event_queue" where
  "multi_enqueue (AnyInterrupt e) m =
     (case enqueue 64 e (mq_interrupt_event m) of
        Some q \<Rightarrow> (Inr (), m\<lparr>mq_interrupt_event := q\<rparr>)
      | None \<Rightarrow> (Inl (AnyInterrupt e), m))"
| "multi_enqueue (AnyControl e) m =
     (case enqueue 16 e (mq_receive_control m) of
        Some q \<Rightarrow> (Inr (), m\<lparr>mq_receive_control := q\<rparr>)
      | None \<Rightarrow> (Inl (AnyControl e), m))"
| "multi_enqueue (AnyPacket e) m =
     (case enqueue 16 e (mq_receive_packet m) of
        Some q \<Rightarrow> (Inr (), m\<lparr>mq_receive_packet := q\<rparr>)
      | None \<Rightarrow> (Inl (AnyPacket e), m))"
| "multi_enqueue AnyOther m = (Inr (), m)"

section \<open>Lemmas\<close>

lemma interrupt_number_lt: "interrupt_number i < 17"
  by (cases i) simp_all

lemma interrupt_try_from_number: "interrupt_try_from (of_nat (interrupt_number i)) = Some i"
  by (cases i) (simp_all add: interrupt_try_from_def)

lemma interrupt_try_from_Some: "interrupt_try_from v = Some i \<longleftrightarrow> v = of_nat (interrupt_number i)"
proof
  assume "interrupt_try_from v = Some i"
  then show "v = of_nat (interrupt_number i)"
    by (auto simp: interrupt_try_from_def split: if_splits)
qed (simp add: interrupt_try_from_number)

lemma interrupt_number_inject: "interrupt_number i = interrupt_number j \<longleftrightarrow> i = j"
  by (metis interrupt_try_from_number option.inject)

lemma ilog2_exp: "n < 2 ^ k \<Longrightarrow> 2 ^ k + n < 2 ^ Suc k \<and> ilog2 (2 ^ k + n) = k"
proof (induction k arbitrary: n)
  case 0
  then show ?case by (simp add: ilog2.simps)
next
  case (Suc k)
  have "(2 ^ Suc k + n) div 2 = 2 ^ k + n div 2" by simp
  moreover have "n div 2 < 2 ^ k" using Suc.prems by simp
  ultimately show ?case using Suc.IH [of "n div 2"] Suc.prems by (subst ilog2.simps) simp
qed

lemma ilog2_bounds: "0 < n \<Longrightarrow> 2 ^ ilog2 n \<le> n \<and> n < 2 ^ Suc (ilog2 n)"
proof (induction n rule: ilog2.induct)
  case (1 n)
  show ?case
  proof (cases "n < 2")
    case True
    with 1 show ?thesis by (simp add: ilog2.simps)
  next
    case False
    with 1 have "2 ^ ilog2 (n div 2) \<le> n div 2 \<and> n div 2 < 2 ^ Suc (ilog2 (n div 2))" by simp
    moreover have "ilog2 n = Suc (ilog2 (n div 2))" using False by (subst ilog2.simps) simp
    ultimately show ?thesis by auto
  qed
qed

end
