(* ===== verification/InterruptsFacts.thy ===== *)
theory InterruptsFacts
  imports Interrupts
begin

text \<open>
  The interrupt handler serves the highest pending interrupt, marks an acknowledged packet, and adds
  exactly one event to the queue of the main loop. Where the queue has room it is an interrupt
  environment for the driver: the assumption \<open>irq_returns\<close> of the driver's lemmas holds.
\<close>

section \<open>Mask register\<close>

text \<open>A mask register that reads back what was written.\<close>

definition mim_storage :: "('h, 'q) env \<Rightarrow> ('h \<Rightarrow> u32) \<Rightarrow> bool" where
  "mim_storage env mim \<longleftrightarrow>
     (\<forall>h. \<exists>h'. env_read env (CSR Mim) h = (mim h, h') \<and> mim h' = mim h) \<and>
     (\<forall>h m. mim (env_write env (CSR Mim) m h) = m)"

lemma mim_storage_read:
  "mim_storage env mim \<Longrightarrow>
     \<exists>w'. reg_read env (CSR Mim) w = (mim (hw w), w') \<and> mim (hw w') = mim (hw w)"
proof -
  assume "mim_storage env mim"
  then obtain h where "env_read env (CSR Mim) (hw w) = (mim (hw w), h)" "mim h = mim (hw w)"
    unfolding mim_storage_def by blast
  then show ?thesis by (simp add: reg_read_def)
qed

lemma set_mim_storage:
  assumes "mim_storage env mim"
  shows "\<exists>w'. set_mim env m w = Ret w' \<and> mim (hw w') = m"
proof -
  let ?w = "w\<lparr>hw := env_write env (CSR Mim) m (hw w)\<rparr>"
  have "mim (hw ?w) = m" using assms by (simp add: mim_storage_def)
  with mim_storage_read [OF assms, of ?w]
  obtain w' where "reg_read env (CSR Mim) ?w = (m, w')" "mim (hw w') = m" by auto
  then show ?thesis by (simp add: set_mim_def wait_mim.simps)
qed

lemma interrupt_enable_mask:
  assumes "mim_storage env mim"
  shows "\<exists>w'. interrupt_enable env i w = Ret w' \<and> mim (hw w') = mim (hw w) OR interrupt_bit i"
proof -
  obtain w1 where "reg_read env (CSR Mim) w = (mim (hw w), w1)"
    using mim_storage_read [OF assms] by blast
  then show ?thesis
    using set_mim_storage [OF assms, of "mim (hw w) OR interrupt_bit i" w1]
    by (simp add: interrupt_enable_def)
qed

lemma interrupt_disable_mask:
  assumes "mim_storage env mim"
  shows "\<exists>w'. interrupt_disable env i w = Ret w' \<and>
    mim (hw w') = mim (hw w) AND NOT (interrupt_bit i)"
proof -
  obtain w1 where "reg_read env (CSR Mim) w = (mim (hw w), w1)"
    using mim_storage_read [OF assms] by blast
  then show ?thesis
    using set_mim_storage [OF assms, of "mim (hw w) AND NOT (interrupt_bit i)" w1]
    by (simp add: interrupt_disable_def)
qed

section \<open>The pending interrupt\<close>

lemma word_highest_bit:
  fixes v :: u32
  assumes "v \<noteq> 0"
  shows "bit v (ilog2 (unat v)) \<and> (\<forall>k > ilog2 (unat v). \<not> bit v k)"
proof -
  let ?k = "ilog2 (unat v)"
  have b: "2 ^ ?k \<le> unat v" "unat v < 2 ^ Suc ?k"
    using ilog2_bounds [of "unat v"] assms by (auto simp: unat_gt_0)
  then have "unat v div 2 ^ ?k = 1" by (intro div_nat_eqI) simp_all
  then have "bit (unat v) ?k" by (simp add: bit_iff_odd)
  moreover have "\<not> bit (unat v) k" if "k > ?k" for k
  proof -
    have "unat v < 2 ^ k" using b(2) that
      by (meson Suc_leI order_less_le_trans one_le_numeral power_increasing)
    then show ?thesis by (simp add: bit_iff_odd)
  qed
  ultimately show ?thesis by (simp add: bit_unsigned_iff)
qed

lemma interrupt_pending_highest:
  assumes "interrupt_pending env w = (Inr i, w')"
  shows "\<exists>bits. env_read env (CSR Mip) (hw w) = (bits, hw w') \<and> bit bits (interrupt_number i) \<and>
    (\<forall>k > interrupt_number i. \<not> bit bits k)"
proof -
  obtain bits h where r: "env_read env (CSR Mip) (hw w) = (bits, h)" by fastforce
  with assms have i: "bits \<noteq> 0" "interrupt_try_from (of_nat (ilog2 (unat bits))) = Some i"
      "w' = w\<lparr>hw := h\<rparr>"
    by (auto simp: interrupt_pending_def reg_read_def split: if_splits option.splits)
  have "bit bits (ilog2 (unat bits))" using word_highest_bit [OF i(1)] by simp
  then have "ilog2 (unat bits) < 32" using bit_imp_le_length by fastforce
  then have "ilog2 (unat bits) = unat (of_nat (ilog2 (unat bits)) :: u8)"
    by (simp add: unat_of_nat_u8)
  also have "\<dots> = interrupt_number i"
    using i(2) interrupt_number_lt [of i] by (simp add: interrupt_try_from_Some unat_of_nat_u8)
  finally show ?thesis using word_highest_bit [OF i(1)] r i(3) by auto
qed

lemma EXTERNAL_INTERRUPTS_nth: "EXTERNAL_INTERRUPTS ! interrupt_number i = i"
  by (cases i) (simp_all add: EXTERNAL_INTERRUPTS_def)

lemma interrupt_number_inj: "interrupt_number i = interrupt_number j \<Longrightarrow> i = j"
  by (metis EXTERNAL_INTERRUPTS_nth)

text \<open>Interrupts are ordered by their numbers, which is the order of their priorities.\<close>

instantiation interrupt :: linorder
begin

definition less_eq_interrupt :: "interrupt \<Rightarrow> interrupt \<Rightarrow> bool" where
  "i \<le> j \<longleftrightarrow> interrupt_number i \<le> interrupt_number j"

definition less_interrupt :: "interrupt \<Rightarrow> interrupt \<Rightarrow> bool" where
  "i < j \<longleftrightarrow> interrupt_number i < interrupt_number j"

instance
  by standard (auto simp: less_eq_interrupt_def less_interrupt_def dest: interrupt_number_inj)

end

lemma interrupts_listed: "i \<in> set EXTERNAL_INTERRUPTS"
  by (cases i) (simp_all add: EXTERNAL_INTERRUPTS_def)

lemma finite_interrupts [simp]: "finite (A :: interrupt set)"
  by (rule finite_subset [of _ "set EXTERNAL_INTERRUPTS"]) (auto simp: interrupts_listed)

text \<open>The interrupts whose bits are set in the register of pending interrupts.\<close>

definition pending_interrupts :: "u32 \<Rightarrow> interrupt set" where
  "pending_interrupts bits = {i. bit bits (interrupt_number i)}"

lemma interrupt_pending_Max:
  assumes "interrupt_pending env w = (Inr i, w')" and "env_read env (CSR Mip) (hw w) = (bits, h)"
  shows "i = Max (pending_interrupts bits)"
proof -
  have "bit bits (interrupt_number i)" "\<forall>k > interrupt_number i. \<not> bit bits k"
    using interrupt_pending_highest [OF assms(1)] assms(2) by auto
  then show ?thesis
    by (intro Max_eqI [symmetric])
      (auto simp: pending_interrupts_def less_eq_interrupt_def intro: leI)
qed

lemma interrupt_try_from_None: "interrupt_try_from v = None \<longleftrightarrow> 17 \<le> unat v"
proof -
  have "interrupt_try_from v \<noteq> None \<longleftrightarrow> (\<exists>i. interrupt_number i = unat v)"
  proof -
    have "v = of_nat (interrupt_number i) \<longleftrightarrow> interrupt_number i = unat v" for i
      using interrupt_number_lt [of i] by (auto simp: unat_of_nat_u8 simp flip: word_unat_eq_iff)
    then show ?thesis by (auto simp: interrupt_try_from_Some)
  qed
  also have "\<dots> \<longleftrightarrow> unat v < 17"
  proof
    assume "unat v < 17"
    moreover have "map interrupt_number EXTERNAL_INTERRUPTS = [0..<17]"
      by (simp add: EXTERNAL_INTERRUPTS_def upt_rec)
    ultimately have "unat v \<in> set (map interrupt_number EXTERNAL_INTERRUPTS)" by simp
    then show "\<exists>i. interrupt_number i = unat v" by auto
  qed (use interrupt_number_lt in metis)
  finally show ?thesis by auto
qed

lemma interrupt_pending_eq:
  assumes "env_read env (CSR Mip) (hw w) = (bits, h)"
  shows "interrupt_pending env w =
    (if bits = 0 then Inl 0 else if 2 ^ 17 \<le> unat bits then Inl bits
     else Inr (Max (pending_interrupts bits)), w\<lparr>hw := h\<rparr>)"
proof (cases "bits = 0")
  case True
  then show ?thesis using assms by (simp add: interrupt_pending_def reg_read_eq)
next
  case False
  have b: "2 ^ ilog2 (unat bits) \<le> unat bits" "unat bits < 2 ^ Suc (ilog2 (unat bits))"
    using ilog2_bounds [of "unat bits"] False by (auto simp: unat_gt_0)
  have "bit bits (ilog2 (unat bits))" using word_highest_bit [OF False] by simp
  then have "ilog2 (unat bits) < 32" using bit_imp_le_length by fastforce
  then have u: "unat (of_nat (ilog2 (unat bits)) :: u8) = ilog2 (unat bits)"
    by (simp add: unat_of_nat_u8)
  have "17 \<le> ilog2 (unat bits) \<longleftrightarrow> 2 ^ 17 \<le> unat bits"
  proof
    assume "17 \<le> ilog2 (unat bits)"
    then have "(2 :: nat) ^ 17 \<le> 2 ^ ilog2 (unat bits)" by (rule power_increasing) simp
    with b(1) show "2 ^ 17 \<le> unat bits" by linarith
  next
    assume "2 ^ 17 \<le> unat bits"
    then have "(2 :: nat) ^ 17 < 2 ^ Suc (ilog2 (unat bits))" using b(2) by linarith
    then have "17 < Suc (ilog2 (unat bits))" by (rule power_less_imp_less_exp [rotated]) simp
    then show "17 \<le> ilog2 (unat bits)" by simp
  qed
  then have none: "interrupt_try_from (of_nat (ilog2 (unat bits))) = None \<longleftrightarrow> 2 ^ 17 \<le> unat bits"
    by (simp add: interrupt_try_from_None u)
  show ?thesis
  proof (cases "interrupt_try_from (of_nat (ilog2 (unat bits)))")
    case None
    then show ?thesis using assms False none by (simp add: interrupt_pending_def reg_read_eq)
  next
    case (Some i)
    then have eq: "interrupt_pending env w = (Inr i, w\<lparr>hw := h\<rparr>)"
      using assms False by (simp add: interrupt_pending_def reg_read_eq)
    then show ?thesis using interrupt_pending_Max [OF eq assms] False none Some by simp
  qed
qed

section \<open>Frames\<close>

lemma device_speed_simple [simp]:
  "device_speed (clear_pending env r w) = device_speed w"
  "device_speed (disable_events env i w) = device_speed w"
  "device_speed (enable_events env i w) = device_speed w"
  "device_speed (set_address env i a w) = device_speed w"
  "device_speed (reset_fifos env i w) = device_speed w"
  by (simp_all add: clear_pending_def disable_events_def enable_events_def set_address_def
      reset_fifos_def Let_def)

lemma irq_ext_simple [simp]:
  "irq_ext (clear_pending env r w) = irq_ext w"
  "irq_ext (disable_events env i w) = irq_ext w"
  "irq_ext (enable_events env i w) = irq_ext w"
  "irq_ext (set_address env i a w) = irq_ext w"
  "irq_ext (reset_fifos env i w) = irq_ext w"
  by (simp_all add: clear_pending_def disable_events_def enable_events_def set_address_def
      reset_fifos_def Let_def)

lemma clear_tx_ack_active_frame:
  "clear_tx_ack_active i ep w = Ret w' \<Longrightarrow> device_speed w' = device_speed w \<and> irq_ext w' = irq_ext w"
  by (auto simp: clear_tx_ack_active_def Let_def split: if_splits)

lemma clear_acks_frame:
  "clear_acks i eps w = Ret w' \<Longrightarrow> device_speed w' = device_speed w \<and> irq_ext w' = irq_ext w"
  by (induction eps arbitrary: w) (auto simp: rust_simps dest!: clear_tx_ack_active_frame)

lemma hal_bus_reset_frame:
  "hal_bus_reset env i w = Ret w' \<Longrightarrow> device_speed w' = device_speed w \<and> irq_ext w' = irq_ext w"
  by (auto simp: hal_bus_reset_def Let_def rust_simps dest!: clear_acks_frame)

definition same_memory :: "('h, 'q) world \<Rightarrow> ('h, 'q) world \<Rightarrow> bool" where
  "same_memory w w' \<longleftrightarrow> tx_ack_active w' = tx_ack_active w \<and> device_speed w' = device_speed w \<and>
     irq_ext w' = irq_ext w"

lemma same_memory_trans: "same_memory a b \<Longrightarrow> same_memory b c \<Longrightarrow> same_memory a c"
  by (simp add: same_memory_def)

lemma same_memory_acks: "same_memory w w' \<Longrightarrow> acks_ok w' = acks_ok w"
  by (simp add: same_memory_def acks_ok_def)

lemma read_bit_memory: "read_bit env r w = (b, w') \<Longrightarrow> same_memory w w'"
  by (simp add: same_memory_def read_bit_frame)

lemma read_field_memory: "read_field env n r w = (v, w') \<Longrightarrow> same_memory w w'"
  by (auto simp: same_memory_def read_field_def split: prod.splits dest: reg_read_frame)

lemma read_control_loop_memory:
  assumes "read_control_loop env i buffer k ov w = Some r"
  shows "same_memory w (snd (snd (snd r)))"
proof (rule read_control_loop.raw_induct [where
      P = "\<lambda>env i buffer k ov w r. same_memory w (snd (snd (snd r)))", OF _ assms])
  fix loop env i buffer k ov w r
  assume IH: "\<And>env i buffer k ov w r. loop env i buffer k ov w = Some r \<Longrightarrow>
      same_memory w (snd (snd (snd r)))"
    and eq: "(let (have, w) = read_bit env (USB i CtlHave) w in
      if \<not> have then Some (k, ov, buffer, w)
      else let (data, w) = read_field env 8 (USB i CtlData) w in
        if k \<ge> length buffer then loop env i buffer k (Suc ov) w
        else loop env i (buffer[k := ucast data]) (Suc k) ov w) = Some r"
  obtain b w1 where h: "read_bit env (USB i CtlHave) w = (b, w1)" by fastforce
  obtain d w2 where d: "read_field env 8 (USB i CtlData) w1 = (d, w2)" by fastforce
  have m: "same_memory w w1" "same_memory w w2"
    using h d by (auto dest: read_bit_memory read_field_memory intro: same_memory_trans)
  show "same_memory w (snd (snd (snd r)))"
  proof (cases b)
    case False
    with eq h have "r = (k, ov, buffer, w1)" by simp
    with m show ?thesis by simp
  next
    case True
    with eq h d have "\<exists>buffer k ov. loop env i buffer k ov w2 = Some r"
      by (auto split: if_splits)
    with IH m(2) show ?thesis by (blast intro: same_memory_trans)
  qed
qed

lemma read_control_memory: "read_control env i buffer w = Ret (n, b, w') \<Longrightarrow> same_memory w w'"
  by (auto simp: read_control_def rust_simps dest!: read_control_loop_memory)

lemma same_memory_refl: "same_memory w w"
  by (simp add: same_memory_def)

section \<open>The handler returns\<close>

text \<open>
  What the handler relies on: the SETUP FIFO of each peripheral is a FIFO, and the endpoint number
  of a finished transmission is one of the sixteen.
\<close>

definition isr_hw :: "('h, 'q) env \<Rightarrow> (usb_idx \<Rightarrow> 'h \<Rightarrow> bytes) \<Rightarrow> bool" where
  "isr_hw env fifo \<longleftrightarrow>
     (\<forall>i. rx_fifo env (USB i CtlHave) (USB i CtlData) (fifo i)) \<and>
     (\<forall>i h. unat (ucast (fst (env_read env (USB i InEpno) h)) :: u8) < 16)"

definition isr_ok :: "(interrupt_event \<times> ('h, 'q) world) rust \<Rightarrow> ('h, 'q) world \<Rightarrow> bool" where
  "isr_ok m w \<longleftrightarrow> (\<exists>e w'. m = Ret (e, w') \<and> acks_ok w' \<and> device_speed w' = device_speed w \<and>
     irq_ext w' = irq_ext w)"

lemma isr_bus_reset_ok:
  assumes "acks_ok w"
  shows "isr_ok (isr_bus_reset env i f w) w"
proof -
  let ?w = "clear_pending env (USB i CtrlEvPending) w"
  have "acks_ok ?w" using assms by (simp add: acks_ok_def)
  from hal_bus_reset_acks [OF this, of env i] obtain w' where
    w': "hal_bus_reset env i ?w = Ret w'" "acks_ok w'" by blast
  with hal_bus_reset_frame [OF w'(1)] show ?thesis by (simp add: isr_ok_def isr_bus_reset_def)
qed

lemma setup_from_eight: "length bs = 8 \<Longrightarrow> \<exists>sp. setup_from bs = Some sp"
  using setup_from_total by blast

lemma isr_ep_control_ok:
  assumes "acks_ok w" and "isr_hw env fifo"
  shows "isr_ok (isr_ep_control env i f m w) w"
proof -
  obtain bits w1 where w1: "reg_read env (USB i CtlEpno) (clear_pending env (USB i CtlEvPending) w) =
      (bits, w1)" by fastforce
  have rx: "rx_fifo env (USB i CtlHave) (USB i CtlData) (fifo i)"
    using assms(2) by (simp add: isr_hw_def)
  obtain n buf w2 where w2: "read_control env i (replicate 8 0) w1 = Ret (n, buf, w2)"
    using read_control_fifo [OF rx, of "replicate 8 0" w1] by blast
  have "length buf = 8" using read_control_buffer [OF w2] by simp
  then obtain sp where sp: "setup_from buf = Some sp" using setup_from_eight by blast
  have "same_memory w1 w2" using w2 by (rule read_control_memory)
  moreover have "same_memory w w1" using reg_read_frame [OF w1] by (simp add: same_memory_def)
  ultimately have "same_memory w w2" by (rule same_memory_trans [rotated])
  then show ?thesis using assms(1) same_memory_acks [of w w2]
    by (simp add: isr_ok_def isr_ep_control_def w1 w2 sp same_memory_def)
qed

lemma isr_ep_in_ok:
  assumes "acks_ok w" and "isr_hw env fifo"
  shows "isr_ok (isr_ep_in env i f w) w"
proof -
  let ?w = "clear_pending env (USB i InEvPending) w"
  obtain bits w1 where w1: "reg_read env (USB i InEpno) ?w = (bits, w1)" by fastforce
  then have "bits = fst (env_read env (USB i InEpno) (hw ?w))"
    by (auto simp: reg_read_def split: prod.splits)
  then have ep: "unat (ucast bits :: u8) < 16" using assms(2) by (simp add: isr_hw_def)
  have m: "same_memory w w1" using reg_read_frame [OF w1] by (simp add: same_memory_def)
  then have "acks_ok w1" using assms(1) same_memory_acks by blast
  from clear_tx_ack_active_Ret [OF this ep, of i] obtain w2 where
    w2: "clear_tx_ack_active i (ucast bits) w1 = Ret w2" "acks_ok w2" by blast
  with clear_tx_ack_active_frame [OF w2(1)] m show ?thesis
    by (simp add: isr_ok_def isr_ep_in_def w1 same_memory_def)
qed

lemma isr_ep_out_ok:
  assumes "acks_ok w"
  shows "isr_ok (isr_ep_out env i f w) w"
proof -
  obtain bits w1 where w1: "reg_read env (USB i OutDataEp) (clear_pending env (USB i OutEvPending) w) =
      (bits, w1)" by fastforce
  have "same_memory w w1" using reg_read_frame [OF w1] by (simp add: same_memory_def)
  then show ?thesis using assms same_memory_acks [of w w1]
    by (simp add: isr_ok_def isr_ep_out_def w1 same_memory_def)
qed

lemma get_usb_interrupt_event_ok:
  assumes "acks_ok w" and "isr_hw env fifo"
  shows "isr_ok (get_usb_interrupt_event env w) w"
proof -
  obtain r w1 where r: "interrupt_pending env w = (r, w1)" by fastforce
  then have m: "same_memory w w1"
    by (auto simp: interrupt_pending_def same_memory_def split: prod.splits if_splits option.splits
        dest: reg_read_frame)
  then have w1: "acks_ok w1" using assms(1) same_memory_acks by blast
  note arms = isr_bus_reset_ok [OF w1] isr_ep_control_ok [OF w1 assms(2)]
    isr_ep_in_ok [OF w1 assms(2)] isr_ep_out_ok [OF w1]
  have other: "isr_ok (Ret (e, w1)) w1" for e using w1 by (simp add: isr_ok_def)
  have "isr_ok (get_usb_interrupt_event env w) w1"
    by (cases r; cases "projr r")
      (simp_all add: get_usb_interrupt_event_def r arms other)
  with m show ?thesis by (simp add: isr_ok_def same_memory_def)
qed

lemma MachineExternal_Ret:
  assumes "acks_ok w" and "isr_hw env fifo" and "length (irq_ext w) < 64"
  shows "\<exists>e w'. MachineExternal env w = Ret w' \<and> irq_ext w' = irq_ext w @ [e] \<and> acks_ok w' \<and>
    device_speed w' = device_speed w"
proof -
  obtain e w1 where w1: "get_usb_interrupt_event env w = Ret (e, w1)" "acks_ok w1"
      "device_speed w1 = device_speed w" "irq_ext w1 = irq_ext w"
    using get_usb_interrupt_event_ok [OF assms(1,2)] by (auto simp: isr_ok_def)
  then have "MachineExternal env w = Ret (w1\<lparr>irq_ext := irq_ext w @ [e]\<rparr>)"
    using assms(3)
    by (simp add: MachineExternal_def dispatch_interrupt_event_def enqueue_def EVENT_QUEUE_SIZE_def)
  with w1 show ?thesis by (simp add: acks_ok_def)
qed

lemma MachineExternal_overflow:
  assumes "acks_ok w" and "isr_hw env fifo" and "64 \<le> length (irq_ext w)"
  shows "MachineExternal env w = Hang"
proof -
  obtain e w1 where "get_usb_interrupt_event env w = Ret (e, w1)" "irq_ext w1 = irq_ext w"
    using get_usb_interrupt_event_ok [OF assms(1,2)] by (auto simp: isr_ok_def)
  then show ?thesis using assms(3)
    by (simp add: MachineExternal_def dispatch_interrupt_event_def enqueue_def EVENT_QUEUE_SIZE_def)
qed

text \<open>The environment of the firmware: the CPU takes an interrupt where \<open>take\<close> says so.\<close>

definition with_isr ::
  "('h, event_queue) env \<Rightarrow> (('h, event_queue) world \<Rightarrow> bool) \<Rightarrow> ('h, event_queue) env" where
  "with_isr env take_irq =
     env\<lparr>env_irq := (\<lambda>w. if take_irq w then MachineExternal env w else Ret w)\<rparr>"

lemma with_isr_returns:
  assumes "isr_hw env fifo" and "\<forall>w. take_irq w \<longrightarrow> length (irq_ext w) < 64"
  shows "irq_returns (with_isr env take_irq)"
  unfolding irq_returns_def
proof (intro allI impI)
  fix w :: "('a, event_queue) world" assume "acks_ok w"
  with MachineExternal_Ret [OF this assms(1)] assms(2)
  show "\<exists>w'. env_irq (with_isr env take_irq) w = Ret w' \<and> acks_ok w' \<and> device_speed w' = device_speed w"
    by (cases "take_irq w") (auto simp: with_isr_def)
qed

section \<open>From the wire to the queue\<close>

text \<open>The SETUP FIFO is not disturbed by the registers the handler touches before it reads it.\<close>

definition setup_stable :: "('h, 'q) env \<Rightarrow> usb_idx \<Rightarrow> ('h \<Rightarrow> bytes) \<Rightarrow> bool" where
  "setup_stable env i fifo \<longleftrightarrow>
     (\<forall>h. \<forall>r \<in> {CSR Mip, USB i CtlEvPending, USB i CtlEpno}. fifo (snd (env_read env r h)) = fifo h) \<and>
     (\<forall>h v. fifo (env_write env (USB i CtlEvPending) v h) = fifo h)"

lemma setup_stable_read:
  "setup_stable env i fifo \<Longrightarrow> r \<in> {CSR Mip, USB i CtlEvPending, USB i CtlEpno} \<Longrightarrow>
     reg_read env r w = (v, w') \<Longrightarrow> fifo (hw w') = fifo (hw w)"
  by (auto simp: setup_stable_def reg_read_eq)

lemma setup_stable_clear:
  "setup_stable env i fifo \<Longrightarrow> fifo (hw (clear_pending env (USB i CtlEvPending) w)) = fifo (hw w)"
  by (simp add: clear_pending_def reg_modify_def reg_read_eq setup_stable_def)

lemma isr_ep_control_setup:
  assumes "rx_fifo env (USB i CtlHave) (USB i CtlData) fifo" and "setup_stable env i fifo"
    and "fifo (hw w) = setup_as_bytes sp"
  shows "\<exists>ep w'. isr_ep_control env i f m w = Ret (UsbEv f (ReceiveSetupPacket ep sp), w') \<and>
    fifo (hw w') = []"
proof -
  obtain bits w1 where w1: "reg_read env (USB i CtlEpno) (clear_pending env (USB i CtlEvPending) w) =
      (bits, w1)" by fastforce
  then have c: "fifo (hw w1) = setup_as_bytes sp"
    using setup_stable_read [OF assms(2) _ w1] setup_stable_clear [OF assms(2)] assms(3) by simp
  obtain w2 where "read_control env i (replicate 8 0) w1 = Ret (8, setup_as_bytes sp, w2)"
      "fifo (hw w2) = []"
    using read_control_fifo [OF assms(1), of "replicate 8 0" w1] by (auto simp: c)
  then show ?thesis by (simp add: isr_ep_control_def w1 setup_from_Some_iff [THEN iffD2])
qed

lemma MachineExternal_setup:
  assumes "interrupt_pending env w = (Inr USB2_EP_CONTROL, w1)"
    and "rx_fifo env (USB Usb2 CtlHave) (USB Usb2 CtlData) fifo" and "setup_stable env Usb2 fifo"
    and "fifo (hw w) = setup_as_bytes sp" and "length (irq_ext w) < 64"
  shows "\<exists>ep w'. MachineExternal env w = Ret w' \<and>
    irq_ext w' = irq_ext w @ [UsbEv ControlPort (ReceiveSetupPacket ep sp)] \<and> fifo (hw w') = []"
proof -
  obtain bits where "reg_read env (CSR Mip) w = (bits, w1)"
    using assms(1) by (auto simp: interrupt_pending_def split: prod.splits if_splits option.splits)
  then have c: "fifo (hw w1) = setup_as_bytes sp" and e: "irq_ext w1 = irq_ext w"
    using setup_stable_read [OF assms(3), of "CSR Mip"] assms(4) by (auto dest: reg_read_frame)
  obtain ep w2 where
    w2: "isr_ep_control env Usb2 ControlPort ''ERROR USB1 received 0 bytes for setup packet'' w1 =
      Ret (UsbEv ControlPort (ReceiveSetupPacket ep sp), w2)" "fifo (hw w2) = []"
    using isr_ep_control_setup [OF assms(2,3) c] by blast
  have "irq_ext w2 = irq_ext w"
  proof -
    obtain b w3 n buf where
      "reg_read env (USB Usb2 CtlEpno) (clear_pending env (USB Usb2 CtlEvPending) w1) = (b, w3)"
      "read_control env Usb2 (replicate 8 0) w3 = Ret (n, buf, w2)"
      using w2(1) by (auto simp: isr_ep_control_def rust_simps Let_def
          split: prod.splits option.splits if_splits)
    then show ?thesis using e by (auto dest!: reg_read_frame read_control_memory simp: same_memory_def)
  qed
  with w2 show ?thesis using assms(1,5)
    by (simp add: MachineExternal_def get_usb_interrupt_event_def dispatch_interrupt_event_def
        enqueue_def EVENT_QUEUE_SIZE_def)
qed

section \<open>The mask and the other registers\<close>

text \<open>The interrupt mask is memory that no other register touches.\<close>

definition mim_private :: "('h, 'q) env \<Rightarrow> ('h \<Rightarrow> u32) \<Rightarrow> bool" where
  "mim_private env mim \<longleftrightarrow> mim_storage env mim \<and>
     (\<forall>r h. r \<noteq> CSR Mim \<longrightarrow> mim (snd (env_read env r h)) = mim h) \<and>
     (\<forall>r v h. r \<noteq> CSR Mim \<longrightarrow> mim (env_write env r v h) = mim h)"

lemma mim_enable_events: "mim_private env mim \<Longrightarrow> mim (hw (enable_events env i w)) = mim (hw w)"
  by (simp add: mim_private_def enable_events_def clear_pending_def reg_modify_def reg_read_eq
      write_bit_def reg_write_def Let_def)

lemma mim_write_bit: "mim_private env mim \<Longrightarrow> r \<noteq> CSR Mim \<Longrightarrow> mim (hw (write_bit env r b w)) = mim (hw w)"
  by (simp add: mim_private_def write_bit_def reg_write_def)

lemma mim_write_field:
  "mim_private env mim \<Longrightarrow> r \<noteq> CSR Mim \<Longrightarrow> mim (hw (write_field env n r v w)) = mim (hw w)"
  by (simp add: mim_private_def write_field_def reg_write_def)

lemma mim_clear_pending:
  "mim_private env mim \<Longrightarrow> r \<noteq> CSR Mim \<Longrightarrow> mim (hw (clear_pending env r w)) = mim (hw w)"
  by (simp add: mim_private_def clear_pending_def reg_modify_def reg_read_eq)

lemma mim_unprime_all: "mim_private env mim \<Longrightarrow> mim (hw (unprime_all env i eps w)) = mim (hw w)"
  by (induction eps arbitrary: w) (simp_all add: mim_write_bit mim_write_field)

lemma mim_disable_events: "mim_private env mim \<Longrightarrow> mim (hw (disable_events env i w)) = mim (hw w)"
  by (simp add: disable_events_def Let_def mim_write_bit mim_clear_pending)

lemma mim_hal_disconnect: "mim_private env mim \<Longrightarrow> mim (hw (hal_disconnect env i w)) = mim (hw w)"
  by (simp add: hal_disconnect_def Let_def reset_fifos_def set_address_def set_speed_def
      mim_write_bit mim_write_field mim_unprime_all mim_disable_events)

end
