(* ===== verification/Moondancer.thy ===== *)
theory Moondancer
  imports ClassCore InterruptsFacts
begin

text \<open>
  \<open>moondancer/src/gcp/moondancer.rs\<close>: the class \<open>moondancer\<close>, through which a host drives the target
  port \<open>USB0\<close>. Interrupt events arrive by \<open>md_dispatch_event\<close> and are queued for the host; the verbs
  read the queues and write the endpoints. The driver instance is \<open>Usb0\<close>; its state is in the world.
\<close>

section \<open>State\<close>

record packet =
  pkt_endpoint_number :: u8
  pkt_bytes_read :: nat
  pkt_buffer :: bytes

definition packet_new :: "u8 \<Rightarrow> nat \<Rightarrow> packet" where
  "packet_new endpoint_number bytes_read =
     \<lparr>pkt_endpoint_number = endpoint_number, pkt_bytes_read = bytes_read,
      pkt_buffer = replicate EP_MAX_PACKET_SIZE 0\<rparr>"

record moondancer =
  md_quirk_flags :: u16
  md_ep_in_max_packet_size :: "u16 list"
  md_ep_out_max_packet_size :: "u16 list"
  md_irq_queue :: "usb_event fifo"
  md_control_queue :: "setup_packet fifo"
  md_packet_buffer :: "packet list"
  md_pending_set_address :: "u8 option"

text \<open>A \<open>heapless::spsc::Queue<T, N>\<close> stores \<open>N - 1\<close> elements, a \<open>heapless::Vec<T, N>\<close> stores \<open>N\<close>.\<close>

definition IRQ_QUEUE_SIZE :: nat where
  "IRQ_QUEUE_SIZE = 64 - 1"

definition CONTROL_QUEUE_SIZE :: nat where
  "CONTROL_QUEUE_SIZE = 8 - 1"

definition PACKET_BUFFER_SIZE :: nat where
  "PACKET_BUFFER_SIZE = 4"

definition moondancer_new :: moondancer where
  "moondancer_new =
     \<lparr>md_quirk_flags = 0,
      md_ep_in_max_packet_size = replicate EP_MAX_ENDPOINTS 0,
      md_ep_out_max_packet_size = replicate EP_MAX_ENDPOINTS 0,
      md_irq_queue = queue_new, md_control_queue = queue_new, md_packet_buffer = [],
      md_pending_set_address = None\<rparr>"

type_synonym ('h, 'q) md_result = "(bytes great_result \<times> moondancer \<times> ('h, 'q) world) rust"

section \<open>Interrupt events\<close>

text \<open>\<open>irq_queue.enqueue(event)\<close>; an event that does not fit is dropped.\<close>

definition md_enqueue_irq :: "usb_event \<Rightarrow> moondancer \<Rightarrow> moondancer" where
  "md_enqueue_irq event m =
     (case enqueue IRQ_QUEUE_SIZE event (md_irq_queue m) of
        Some q \<Rightarrow> m\<lparr>md_irq_queue := q\<rparr> | None \<Rightarrow> m)"

definition is_set_address :: "setup_packet \<Rightarrow> bool" where
  "is_set_address sp \<longleftrightarrow> setup_direction sp = HostToDevice \<and> setup_request_type sp = Standard \<and>
     setup_request sp = SetAddress"

text \<open>The packet made of what \<open>read\<close> put in \<open>rx_buffer\<close>.\<close>

definition md_packet :: "u8 \<Rightarrow> nat \<Rightarrow> bytes \<Rightarrow> packet" where
  "md_packet endpoint_number bytes_read rx_buffer =
     (let packet = packet_new endpoint_number bytes_read in
      if pkt_bytes_read packet > length (pkt_buffer packet)
      then packet\<lparr>pkt_bytes_read := length (pkt_buffer packet)\<rparr>
      else packet\<lparr>pkt_buffer := take bytes_read rx_buffer @ drop bytes_read (pkt_buffer packet)\<rparr>)"

definition md_push_packet :: "packet \<Rightarrow> moondancer \<Rightarrow> moondancer" where
  "md_push_packet packet m =
     (case enqueue PACKET_BUFFER_SIZE packet (md_packet_buffer m) of
        Some ps \<Rightarrow> m\<lparr>md_packet_buffer := ps\<rparr> | None \<Rightarrow> m)"

definition md_dispatch_event ::
  "('h, 'q) env \<Rightarrow> usb_event \<Rightarrow> moondancer \<Rightarrow> ('h, 'q) world \<Rightarrow> (moondancer \<times> ('h, 'q) world) rust" where
  "md_dispatch_event env event m w =
     (case event of
        BusReset \<Rightarrow>
          Ret (md_enqueue_irq event (m\<lparr>md_pending_set_address := None\<rparr>), w)
      | ReceiveSetupPacket endpoint_number setup_packet \<Rightarrow>
          if is_set_address setup_packet then
            let address = ucast (sp_value setup_packet AND 0x7f) in
            rbind (hal_ack env Usb0 endpoint_number HostToDevice w) (\<lambda>w.
            Ret (m\<lparr>md_pending_set_address := Some address\<rparr>, w))
          else
            (case enqueue CONTROL_QUEUE_SIZE setup_packet (md_control_queue m) of
               None \<Rightarrow> Hang
             | Some q \<Rightarrow>
                 Ret (md_enqueue_irq (ReceiveControl endpoint_number) (m\<lparr>md_control_queue := q\<rparr>), w))
      | SendComplete _ \<Rightarrow>
          (case md_pending_set_address m of
             Some address \<Rightarrow>
               Ret (m\<lparr>md_pending_set_address := None\<rparr>, set_address env Usb0 address w)
           | None \<Rightarrow> Ret (m, w))
      | ReceivePacket endpoint_number \<Rightarrow>
          rbind (hal_read env Usb0 endpoint_number (replicate EP_MAX_PACKET_SIZE 0) w)
            (\<lambda>(bytes_read, rx_buffer, w).
          Ret (md_enqueue_irq event
                 (md_push_packet (md_packet endpoint_number bytes_read rx_buffer) m), w))
      | ReceiveControl _ \<Rightarrow> Ret (md_enqueue_irq event m, w))"

section \<open>Enabling the interrupts of the port\<close>

definition enable_usb_interrupts ::
  "('h, 'q) env \<Rightarrow> ('h, 'q) world \<Rightarrow> ('h, 'q) world rust" where
  "enable_usb_interrupts env w =
     rbind (interrupt_enable env USB0 w) (\<lambda>w.
     rbind (interrupt_enable env USB0_EP_CONTROL w) (\<lambda>w.
     rbind (interrupt_enable env USB0_EP_IN w) (\<lambda>w.
     rbind (interrupt_enable env USB0_EP_OUT w) (\<lambda>w.
     Ret (enable_events env Usb0 w)))))"

definition disable_usb_interrupts ::
  "('h, 'q) env \<Rightarrow> ('h, 'q) world \<Rightarrow> ('h, 'q) world rust" where
  "disable_usb_interrupts env w =
     (let w = disable_events env Usb0 w in
      rbind (interrupt_disable env USB0 w) (\<lambda>w.
      rbind (interrupt_disable env USB0_EP_CONTROL w) (\<lambda>w.
      rbind (interrupt_disable env USB0_EP_IN w) (\<lambda>w.
      interrupt_disable env USB0_EP_OUT w))))"

section \<open>Verbs: device connection\<close>

fun dec_connect :: "bytes \<Rightarrow> (u16 \<times> u8 \<times> u16) option" where
  "dec_connect [a, b, c, d, e] = Some (u16_of a b, c, u16_of d e)"
| "dec_connect _ = None"

text \<open>An interrupt can arrive during the delay; the speed that is read is only logged.\<close>

definition md_connect ::
  "('h, 'q) env \<Rightarrow> bytes \<Rightarrow> moondancer \<Rightarrow> ('h, 'q) world \<Rightarrow> ('h, 'q) md_result" where
  "md_connect env arguments m w =
     (case read_from 5 dec_connect arguments of
        None \<Rightarrow> Ret (Inl InvalidArgument, m, w)
      | Some (ep0_max_packet_size, libusb_speed, quirk_flags) \<Rightarrow>
          let target_speed = from_libusb libusb_speed;
              m = m\<lparr>md_ep_in_max_packet_size :=
                      (md_ep_in_max_packet_size m)[0 := ep0_max_packet_size],
                    md_ep_out_max_packet_size :=
                      (md_ep_out_max_packet_size m)[0 := ep0_max_packet_size],
                    md_quirk_flags := quirk_flags\<rparr>;
              w = hal_connect env Usb0 target_speed w
          in
          rbind (enable_usb_interrupts env w) (\<lambda>w.
          rbind (env_irq env w) (\<lambda>w.
          let (bits, w) = read_field env 2 (USB Usb0 SpeedReg) w in
          rbind (speed_from (ucast bits)) (\<lambda>_. Ret (Inr [], m, w)))))"

definition md_disconnect ::
  "('h, 'q) env \<Rightarrow> bytes \<Rightarrow> moondancer \<Rightarrow> ('h, 'q) world \<Rightarrow> ('h, 'q) md_result" where
  "md_disconnect env arguments m w =
     rbind (disable_usb_interrupts env w) (\<lambda>w.
     let w = hal_disconnect env Usb0 w;
         m = m\<lparr>md_quirk_flags := 0,
               md_ep_in_max_packet_size := replicate EP_MAX_ENDPOINTS 0,
               md_ep_out_max_packet_size := replicate EP_MAX_ENDPOINTS 0,
               md_pending_set_address := None,
               md_irq_queue := flush (md_irq_queue m),
               md_control_queue := flush (md_control_queue m)\<rparr>
     in Ret (Inr [], m, w))"

definition md_bus_reset ::
  "('h, 'q) env \<Rightarrow> bytes \<Rightarrow> moondancer \<Rightarrow> ('h, 'q) world \<Rightarrow> ('h, 'q) md_result" where
  "md_bus_reset env arguments m w = Ret (Inr [], m, w)"

section \<open>Verbs: status and control\<close>

definition md_read_control ::
  "('h, 'q) env \<Rightarrow> bytes \<Rightarrow> moondancer \<Rightarrow> ('h, 'q) world \<Rightarrow> ('h, 'q) md_result" where
  "md_read_control env arguments m w =
     (case dequeue (md_control_queue m) of
        None \<Rightarrow> Hang
      | Some (setup_packet, q) \<Rightarrow>
          Ret (Inr (setup_as_bytes setup_packet), m\<lparr>md_control_queue := q\<rparr>, w))"

fun dec_two :: "bytes \<Rightarrow> (u8 \<times> u8) option" where
  "dec_two [a, b] = Some (a, b)"
| "dec_two _ = None"

definition md_set_address ::
  "('h, 'q) env \<Rightarrow> bytes \<Rightarrow> moondancer \<Rightarrow> ('h, 'q) world \<Rightarrow> ('h, 'q) md_result" where
  "md_set_address env arguments m w =
     (case read_from 2 dec_two arguments of
        None \<Rightarrow> Ret (Inl InvalidArgument, m, w)
      | Some (address, deferred) \<Rightarrow>
          rbind (hal_ack env Usb0 0 HostToDevice (set_address env Usb0 (address AND 0x7f) w)) (\<lambda>w.
          Ret (Inr [], m, w)))"

text \<open>The loop over the endpoint triplets of four bytes; what is left at the end is ignored.\<close>

fun md_configure_loop ::
  "('h, 'q) env \<Rightarrow> bytes \<Rightarrow> moondancer \<Rightarrow> ('h, 'q) world \<Rightarrow> ('h, 'q) md_result" where
  "md_configure_loop env (address # lo # hi # transfer_type # next) m w =
     (let max_packet_size = u16_of lo hi;
          endpoint_number = address AND 0x7f
      in
      if endpoint_number = 0x00 then md_configure_loop env next m w
      else if unat max_packet_size > EP_MAX_PACKET_SIZE then Ret (Inl InvalidArgument, m, w)
      else if direction_from address = HostToDevice then
        if unat endpoint_number < length (md_ep_out_max_packet_size m) then
          md_configure_loop env next
            (m\<lparr>md_ep_out_max_packet_size :=
                 (md_ep_out_max_packet_size m)[unat endpoint_number := max_packet_size]\<rparr>)
            (ep_out_prime_receive env Usb0 endpoint_number w)
        else Panic
      else
        if unat endpoint_number < length (md_ep_in_max_packet_size m) then
          md_configure_loop env next
            (m\<lparr>md_ep_in_max_packet_size :=
                 (md_ep_in_max_packet_size m)[unat endpoint_number := max_packet_size]\<rparr>) w
        else Panic)"
| "md_configure_loop env _ m w = Ret (Inr [], m, w)"

definition md_configure_endpoints ::
  "('h, 'q) env \<Rightarrow> bytes \<Rightarrow> moondancer \<Rightarrow> ('h, 'q) world \<Rightarrow> ('h, 'q) md_result" where
  "md_configure_endpoints env arguments m w = md_configure_loop env arguments m w"

definition md_stall_endpoint_in ::
  "('h, 'q) env \<Rightarrow> bytes \<Rightarrow> moondancer \<Rightarrow> ('h, 'q) world \<Rightarrow> ('h, 'q) md_result" where
  "md_stall_endpoint_in env arguments m w =
     (case read_from 1 dec8 arguments of
        None \<Rightarrow> Ret (Inl InvalidArgument, m, w)
      | Some endpoint_number \<Rightarrow> Ret (Inr [], m, stall_endpoint_in env Usb0 endpoint_number w))"

definition md_stall_endpoint_out ::
  "('h, 'q) env \<Rightarrow> bytes \<Rightarrow> moondancer \<Rightarrow> ('h, 'q) world \<Rightarrow> ('h, 'q) md_result" where
  "md_stall_endpoint_out env arguments m w =
     (case read_from 1 dec8 arguments of
        None \<Rightarrow> Ret (Inl InvalidArgument, m, w)
      | Some endpoint_number \<Rightarrow> Ret (Inr [], m, stall_endpoint_out env Usb0 endpoint_number w))"

definition md_clear_feature_endpoint_halt ::
  "('h, 'q) env \<Rightarrow> bytes \<Rightarrow> moondancer \<Rightarrow> ('h, 'q) world \<Rightarrow> ('h, 'q) md_result" where
  "md_clear_feature_endpoint_halt env arguments m w =
     (case read_from 2 dec_two arguments of
        None \<Rightarrow> Ret (Inl InvalidArgument, m, w)
      | Some (endpoint_number, direction) \<Rightarrow>
          let direction = (if direction = 0 then HostToDevice else DeviceToHost)
          in Ret (Inr [], m, clear_feature_endpoint_halt env Usb0 endpoint_number direction w))"

section \<open>Verbs: data transfer\<close>

definition md_read_endpoint ::
  "('h, 'q) env \<Rightarrow> bytes \<Rightarrow> moondancer \<Rightarrow> ('h, 'q) world \<Rightarrow> ('h, 'q) md_result" where
  "md_read_endpoint env arguments m w =
     (case read_from 1 dec8 arguments of
        None \<Rightarrow> Ret (Inl InvalidArgument, m, w)
      | Some endpoint_number \<Rightarrow>
          let (packet, m) =
            (case position (\<lambda>packet. pkt_endpoint_number packet = endpoint_number)
                    (md_packet_buffer m) of
               Some index \<Rightarrow>
                 (md_packet_buffer m ! index,
                  m\<lparr>md_packet_buffer := vec_remove index (md_packet_buffer m)\<rparr>)
             | None \<Rightarrow> (packet_new endpoint_number 0, m))
          in Ret (Inr (take (pkt_bytes_read packet) (pkt_buffer packet)), m, w))"

definition md_test_read_endpoint ::
  "('h, 'q) env \<Rightarrow> bytes \<Rightarrow> moondancer \<Rightarrow> ('h, 'q) world \<Rightarrow> ('h, 'q) md_result" where
  "md_test_read_endpoint env arguments m w =
     (case read_from 4 dec32 arguments of
        None \<Rightarrow> Ret (Inl InvalidArgument, m, w)
      | Some payload_length \<Rightarrow>
          if unat payload_length > LIBGREAT_MAX_COMMAND_SIZE
          then Ret (Inl NoBufferSpaceAvailable, m, w)
          else
            let rx_buffer = map (\<lambda>index. of_nat (index mod 255)) [0..<LIBGREAT_MAX_COMMAND_SIZE]
            in Ret (Inr (take (unat payload_length) rx_buffer), m, w))"

definition md_ep_out_prime_receive ::
  "('h, 'q) env \<Rightarrow> bytes \<Rightarrow> moondancer \<Rightarrow> ('h, 'q) world \<Rightarrow> ('h, 'q) md_result" where
  "md_ep_out_prime_receive env arguments m w =
     (case read_from 1 dec8 arguments of
        None \<Rightarrow> Ret (Inl InvalidArgument, m, w)
      | Some endpoint_number \<Rightarrow> Ret (Inr [], m, ep_out_prime_receive env Usb0 endpoint_number w))"

definition md_ep_out_interface_enable ::
  "('h, 'q) env \<Rightarrow> bytes \<Rightarrow> moondancer \<Rightarrow> ('h, 'q) world \<Rightarrow> ('h, 'q) md_result" where
  "md_ep_out_interface_enable env arguments m w =
     (let (have, w) = read_bit env (USB Usb0 OutHave) w;
          w = (if have then write_bit env (USB Usb0 OutReset) True w else w)
      in Ret (Inr [], m, write_bit env (USB Usb0 OutEnable) True w))"

text \<open>
  \<open>while blocking & is_tx_ack_active(endpoint_number)\<close>: the operator does not short-circuit, so the
  flag is read once even without blocking. \<open>False\<close> when it timed out.
\<close>

definition md_wait_blocking ::
  "('h, 'q) env \<Rightarrow> u8 \<Rightarrow> bool \<Rightarrow> ('h, 'q) world \<Rightarrow> (bool \<times> ('h, 'q) world) rust" where
  "md_wait_blocking env ep blocking w =
     (if blocking then wait_tx_ack env Usb0 ep 0 w
      else rbind (env_irq env w) (\<lambda>w. rbind (is_tx_ack_active Usb0 ep w) (\<lambda>_. Ret (True, w))))"

fun md_write_control_endpoint ::
  "('h, 'q) env \<Rightarrow> bytes \<Rightarrow> moondancer \<Rightarrow> ('h, 'q) world \<Rightarrow> ('h, 'q) md_result" where
  "md_write_control_endpoint env (endpoint_number # lo # hi # blocking # payload) m w =
     (let requested_length = unat (u16_of lo hi) in
      if unat endpoint_number \<ge> length (md_ep_in_max_packet_size m) then Panic
      else
        rbind (write_requested env Usb0 endpoint_number requested_length
                 (take requested_length payload) w) (\<lambda>(bytes_written, w).
        rbind (md_wait_blocking env endpoint_number (blocking \<noteq> 0) w) (\<lambda>(acked, w).
        Ret (if acked then Inr [] else Inl StreamIoctlTimeout, m, w))))"
| "md_write_control_endpoint env _ m w = Ret (Inl InvalidArgument, m, w)"

fun md_write_endpoint ::
  "('h, 'q) env \<Rightarrow> bytes \<Rightarrow> moondancer \<Rightarrow> ('h, 'q) world \<Rightarrow> ('h, 'q) md_result" where
  "md_write_endpoint env (endpoint_number # blocking # payload) m w =
     (if unat endpoint_number \<ge> length (md_ep_in_max_packet_size m) then Panic
      else
        let max_packet_size = unat (md_ep_in_max_packet_size m ! unat endpoint_number) in
        rbind (set_tx_ack_active Usb0 endpoint_number w) (\<lambda>w.
        rbind (wait_fifo_empty env Usb0 endpoint_number 0 w) (\<lambda>(empty, w).
        if \<not> empty then Ret (Inl StreamIoctlTimeout, m, w)
        else
          rbind (send_loop env Usb0 endpoint_number max_packet_size payload 0 w)
            (\<lambda>(completed, bytes_written, w).
          if \<not> completed then Ret (Inl StreamIoctlTimeout, m, w)
          else
            rbind (if bytes_written \<noteq> max_packet_size then prime_in env Usb0 endpoint_number w
                   else Ret w) (\<lambda>w.
            rbind (md_wait_blocking env endpoint_number (blocking \<noteq> 0) w) (\<lambda>(acked, w).
            Ret (if acked then Inr [] else Inl StreamIoctlTimeout, m, w)))))))"
| "md_write_endpoint env _ m w = Ret (Inl InvalidArgument, m, w)"

fun md_test_write_endpoint ::
  "('h, 'q) env \<Rightarrow> bytes \<Rightarrow> moondancer \<Rightarrow> ('h, 'q) world \<Rightarrow> ('h, 'q) md_result" where
  "md_test_write_endpoint env (endpoint_number # payload) m w =
     Ret (Inr (le32 (of_nat (length payload))), m, w)"
| "md_test_write_endpoint env [] m w = Ret (Inl InvalidArgument, m, w)"

section \<open>Verbs: interrupts\<close>

definition md_get_interrupt_events ::
  "('h, 'q) env \<Rightarrow> bytes \<Rightarrow> moondancer \<Rightarrow> ('h, 'q) world \<Rightarrow> ('h, 'q) md_result" where
  "md_get_interrupt_events env arguments m w =
     (let clone = md_irq_queue m;
          m = m\<lparr>md_irq_queue := queue_new\<rparr>;
          n = length clone * 2;
          response = concat (map usb_event_into_bytes clone);
          (tx_buffer, _) = copy_into (replicate LIBGREAT_MAX_COMMAND_SIZE 0) response
      in Ret (Inr (take n tx_buffer), m, w))"

definition md_test_get_interrupt_events ::
  "('h, 'q) env \<Rightarrow> bytes \<Rightarrow> moondancer \<Rightarrow> ('h, 'q) world \<Rightarrow> ('h, 'q) md_result" where
  "md_test_get_interrupt_events env arguments m w =
     (let m = md_enqueue_irq BusReset m;
          m = md_enqueue_irq (ReceiveControl 1) m;
          m = md_enqueue_irq (ReceivePacket 2) m;
          m = md_enqueue_irq (SendComplete 3) m
      in md_get_interrupt_events env arguments m w)"

definition md_get_nak_status ::
  "('h, 'q) env \<Rightarrow> bytes \<Rightarrow> moondancer \<Rightarrow> ('h, 'q) world \<Rightarrow> ('h, 'q) md_result" where
  "md_get_nak_status env arguments m w =
     (let (bits, w) = reg_read env (USB Usb0 InNak) w;
          nak_status = ucast (bits AND 0xffff) :: u16
      in Ret (Inr (le16 nak_status), m, w))"

section \<open>Class information\<close>

definition md_CLASS_DOCS :: string where
  "md_CLASS_DOCS = cstr ''API for fine-grained control of the Target USB port.''"

definition md_VERBS :: "verb list" where
  "md_VERBS =
    [
      \<lparr>verb_id = 0x00, verb_name = cstr ''connect'', verb_doc = cstr [],
       in_signature = cstr ''<HBH'', in_param_names = cstr ''ep0_max_packet_size, device_speed, quirk_flags'',
       out_signature = cstr [], out_param_names = cstr ''*''\<rparr>,
      \<lparr>verb_id = 0x01, verb_name = cstr ''disconnect'', verb_doc = cstr [],
       in_signature = cstr [], in_param_names = cstr ''*'',
       out_signature = cstr [], out_param_names = cstr ''*''\<rparr>,
      \<lparr>verb_id = 0x02, verb_name = cstr ''bus_reset'', verb_doc = cstr [],
       in_signature = cstr [], in_param_names = cstr ''*'',
       out_signature = cstr [], out_param_names = cstr ''*''\<rparr>,
      \<lparr>verb_id = 0x03, verb_name = cstr ''read_control'', verb_doc = cstr [],
       in_signature = cstr [], in_param_names = cstr ''*'',
       out_signature = cstr ''<8X'', out_param_names = cstr ''setup_packet''\<rparr>,
      \<lparr>verb_id = 0x04, verb_name = cstr ''set_address'', verb_doc = cstr [],
       in_signature = cstr ''<BB'', in_param_names = cstr ''address, deferred'',
       out_signature = cstr [], out_param_names = cstr ''*''\<rparr>,
      \<lparr>verb_id = 0x05, verb_name = cstr ''configure_endpoints'', verb_doc = cstr [],
       in_signature = cstr ''<*(BHB)'', in_param_names = cstr ''endpoint_descriptors'',
       out_signature = cstr [], out_param_names = cstr ''*''\<rparr>,
      \<lparr>verb_id = 0x06, verb_name = cstr ''stall_endpoint_in'', verb_doc = cstr [],
       in_signature = cstr ''<B'', in_param_names = cstr ''endpoint_number'',
       out_signature = cstr [], out_param_names = cstr ''*''\<rparr>,
      \<lparr>verb_id = 0x07, verb_name = cstr ''stall_endpoint_out'', verb_doc = cstr [],
       in_signature = cstr ''<B'', in_param_names = cstr ''endpoint_number'',
       out_signature = cstr [], out_param_names = cstr ''*''\<rparr>,
      \<lparr>verb_id = 0x08, verb_name = cstr ''clear_feature_endpoint_halt'', verb_doc = cstr [],
       in_signature = cstr ''<BB'', in_param_names = cstr ''endpoint_number, direction'',
       out_signature = cstr [], out_param_names = cstr ''*''\<rparr>,
      \<lparr>verb_id = 0x09, verb_name = cstr ''read_endpoint'', verb_doc = cstr [],
       in_signature = cstr ''<B'', in_param_names = cstr ''endpoint_number'',
       out_signature = cstr ''<*X'', out_param_names = cstr ''read_data''\<rparr>,
      \<lparr>verb_id = 0x0a, verb_name = cstr ''ep_out_prime_receive'', verb_doc = cstr [],
       in_signature = cstr ''<B'', in_param_names = cstr ''endpoint_number'',
       out_signature = cstr [], out_param_names = cstr ''*''\<rparr>,
      \<lparr>verb_id = 0x0b, verb_name = cstr ''write_control_endpoint'', verb_doc = cstr [],
       in_signature = cstr ''<BHB*X'', in_param_names = cstr ''endpoint_number, requested_length, blocking, payload'',
       out_signature = cstr [], out_param_names = cstr ''*''\<rparr>,
      \<lparr>verb_id = 0x0c, verb_name = cstr ''write_endpoint'', verb_doc = cstr [],
       in_signature = cstr ''<BB*X'', in_param_names = cstr ''endpoint_number, blocking, payload'',
       out_signature = cstr [], out_param_names = cstr ''*''\<rparr>,
      \<lparr>verb_id = 0x0d, verb_name = cstr ''get_interrupt_events'', verb_doc = cstr [],
       in_signature = cstr [], in_param_names = cstr ''*'',
       out_signature = cstr ''<*(BB)'', out_param_names = cstr ''type, endpoint''\<rparr>,
      \<lparr>verb_id = 0x0e, verb_name = cstr ''get_nak_status'', verb_doc = cstr [],
       in_signature = cstr [], in_param_names = cstr ''*'',
       out_signature = cstr ''<H'', out_param_names = cstr ''bitmask''\<rparr>,
      \<lparr>verb_id = 0x0f, verb_name = cstr ''ep_out_interface_enable'', verb_doc = cstr [],
       in_signature = cstr [], in_param_names = cstr ''*'',
       out_signature = cstr [], out_param_names = cstr ''*''\<rparr>,
      \<lparr>verb_id = 0x28, verb_name = cstr ''test_read_endpoint'', verb_doc = cstr [],
       in_signature = cstr ''<I'', in_param_names = cstr ''payload_length'',
       out_signature = cstr ''<*X'', out_param_names = cstr ''read_data''\<rparr>,
      \<lparr>verb_id = 0x2a, verb_name = cstr ''test_write_endpoint'', verb_doc = cstr [],
       in_signature = cstr ''<B*X'', in_param_names = cstr ''endpoint_number, payload'',
       out_signature = cstr ''<I'', out_param_names = cstr ''payload_length''\<rparr>,
      \<lparr>verb_id = 0x2b, verb_name = cstr ''test_get_interrupt_events'', verb_doc = cstr [],
       in_signature = cstr [], in_param_names = cstr ''*'',
       out_signature = cstr ''<*(BB)'', out_param_names = cstr ''type, endpoint''\<rparr>]"

definition md_CLASS :: gcp_class where
  "md_CLASS = \<lparr>class_id = ClassMoondancer, class_name = ''moondancer'', class_docs = md_CLASS_DOCS,
     class_verbs = md_VERBS\<rparr>"

section \<open>Dispatch\<close>

text \<open>The common tail of the arms; tracing to the logic analyser is a feature that is off.\<close>

definition md_respond ::
  "('h, 'q) md_result \<Rightarrow> bytes \<Rightarrow>
     (great_response great_result \<times> moondancer \<times> ('h, 'q) world) rust" where
  "md_respond r buffer = rbind r (\<lambda>(iter, m, w). Ret (respond iter buffer, m, w))"

definition md_dispatch ::
  "('h, 'q) env \<Rightarrow> u32 \<Rightarrow> bytes \<Rightarrow> bytes \<Rightarrow> moondancer \<times> ('h, 'q) world \<Rightarrow>
     (great_response great_result \<times> moondancer \<times> ('h, 'q) world) rust" where
  "md_dispatch env verb_number arguments buffer s =
     (let (m, w) = s in
      if verb_number = 0x00 then md_respond (md_connect env arguments m w) buffer
      else if verb_number = 0x01 then md_respond (md_disconnect env arguments m w) buffer
      else if verb_number = 0x02 then md_respond (md_bus_reset env arguments m w) buffer
      else if verb_number = 0x03 then md_respond (md_read_control env arguments m w) buffer
      else if verb_number = 0x04 then md_respond (md_set_address env arguments m w) buffer
      else if verb_number = 0x05 then md_respond (md_configure_endpoints env arguments m w) buffer
      else if verb_number = 0x06 then md_respond (md_stall_endpoint_in env arguments m w) buffer
      else if verb_number = 0x07 then md_respond (md_stall_endpoint_out env arguments m w) buffer
      else if verb_number = 0x08 then md_respond (md_clear_feature_endpoint_halt env arguments m w) buffer
      else if verb_number = 0x09 then md_respond (md_read_endpoint env arguments m w) buffer
      else if verb_number = 0x0a then md_respond (md_ep_out_prime_receive env arguments m w) buffer
      else if verb_number = 0x0b then md_respond (md_write_control_endpoint env arguments m w) buffer
      else if verb_number = 0x0c then md_respond (md_write_endpoint env arguments m w) buffer
      else if verb_number = 0x0d then md_respond (md_get_interrupt_events env arguments m w) buffer
      else if verb_number = 0x0e then md_respond (md_get_nak_status env arguments m w) buffer
      else if verb_number = 0x0f then md_respond (md_ep_out_interface_enable env arguments m w) buffer
      else if verb_number = 0x28 then md_respond (md_test_read_endpoint env arguments m w) buffer
      else if verb_number = 0x2a then md_respond (md_test_write_endpoint env arguments m w) buffer
      else if verb_number = 0x2b then md_respond (md_test_get_interrupt_events env arguments m w) buffer
      else Ret (Inl InvalidArgument, m, w))"

end
