(* ===== verification/MoondancerFacts.thy ===== *)
theory MoondancerFacts
  imports Moondancer
begin

text \<open>
  The class \<open>moondancer\<close> keeps its queues and tables within their bounds for every hardware and every
  argument; it is a class implementation in the sense of \<open>gcp_dispatcher\<close>; events, SETUP packets and
  data packets reach the host in the order and with the contents in which they came.
\<close>

section \<open>Invariant\<close>

definition packet_ok :: "packet \<Rightarrow> bool" where
  "packet_ok p \<longleftrightarrow> length (pkt_buffer p) = EP_MAX_PACKET_SIZE \<and> pkt_bytes_read p \<le> EP_MAX_PACKET_SIZE"

definition md_tables_ok :: "moondancer \<Rightarrow> bool" where
  "md_tables_ok m \<longleftrightarrow>
     length (md_ep_in_max_packet_size m) = EP_MAX_ENDPOINTS \<and>
     length (md_ep_out_max_packet_size m) = EP_MAX_ENDPOINTS \<and>
     (\<forall>ep \<in> {1..<16}. unat (md_ep_in_max_packet_size m ! ep) \<le> EP_MAX_PACKET_SIZE) \<and>
     (\<forall>ep \<in> {1..<16}. unat (md_ep_out_max_packet_size m ! ep) \<le> EP_MAX_PACKET_SIZE)"

definition md_queues_ok :: "moondancer \<Rightarrow> bool" where
  "md_queues_ok m \<longleftrightarrow>
     length (md_irq_queue m) \<le> 63 \<and> length (md_control_queue m) \<le> 7 \<and>
     length (md_packet_buffer m) \<le> 4 \<and> (\<forall>p \<in> set (md_packet_buffer m). packet_ok p)"

definition md_ok :: "moondancer \<Rightarrow> bool" where
  "md_ok m \<longleftrightarrow> md_tables_ok m \<and> md_queues_ok m"

lemma md_okI: "md_tables_ok m \<Longrightarrow> md_queues_ok m \<Longrightarrow> md_ok m"
  by (simp add: md_ok_def)

lemma moondancer_new_ok: "md_ok moondancer_new"
  by (simp add: md_ok_def md_tables_ok_def md_queues_ok_def moondancer_new_def queue_new_def
      EP_MAX_ENDPOINTS_def)

lemma md_enqueue_irq_queue:
  "md_irq_queue (md_enqueue_irq e m) =
     (if length (md_irq_queue m) < 63 then md_irq_queue m @ [e] else md_irq_queue m)"
  by (simp add: md_enqueue_irq_def enqueue_def IRQ_QUEUE_SIZE_def)

lemma md_enqueue_irq_fields [simp]:
  "md_control_queue (md_enqueue_irq e m) = md_control_queue m"
  "md_packet_buffer (md_enqueue_irq e m) = md_packet_buffer m"
  "md_ep_in_max_packet_size (md_enqueue_irq e m) = md_ep_in_max_packet_size m"
  "md_ep_out_max_packet_size (md_enqueue_irq e m) = md_ep_out_max_packet_size m"
  "md_pending_set_address (md_enqueue_irq e m) = md_pending_set_address m"
  by (auto simp: md_enqueue_irq_def split: option.splits)

lemma md_tables_enqueue_irq [simp]: "md_tables_ok (md_enqueue_irq e m) = md_tables_ok m"
  by (simp add: md_tables_ok_def)

lemma md_enqueue_irq_ok: "md_ok m \<Longrightarrow> md_ok (md_enqueue_irq e m)"
  by (simp add: md_ok_def md_queues_ok_def md_enqueue_irq_queue)

lemma md_packet_ok: "length rx = EP_MAX_PACKET_SIZE \<Longrightarrow> packet_ok (md_packet ep n rx)"
  by (auto simp: md_packet_def packet_ok_def packet_new_def Let_def)

lemma md_push_packet_ok: "md_ok m \<Longrightarrow> packet_ok p \<Longrightarrow> md_ok (md_push_packet p m)"
  by (auto simp: md_ok_def md_queues_ok_def md_tables_ok_def md_push_packet_def enqueue_def
      PACKET_BUFFER_SIZE_def)

lemma md_ok_pending [simp]: "md_ok (m\<lparr>md_pending_set_address := a\<rparr>) = md_ok m"
  by (simp add: md_ok_def md_queues_ok_def md_tables_ok_def)

lemma md_dispatch_event_ok:
  assumes "md_ok m" and "md_dispatch_event env ev m w = Ret (m', w')"
  shows "md_ok m'"
proof (cases ev)
  case (ReceiveSetupPacket ep sp)
  show ?thesis
  proof (cases "is_set_address sp")
    case True
    with assms ReceiveSetupPacket show ?thesis
      by (auto simp: md_dispatch_event_def rust_simps Let_def)
  next
    case False
    then obtain q where q: "length (md_control_queue m) < 7" "q = md_control_queue m @ [sp]"
      "m' = md_enqueue_irq (ReceiveControl ep) (m\<lparr>md_control_queue := q\<rparr>)"
      using assms(2) ReceiveSetupPacket
      by (auto simp: md_dispatch_event_def enqueue_def CONTROL_QUEUE_SIZE_def split: if_splits)
    then have "md_ok (m\<lparr>md_control_queue := q\<rparr>)"
      using assms(1) by (simp add: md_ok_def md_queues_ok_def md_tables_ok_def)
    with q(3) show ?thesis by (simp add: md_enqueue_irq_ok)
  qed
next
  case (ReceivePacket ep)
  then obtain n rx w1 where
    r: "hal_read env Usb0 ep (replicate EP_MAX_PACKET_SIZE 0) w = Ret (n, rx, w1)"
    and m': "m' = md_enqueue_irq ev (md_push_packet (md_packet ep n rx) m)"
    using assms(2) by (auto simp: md_dispatch_event_def rust_simps)
  have "length rx = EP_MAX_PACKET_SIZE" using hal_read_buffer [OF r] by simp
  with m' show ?thesis using assms(1)
    by (simp add: md_enqueue_irq_ok md_push_packet_ok md_packet_ok)
qed (use assms in \<open>auto simp: md_dispatch_event_def md_enqueue_irq_ok split: option.splits\<close>)

section \<open>The verbs keep it\<close>

lemma unat_list_update_le:
  "unat v \<le> b \<Longrightarrow> unat (xs ! j) \<le> b \<Longrightarrow> j < length xs \<Longrightarrow> unat (xs[i := v] ! j) \<le> b"
  by (cases "i = j") auto

lemma md_tables_update:
  assumes "md_tables_ok m" and "0 < ep" and "unat v \<le> EP_MAX_PACKET_SIZE"
  shows "md_tables_ok (m\<lparr>md_ep_in_max_packet_size := (md_ep_in_max_packet_size m)[ep := v]\<rparr>)"
    and "md_tables_ok (m\<lparr>md_ep_out_max_packet_size := (md_ep_out_max_packet_size m)[ep := v]\<rparr>)"
  using assms by (auto simp: md_tables_ok_def EP_MAX_ENDPOINTS_def intro!: unat_list_update_le)

lemma md_queues_tables [simp]:
  "md_queues_ok (m\<lparr>md_ep_in_max_packet_size := xs\<rparr>) = md_queues_ok m"
  "md_queues_ok (m\<lparr>md_ep_out_max_packet_size := xs\<rparr>) = md_queues_ok m"
  by (simp_all add: md_queues_ok_def)

lemma md_configure_loop_ok:
  "md_configure_loop env args m w = Ret (r, m', w') \<Longrightarrow> md_ok m \<Longrightarrow> md_ok m'"
proof (induction env args m w rule: md_configure_loop.induct)
  case (1 env address lo hi tt nxt m w)
  let ?mps = "u16_of lo hi"
  let ?ep = "address AND 0x7f"
  consider "?ep = 0" | "?ep \<noteq> 0" "unat ?mps > EP_MAX_PACKET_SIZE"
    | "?ep \<noteq> 0" "unat ?mps \<le> EP_MAX_PACKET_SIZE" "direction_from address = HostToDevice"
    | "?ep \<noteq> 0" "unat ?mps \<le> EP_MAX_PACKET_SIZE" "direction_from address \<noteq> HostToDevice"
    by linarith
  then show ?case
  proof cases
    case 1
    with "1.IH"(1) "1.prems" show ?thesis by (simp add: Let_def)
  next
    case 2
    with "1.prems" show ?thesis by (auto simp: Let_def)
  next
    case 3
    then have "unat ?ep < length (md_ep_out_max_packet_size m)"
      using "1.prems"(1) by (auto simp: Let_def split: if_splits)
    moreover have "md_ok (m\<lparr>md_ep_out_max_packet_size :=
        (md_ep_out_max_packet_size m)[unat ?ep := ?mps]\<rparr>)"
      using 3 "1.prems"(2) by (simp add: md_ok_def md_tables_update unat_gt_0)
    ultimately show ?thesis using "1.IH"(2) "1.prems"(1) 3 by (simp add: Let_def)
  next
    case 4
    then have "unat ?ep < length (md_ep_in_max_packet_size m)"
      using "1.prems"(1) by (auto simp: Let_def split: if_splits)
    moreover have "md_ok (m\<lparr>md_ep_in_max_packet_size :=
        (md_ep_in_max_packet_size m)[unat ?ep := ?mps]\<rparr>)"
      using 4 "1.prems"(2) by (simp add: md_ok_def md_tables_update unat_gt_0)
    ultimately show ?thesis using "1.IH"(3) "1.prems"(1) 4 by (simp add: Let_def)
  qed
qed auto

lemma md_connect_tables:
  "md_ok m \<Longrightarrow> md_ok (m\<lparr>md_ep_in_max_packet_size := (md_ep_in_max_packet_size m)[0 := v],
     md_ep_out_max_packet_size := (md_ep_out_max_packet_size m)[0 := v], md_quirk_flags := q\<rparr>)"
  by (simp add: md_ok_def md_queues_ok_def md_tables_ok_def)

lemma md_connect_ok:
  "md_connect env args m w = Ret (r, m', w') \<Longrightarrow> md_ok m \<Longrightarrow> md_ok m'"
  by (auto simp: md_connect_def Let_def rust_simps case_prod_beta' md_connect_tables
      split: option.splits)

lemma md_disconnect_ok:
  "md_disconnect env args m w = Ret (r, m', w') \<Longrightarrow> md_ok m \<Longrightarrow> md_ok m'"
  by (auto simp: md_disconnect_def Let_def rust_simps md_ok_def md_queues_ok_def md_tables_ok_def
      queue_new_def EP_MAX_ENDPOINTS_def)

lemma md_read_control_ok:
  "md_read_control env args m w = Ret (r, m', w') \<Longrightarrow> md_ok m \<Longrightarrow> md_ok m'"
  by (cases "md_control_queue m")
    (auto simp: md_read_control_def md_ok_def md_queues_ok_def md_tables_ok_def)

lemma md_read_endpoint_ok:
  assumes "md_read_endpoint env args m w = Ret (r, m', w')" and "md_ok m"
  shows "md_ok m'"
proof -
  have "md_ok (m\<lparr>md_packet_buffer := vec_remove i (md_packet_buffer m)\<rparr>)"
    if "position p (md_packet_buffer m) = Some i" for p i
  proof -
    have "length (vec_remove i (md_packet_buffer m)) = length (md_packet_buffer m) - 1"
      using position_Some [OF that] by (simp add: length_vec_remove)
    then show ?thesis using assms(2) set_vec_remove [of i "md_packet_buffer m"]
      by (auto simp: md_ok_def md_queues_ok_def md_tables_ok_def)
  qed
  with assms show ?thesis
    by (auto simp: md_read_endpoint_def Let_def split: option.splits)
qed

lemma md_get_interrupt_events_ok:
  "md_get_interrupt_events env args m w = Ret (r, m', w') \<Longrightarrow> md_ok m \<Longrightarrow> md_ok m'"
  by (auto simp: md_get_interrupt_events_def Let_def md_ok_def md_queues_ok_def md_tables_ok_def
      queue_new_def split: prod.splits)

lemma md_test_get_interrupt_events_ok:
  "md_test_get_interrupt_events env args m w = Ret (r, m', w') \<Longrightarrow> md_ok m \<Longrightarrow> md_ok m'"
  by (auto simp: md_test_get_interrupt_events_def Let_def dest!: md_get_interrupt_events_ok
      intro: md_enqueue_irq_ok)

lemma md_write_control_endpoint_state:
  "md_write_control_endpoint env args m w = Ret (r, m', w') \<Longrightarrow> m' = m"
  by (cases "(env, args, m, w)" rule: md_write_control_endpoint.cases)
    (auto simp: Let_def rust_simps split: if_splits)

lemma md_write_endpoint_state:
  "md_write_endpoint env args m w = Ret (r, m', w') \<Longrightarrow> m' = m"
  by (cases "(env, args, m, w)" rule: md_write_endpoint.cases)
    (auto simp: Let_def rust_simps split: if_splits prod.splits)

lemma md_simple_state:
  "md_bus_reset env args m w = Ret (r, m', w') \<Longrightarrow> m' = m"
  "md_set_address env args m w = Ret (r, m', w') \<Longrightarrow> m' = m"
  "md_stall_endpoint_in env args m w = Ret (r, m', w') \<Longrightarrow> m' = m"
  "md_stall_endpoint_out env args m w = Ret (r, m', w') \<Longrightarrow> m' = m"
  "md_clear_feature_endpoint_halt env args m w = Ret (r, m', w') \<Longrightarrow> m' = m"
  "md_test_read_endpoint env args m w = Ret (r, m', w') \<Longrightarrow> m' = m"
  "md_ep_out_prime_receive env args m w = Ret (r, m', w') \<Longrightarrow> m' = m"
  "md_ep_out_interface_enable env args m w = Ret (r, m', w') \<Longrightarrow> m' = m"
  "md_get_nak_status env args m w = Ret (r, m', w') \<Longrightarrow> m' = m"
  by (auto simp: md_bus_reset_def md_set_address_def md_stall_endpoint_in_def
      md_stall_endpoint_out_def md_clear_feature_endpoint_halt_def md_test_read_endpoint_def
      md_ep_out_prime_receive_def md_ep_out_interface_enable_def md_get_nak_status_def rust_simps Let_def
      case_prod_beta' split: option.splits if_splits)

lemma md_test_write_endpoint_state:
  "md_test_write_endpoint env args m w = Ret (r, m', w') \<Longrightarrow> m' = m"
  by (cases "(env, args, m, w)" rule: md_test_write_endpoint.cases) auto

lemmas md_verb_state =
  md_simple_state md_write_control_endpoint_state md_write_endpoint_state md_test_write_endpoint_state

lemmas md_verb_ok =
  md_connect_ok md_disconnect_ok md_read_control_ok md_read_endpoint_ok md_get_interrupt_events_ok
  md_test_get_interrupt_events_ok md_configure_loop_ok

lemma md_respond_Ret:
  "md_respond r buf = Ret (x, m', w') \<longleftrightarrow> (\<exists>iter. r = Ret (iter, m', w') \<and> x = respond iter buf)"
  by (auto simp: md_respond_def rust_simps)

lemma md_configure_endpoints_ok:
  "md_configure_endpoints env args m w = Ret (r, m', w') \<Longrightarrow> md_ok m \<Longrightarrow> md_ok m'"
  by (auto simp: md_configure_endpoints_def dest: md_configure_loop_ok)

lemma md_dispatch_ok:
  assumes "md_dispatch env v args buf (m, w) = Ret (r, m', w')" and "md_ok m"
  shows "md_ok m'"
  using assms unfolding md_dispatch_def Let_def prod.case
  by (auto simp: md_respond_Ret split: if_splits
      dest: md_verb_ok md_configure_endpoints_ok dest!: md_verb_state)

section \<open>A class implementation\<close>

lemma md_verb_ids: "map verb_id md_VERBS =
    [0, 1, 2, 3, 4, 5, 6, 7, 8, 9, 10, 11, 12, 13, 14, 15, 0x28, 0x2a, 0x2b]"
  by (simp add: md_VERBS_def)

lemma md_verb_id_set: "verb_id ` set md_VERBS =
    {0, 1, 2, 3, 4, 5, 6, 7, 8, 9, 10, 11, 12, 13, 14, 15, 0x28, 0x2a, 0x2b}"
  unfolding set_map [symmetric] md_verb_ids by simp

lemma md_respond_fits:
  "md_respond r buf = Ret (Inr response, s') \<Longrightarrow> length response \<le> length buf"
  by (auto simp: md_respond_def rust_simps respond_Inr_iff dest!: sym [of "Inr response"])

interpretation md_disp: gcp_dispatcher "md_dispatch env" md_VERBS for env
proof
  fix v args buf and s s' :: "moondancer \<times> ('a, 'b) world" and r
  show "md_dispatch env v args buf s = Ret (Inl InvalidArgument, s)"
    if "v \<notin> verb_id ` set md_VERBS"
    using that by (cases s) (simp add: md_verb_id_set md_dispatch_def)
  show "length r \<le> length buf" if "md_dispatch env v args buf s = Ret (Inr r, s')"
    using that unfolding md_dispatch_def by (cases s) (auto split: if_splits dest: md_respond_fits)
qed

section \<open>Events\<close>

lemma concat_event_bytes_length: "length (concat (map usb_event_into_bytes es)) = 2 * length es"
  by (induction es) simp_all

lemma md_get_interrupt_events_eq:
  assumes "md_ok m"
  shows "md_get_interrupt_events env args m w =
    Ret (Inr (concat (map usb_event_into_bytes (md_irq_queue m))), m\<lparr>md_irq_queue := []\<rparr>, w)"
proof -
  have "2 * length (md_irq_queue m) \<le> 1024" using assms by (simp add: md_ok_def md_queues_ok_def)
  then show ?thesis
    by (simp add: md_get_interrupt_events_def Let_def copy_into_eq concat_event_bytes_length
        LIBGREAT_MAX_COMMAND_SIZE_def queue_new_def mult.commute)
qed

text \<open>The event the host sees for an event of the port, if any.\<close>

fun host_event :: "usb_event \<Rightarrow> usb_event option" where
  "host_event BusReset = Some BusReset"
| "host_event (ReceiveControl ep) = Some (ReceiveControl ep)"
| "host_event (ReceivePacket ep) = Some (ReceivePacket ep)"
| "host_event (SendComplete ep) = None"
| "host_event (ReceiveSetupPacket ep sp) =
     (if is_set_address sp then None else Some (ReceiveControl ep))"

lemma md_push_packet_irq [simp]: "md_irq_queue (md_push_packet p m) = md_irq_queue m"
  by (auto simp: md_push_packet_def split: option.splits)

lemma md_push_packet_control [simp]: "md_control_queue (md_push_packet p m) = md_control_queue m"
  by (auto simp: md_push_packet_def split: option.splits)

lemma md_dispatch_event_irq:
  assumes "md_dispatch_event env ev m w = Ret (m', w')" and "length (md_irq_queue m) < 63"
  shows "md_irq_queue m' =
    md_irq_queue m @ (case host_event ev of None \<Rightarrow> [] | Some e \<Rightarrow> [e])"
  using assms
  by (cases ev)
    (auto simp: md_dispatch_event_def md_enqueue_irq_queue rust_simps Let_def
      split: if_splits option.splits)

section \<open>SETUP packets\<close>

text \<open>The SETUP packets of a sequence of events that are left to the host.\<close>

fun host_setup :: "usb_event \<Rightarrow> setup_packet option" where
  "host_setup (ReceiveSetupPacket ep sp) = (if is_set_address sp then None else Some sp)"
| "host_setup _ = None"

lemma md_dispatch_event_control:
  assumes "md_dispatch_event env ev m w = Ret (m', w')"
  shows "md_control_queue m' =
    md_control_queue m @ (case host_setup ev of None \<Rightarrow> [] | Some sp \<Rightarrow> [sp])"
  using assms
  by (cases ev)
    (auto simp: md_dispatch_event_def rust_simps Let_def enqueue_Some_iff
      split: if_splits option.splits)

fun md_events ::
  "('h, 'q) env \<Rightarrow> usb_event list \<Rightarrow> moondancer \<Rightarrow> ('h, 'q) world \<Rightarrow>
     (moondancer \<times> ('h, 'q) world) rust" where
  "md_events env [] m w = Ret (m, w)"
| "md_events env (e # es) m w =
     rbind (md_dispatch_event env e m w) (\<lambda>(m, w). md_events env es m w)"

lemma md_events_control:
  "md_events env es m w = Ret (m', w') \<Longrightarrow>
     md_control_queue m' = md_control_queue m @ List.map_filter host_setup es"
  by (induction es arbitrary: m w)
    (auto simp: rust_simps map_filter_simps dest!: md_dispatch_event_control split: option.splits)

lemma md_events_ok: "md_events env es m w = Ret (m', w') \<Longrightarrow> md_ok m \<Longrightarrow> md_ok m'"
  by (induction es arbitrary: m w) (auto simp: rust_simps dest: md_dispatch_event_ok)

lemma md_events_irq:
  "md_events env es m w = Ret (m', w') \<Longrightarrow> length (md_irq_queue m) + length es \<le> 63 \<Longrightarrow>
     md_irq_queue m' = md_irq_queue m @ List.map_filter host_event es"
proof (induction es arbitrary: m w)
  case (Cons e es)
  then obtain m1 w1 where m1: "md_dispatch_event env e m w = Ret (m1, w1)"
    "md_events env es m1 w1 = Ret (m', w')" by (auto simp: rust_simps)
  then have q: "md_irq_queue m1 =
      md_irq_queue m @ (case host_event e of None \<Rightarrow> [] | Some e \<Rightarrow> [e])"
    using Cons.prems(2) by (intro md_dispatch_event_irq) simp_all
  then have "length (md_irq_queue m1) + length es \<le> 63"
    using Cons.prems(2) by (auto split: option.splits)
  from Cons.IH [OF m1(2) this] q show ?case
    by (auto simp: map_filter_simps split: option.splits)
qed (simp add: map_filter_simps)

lemma md_read_control_next:
  "md_control_queue m = sp # q \<Longrightarrow>
     md_read_control env args m w = Ret (Inr (setup_as_bytes sp), m\<lparr>md_control_queue := q\<rparr>, w)"
  by (simp add: md_read_control_def)

lemma md_read_control_empty: "md_control_queue m = [] \<Longrightarrow> md_read_control env args m w = Hang"
  by (simp add: md_read_control_def)

lemma md_control_overflow:
  "length (md_control_queue m) = 7 \<Longrightarrow> \<not> is_set_address sp \<Longrightarrow>
     md_dispatch_event env (ReceiveSetupPacket ep sp) m w = Hang"
  by (simp add: md_dispatch_event_def enqueue_def CONTROL_QUEUE_SIZE_def)

section \<open>Packets from the host\<close>

lemma md_packet_take:
  "n \<le> EP_MAX_PACKET_SIZE \<Longrightarrow> length rx = EP_MAX_PACKET_SIZE \<Longrightarrow>
     take (pkt_bytes_read (md_packet ep n rx)) (pkt_buffer (md_packet ep n rx)) = take n rx"
  by (simp add: md_packet_def packet_new_def Let_def)

lemma md_packet_overflow:
  "EP_MAX_PACKET_SIZE < n \<Longrightarrow>
     take (pkt_bytes_read (md_packet ep n rx)) (pkt_buffer (md_packet ep n rx)) =
       replicate EP_MAX_PACKET_SIZE 0"
  by (simp add: md_packet_def packet_new_def Let_def)

lemma md_packet_endpoint [simp]: "pkt_endpoint_number (md_packet ep n rx) = ep"
  by (simp add: md_packet_def packet_new_def Let_def)

end
