(* ===== verification/MoondancerTransfer.thy ===== *)
theory MoondancerTransfer
  imports MoondancerFacts
begin

text \<open>
  Writing to the target's IN endpoints through the class \<open>moondancer\<close>, and the local handling of
  SET_ADDRESS: when the verbs return, what packets they send, and when an address takes effect.
\<close>

section \<open>Writing returns\<close>

lemma md_wait_blocking_Ret:
  assumes "irq_returns env" and "unat ep < 16" and "acks_ok w"
  shows "\<exists>b w'. md_wait_blocking env ep bl w = Ret (b, w') \<and> acks_ok w'"
proof (cases bl)
  case True
  with wait_tx_ack_Ret [OF assms, of Usb0 0] show ?thesis by (auto simp: md_wait_blocking_def)
next
  case False
  obtain w1 where "env_irq env w = Ret w1" "acks_ok w1"
    using assms(1,3) by (rule irq_returnsE)
  with False assms(2) show ?thesis by (auto simp: md_wait_blocking_def is_tx_ack_active_Ret)
qed

lemma send_loop_Ret_any:
  assumes "irq_returns env" and "unat ep < 16" and "0 < ps \<or> bs = []" and "acks_ok w"
  shows "\<exists>b n w'. send_loop env i ep ps bs k w = Ret (b, n, w') \<and> acks_ok w'"
  using send_loop_Ret [OF assms(1,2) _ assms(4), of ps i bs k] assms(3,4) by (cases "bs = []") auto

lemma md_write_endpoint_Ret:
  assumes "irq_returns env" and "unat ep < 16" and "md_ok m" and "acks_ok w"
    and "0 < unat (md_ep_in_max_packet_size m ! unat ep) \<or> payload = []"
  shows "\<exists>r w'. md_write_endpoint env (ep # blocking # payload) m w = Ret (r, m, w') \<and>
    r \<in> {Inr [], Inl StreamIoctlTimeout} \<and> acks_ok w'"
proof -
  have ep: "unat ep < length (md_ep_in_max_packet_size m)"
    using assms(2,3) by (simp add: md_ok_def md_tables_ok_def EP_MAX_ENDPOINTS_def)
  let ?ps = "unat (md_ep_in_max_packet_size m ! unat ep)"
  obtain w1 where w1: "set_tx_ack_active Usb0 ep w = Ret w1" "acks_ok w1"
    using set_tx_ack_active_Ret [OF assms(4,2)] by blast
  obtain e w2 where w2: "wait_fifo_empty env Usb0 ep 0 w1 = Ret (e, w2)" "acks_ok w2"
    using wait_fifo_empty_Ret [OF assms(1,2) w1(2)] by blast
  obtain b n w3 where w3: "send_loop env Usb0 ep ?ps payload 0 w2 = Ret (b, n, w3)" "acks_ok w3"
    using send_loop_Ret_any [OF assms(1,2,5) w2(2)] by blast
  obtain w4 where w4: "(if n \<noteq> ?ps then prime_in env Usb0 ep w3 else Ret w3) = Ret w4" "acks_ok w4"
    using prime_in_Ret [OF assms(1,2) w3(2), of Usb0] w3(2) by (cases "n \<noteq> ?ps") auto
  obtain a w5 where "md_wait_blocking env ep (blocking \<noteq> 0) w4 = Ret (a, w5)" "acks_ok w5"
    using md_wait_blocking_Ret [OF assms(1,2) w4(2)] by blast
  with ep w1 w2 w3 w4 show ?thesis by (cases e; cases b; cases a) (simp_all add: Let_def)
qed

lemma md_write_endpoint_Panic:
  "md_ok m \<Longrightarrow> 16 \<le> unat ep \<Longrightarrow> md_write_endpoint env (ep # blocking # payload) m w = Panic"
  by (simp add: md_ok_def md_tables_ok_def EP_MAX_ENDPOINTS_def)

lemma md_write_endpoint_short: "length args < 2 \<Longrightarrow>
    md_write_endpoint env args m w = Ret (Inl InvalidArgument, m, w)"
  by (cases "(env, args, m, w)" rule: md_write_endpoint.cases) auto

text \<open>The remainder by a packet size of zero: an endpoint that was never configured.\<close>

lemma md_write_endpoint_unconfigured:
  assumes "patient_host env Usb0 ep log" and "unat ep < 16" and "md_ok m" and "acks_ok w"
    and "md_ep_in_max_packet_size m ! unat ep = 0"
  shows "md_write_endpoint env (ep # blocking # byte # payload) m w = Panic"
proof -
  have ep: "unat ep < length (md_ep_in_max_packet_size m)"
    using assms(2,3) by (simp add: md_ok_def md_tables_ok_def EP_MAX_ENDPOINTS_def)
  obtain w1 where w1: "set_tx_ack_active Usb0 ep w = Ret w1" "acks_ok w1"
    using set_tx_ack_active_Ret [OF assms(4,2)] by blast
  obtain w2 where "wait_fifo_empty env Usb0 ep 0 w1 = Ret (True, w2)"
    using patient_host_fifo [OF assms(1) w1(2)] by blast
  with ep w1 assms(5) show ?thesis by (simp add: Let_def)
qed

section \<open>The packets of a write\<close>

text \<open>
  The host side splits transfers into packets itself, so a payload of exactly one full packet is
  not followed by an empty one; every other payload ends in a short packet.
\<close>

definition md_in_packets :: "nat \<Rightarrow> bytes \<Rightarrow> bytes list" where
  "md_in_packets mps bs =
     full_packets mps bs @ (if length bs = mps then [] else [last_packet mps bs])"

lemma concat_md_in_packets: "0 < mps \<Longrightarrow> concat (md_in_packets mps bs) = bs"
  using concat_full_packets [of mps bs] last_packet_Nil_iff [of mps bs]
  by (auto simp: md_in_packets_def)

lemma md_in_packets_length: "0 < mps \<Longrightarrow> p \<in> set (md_in_packets mps bs) \<Longrightarrow> length p \<le> mps"
  using last_packet_short [of mps bs] full_packets_length [of p mps bs]
  by (auto simp: md_in_packets_def split: if_splits)

lemma md_wait_blocking_patient:
  assumes "patient_host env Usb0 ep log" and "unat ep < 16" and "acks_ok w"
  shows "\<exists>w'. md_wait_blocking env ep bl w = Ret (True, w') \<and> acks_ok w' \<and> log (hw w') = log (hw w)"
proof (cases bl)
  case True
  with patient_host_ack [OF assms(1,3)] show ?thesis by (simp add: md_wait_blocking_def)
next
  case False
  obtain w1 where "env_irq env w = Ret w1" "acks_ok w1" "log (hw w1) = log (hw w)"
    using patient_host_irq [OF assms(1,3)] by blast
  with False assms(2) show ?thesis by (simp add: md_wait_blocking_def is_tx_ack_active_Ret)
qed

lemma md_write_endpoint_packets:
  assumes "logs_writes env log" and "patient_host env Usb0 ep log" and "unat ep < 16"
    and "md_ok m" and "acks_ok w" and "0 < unat (md_ep_in_max_packet_size m ! unat ep)"
  shows "\<exists>w'. md_write_endpoint env (ep # blocking # payload) m w = Ret (Inr [], m, w') \<and>
    acks_ok w' \<and> log (hw w') = log (hw w) @ concat (map (packet_writes Usb0 ep)
      (md_in_packets (unat (md_ep_in_max_packet_size m ! unat ep)) payload))"
proof -
  have ep: "unat ep < length (md_ep_in_max_packet_size m)"
    using assms(3,4) by (simp add: md_ok_def md_tables_ok_def EP_MAX_ENDPOINTS_def)
  let ?ps = "unat (md_ep_in_max_packet_size m ! unat ep)"
  obtain w1 where w1: "set_tx_ack_active Usb0 ep w = Ret w1" "acks_ok w1" "hw w1 = hw w"
    using set_tx_ack_active_hw assms(3,5) by blast
  obtain w2 where w2: "wait_fifo_empty env Usb0 ep 0 w1 = Ret (True, w2)" "acks_ok w2"
      "log (hw w2) = log (hw w1)"
    using patient_host_fifo [OF assms(2) w1(2)] by blast
  obtain w3 where w3: "send_loop env Usb0 ep ?ps payload 0 w2 = Ret (True, length payload, w3)"
      "acks_ok w3" "log (hw w3) = log (hw w2) @ emitted Usb0 ep ?ps 0 payload"
    using send_loop_log [OF assms(1-3,6) w2(2), of payload 0] by auto
  define tail :: "(reg \<times> u32) list" where
    "tail = (if length payload \<noteq> ?ps then [(USB Usb0 InEpno, ucast ep AND mask 4)] else [])"
  obtain w4 where w4: "(if length payload \<noteq> ?ps then prime_in env Usb0 ep w3 else Ret w3) = Ret w4"
      "acks_ok w4" "log (hw w4) = log (hw w3) @ tail"
    using prime_in_log [OF assms(1-3) w3(2)] w3(2)
    by (cases "length payload \<noteq> ?ps") (auto simp: tail_def)
  obtain w5 where w5: "md_wait_blocking env ep (blocking \<noteq> 0) w4 = Ret (True, w5)"
      "acks_ok w5" "log (hw w5) = log (hw w4)"
    using md_wait_blocking_patient [OF assms(2,3) w4(2)] by blast
  have "emitted Usb0 ep ?ps 0 payload @ tail =
      concat (map (packet_writes Usb0 ep) (md_in_packets ?ps payload))"
    using assms(6) last_packet_Nil_iff [of ?ps payload]
    by (auto simp: emitted_packets tail_def md_in_packets_def packet_writes_def)
  with ep w1 w2 w3 w4 w5 show ?thesis by (simp add: Let_def)
qed

section \<open>SET_ADDRESS\<close>

lemma hal_ack_out_Ret:
  assumes "irq_returns env" and "unat ep < 16" and "acks_ok w"
  shows "\<exists>w'. hal_ack env i ep HostToDevice w = Ret w' \<and> acks_ok w'"
proof -
  obtain n w' where "hal_write env i ep [] w = Ret (n, w')" "acks_ok w'"
    using write_with_packet_size_Ret [OF assms(1,2) max_packet_size_pos assms(3), of i None "[]"]
    unfolding hal_write_def by blast
  then show ?thesis by (simp add: hal_ack_def)
qed

definition requested_address :: "setup_packet \<Rightarrow> u8" where
  "requested_address sp = ucast (sp_value sp AND 0x7f)"

lemma md_set_address_event:
  assumes "irq_returns env" and "unat ep < 16" and "acks_ok w" and "is_set_address sp"
  shows "\<exists>w'. md_dispatch_event env (ReceiveSetupPacket ep sp) m w =
    Ret (m\<lparr>md_pending_set_address := Some (requested_address sp)\<rparr>, w') \<and> acks_ok w' \<and>
    hal_ack env Usb0 ep HostToDevice w = Ret w'"
  using hal_ack_out_Ret [OF assms(1-3), of Usb0] assms(4)
  by (auto simp: md_dispatch_event_def requested_address_def)

lemma md_set_address_deferred:
  assumes "irq_returns env" and "unat ep < 16" and "acks_ok w" and "is_set_address sp"
  shows "\<exists>w1. hal_ack env Usb0 ep HostToDevice w = Ret w1 \<and>
    md_events env [ReceiveSetupPacket ep sp, SendComplete e] m w =
      Ret (m\<lparr>md_pending_set_address := None\<rparr>, set_address env Usb0 (requested_address sp) w1) \<and>
    md_events env [ReceiveSetupPacket ep sp, BusReset, SendComplete e] m w =
      Ret (md_enqueue_irq BusReset (m\<lparr>md_pending_set_address := None\<rparr>), w1)"
proof -
  obtain w1 where "md_dispatch_event env (ReceiveSetupPacket ep sp) m w =
      Ret (m\<lparr>md_pending_set_address := Some (requested_address sp)\<rparr>, w1)"
      "hal_ack env Usb0 ep HostToDevice w = Ret w1"
    using md_set_address_event [OF assms] by blast
  then show ?thesis by (simp add: md_dispatch_event_def [of env BusReset] md_dispatch_event_def [of env "SendComplete e"])
qed

end
