(* ===== verification/GcpClasses.thy ===== *)
theory GcpClasses
  imports ClassCore
begin

text \<open>
  The stateless classes of the firmware: \<open>moondancer/src/gcp/firmware.rs\<close>, whose verbs are stubs that
  only check their arguments, and \<open>gcp/selftest.rs\<close>, which sends any error code back. Reading a code
  that is no discriminant of the error enumeration is undefined behaviour.
\<close>

section \<open>firmware\<close>

definition fw_CLASS_DOCS :: string where
  "fw_CLASS_DOCS = cstr ''Common API for updating firmware on a libgreat device.''"

definition fw_VERBS :: "verb list" where
  "fw_VERBS =
    [
      \<lparr>verb_id = 0x0, verb_name = cstr ''initialize'', verb_doc = cstr [],
       in_signature = cstr [], in_param_names = cstr ''*'',
       out_signature = cstr ''<II'', out_param_names = cstr ''page_size, total_size''\<rparr>,
      \<lparr>verb_id = 0x1, verb_name = cstr ''full_erase'', verb_doc = cstr [],
       in_signature = cstr [], in_param_names = cstr ''*'',
       out_signature = cstr [], out_param_names = cstr ''*''\<rparr>,
      \<lparr>verb_id = 0x2, verb_name = cstr ''page_erase'', verb_doc = cstr [],
       in_signature = cstr ''<I'', in_param_names = cstr ''address'',
       out_signature = cstr [], out_param_names = cstr ''*''\<rparr>,
      \<lparr>verb_id = 0x3, verb_name = cstr ''write_page'', verb_doc = cstr [],
       in_signature = cstr ''<I*X'', in_param_names = cstr ''address, data'',
       out_signature = cstr [], out_param_names = cstr ''*''\<rparr>,
      \<lparr>verb_id = 0x4, verb_name = cstr ''read_page'', verb_doc = cstr [],
       in_signature = cstr ''<I'', in_param_names = cstr ''address'',
       out_signature = cstr ''<*X'', out_param_names = cstr ''data''\<rparr>]"

definition fw_CLASS :: gcp_class where
  "fw_CLASS = \<lparr>class_id = ClassFirmware, class_name = ''firmware'', class_docs = fw_CLASS_DOCS,
     class_verbs = fw_VERBS\<rparr>"

definition fw_initialize :: "bytes \<Rightarrow> bytes great_result" where
  "fw_initialize arguments =
     (let page_size = 256 :: u32; total_size = 256 * 8192 :: u32
      in Inr (le32 page_size @ le32 total_size))"

definition fw_full_erase :: "bytes \<Rightarrow> bytes great_result" where
  "fw_full_erase arguments = Inr []"

definition fw_page_erase :: "bytes \<Rightarrow> bytes great_result" where
  "fw_page_erase arguments =
     try_bind (ok_or (read_from 4 dec32 arguments) InvalidArgument) (\<lambda>_. Inr [])"

definition fw_write_page :: "bytes \<Rightarrow> bytes great_result" where
  "fw_write_page arguments =
     try_bind (ok_or (read_prefix 4 dec32 arguments) InvalidArgument) (\<lambda>_. Inr [])"

definition fw_read_page :: "bytes \<Rightarrow> bytes great_result" where
  "fw_read_page arguments =
     try_bind (ok_or (read_from 4 dec32 arguments) InvalidArgument) (\<lambda>_.
     Inr [0, 0, 0, 0, 0, 0, 0, 0])"

definition fw_dispatch :: "u32 \<Rightarrow> bytes \<Rightarrow> bytes \<Rightarrow> great_response great_result" where
  "fw_dispatch verb_number arguments buffer =
     (if verb_number = 0x0 then respond (fw_initialize arguments) buffer
      else if verb_number = 0x1 then respond (fw_full_erase arguments) buffer
      else if verb_number = 0x2 then respond (fw_page_erase arguments) buffer
      else if verb_number = 0x3 then respond (fw_write_page arguments) buffer
      else if verb_number = 0x4 then respond (fw_read_page arguments) buffer
      else Inl InvalidArgument)"

section \<open>selftest\<close>

definition st_CLASS_DOCS :: string where
  "st_CLASS_DOCS = cstr ''Provides functionality for a Cynthion to self-test itself.''"

definition st_VERBS :: "verb list" where
  "st_VERBS =
    [
      \<lparr>verb_id = 0x10, verb_name = cstr ''test_error_return_code'', verb_doc = cstr [],
       in_signature = cstr ''<I'', in_param_names = cstr ''code'',
       out_signature = cstr ''<S'', out_param_names = cstr ''result''\<rparr>]"

definition st_CLASS :: gcp_class where
  "st_CLASS = \<lparr>class_id = ClassSelftest, class_name = ''selftest'', class_docs = st_CLASS_DOCS,
     class_verbs = st_VERBS\<rparr>"

definition test_error_return_code :: "bytes \<Rightarrow> bytes great_result rust" where
  "test_error_return_code arguments =
     (case read_from 4 dec32 arguments of
        None \<Rightarrow> Ret (Inl InvalidArgument)
      | Some code \<Rightarrow>
          if code = 0 then Ret (Inr (as_bytes ''ok''))
          else (case great_error_of_code code of
                  Some e \<Rightarrow> Ret (Inl e)
                | None \<Rightarrow> Undef))"

definition st_dispatch :: "u32 \<Rightarrow> bytes \<Rightarrow> bytes \<Rightarrow> great_response great_result rust" where
  "st_dispatch verb_number arguments buffer =
     (if verb_number = 0x10
      then rbind (test_error_return_code arguments) (\<lambda>r. Ret (respond r buffer))
      else Ret (Inl InvalidArgument))"

section \<open>Lemmas\<close>

lemma fw_verb_id_set: "verb_id ` set fw_VERBS = {0, 1, 2, 3, 4}"
  by (simp add: fw_VERBS_def)

lemma st_verb_id_set: "verb_id ` set st_VERBS = {0x10}"
  by (simp add: st_VERBS_def)

lemma fw_dispatch_fits: "fw_dispatch v args buf = Inr r \<Longrightarrow> length r \<le> length buf"
  by (auto simp: fw_dispatch_def respond_Inr_iff split: if_splits)

interpretation fw_disp: gcp_dispatcher "stateless fw_dispatch" fw_VERBS
proof
  fix v args buf and s s' :: 'a and r
  show "stateless fw_dispatch v args buf s = Ret (Inl InvalidArgument, s)"
    if "v \<notin> verb_id ` set fw_VERBS"
    using that by (simp add: fw_verb_id_set stateless_def fw_dispatch_def)
  show "length r \<le> length buf" if "stateless fw_dispatch v args buf s = Ret (Inr r, s')"
    using that by (auto simp: stateless_Ret_iff dest!: sym [of "Inr r"] fw_dispatch_fits)
qed

text \<open>\<open>selftest\<close> as a class on any state.\<close>

definition st_dispatcher ::
  "u32 \<Rightarrow> bytes \<Rightarrow> bytes \<Rightarrow> 's \<Rightarrow> (great_response great_result \<times> 's) rust" where
  "st_dispatcher v args buf s = rbind (st_dispatch v args buf) (\<lambda>r. Ret (r, s))"

interpretation st_disp: gcp_dispatcher st_dispatcher st_VERBS
proof
  fix v args buf and s s' :: 'a and r
  show "st_dispatcher v args buf s = Ret (Inl InvalidArgument, s)"
    if "v \<notin> verb_id ` set st_VERBS"
    using that by (simp add: st_verb_id_set st_dispatcher_def st_dispatch_def)
  show "length r \<le> length buf" if "st_dispatcher v args buf s = Ret (Inr r, s')"
    using that by (auto simp: st_dispatcher_def st_dispatch_def rust_simps respond_Inr_iff
        split: if_splits dest!: sym [of "Inr r"])
qed

lemma test_error_roundtrip:
  "test_error_return_code (le32 (great_error_code e)) = Ret (Inl e)"
  by (simp add: test_error_return_code_def great_error_code_nonzero)

lemma test_error_undefined:
  "test_error_return_code (le32 code) = Undef \<longleftrightarrow> code \<noteq> 0 \<and> (\<forall>e. great_error_code e \<noteq> code)"
  by (simp add: test_error_return_code_def great_error_of_code_None [symmetric] split: option.splits)

end
