(* ===== verification/UsbDescriptors.thy ===== *)
theory UsbDescriptors
  imports Device
begin

text \<open>
  The devices of the firmware: \<open>moondancer/src/usb.rs\<close> with the constants of
  \<open>cynthion/rust/src/shared.rs\<close> (which reads them from \<open>shared/*.toml\<close>), and the serial device of
  \<open>smolusb/src/class/acm.rs\<close>.
\<close>

section \<open>Shared constants\<close>

definition bulk_in_address :: u8 where
  "bulk_in_address = 0x81"

definition bulk_out_address :: u8 where
  "bulk_out_address = 0x02"

definition vendor_command_request :: u8 where
  "vendor_command_request = 0x65"

definition bVendorId_apollo :: u16 where
  "bVendorId_apollo = 0x1d50"

definition bVendorId_cynthion :: u16 where
  "bVendorId_cynthion = 0x1d50"

definition bProductId_cynthion :: u16 where
  "bProductId_cynthion = 0x615b"

definition bManufacturerString_moondancer :: rust_str where
  "bManufacturerString_moondancer = str_lit ''Cynthion Project''"

definition bProductString_moondancer :: rust_str where
  "bProductString_moondancer = str_lit ''Facedancer''"

definition bInterfaceSubClass_moondancer :: u8 where
  "bInterfaceSubClass_moondancer = 0x20"

definition bInterfaceProtocol_moondancer :: u8 where
  "bInterfaceProtocol_moondancer = 0x00"

section \<open>Vendor requests\<close>

datatype vendor_request =
    UsbCommandRequest | LegacyReadBoardId | LegacyReadVersionString | LegacyReadPartId
  | LegacyReset | LegacyReadDmesg | ApolloClaimInterface | VendorRequestUnknown u8

definition vendor_request_from :: "u8 \<Rightarrow> vendor_request" where
  "vendor_request_from value =
     (if value = 0x04 then LegacyReadBoardId
      else if value = 0x05 then LegacyReadVersionString
      else if value = 0x06 then LegacyReadPartId
      else if value = 0x16 then LegacyReset
      else if value = 0x40 then LegacyReadDmesg
      else if value = 0x65 then UsbCommandRequest
      else if value = 0xf0 then ApolloClaimInterface
      else VendorRequestUnknown value)"

datatype vendor_value = VendorExecute | VendorCancel | VendorValueUnknown u16

definition vendor_value_from :: "u16 \<Rightarrow> vendor_value" where
  "vendor_value_from value =
     (if value = 0x0000 then VendorExecute
      else if value = 0xdead then VendorCancel
      else VendorValueUnknown value)"

section \<open>The control device\<close>

definition md_DEVICE_DESCRIPTOR :: device_descriptor where
  "md_DEVICE_DESCRIPTOR = device_descriptor_new
     \<lparr>dd_bcdUSB := 0x0200, dd_bDeviceClass := 0x00, dd_bDeviceSubClass := 0x00,
      dd_bDeviceProtocol := 0x00, dd_bMaxPacketSize := 64, dd_idVendor := bVendorId_cynthion,
      dd_idProduct := bProductId_cynthion, dd_iManufacturer := 1, dd_iProduct := 2,
      dd_iSerialNumber := 3, dd_bNumConfigurations := 1\<rparr>"

definition md_DEVICE_QUALIFIER_DESCRIPTOR :: device_qualifier_descriptor where
  "md_DEVICE_QUALIFIER_DESCRIPTOR = device_qualifier_new
     \<lparr>dq_bcdUSB := 0x0200, dq_bDeviceClass := 0x00, dq_bDeviceSubClass := 0x00,
      dq_bDeviceProtocol := 0x00, dq_bMaxPacketSize0 := 64, dq_bNumConfigurations := 1\<rparr>"

definition md_CONFIGURATION_DESCRIPTOR_0 :: configuration_descriptor where
  "md_CONFIGURATION_DESCRIPTOR_0 = configuration_new
     (configuration_header_new
        \<lparr>cfg_bDescriptorType := descriptor_type_code DtConfiguration, cfg_bConfigurationValue := 1,
         cfg_iConfiguration := 4, cfg_bmAttributes := 0x80, cfg_bMaxPower := 250\<rparr>)
     [interface_new
       (interface_header_new
        \<lparr>ifd_iInterfaceNumber := 0, ifd_bAlternateSetting := 0, ifd_bInterfaceClass := 0xff,
         ifd_bInterfaceSubClass := bInterfaceSubClass_moondancer, ifd_bInterfaceProtocol := bInterfaceProtocol_moondancer,
         ifd_iInterface := 5\<rparr>)
       [endpoint_descriptor_new
         \<lparr>epd_bEndpointAddress := bulk_in_address, epd_bmAttributes := 0x02, epd_wMaxPacketSize := 512,
          epd_bInterval := 0\<rparr>,
        endpoint_descriptor_new
         \<lparr>epd_bEndpointAddress := bulk_out_address, epd_bmAttributes := 0x02, epd_wMaxPacketSize := 512,
          epd_bInterval := 0\<rparr>],
      interface_new
       (interface_header_new
        \<lparr>ifd_iInterfaceNumber := 1, ifd_bAlternateSetting := 0, ifd_bInterfaceClass := 0xff,
         ifd_bInterfaceSubClass := 0, ifd_bInterfaceProtocol := 0,
         ifd_iInterface := 6\<rparr>)
       []]"

definition md_OTHER_SPEED_CONFIGURATION_DESCRIPTOR_0 :: configuration_descriptor where
  "md_OTHER_SPEED_CONFIGURATION_DESCRIPTOR_0 = configuration_new
     (configuration_header_new
        \<lparr>cfg_bDescriptorType := descriptor_type_code DtOtherSpeedConfiguration, cfg_bConfigurationValue := 1,
         cfg_iConfiguration := 7, cfg_bmAttributes := 0x80, cfg_bMaxPower := 250\<rparr>)
     [interface_new
       (interface_header_new
        \<lparr>ifd_iInterfaceNumber := 0, ifd_bAlternateSetting := 0, ifd_bInterfaceClass := 0xff,
         ifd_bInterfaceSubClass := bInterfaceSubClass_moondancer, ifd_bInterfaceProtocol := bInterfaceProtocol_moondancer,
         ifd_iInterface := 8\<rparr>)
       [endpoint_descriptor_new
         \<lparr>epd_bEndpointAddress := bulk_in_address, epd_bmAttributes := 0x02, epd_wMaxPacketSize := 64,
          epd_bInterval := 0\<rparr>,
        endpoint_descriptor_new
         \<lparr>epd_bEndpointAddress := bulk_out_address, epd_bmAttributes := 0x02, epd_wMaxPacketSize := 64,
          epd_bInterval := 0\<rparr>],
      interface_new
       (interface_header_new
        \<lparr>ifd_iInterfaceNumber := 1, ifd_bAlternateSetting := 0, ifd_bInterfaceClass := 0xff,
         ifd_bInterfaceSubClass := 0, ifd_bInterfaceProtocol := 0,
         ifd_iInterface := 9\<rparr>)
       []]"

definition COMPATIBLE_ID :: bytes where
  "COMPATIBLE_ID = byte_str ''WINUSB'' @ [0, 0]"

definition MS_OS_10_COMPATIBLE_ID :: compat_id_descriptor where
  "MS_OS_10_COMPATIBLE_ID = compat_id_new
     [compat_id_function_new\<lparr>cif_bFirstInterfaceNumber := 0, cif_aCompatibleId := COMPATIBLE_ID\<rparr>,
      compat_id_function_new\<lparr>cif_bFirstInterfaceNumber := 1, cif_aCompatibleId := COMPATIBLE_ID\<rparr>]"

definition MS_OS_10_EXTENDED_PROPERTIES :: extended_properties where
  "MS_OS_10_EXTENDED_PROPERTIES = extended_properties_new"

definition md_STRING_DESCRIPTOR_0 :: string_descriptor_zero where
  "md_STRING_DESCRIPTOR_0 = string_zero_new [EnglishUnitedStates]"

definition md_STRING_DESCRIPTOR_0XEE :: ms_string_descriptor where
  "md_STRING_DESCRIPTOR_0XEE = ms_string_new VendorRequest_Microsoft"

definition md_STRINGS :: "rust_str list" where
  "md_STRINGS =
     [bManufacturerString_moondancer, bProductString_moondancer, str_lit ''0000000000000000'',
      str_lit ''config0'', str_lit ''Facedancer Control'', str_lit ''Apollo Stub'',
      str_lit ''other config0'', str_lit ''other interface0'', str_lit ''other interface1'']"

definition md_STRING_DESCRIPTORS :: "string_descriptor list" where
  "md_STRING_DESCRIPTORS = map string_descriptor_new md_STRINGS"

section \<open>The serial device\<close>

datatype acm_class_request =
    SetLineCoding | GetLineCoding | SetControlLineState | SendBreak | AcmUnknown u8

definition acm_class_request_from :: "u8 \<Rightarrow> acm_class_request" where
  "acm_class_request_from value =
     (if value = 0x20 then SetLineCoding
      else if value = 0x21 then GetLineCoding
      else if value = 0x22 then SetControlLineState
      else if value = 0x23 then SendBreak
      else AcmUnknown value)"

definition acm_DEVICE_DESCRIPTOR :: device_descriptor where
  "acm_DEVICE_DESCRIPTOR = device_descriptor_new
     \<lparr>dd_bcdUSB := 0x0200, dd_bDeviceClass := 0x00, dd_bDeviceSubClass := 0x00,
      dd_bDeviceProtocol := 0x00, dd_bMaxPacketSize := 64, dd_idVendor := 0x1209,
      dd_idProduct := 0x0001, dd_bcdDevice := 0x0001, dd_iManufacturer := 1, dd_iProduct := 2,
      dd_iSerialNumber := 3, dd_bNumConfigurations := 1\<rparr>"

definition acm_DEVICE_QUALIFIER_DESCRIPTOR :: device_qualifier_descriptor where
  "acm_DEVICE_QUALIFIER_DESCRIPTOR = device_qualifier_new
     \<lparr>dq_bcdUSB := 0x0200, dq_bDeviceClass := 0x00, dq_bDeviceSubClass := 0x00,
      dq_bDeviceProtocol := 0x00, dq_bMaxPacketSize0 := 8, dq_bNumConfigurations := 1,
      dq_bReserved := 0\<rparr>"

definition acm_CONFIGURATION_DESCRIPTOR_0 :: configuration_descriptor where
  "acm_CONFIGURATION_DESCRIPTOR_0 = configuration_new
     (configuration_header_new
        \<lparr>cfg_bDescriptorType := descriptor_type_code DtConfiguration, cfg_bConfigurationValue := 1,
         cfg_iConfiguration := 4, cfg_bmAttributes := 0x80, cfg_bMaxPower := 50\<rparr>)
     [interface_new_cs
       (interface_header_new
        \<lparr>ifd_iInterfaceNumber := 0, ifd_bAlternateSetting := 0, ifd_bInterfaceClass := 0x02,
         ifd_bInterfaceSubClass := 0x02, ifd_bInterfaceProtocol := 0x01,
         ifd_iInterface := 5\<rparr>)
       [class_specific_new\<lparr>cs_bDescriptorSubtype := 0x00, cs_bmRaw := 0x0110\<rparr>,
        class_specific_new\<lparr>cs_bDescriptorSubtype := 0x06, cs_bmRaw := 0x0100\<rparr>,
        class_specific_new\<lparr>cs_bDescriptorSubtype := 0x01, cs_bmRaw := 0x0100\<rparr>]
       [endpoint_descriptor_new
         \<lparr>epd_bEndpointAddress := 0x83, epd_bmAttributes := 0x03, epd_wMaxPacketSize := 64,
          epd_bInterval := 11\<rparr>],
      interface_new
       (interface_header_new
        \<lparr>ifd_iInterfaceNumber := 1, ifd_bAlternateSetting := 0, ifd_bInterfaceClass := 0x0a,
         ifd_bInterfaceSubClass := 0x00, ifd_bInterfaceProtocol := 0x00,
         ifd_iInterface := 6\<rparr>)
       [endpoint_descriptor_new
         \<lparr>epd_bEndpointAddress := 0x84, epd_bmAttributes := 0x02, epd_wMaxPacketSize := 64,
          epd_bInterval := 255\<rparr>,
        endpoint_descriptor_new
         \<lparr>epd_bEndpointAddress := 0x04, epd_bmAttributes := 0x02, epd_wMaxPacketSize := 512,
          epd_bInterval := 255\<rparr>]]"

definition acm_OTHER_SPEED_CONFIGURATION_DESCRIPTOR_0 :: configuration_descriptor where
  "acm_OTHER_SPEED_CONFIGURATION_DESCRIPTOR_0 = configuration_new
     (configuration_header_new
        \<lparr>cfg_bDescriptorType := descriptor_type_code DtConfiguration, cfg_bConfigurationValue := 1,
         cfg_iConfiguration := 4, cfg_bmAttributes := 0x80, cfg_bMaxPower := 50\<rparr>)
     [interface_new_cs
       (interface_header_new
        \<lparr>ifd_iInterfaceNumber := 0, ifd_bAlternateSetting := 0, ifd_bInterfaceClass := 0x02,
         ifd_bInterfaceSubClass := 0x02, ifd_bInterfaceProtocol := 0x01,
         ifd_iInterface := 5\<rparr>)
       [class_specific_new\<lparr>cs_bDescriptorSubtype := 0x00, cs_bmRaw := 0x0110\<rparr>,
        class_specific_new\<lparr>cs_bDescriptorSubtype := 0x06, cs_bmRaw := 0x0100\<rparr>,
        class_specific_new\<lparr>cs_bDescriptorSubtype := 0x01, cs_bmRaw := 0x0100\<rparr>]
       [endpoint_descriptor_new
         \<lparr>epd_bEndpointAddress := 0x83, epd_bmAttributes := 0x02, epd_wMaxPacketSize := 64,
          epd_bInterval := 11\<rparr>],
      interface_new
       (interface_header_new
        \<lparr>ifd_iInterfaceNumber := 1, ifd_bAlternateSetting := 0, ifd_bInterfaceClass := 0x0a,
         ifd_bInterfaceSubClass := 0x00, ifd_bInterfaceProtocol := 0x00,
         ifd_iInterface := 6\<rparr>)
       [endpoint_descriptor_new
         \<lparr>epd_bEndpointAddress := 0x84, epd_bmAttributes := 0x02, epd_wMaxPacketSize := 64,
          epd_bInterval := 255\<rparr>,
        endpoint_descriptor_new
         \<lparr>epd_bEndpointAddress := 0x04, epd_bmAttributes := 0x02, epd_wMaxPacketSize := 64,
          epd_bInterval := 255\<rparr>]]"

definition acm_STRING_DESCRIPTOR_0 :: string_descriptor_zero where
  "acm_STRING_DESCRIPTOR_0 = string_zero_new [EnglishUnitedStates]"

definition acm_STRINGS :: "rust_str list" where
  "acm_STRINGS =
     [str_lit ''Cynthion Project'', str_lit ''USB-to-serial'', str_lit ''100'',
      str_lit ''iConfiguration 0'', str_lit ''iInterface 0'', str_lit ''iInterface 1'']"

definition acm_STRING_DESCRIPTORS :: "string_descriptor list" where
  "acm_STRING_DESCRIPTORS = map string_descriptor_new acm_STRINGS"

section \<open>The descriptors are well formed\<close>

lemmas config_defs =
  md_CONFIGURATION_DESCRIPTOR_0_def md_OTHER_SPEED_CONFIGURATION_DESCRIPTOR_0_def
  acm_CONFIGURATION_DESCRIPTOR_0_def acm_OTHER_SPEED_CONFIGURATION_DESCRIPTOR_0_def

lemma device_configurations_sized:
  "configuration_sized md_CONFIGURATION_DESCRIPTOR_0"
  "configuration_sized md_OTHER_SPEED_CONFIGURATION_DESCRIPTOR_0"
  "configuration_sized acm_CONFIGURATION_DESCRIPTOR_0"
  "configuration_sized acm_OTHER_SPEED_CONFIGURATION_DESCRIPTOR_0"
  unfolding config_defs
  by (intro configuration_new_sized, simp add: interface_new_def interface_new_cs_def
      interface_sized_def endpoint_descriptor_new_def class_specific_new_def)+

lemma device_configuration_lengths:
  "length (configuration_iter md_CONFIGURATION_DESCRIPTOR_0) = 41"
  "length (configuration_iter md_OTHER_SPEED_CONFIGURATION_DESCRIPTOR_0) = 41"
  "length (configuration_iter acm_CONFIGURATION_DESCRIPTOR_0) = 63"
  "length (configuration_iter acm_OTHER_SPEED_CONFIGURATION_DESCRIPTOR_0) = 63"
  by (simp_all add: length_configuration_iter config_defs configuration_new_def interface_new_def
      interface_new_cs_def)

text \<open>The strings are ASCII and short, so every string descriptor announces its real length.\<close>

definition descriptor_text :: "rust_str \<Rightarrow> bool" where
  "descriptor_text s \<longleftrightarrow> (\<forall>c \<in> set s. c < 0x80) \<and> str_len s \<le> 126"

lemma device_strings_text: "list_all descriptor_text (md_STRINGS @ acm_STRINGS)"
  by (simp add: md_STRINGS_def acm_STRINGS_def descriptor_text_def str_lit_def str_len_def
      bManufacturerString_moondancer_def bProductString_moondancer_def utf8_width_def)

text \<open>The string indices that a set of descriptors refers to.\<close>

definition string_indices :: "device_descriptor \<Rightarrow> configuration_descriptor list \<Rightarrow> u8 list" where
  "string_indices d cs =
     [dd_iManufacturer d, dd_iProduct d, dd_iSerialNumber d] @
     concat (map (\<lambda>c. cfg_iConfiguration (cd_head c) #
       map (\<lambda>i. ifd_iInterface (if_head i)) (cd_tail c)) cs)"

lemma md_string_indices:
  "string_indices md_DEVICE_DESCRIPTOR
     [md_CONFIGURATION_DESCRIPTOR_0, md_OTHER_SPEED_CONFIGURATION_DESCRIPTOR_0] =
   [1, 2, 3, 4, 5, 6, 7, 8, 9]"
  by (simp add: string_indices_def config_defs md_DEVICE_DESCRIPTOR_def configuration_new_def
      interface_new_def)

lemma acm_string_indices:
  "string_indices acm_DEVICE_DESCRIPTOR
     [acm_CONFIGURATION_DESCRIPTOR_0, acm_OTHER_SPEED_CONFIGURATION_DESCRIPTOR_0] =
   [1, 2, 3, 4, 5, 6, 4, 5, 6]"
  by (simp add: string_indices_def config_defs acm_DEVICE_DESCRIPTOR_def configuration_new_def
      interface_new_def interface_new_cs_def)

end
