(* ===== verification/Peripherals.thy ===== *)
theory Peripherals
  imports UsbDescriptors Interrupts GreatErr
begin

text \<open>
  The small peripherals: \<open>lunasoc-hal/src/timer.rs\<close>, \<open>gpio.rs\<close>, \<open>serial.rs\<close>, the SPI flash UUID of
  \<open>moondancer/src/util.rs\<close>, the buffer writer of \<open>moondancer/src/log.rs\<close> and the logic analyser
  outputs of \<open>moondancer/src/debug.rs\<close>. The instance of a driver macro is the number \<open>k\<close>.
\<close>

section \<open>Timer\<close>

type_synonym u64 = "64 word"

datatype timer_event = TimeOut

record timer =
  timer_index :: nat
  timer_clk :: u32

definition timer_new :: "nat \<Rightarrow> u32 \<Rightarrow> timer" where
  "timer_new k clk = \<lparr>timer_index = k, timer_clk = clk\<rparr>"

definition timer_summon :: "nat \<Rightarrow> timer" where
  "timer_summon k = \<lparr>timer_index = k, timer_clk = 0\<rparr>"

definition timer_counter :: "('h, 'q) env \<Rightarrow> timer \<Rightarrow> ('h, 'q) world \<Rightarrow> u32 \<times> ('h, 'q) world" where
  "timer_counter env t w = read_field env 32 (TimerReg (timer_index t) TimerCtr) w"

definition timer_disable :: "('h, 'q) env \<Rightarrow> timer \<Rightarrow> ('h, 'q) world \<Rightarrow> ('h, 'q) world" where
  "timer_disable env t = write_bit env (TimerReg (timer_index t) TimerEn) False"

definition timer_enable :: "('h, 'q) env \<Rightarrow> timer \<Rightarrow> ('h, 'q) world \<Rightarrow> ('h, 'q) world" where
  "timer_enable env t = write_bit env (TimerReg (timer_index t) TimerEn) True"

definition write_u32 :: "('h, 'q) env \<Rightarrow> reg \<Rightarrow> u32 \<Rightarrow> ('h, 'q) world \<Rightarrow> ('h, 'q) world" where
  "write_u32 env r v = reg_write env r (field_bits 32 v)"

definition set_timeout_ticks ::
  "('h, 'q) env \<Rightarrow> timer \<Rightarrow> u32 \<Rightarrow> ('h, 'q) world \<Rightarrow> ('h, 'q) world" where
  "set_timeout_ticks env t ticks = write_u32 env (TimerReg (timer_index t) TimerReload) ticks"

text \<open>The ticks of a duration of \<open>secs\<close> seconds and \<open>nanos\<close> nanoseconds, in \<open>u64\<close> arithmetic.\<close>

definition timeout_ticks :: "u32 \<Rightarrow> u64 \<Rightarrow> u32 \<Rightarrow> u32" where
  "timeout_ticks clk secs nanos =
     (let NANOS_PER_SECOND = 1000000000 :: u64;
          clk = ucast clk :: u64;
          total = clk * secs + clk * ucast nanos div NANOS_PER_SECOND;
          ticks = (if unat total < 2 ^ 32 then ucast total else - 1)
      in max ticks 1)"

definition set_timeout ::
  "('h, 'q) env \<Rightarrow> timer \<Rightarrow> u64 \<Rightarrow> u32 \<Rightarrow> ('h, 'q) world \<Rightarrow> ('h, 'q) world" where
  "set_timeout env t secs nanos = set_timeout_ticks env t (timeout_ticks (timer_clk t) secs nanos)"

definition timer_listen ::
  "('h, 'q) env \<Rightarrow> timer \<Rightarrow> timer_event \<Rightarrow> ('h, 'q) world \<Rightarrow> ('h, 'q) world" where
  "timer_listen env t event =
     (case event of TimeOut \<Rightarrow> write_bit env (TimerReg (timer_index t) TimerEvEnable) True)"

definition timer_unlisten ::
  "('h, 'q) env \<Rightarrow> timer \<Rightarrow> timer_event \<Rightarrow> ('h, 'q) world \<Rightarrow> ('h, 'q) world" where
  "timer_unlisten env t event =
     (case event of TimeOut \<Rightarrow> write_bit env (TimerReg (timer_index t) TimerEvEnable) False)"

definition timer_is_pending :: "('h, 'q) env \<Rightarrow> timer \<Rightarrow> ('h, 'q) world \<Rightarrow> bool \<times> ('h, 'q) world" where
  "timer_is_pending env t w = read_bit env (TimerReg (timer_index t) TimerEvPending) w"

definition timer_clear_pending :: "('h, 'q) env \<Rightarrow> timer \<Rightarrow> ('h, 'q) world \<Rightarrow> ('h, 'q) world" where
  "timer_clear_pending env t w =
     (let (pending, w) = read_bit env (TimerReg (timer_index t) TimerEvPending) w
      in write_bit env (TimerReg (timer_index t) TimerEvPending) pending w)"

text \<open>\<open>while ctr > 0 {}\<close>\<close>

partial_function (option) wait_counter ::
  "('h, 'q) env \<Rightarrow> timer \<Rightarrow> ('h, 'q) world \<Rightarrow> ('h, 'q) world option" where
  "wait_counter env t w =
     (let (v, w) = timer_counter env t w in if v > 0 then wait_counter env t w else Some w)"

definition delay_us :: "('h, 'q) env \<Rightarrow> timer \<Rightarrow> u32 \<Rightarrow> ('h, 'q) world \<Rightarrow> ('h, 'q) world rust" where
  "delay_us env t us w =
     (let ticks = timer_clk t div 1000000 * us;
          w = write_u32 env (TimerReg (timer_index t) TimerReload) 0 w;
          w = write_u32 env (TimerReg (timer_index t) TimerCtr) ticks w;
          w = timer_enable env t w
      in rbind (of_option (wait_counter env t w)) (\<lambda>w. Ret (timer_disable env t w)))"

section \<open>GPIO\<close>

text \<open>An output pin: the bank \<open>k\<close> and the bit. The new value is made from the input register.\<close>

definition gpio_set_low ::
  "('h, 'q) env \<Rightarrow> nat \<Rightarrow> nat \<Rightarrow> ('h, 'q) world \<Rightarrow> ('h, 'q) world" where
  "gpio_set_low env k index w =
     (let m = NOT (push_bit index 1) :: u32;
          (bits, w) = reg_read env (GpioReg k Idr) w
      in reg_write env (GpioReg k Odr) (\<lambda>_. bits AND m) w)"

definition gpio_set_high ::
  "('h, 'q) env \<Rightarrow> nat \<Rightarrow> nat \<Rightarrow> ('h, 'q) world \<Rightarrow> ('h, 'q) world" where
  "gpio_set_high env k index w =
     (let m = push_bit index 1 :: u32;
          (bits, w) = reg_read env (GpioReg k Idr) w
      in reg_write env (GpioReg k Odr) (\<lambda>_. bits OR m) w)"

definition gpio_is_set_low ::
  "('h, 'q) env \<Rightarrow> nat \<Rightarrow> nat \<Rightarrow> ('h, 'q) world \<Rightarrow> bool \<times> ('h, 'q) world" where
  "gpio_is_set_low env k index w =
     (let (bits, w) = reg_read env (GpioReg k Idr) w in (bits AND push_bit index 1 = 0, w))"

definition gpio_is_set_high ::
  "('h, 'q) env \<Rightarrow> nat \<Rightarrow> nat \<Rightarrow> ('h, 'q) world \<Rightarrow> bool \<times> ('h, 'q) world" where
  "gpio_is_set_high env k index w =
     (let (bits, w) = reg_read env (GpioReg k Idr) w in (bits AND push_bit index 1 \<noteq> 0, w))"

section \<open>Serial port\<close>

text \<open>The non-blocking write of one byte: \<open>False\<close> is \<open>WouldBlock\<close>.\<close>

definition serial_write_byte ::
  "('h, 'q) env \<Rightarrow> nat \<Rightarrow> u8 \<Rightarrow> ('h, 'q) world \<Rightarrow> bool \<times> ('h, 'q) world" where
  "serial_write_byte env k byte w =
     (let (rdy, w) = read_bit env (UartReg k UartTxRdy) w in
      if rdy then (True, write_field env 8 (UartReg k UartTxData) byte w) else (False, w))"

definition serial_flush_nb ::
  "('h, 'q) env \<Rightarrow> nat \<Rightarrow> ('h, 'q) world \<Rightarrow> bool \<times> ('h, 'q) world" where
  "serial_flush_nb env k w = read_bit env (UartReg k UartTxRdy) w"

text \<open>\<open>nb::block!\<close> around them.\<close>

partial_function (option) serial_block_byte ::
  "('h, 'q) env \<Rightarrow> nat \<Rightarrow> u8 \<Rightarrow> ('h, 'q) world \<Rightarrow> ('h, 'q) world option" where
  "serial_block_byte env k byte w =
     (let (written, w) = serial_write_byte env k byte w in
      if written then Some w else serial_block_byte env k byte w)"

partial_function (option) serial_flush ::
  "('h, 'q) env \<Rightarrow> nat \<Rightarrow> ('h, 'q) world \<Rightarrow> ('h, 'q) world option" where
  "serial_flush env k w =
     (let (written, w) = serial_flush_nb env k w in if written then Some w else serial_flush env k w)"

fun serial_write :: "('h, 'q) env \<Rightarrow> nat \<Rightarrow> bytes \<Rightarrow> ('h, 'q) world \<Rightarrow> ('h, 'q) world rust" where
  "serial_write env k [] w = Ret w"
| "serial_write env k (byte # buffer) w =
     rbind (of_option (serial_block_byte env k byte w)) (serial_write env k buffer)"

section \<open>SPI flash UUID\<close>

text \<open>\<open>spi_ready\<close> gives up after 1000 polls.\<close>

function spi_ready ::
  "('h, 'q) env \<Rightarrow> reg \<Rightarrow> nat \<Rightarrow> ('h, 'q) world \<Rightarrow> bool \<times> ('h, 'q) world" where
  "spi_ready env r timeout w =
     (let (ready, w) = read_bit env r w in
      if ready then (True, w)
      else if timeout + 1 > 1000 then (False, w)
      else spi_ready env r (timeout + 1) w)"
  by pat_completeness auto
termination
  by (relation "measure (\<lambda>(env, r, timeout, w). 1000 - timeout)") auto

declare spi_ready.simps [simp del]

fun spi_write_all :: "('h, 'q) env \<Rightarrow> bytes \<Rightarrow> ('h, 'q) world \<Rightarrow> ('h, 'q) world" where
  "spi_write_all env [] w = w"
| "spi_write_all env (byte # command) w =
     spi_write_all env command (write_u32 env (SPI0 RxTx) (ucast byte) w)"

text \<open>The read loop: the response so far, with the number of bytes in it, or the overflow error.\<close>

function uuid_read ::
  "('h, 'q) env \<Rightarrow> bytes \<Rightarrow> nat \<Rightarrow> ('h, 'q) world \<Rightarrow>
     ((great_error + nat \<times> bytes) \<times> ('h, 'q) world) rust" where
  "uuid_read env response n w =
     (let (rdy, w) = read_bit env (SPI0 RxRdy) w in
      if \<not> rdy then Ret (Inr (n, response), w)
      else if n \<ge> length response then Panic
      else
        let (bits, w) = reg_read env (SPI0 RxTx) w;
            response = response[n := ucast bits]
        in
        if n + 1 \<ge> length response then Ret (Inl BadMessage, w)
        else uuid_read env response (n + 1) w)"
  by pat_completeness auto
termination
  by (relation "measure (\<lambda>(env, response, n, w). length response - n)") auto

declare uuid_read.simps [simp del]

definition uuid_command :: bytes where
  "uuid_command = [0x4b, 0, 0, 0, 0, 0, 0, 0, 0, 0, 0, 0, 0]"

definition read_flash_uuid ::
  "('h, 'q) env \<Rightarrow> ('h, 'q) world \<Rightarrow> ((great_error + bytes) \<times> ('h, 'q) world) rust" where
  "read_flash_uuid env w =
     (let w = write_field env 6 (SPI0 PhyLen) 8 w;
          w = write_field env 4 (SPI0 PhyWidth) 1 w;
          w = write_field env 8 (SPI0 PhyMask) 1 w;
          w = write_bit env (SPI0 SpiCs) False w;
          (ready, w) = spi_ready env (SPI0 TxRdy) 0 w
      in
      if \<not> ready then Ret (Inl StreamIoctlTimeout, w)
      else
        let w = spi_write_all env uuid_command w;
            (ready, w) = spi_ready env (SPI0 RxRdy) 0 w
        in
        if \<not> ready then Ret (Inl StreamIoctlTimeout, w)
        else
          rbind (uuid_read env (replicate 32 0) 0 w) (\<lambda>(r, w).
          Ret (try_bind r (\<lambda>(n, response).
            if n \<noteq> 13 then Inl BadMessage else Inr (take (13 - 5) (drop 5 response))), w)))"

text \<open>\<open>{:01x}\<close>: lower case hexadecimal, padded to one digit.\<close>

definition hex_digit :: "nat \<Rightarrow> nat" where
  "hex_digit n = (if n < 10 then 48 + n else 87 + n)"

definition fmt_01x :: "u8 \<Rightarrow> rust_str" where
  "fmt_01x b =
     (if unat b < 16 then [hex_digit (unat b)]
      else [hex_digit (unat b div 16), hex_digit (unat b mod 16)])"

text \<open>\<open>heapless::String<N>::push_str\<close>, whose error the code ignores.\<close>

definition push_str :: "nat \<Rightarrow> rust_str \<Rightarrow> rust_str \<Rightarrow> rust_str" where
  "push_str n s t = (if str_len s + str_len t \<le> n then s @ t else s)"

definition format_flash_uuid :: "bytes \<Rightarrow> rust_str" where
  "format_flash_uuid uuid = fold (\<lambda>b ret. push_str 16 ret (fmt_01x b)) (rev uuid) []"

section \<open>Buffer writer\<close>

record buffer_writer =
  bw_buffer :: bytes
  bw_cursor :: nat

definition bw_new :: "bytes \<Rightarrow> buffer_writer" where
  "bw_new buffer = \<lparr>bw_buffer = buffer, bw_cursor = 0\<rparr>"

definition bw_reset :: "buffer_writer \<Rightarrow> buffer_writer" where
  "bw_reset b = b\<lparr>bw_cursor := 0\<rparr>"

definition bw_as_bytes :: "buffer_writer \<Rightarrow> bytes" where
  "bw_as_bytes b = take (bw_cursor b) (bw_buffer b)"

text \<open>The zip of the free part of the buffer with the bytes of the string.\<close>

fun zip_write :: "bytes \<Rightarrow> bytes \<Rightarrow> bytes" where
  "zip_write (i # buffer) (b # s) = b # zip_write buffer s"
| "zip_write buffer _ = buffer"

definition bw_write_str :: "bytes \<Rightarrow> buffer_writer \<Rightarrow> buffer_writer" where
  "bw_write_str s b =
     (let len = length (bw_buffer b) in
      b\<lparr>bw_buffer := take (bw_cursor b) (bw_buffer b) @ zip_write (drop (bw_cursor b) (bw_buffer b)) s,
        bw_cursor := min len (bw_cursor b + length s)\<rparr>)"

section \<open>Logic analyser outputs\<close>

datatype channel = ChA | ChB | ChC | ChD | ChE | ChF | ChG | ChH

record ladybug =
  lb_a :: u8
  lb_b :: u8

definition ladybug_new ::
  "('h, 'q) env \<Rightarrow> ('h, 'q) world \<Rightarrow> ladybug \<times> ('h, 'q) world" where
  "ladybug_new env w =
     (\<lparr>lb_a = 0, lb_b = 0\<rparr>,
      write_field env 8 (GpioReg 1 Moder) 0b11111111 (write_field env 8 (GpioReg 0 Moder) 0b11111111 w))"

text \<open>\<open>1 << bit_number\<close> on \<open>u8\<close>; the bit numbers in use are below 8.\<close>

definition lb_mask :: "nat \<Rightarrow> u8" where
  "lb_mask bit_number = push_bit (bit_number mod 8) 1"

definition ladybug_high ::
  "('h, 'q) env \<Rightarrow> channel \<Rightarrow> nat \<Rightarrow> ladybug \<Rightarrow> ('h, 'q) world \<Rightarrow> ladybug \<times> ('h, 'q) world" where
  "ladybug_high env ch n l w =
     (case ch of
        ChA \<Rightarrow> (let l = l\<lparr>lb_a := lb_a l OR lb_mask n\<rparr>
               in (l, write_field env 8 (GpioReg 0 Odr) (lb_a l) w))
      | ChB \<Rightarrow> (let l = l\<lparr>lb_b := lb_b l OR lb_mask n\<rparr>
               in (l, write_field env 8 (GpioReg 1 Odr) (lb_b l) w))
      | _ \<Rightarrow> (l, w))"

definition ladybug_low ::
  "('h, 'q) env \<Rightarrow> channel \<Rightarrow> nat \<Rightarrow> ladybug \<Rightarrow> ('h, 'q) world \<Rightarrow> ladybug \<times> ('h, 'q) world" where
  "ladybug_low env ch n l w =
     (case ch of
        ChA \<Rightarrow> (let l = l\<lparr>lb_a := lb_a l XOR lb_mask n\<rparr>
               in (l, write_field env 8 (GpioReg 0 Odr) (lb_a l) w))
      | ChB \<Rightarrow> (let l = l\<lparr>lb_b := lb_b l XOR lb_mask n\<rparr>
               in (l, write_field env 8 (GpioReg 1 Odr) (lb_b l) w))
      | _ \<Rightarrow> (l, w))"

text \<open>\<open>trace\<close> with the feature \<open>enable\<close>; without it, it is just \<open>f\<close>.\<close>

definition ladybug_trace ::
  "('h, 'q) env \<Rightarrow> channel \<Rightarrow> nat \<Rightarrow> (('h, 'q) world \<Rightarrow> 'r \<times> ('h, 'q) world) \<Rightarrow>
     ladybug \<Rightarrow> ('h, 'q) world \<Rightarrow> 'r \<times> ladybug \<times> ('h, 'q) world" where
  "ladybug_trace env ch n f l w =
     (let (l, w) = ladybug_high env ch n l w;
          (result, w) = f w;
          (l, w) = ladybug_low env ch n l w
      in (result, l, w))"

end
