(* ===== verification/PeripheralsFacts.thy ===== *)
theory PeripheralsFacts
  imports Peripherals
begin

text \<open>
  The small peripherals: polling loops end, the buffer writer keeps the front of what was written,
  the timer gets the ticks of the duration, the flash UUID prints as at most sixteen characters.
\<close>

section \<open>Timer\<close>

lemma timeout_ticks_exact:
  assumes "unat clk * unat secs + unat clk * unat nanos < 2 ^ 64"
  shows "unat (timeout_ticks clk secs nanos) =
    max 1 (min (2 ^ 32 - 1) (unat clk * unat secs + unat clk * unat nanos div 1000000000))"
proof -
  let ?total = "ucast clk * secs + ucast clk * ucast nanos div 1000000000 :: u64"
  have u: "unat (ucast (x :: u32) :: u64) = unat x" for x
    by (simp add: unsigned_ucast_eq take_bit_nat_eq_self order_less_trans [OF unsigned_less])
  have m: "unat (ucast clk * secs :: u64) = unat clk * unat secs"
    "unat (ucast clk * ucast nanos :: u64) = unat clk * unat nanos"
    using assms by (simp_all add: unat_word_ariths u)
  have d: "unat (ucast clk * ucast nanos div 1000000000 :: u64) = unat clk * unat nanos div 1000000000"
    by (simp add: unat_div m)
  have "unat clk * unat nanos div 1000000000 \<le> unat clk * unat nanos" by (rule div_le_dividend)
  with assms have "unat clk * unat secs + unat clk * unat nanos div 1000000000 < 2 ^ 64" by linarith
  then have t: "unat ?total = unat clk * unat secs + unat clk * unat nanos div 1000000000"
    unfolding unat_word_ariths(1) m d by simp
  have c: "unat (ucast ?total :: u32) = unat ?total" if "unat ?total < 2 ^ 32"
    using that by (simp add: unsigned_ucast_eq take_bit_nat_eq_self)
  have mx: "unat (max a 1 :: u32) = max 1 (unat a)" for a
    by (auto simp: max_def word_le_nat_alt)
  show ?thesis
  proof (cases "unat ?total < 2 ^ 32")
    case True
    then have "min (2 ^ 32 - 1) (unat ?total) = unat ?total" by simp
    with True show ?thesis by (simp add: timeout_ticks_def Let_def mx c t [symmetric])
  next
    case False
    then have "min (2 ^ 32 - 1) (unat ?total) = 2 ^ 32 - 1" by simp
    moreover have "unat (- 1 :: u32) = 2 ^ 32 - 1"
      by (simp add: unsigned_minus_1_eq_mask mask_eq_exp_minus_1)
    ultimately show ?thesis using False
      by (simp only: timeout_ticks_def Let_def mx if_False t [symmetric])
  qed
qed

lemma and_mask_32 [simp]: "(v :: u32) AND mask 32 = v"
  by (rule bit_word_eqI) (auto simp: bit_simps)

text \<open>A timer that counts down while it is polled.\<close>

definition counts_down :: "('h, 'q) env \<Rightarrow> timer \<Rightarrow> ('h \<Rightarrow> nat) \<Rightarrow> bool" where
  "counts_down env t count \<longleftrightarrow>
     (\<forall>h v h'. env_read env (TimerReg (timer_index t) TimerCtr) h = (v, h') \<longrightarrow>
        unat v = count h \<and> (count h > 0 \<longrightarrow> count h' < count h))"

lemma wait_counter_ends:
  assumes "counts_down env t count"
  shows "\<exists>w'. wait_counter env t w = Some w'"
proof (induction "count (hw w)" arbitrary: w rule: less_induct)
  case less
  obtain v h where r: "env_read env (TimerReg (timer_index t) TimerCtr) (hw w) = (v, h)" by fastforce
  with assms have c: "unat v = count (hw w)" "count (hw w) > 0 \<longrightarrow> count h < count (hw w)"
    unfolding counts_down_def by blast+
  have "timer_counter env t w = (v, w\<lparr>hw := h\<rparr>)"
    using r by (simp add: timer_counter_def read_field_def reg_read_def del: mask_numeral)
  then show ?case
    using c less [of "w\<lparr>hw := h\<rparr>"]
    by (cases "v = 0") (auto simp: wait_counter.simps [of env t w] unat_eq_0 unat_gt_0 word_gt_0)
qed

lemma delay_us_returns:
  "counts_down env t count \<Longrightarrow> returns (delay_us env t us w)"
  using wait_counter_ends
    [of env t count "timer_enable env t (write_u32 env (TimerReg (timer_index t) TimerCtr)
      (timer_clk t div 1000000 * us) (write_u32 env (TimerReg (timer_index t) TimerReload) 0 w))"]
  by (auto simp: delay_us_def Let_def)

section \<open>Serial port\<close>

text \<open>A transmitter that gets ready after a while, with the history of register writes.\<close>

definition serial_ready ::
  "('h, 'q) env \<Rightarrow> nat \<Rightarrow> ('h \<Rightarrow> nat) \<Rightarrow> ('h \<Rightarrow> (reg \<times> u32) list) \<Rightarrow> bool" where
  "serial_ready env k busy log \<longleftrightarrow>
     (\<forall>h v h'. env_read env (UartReg k UartTxRdy) h = (v, h') \<longrightarrow>
        (v AND 1 \<noteq> 0) = (busy h = 0) \<and> (busy h > 0 \<longrightarrow> busy h' < busy h) \<and> log h' = log h)"

lemma serial_block_byte_ends:
  assumes "serial_ready env k busy log" and "logs_writes env log"
  shows "\<exists>w'. serial_block_byte env k b w = Some w' \<and>
    log (hw w') = log (hw w) @ [(UartReg k UartTxData, ucast b)]"
proof (induction "busy (hw w)" arbitrary: w rule: less_induct)
  case less
  obtain v h where r: "env_read env (UartReg k UartTxRdy) (hw w) = (v, h)" by fastforce
  with assms(1) have c: "(v AND 1 \<noteq> 0) = (busy (hw w) = 0)" "busy (hw w) > 0 \<longrightarrow> busy h < busy (hw w)"
    "log h = log (hw w)"
    unfolding serial_ready_def by blast+
  have rd: "read_bit env (UartReg k UartTxRdy) w = (v AND 1 \<noteq> 0, w\<lparr>hw := h\<rparr>)"
    using r by (simp add: read_bit_def reg_read_def)
  show ?case
  proof (cases "busy (hw w) = 0")
    case True
    with c rd show ?thesis
      by (simp add: serial_block_byte.simps [of env k b w] serial_write_byte_def
          log_write_field [OF assms(2)] ucast_mask_8)
  next
    case False
    with c less [of "w\<lparr>hw := h\<rparr>"] rd show ?thesis
      by (simp add: serial_block_byte.simps [of env k b w] serial_write_byte_def)
  qed
qed

lemma serial_write_log:
  assumes "serial_ready env k busy log" and "logs_writes env log"
  shows "\<exists>w'. serial_write env k bs w = Ret w' \<and>
    log (hw w') = log (hw w) @ map (\<lambda>b. (UartReg k UartTxData, ucast b)) bs"
proof (induction bs arbitrary: w)
  case (Cons b bs)
  obtain w1 where "serial_block_byte env k b w = Some w1"
      "log (hw w1) = log (hw w) @ [(UartReg k UartTxData, ucast b)]"
    using serial_block_byte_ends [OF assms] by blast
  with Cons [of w1] show ?case by auto
qed simp

section \<open>SPI flash UUID\<close>

lemma uuid_read_Ret:
  "length response = 32 \<Longrightarrow> n < 32 \<Longrightarrow>
     \<exists>r w'. uuid_read env response n w = Ret (r, w') \<and>
       (\<forall>m bs. r = Inr (m, bs) \<longrightarrow> m < 32 \<and> length bs = 32)"
proof (induction env response n w rule: uuid_read.induct)
  case (1 env response n w)
  obtain b w1 where b: "read_bit env (SPI0 RxRdy) w = (b, w1)" by fastforce
  obtain v w2 where v: "reg_read env (SPI0 RxTx) w1 = (v, w2)" by fastforce
  show ?case
  proof (cases "b \<and> n + 1 < 32")
    case True
    with 1 b v show ?thesis by (subst uuid_read.simps) simp
  next
    case False
    with 1 b v show ?thesis by (subst uuid_read.simps) auto
  qed
qed

lemma read_flash_uuid_Ret:
  "\<exists>r w'. read_flash_uuid env w = Ret (r, w') \<and> (\<forall>bs. r = Inr bs \<longrightarrow> length bs = 8) \<and>
     (\<forall>e. r = Inl e \<longrightarrow> e \<in> {StreamIoctlTimeout, BadMessage})"
proof -
  let ?w = "write_bit env (SPI0 SpiCs) False (write_field env 8 (SPI0 PhyMask) 1
    (write_field env 4 (SPI0 PhyWidth) 1 (write_field env 6 (SPI0 PhyLen) 8 w)))"
  obtain a w1 where a: "spi_ready env (SPI0 TxRdy) 0 ?w = (a, w1)" by fastforce
  obtain b w2 where b: "spi_ready env (SPI0 RxRdy) 0 (spi_write_all env uuid_command w1) = (b, w2)"
    by fastforce
  obtain r w3 where r: "uuid_read env (replicate 32 0) 0 w2 = Ret (r, w3)"
      "\<forall>m bs. r = Inr (m, bs) \<longrightarrow> m < 32 \<and> length bs = 32"
    using uuid_read_Ret [of "replicate 32 0" 0 env w2] by auto
  have "r = Inl BadMessage \<or> (\<exists>x. r = Inr x)"
    if "uuid_read env rs n w2 = Ret (r, w3)" for rs n w2 w3 and r :: "great_error + nat \<times> bytes"
    using that
  proof (induction env rs n w2 rule: uuid_read.induct)
    case (1 env rs n w)
    then show ?case
      by (subst (asm) uuid_read.simps) (auto simp: Let_def split: prod.splits if_splits)
  qed
  with r(1) consider "r = Inl BadMessage" | n bs where "r = Inr (n, bs)" by fastforce
  then show ?thesis
    by cases (use a b r in \<open>auto simp: read_flash_uuid_def Let_def\<close>)
qed

lemma hex_digit_ascii: "n < 16 \<Longrightarrow> hex_digit n < 128"
  by (simp add: hex_digit_def)

lemma fmt_01x_ascii: "c \<in> set (fmt_01x b) \<Longrightarrow> c < 128"
proof -
  have "unat b < 256" using unsigned_less [of b] by simp
  then have "unat b div 16 < 16" "unat b mod 16 < 16" by (auto simp: less_mult_imp_div_less)
  then show "c \<in> set (fmt_01x b) \<Longrightarrow> c < 128"
    by (auto simp: fmt_01x_def hex_digit_ascii split: if_splits)
qed

lemma str_len_append [simp]: "str_len (s @ t) = str_len s + str_len t"
  by (simp add: str_len_def)

lemma str_len_ascii: "\<forall>c \<in> set s. c < 0x80 \<Longrightarrow> str_len s = length s"
  by (induction s) (simp_all add: str_len_def utf8_width_def)

lemma push_str_ok:
  "str_len s \<le> n \<Longrightarrow> \<forall>c \<in> set s. c < 0x80 \<Longrightarrow> \<forall>c \<in> set t. c < 0x80 \<Longrightarrow>
     str_len (push_str n s t) \<le> n \<and> (\<forall>c \<in> set (push_str n s t). c < 0x80)"
  by (auto simp: push_str_def)

lemma format_flash_uuid_text:
  "str_len (format_flash_uuid uuid) \<le> 16 \<and> (\<forall>c \<in> set (format_flash_uuid uuid). c < 0x80)"
proof -
  have "str_len (fold (\<lambda>b ret. push_str 16 ret (fmt_01x b)) bs s) \<le> 16 \<and>
      (\<forall>c \<in> set (fold (\<lambda>b ret. push_str 16 ret (fmt_01x b)) bs s). c < 0x80)"
    if "str_len s \<le> 16 \<and> (\<forall>c \<in> set s. c < 0x80)" for bs s
    using that
  proof (induction bs arbitrary: s)
    case (Cons b bs)
    have "\<forall>c \<in> set (fmt_01x b). c < 0x80" using fmt_01x_ascii by auto
    with Cons.prems have "str_len (push_str 16 s (fmt_01x b)) \<le> 16 \<and>
        (\<forall>c \<in> set (push_str 16 s (fmt_01x b)). c < 0x80)"
      by (intro push_str_ok) auto
    with Cons.IH [of "push_str 16 s (fmt_01x b)"] show ?case by simp
  qed simp
  from this [of "[]" "rev uuid"] show ?thesis
    by (simp add: format_flash_uuid_def) (simp add: str_len_def)
qed

text \<open>Bytes below 16 lose their leading zero, so different devices can get the same serial number.\<close>

lemma format_flash_uuid_collides:
  "format_flash_uuid [0x12, 0x03, 0, 0, 0, 0, 0, 0] = format_flash_uuid [0x02, 0x31, 0, 0, 0, 0, 0, 0]"
  by (simp add: format_flash_uuid_def push_str_def fmt_01x_def hex_digit_def str_len_def utf8_width_def)

section \<open>Buffer writer\<close>

definition bw_ok :: "buffer_writer \<Rightarrow> bool" where
  "bw_ok b \<longleftrightarrow> bw_cursor b \<le> length (bw_buffer b)"

lemma zip_write_eq: "zip_write buffer s = take (length buffer) s @ drop (length s) buffer"
  by (induction buffer s rule: zip_write.induct) auto

lemma bw_new_ok: "bw_ok (bw_new buffer)"
  by (simp add: bw_ok_def bw_new_def)

lemma length_bw_write_str: "bw_ok b \<Longrightarrow> length (bw_buffer (bw_write_str s b)) = length (bw_buffer b)"
  by (simp add: bw_ok_def bw_write_str_def zip_write_eq Let_def)

lemma bw_write_str_ok: "bw_ok b \<Longrightarrow> bw_ok (bw_write_str s b)"
  by (simp add: bw_ok_def length_bw_write_str [unfolded bw_ok_def]) (simp add: bw_write_str_def Let_def)

lemma bw_write_str_bytes:
  "bw_ok b \<Longrightarrow>
     bw_as_bytes (bw_write_str s b) = take (length (bw_buffer b)) (bw_as_bytes b @ s)"
  by (auto simp: bw_ok_def bw_as_bytes_def bw_write_str_def zip_write_eq Let_def min_def)

lemma bw_fold_bytes:
  "bw_ok b \<Longrightarrow>
     bw_as_bytes (fold bw_write_str ss b) = take (length (bw_buffer b)) (bw_as_bytes b @ concat ss)"
proof (induction ss arbitrary: b)
  case Nil
  then show ?case by (simp add: bw_as_bytes_def bw_ok_def)
next
  case (Cons s ss)
  let ?n = "length (bw_buffer b)"
  have t: "take n (take n xs @ ys) = take n (xs @ ys)" for n and xs ys :: bytes
    by (cases "n \<le> length xs") (auto simp: min_def)
  have "bw_as_bytes (fold bw_write_str ss (bw_write_str s b)) =
      take ?n (take ?n (bw_as_bytes b @ s) @ concat ss)"
    using Cons.IH [of "bw_write_str s b"] Cons.prems
    by (simp only: bw_write_str_ok length_bw_write_str bw_write_str_bytes)
  then show ?case unfolding t by simp
qed

section \<open>Logic analyser outputs\<close>

lemma or_xor_mask: "(a OR m) XOR m = a AND NOT m" for a m :: u8
  by (rule bit_word_eqI) (auto simp: bit_simps)

end
