(* ===== verification/Firmware.thy ===== *)
theory Firmware
  imports ControlFacts MoondancerTransfer GcpClasses PeripheralsFacts
begin

text \<open>
  \<open>moondancer/src/bin/moondancer.rs\<close>: the firmware binary. The control port \<open>USB2\<close> carries the
  libgreat protocol: a vendor request with data is a command, which is dispatched to a class and
  leaves a response or an error; a second request reads the response, a third one aborts. The main
  loop takes interrupt events from the queue that \<open>MachineExternal\<close> fills. The functions of the
  binary return \<open>GreatResult<()>\<close> but no path of them makes an error, so a definition returns the
  new state only.
\<close>

section \<open>State\<close>

definition DEVICE_SPEED :: speed where
  "DEVICE_SPEED = SpeedHigh"

definition BOARD_INFORMATION :: board_information where
  "BOARD_INFORMATION =
     \<lparr>board_id = le32 0x10, version_string = cstr ''r1.0'',
      part_id = [0x30, 0xa, 0x00, 0xa0, 0x5e, 0x4f, 0x60, 0x00],
      serial_number = [0xea, 0x8e, 0xc5, 0x4f, 0x64, 0x74, 0x15, 0x15, 0x02, 0x02, 0x02, 0x03,
        0xb3, 0xe0, 0x51, 0xff]\<rparr>"

record firmware =
  fw_usb2_control :: control
  fw_libgreat_response :: "great_response option"
  fw_libgreat_response_last_error :: "great_error option"
  fw_core :: core
  fw_moondancer :: moondancer

type_synonym 'h fw_world = "('h, event_queue) world"
type_synonym 'h fw_env = "('h, event_queue) env"
type_synonym 'h fw_result = "(firmware \<times> 'h fw_world) rust"

definition CLASSES :: classes where
  "CLASSES = [core_CLASS, fw_CLASS, st_CLASS, md_CLASS]"

text \<open>The descriptors of the control port, with the serial number and version that \<open>new\<close> read.\<close>

definition fw_string_descriptors :: "rust_str \<Rightarrow> string_descriptor list" where
  "fw_string_descriptors uuid = md_STRING_DESCRIPTORS[2 := string_descriptor_new uuid]"

definition fw_descriptors :: "rust_str \<Rightarrow> u16 \<Rightarrow> descriptors" where
  "fw_descriptors uuid bcd_device =
     \<lparr>ds_device_speed = DEVICE_SPEED,
      ds_device_descriptor = md_DEVICE_DESCRIPTOR\<lparr>dd_bcdDevice := bcd_device\<rparr>,
      ds_configuration_descriptor = md_CONFIGURATION_DESCRIPTOR_0,
      ds_string_descriptor_zero = md_STRING_DESCRIPTOR_0,
      ds_string_descriptors = fw_string_descriptors uuid,
      ds_device_qualifier_descriptor = Some md_DEVICE_QUALIFIER_DESCRIPTOR,
      ds_other_speed_configuration_descriptor = Some md_OTHER_SPEED_CONFIGURATION_DESCRIPTOR_0,
      ds_microsoft10 = Some
        \<lparr>msd_string_descriptor = md_STRING_DESCRIPTOR_0XEE,
         msd_compat_id = MS_OS_10_COMPATIBLE_ID,
         msd_extended_properties = MS_OS_10_EXTENDED_PROPERTIES\<rparr>\<rparr>"

text \<open>\<open>Firmware::new\<close>; logging and the tracing outputs are left out.\<close>

definition firmware_new :: "'h fw_env \<Rightarrow> 'h fw_world \<Rightarrow> 'h fw_result" where
  "firmware_new env w =
     (let w = write_bit env ADVERTISER True w;
          (board_major, w) = reg_read env VersionMajor w;
          (board_minor, w) = reg_read env VersionMinor w
      in
      rbind (read_flash_uuid env w) (\<lambda>(r, w).
      let uuid = (case r of Inr uuid \<Rightarrow> uuid | Inl _ \<Rightarrow> replicate 8 0);
          uuid = format_flash_uuid uuid;
          bcd_device = u16_of (ucast board_minor) (ucast board_major)
      in Ret
        (\<lparr>fw_usb2_control = control_new LIBGREAT_MAX_COMMAND_SIZE 0 (fw_descriptors uuid bcd_device),
          fw_libgreat_response = None, fw_libgreat_response_last_error = None,
          fw_core = core_new CLASSES BOARD_INFORMATION, fw_moondancer = moondancer_new\<rparr>, w)))"

definition write_leds :: "'h fw_env \<Rightarrow> u8 \<Rightarrow> 'h fw_world \<Rightarrow> 'h fw_world" where
  "write_leds env v = write_field env 6 LEDS v"

definition firmware_initialize :: "'h fw_env \<Rightarrow> 'h fw_world \<Rightarrow> 'h fw_world rust" where
  "firmware_initialize env w =
     (let w = write_leds env (push_bit 2 1) w;
          w = hal_connect env Usb2 DEVICE_SPEED w
      in
      rbind (interrupt_enable env USB2 w) (\<lambda>w.
      rbind (interrupt_enable env USB2_EP_CONTROL w) (\<lambda>w.
      rbind (interrupt_enable env USB2_EP_IN w) (\<lambda>w.
      rbind (interrupt_enable env USB2_EP_OUT w) (\<lambda>w.
      Ret (enable_events env Usb2 w))))))"

section \<open>Command dispatch\<close>

definition fw_class_dispatch ::
  "'h fw_env \<Rightarrow> class_id \<Rightarrow> u32 \<Rightarrow> bytes \<Rightarrow> firmware \<Rightarrow> 'h fw_world \<Rightarrow>
     (great_response great_result \<times> firmware \<times> 'h fw_world) rust" where
  "fw_class_dispatch env cid verb_number arguments fw w =
     (case cid of
        ClassCore \<Rightarrow>
          Ret (core_dispatch (fw_core fw) verb_number arguments response_buffer, fw, w)
      | ClassFirmware \<Rightarrow> Ret (fw_dispatch verb_number arguments response_buffer, fw, w)
      | ClassSelftest \<Rightarrow>
          rbind (st_dispatch verb_number arguments response_buffer) (\<lambda>r. Ret (r, fw, w))
      | ClassMoondancer \<Rightarrow>
          rbind (md_dispatch env verb_number arguments response_buffer (fw_moondancer fw, w))
            (\<lambda>(r, m, w). Ret (r, fw\<lparr>fw_moondancer := m\<rparr>, w))
      | _ \<Rightarrow> Ret (Inl InvalidArgument, fw, w))"

definition dispatch_libgreat_request :: "'h fw_env \<Rightarrow> firmware \<Rightarrow> 'h fw_world \<Rightarrow> 'h fw_result" where
  "dispatch_libgreat_request env fw w =
     rbind (control_data (fw_usb2_control fw)) (\<lambda>command_buffer.
     case command_parse command_buffer of
       None \<Rightarrow> Ret (fw, w)
     | Some command \<Rightarrow>
         rbind (fw_class_dispatch env (command_class_id command) (command_verb_number command)
                  (cmd_arguments command) fw w) (\<lambda>(response, fw, w).
         case response of
           Inr response \<Rightarrow>
             Ret (fw\<lparr>fw_libgreat_response := Some response,
                     fw_libgreat_response_last_error := None\<rparr>, w)
         | Inl e \<Rightarrow>
             Ret (fw\<lparr>fw_libgreat_response := None,
                     fw_libgreat_response_last_error := Some e\<rparr>,
               stall_endpoint_in env Usb2 0 w)))"

definition dispatch_libgreat_response ::
  "'h fw_env \<Rightarrow> setup_packet \<Rightarrow> firmware \<Rightarrow> 'h fw_world \<Rightarrow> 'h fw_result" where
  "dispatch_libgreat_response env sp fw w =
     (let requested_length = unat (sp_length sp) in
      case fw_libgreat_response fw of
        Some response \<Rightarrow>
          rbind (write_requested env Usb2 0 requested_length response
                   (ep_out_prime_receive env Usb2 0 w)) (\<lambda>(_, w).
          Ret (fw\<lparr>fw_libgreat_response := None\<rparr>, w))
      | None \<Rightarrow>
          (case fw_libgreat_response_last_error fw of
             Some error \<Rightarrow> Ret (fw, w)
           | None \<Rightarrow> Ret (fw, stall_endpoint_in env Usb2 0 w)))"

definition dispatch_libgreat_abort ::
  "'h fw_env \<Rightarrow> setup_packet \<Rightarrow> firmware \<Rightarrow> 'h fw_world \<Rightarrow> 'h fw_result" where
  "dispatch_libgreat_abort env sp fw w =
     (let requested_length = unat (sp_length sp);
          error = (case fw_libgreat_response_last_error fw of
              Some error \<Rightarrow> error | None \<Rightarrow> StateNotRecoverable)
      in
      rbind (write_requested env Usb2 0 requested_length (le32 (great_error_code error))
               (ep_out_prime_receive env Usb2 0 w)) (\<lambda>(_, w).
      Ret (fw\<lparr>fw_libgreat_response := None, fw_libgreat_response_last_error := None\<rparr>, w)))"

definition stall_direction :: "'h fw_env \<Rightarrow> direction \<Rightarrow> 'h fw_world \<Rightarrow> 'h fw_world" where
  "stall_direction env d w =
     (case d of
        HostToDevice \<Rightarrow> stall_endpoint_out env Usb2 0 w
      | DeviceToHost \<Rightarrow> stall_endpoint_in env Usb2 0 w)"

definition handle_vendor_request ::
  "'h fw_env \<Rightarrow> setup_packet \<Rightarrow> firmware \<Rightarrow> 'h fw_world \<Rightarrow> 'h fw_result" where
  "handle_vendor_request env sp fw w =
     (let direction = setup_direction sp;
          recipient = setup_recipient sp;
          vendor_request = vendor_request_from (sp_request sp);
          vendor_value = vendor_value_from (sp_value sp)
      in
      if setup_request_type sp = Vendor then
        if recipient = RInterface \<and> vendor_request = ApolloClaimInterface then
          rbind (hal_write env Usb2 0 [] w) (\<lambda>(_, w). Ret (fw, write_bit env ADVERTISER False w))
        else
          (case vendor_request of
             UsbCommandRequest \<Rightarrow>
               (case (vendor_value, direction) of
                  (VendorExecute, HostToDevice) \<Rightarrow> dispatch_libgreat_request env fw w
                | (VendorExecute, DeviceToHost) \<Rightarrow> dispatch_libgreat_response env sp fw w
                | (VendorCancel, DeviceToHost) \<Rightarrow> dispatch_libgreat_abort env sp fw w
                | _ \<Rightarrow> Ret (fw, stall_direction env direction w))
           | VendorRequestUnknown _ \<Rightarrow> Ret (fw, stall_direction env direction w)
           | _ \<Rightarrow> Ret (fw, stall_endpoint_in env Usb2 0 w))
      else Ret (fw, stall_direction env direction w))"

section \<open>Main loop\<close>

text \<open>The USB2 events that go to the control endpoint.\<close>

fun control_port_event :: "usb_event \<Rightarrow> bool" where
  "control_port_event BusReset = True"
| "control_port_event (ReceiveControl ep) = (ep = 0)"
| "control_port_event (ReceiveSetupPacket ep _) = (ep = 0)"
| "control_port_event (ReceivePacket ep) = (ep = 0)"
| "control_port_event (SendComplete ep) = (ep = 0)"

definition fw_control_event ::
  "'h fw_env \<Rightarrow> usb_event \<Rightarrow> firmware \<Rightarrow> 'h fw_world \<Rightarrow> 'h fw_result" where
  "fw_control_event env event fw w =
     rbind (control_dispatch_event (hal_driver env Usb2) event (fw_usb2_control fw) w)
       (\<lambda>(r, c, w).
     let fw = fw\<lparr>fw_usb2_control := c\<rparr> in
     case r of None \<Rightarrow> Ret (fw, w) | Some sp \<Rightarrow> handle_vendor_request env sp fw w)"

definition fw_handle_event ::
  "'h fw_env \<Rightarrow> interrupt_event \<Rightarrow> firmware \<Rightarrow> 'h fw_world \<Rightarrow> 'h fw_result" where
  "fw_handle_event env interrupt_event fw w =
     (case interrupt_event of
        UsbEv ControlPort event \<Rightarrow>
          if control_port_event event then fw_control_event env event fw w else Ret (fw, w)
      | UsbEv Target usb_event \<Rightarrow>
          rbind (md_dispatch_event env usb_event (fw_moondancer fw) w) (\<lambda>(m, w).
          Ret (fw\<lparr>fw_moondancer := m\<rparr>, w))
      | _ \<Rightarrow> Ret (fw, w))"

text \<open>The locals of \<open>main_loop\<close>; \<open>usize\<close> is 32 bits wide and its additions wrap.\<close>

record loop_state =
  lp_max_queue_length :: u32
  lp_queue_length :: u32
  lp_counter :: u32

definition loop_start :: loop_state where
  "loop_start = \<lparr>lp_max_queue_length = 0, lp_queue_length = 0, lp_counter = 1\<rparr>"

definition loop_idle :: "'h fw_env \<Rightarrow> loop_state \<Rightarrow> 'h fw_world \<Rightarrow> loop_state \<times> 'h fw_world" where
  "loop_idle env l w =
     (let w = write_leds env (ucast (lp_counter l mod 0xff)) w;
          l = (if lp_queue_length l > lp_max_queue_length l
               then l\<lparr>lp_max_queue_length := lp_queue_length l\<rparr> else l)
      in (l\<lparr>lp_queue_length := 0\<rparr>, w))"

definition loop_event ::
  "'h fw_env \<Rightarrow> interrupt_event \<Rightarrow> loop_state \<Rightarrow> firmware \<Rightarrow> 'h fw_world \<Rightarrow>
     (loop_state \<times> firmware \<times> 'h fw_world) rust" where
  "loop_event env event l fw w =
     (let l = l\<lparr>lp_counter := lp_counter l + 1, lp_queue_length := lp_queue_length l + 1\<rparr>;
          w = write_leds env (push_bit 0 1) w
      in rbind (fw_handle_event env event fw w) (\<lambda>(fw, w). Ret (l, fw, w)))"

text \<open>
  The steps of the running firmware: an interrupt is taken between two steps of the loop, the loop
  takes the oldest event of the queue, or it finds the queue empty and starts its next round.
\<close>

inductive main_step ::
  "'h fw_env \<Rightarrow> loop_state \<times> firmware \<times> 'h fw_world \<Rightarrow> loop_state \<times> firmware \<times> 'h fw_world \<Rightarrow> bool"
  for env where
  step_irq: "env_irq env w = Ret w' \<Longrightarrow> main_step env (l, fw, w) (l, fw, w')"
| step_event: "dequeue (irq_ext w) = Some (event, q) \<Longrightarrow>
     loop_event env event l fw (w\<lparr>irq_ext := q\<rparr>) = Ret (l', fw', w') \<Longrightarrow>
     main_step env (l, fw, w) (l', fw', w')"
| step_idle: "dequeue (irq_ext w) = None \<Longrightarrow> loop_idle env l w = (l', w') \<Longrightarrow>
     main_step env (l, fw, w) (l', fw, w')"

inductive main_reachable ::
  "'h fw_env \<Rightarrow> loop_state \<times> firmware \<times> 'h fw_world \<Rightarrow> bool" for env where
  main_start: "firmware_new env w = Ret (fw, w1) \<Longrightarrow> firmware_initialize env w1 = Ret w2 \<Longrightarrow>
     main_reachable env (loop_start, fw, w2)"
| main_next: "main_reachable env s \<Longrightarrow> main_step env s s' \<Longrightarrow> main_reachable env s'"

inductive_cases main_stepE: "main_step env s s'"

inductive_simps main_step_simps: "main_step env (l, fw, w) (l', fw', w')"

end
