(* ===== verification/Registry.thy ===== *)
theory Registry
  imports Firmware
begin

text \<open>
  The registry of classes as a host sees it: looking up a registered class and verb finds it, and
  the introspection verbs of \<open>core\<close> answer a fixed list of queries for each of them.
\<close>

section \<open>Lookup\<close>

lemma find_by_key: "distinct (map f xs) \<Longrightarrow> x \<in> set xs \<Longrightarrow> find (\<lambda>y. f y = f x) xs = Some x"
  by (induction xs) auto

text \<open>The verbs of a class have different numbers, the classes different identities.\<close>

definition class_ok :: "gcp_class \<Rightarrow> bool" where
  "class_ok cl \<longleftrightarrow> distinct (map verb_id (class_verbs cl)) \<and>
     class_id_from (into_u32 (class_id cl)) = class_id cl"

definition registry_ok :: "classes \<Rightarrow> bool" where
  "registry_ok cs \<longleftrightarrow> distinct (map class_id cs) \<and> list_all class_ok cs"

lemma find_class_registered:
  "registry_ok (core_classes c) \<Longrightarrow> cl \<in> set (core_classes c) \<Longrightarrow>
     find_class c (into_u32 (class_id cl)) = Inr cl"
  by (simp add: find_class_Inr_iff classes_class_def find_by_key registry_ok_def class_ok_def
      list_all_iff)

lemma class_verb_registered:
  "class_ok cl \<Longrightarrow> v \<in> set (class_verbs cl) \<Longrightarrow> class_verb cl (verb_id v) = Some v"
  by (simp add: class_verb_def class_ok_def find_by_key)

lemma st_verb_ids: "map verb_id st_VERBS = [0x10]"
  by (simp add: st_VERBS_def)

lemma fw_verb_ids: "map verb_id fw_VERBS = [0, 1, 2, 3, 4]"
  by (simp add: fw_VERBS_def)

lemma CLASSES_ok: "registry_ok CLASSES"
  by (simp add: registry_ok_def CLASSES_def class_ok_def core_CLASS_def fw_CLASS_def st_CLASS_def
      md_CLASS_def core_verb_ids fw_verb_ids st_verb_ids md_verb_ids class_id_from_known)

section \<open>Introspection\<close>

text \<open>
  The queries a host makes for a verb of a class, with what it has to learn: the number of the
  query, its arguments and the answer.
\<close>

definition introspection :: "gcp_class \<Rightarrow> verb \<Rightarrow> (u32 \<times> bytes \<times> bytes) list" where
  "introspection cl v =
     (let cid = le32 (into_u32 (class_id cl)); vid = le32 (verb_id v) in
      [(5, cid, concat (map (\<lambda>v. le32 (verb_id v)) (class_verbs cl))),
       (6, cid @ vid, as_bytes (verb_name v)),
       (7, cid @ vid @ [0], as_bytes (out_signature v)),
       (7, cid @ vid @ [1], as_bytes (in_signature v)),
       (7, cid @ vid @ [2], as_bytes (verb_doc v)),
       (7, cid @ vid @ [3], as_bytes (out_param_names v)),
       (7, cid @ vid @ [4], as_bytes (in_param_names v)),
       (8, cid, as_bytes (class_name cl)),
       (9, cid, as_bytes (class_docs cl))])"

lemma core_answers:
  assumes "registry_ok (core_classes c)" and "cl \<in> set (core_classes c)"
    and "v \<in> set (class_verbs cl)" and "(n, args, answer) \<in> set (introspection cl v)"
  shows "core_dispatch c n args buffer = Inr (take (length buffer) answer)"
proof -
  note f = find_class_registered [OF assms(1,2)]
  have "class_ok cl" using assms(1,2) by (simp add: registry_ok_def list_all_iff)
  note g = class_verb_registered [OF this assms(3)]
  show ?thesis
    using assms(4)
    by (auto simp: introspection_def Let_def core_dispatch_def get_available_verbs_def
        get_verb_name_def get_verb_descriptor_def get_class_name_def get_class_docs_def f g
        verb_descriptor_from_def)
qed

text \<open>None of the answers of the registered classes is longer than the response buffer.\<close>

definition answers_fit :: "gcp_class \<Rightarrow> verb \<Rightarrow> bool" where
  "answers_fit cl v \<longleftrightarrow>
     list_all (\<lambda>(n, args, answer). length answer \<le> LIBGREAT_MAX_COMMAND_SIZE) (introspection cl v)"

lemma answers_fit_iff:
  "answers_fit cl v \<longleftrightarrow>
     list_all (\<lambda>n. n \<le> LIBGREAT_MAX_COMMAND_SIZE)
       [4 * length (class_verbs cl), length (verb_name v), length (out_signature v),
        length (in_signature v), length (verb_doc v), length (out_param_names v),
        length (in_param_names v), length (class_name cl), length (class_docs cl)]"
  by (simp add: answers_fit_def introspection_def Let_def length_concat o_def sum_list_triv mult.commute
      as_bytes_def)

lemma CLASSES_answers_fit: "list_all (\<lambda>cl. list_all (answers_fit cl) (class_verbs cl)) CLASSES"
  unfolding answers_fit_iff LIBGREAT_MAX_COMMAND_SIZE_def CLASSES_def core_CLASS_def fw_CLASS_def
    st_CLASS_def md_CLASS_def
  by (simp add: core_VERBS_def fw_VERBS_def st_VERBS_def md_VERBS_def core_CLASS_DOCS_def
      fw_CLASS_DOCS_def st_CLASS_DOCS_def md_CLASS_DOCS_def cstr_def)

end
