(* ===== verification/GcpTests.thy ===== *)
theory GcpTests
  imports Registry
begin

text \<open>
  The unit tests of \<open>libgreat/src/gcp.rs\<close> on the model: their fixtures, and for each test the values it
  asserts.
\<close>

section \<open>Fixtures\<close>

definition COMMAND_NO_ARGS :: bytes where
  "COMMAND_NO_ARGS = [0x01, 0x00, 0x00, 0x00, 0x02, 0x00, 0x00, 0x00]"

definition COMMAND_READ_BOARD_ID :: bytes where
  "COMMAND_READ_BOARD_ID = [0x00, 0x00, 0x00, 0x00, 0x00, 0x00, 0x00, 0x00]"

definition COMMAND_GET_CLASS_NAME :: bytes where
  "COMMAND_GET_CLASS_NAME = [0x00, 0x00, 0x00, 0x00, 0x08, 0x00, 0x00, 0x00, 0x01, 0x00, 0x00, 0x00]"

definition COMMAND_GET_VERB_DESCRIPTOR :: bytes where
  "COMMAND_GET_VERB_DESCRIPTOR =
     [0x00, 0x00, 0x00, 0x00, 0x07, 0x00, 0x00, 0x00, 0x00, 0x00, 0x00, 0x00, 0x07, 0x00, 0x00, 0x00, 0x01]"

definition COMMAND_SET_UP_ENDPOINTS :: bytes where
  "COMMAND_SET_UP_ENDPOINTS =
     [0x20, 0x01, 0x00, 0x00, 0x04, 0x00, 0x00, 0x00, 0x00, 0x40, 0x00, 0x00, 0x82, 0x00, 0x02, 0x02]"

definition test_CLASS_CORE :: gcp_class where
  "test_CLASS_CORE = \<lparr>class_id = ClassCore, class_name = ''core'', class_docs = core_CLASS_DOCS,
     class_verbs = core_VERBS\<rparr>"

definition test_SUPPORTED_CLASSES :: classes where
  "test_SUPPORTED_CLASSES = [test_CLASS_CORE]"

definition test_BOARD_INFORMATION :: board_information where
  "test_BOARD_INFORMATION =
     \<lparr>board_id = [0x00, 0x00, 0x00, 0x00], version_string = cstr ''v2023.0.1'',
      part_id = [0x30, 0xa, 0x00, 0xa0, 0x5e, 0x4f, 0x60, 0x00],
      serial_number = [0x00, 0x00, 0x00, 0x00, 0x00, 0x00, 0x00, 0x00, 0xe6, 0x67, 0xcc, 0x57, 0x57, 0x53,
        0x6f, 0x30]\<rparr>"

text \<open>One endpoint of \<open>test_parse_complex_arguments\<close>, and \<open>new_from_prefix\<close> for it.\<close>

fun test_endpoint_prefix :: "bytes \<Rightarrow> ((u8 \<times> u16 \<times> u8) \<times> bytes) option" where
  "test_endpoint_prefix (a # lo # hi # t # next) = Some ((a, u16_of lo hi, t), next)"
| "test_endpoint_prefix _ = None"

definition test_available_classes :: bytes where
  "test_available_classes = concat (map (\<lambda>c. le32 (into_u32 c)) [ClassCore, ClassFirmware, ClassGpio])"

definition test_available_verbs_core :: "verb list \<Rightarrow> bytes" where
  "test_available_verbs_core verbs = concat (map (\<lambda>v. le32 (verb_id v)) verbs)"

section \<open>Tests\<close>

lemma test_enum_class_id: "class_id_from 0 = ClassCore" "class_id_from 0xdeadbeef = ClassUnsupported 0xdeadbeef"
  by (simp_all add: class_id_from_def)

lemma test_parse_as_bytes:
  "prelude_enc \<lparr>prelude_class = 1, prelude_verb = 2\<rparr> = [0x01, 0x00, 0x00, 0x00, 0x02, 0x00, 0x00, 0x00]"
  by (simp add: prelude_enc_def le32_def)

lemma test_parse_from_bytes_no_args:
  "prelude_dec COMMAND_NO_ARGS = Some \<lparr>prelude_class = 1, prelude_verb = 2\<rparr>"
  unfolding prelude_dec_Some_iff by (simp add: prelude_enc_def le32_def COMMAND_NO_ARGS_def)

text \<open>The bytes of a fixture are a prelude and arguments, which is how they parse.\<close>

lemma parse_fixture:
  "bs = prelude_enc \<lparr>prelude_class = c, prelude_verb = v\<rparr> @ args \<Longrightarrow>
     command_parse bs = Some \<lparr>cmd_prelude = \<lparr>prelude_class = c, prelude_verb = v\<rparr>, cmd_arguments = args\<rparr>"
  by (simp add: command_parse_Some_iff)

lemma test_parse_no_args:
  "command_parse COMMAND_NO_ARGS =
     Some \<lparr>cmd_prelude = \<lparr>prelude_class = 1, prelude_verb = 2\<rparr>, cmd_arguments = []\<rparr>"
  by (rule parse_fixture) (simp add: COMMAND_NO_ARGS_def prelude_enc_def le32_def)

lemma test_parse_get_class_name:
  "command_parse COMMAND_GET_CLASS_NAME =
     Some \<lparr>cmd_prelude = \<lparr>prelude_class = 0, prelude_verb = 8\<rparr>, cmd_arguments = le32 1\<rparr>"
  by (rule parse_fixture) (simp add: COMMAND_GET_CLASS_NAME_def prelude_enc_def le32_def)

lemma test_parse_get_verb_descriptor:
  "command_parse COMMAND_GET_VERB_DESCRIPTOR =
     Some \<lparr>cmd_prelude = \<lparr>prelude_class = 0, prelude_verb = 7\<rparr>, cmd_arguments = le32 0 @ le32 7 @ [1]\<rparr>"
  by (rule parse_fixture) (simp add: COMMAND_GET_VERB_DESCRIPTOR_def prelude_enc_def le32_def)

lemma test_parse_complex_arguments:
  "command_parse COMMAND_SET_UP_ENDPOINTS =
     Some \<lparr>cmd_prelude = \<lparr>prelude_class = 0x120, prelude_verb = 4\<rparr>,
       cmd_arguments = [0x00, 0x40, 0x00, 0x00, 0x82, 0x00, 0x02, 0x02]\<rparr>"
  "test_endpoint_prefix [0x00, 0x40, 0x00, 0x00, 0x82, 0x00, 0x02, 0x02] =
     Some ((0, 64, 0), [0x82, 0x00, 0x02, 0x02])"
  "test_endpoint_prefix [0x82, 0x00, 0x02, 0x02] = Some ((0x82, 512, 2), [])"
  by (rule parse_fixture)
    (simp_all add: COMMAND_SET_UP_ENDPOINTS_def prelude_enc_def le32_def u16_of_def)

lemma test_parse_read_board_id:
  "command_parse COMMAND_READ_BOARD_ID =
     Some \<lparr>cmd_prelude = \<lparr>prelude_class = 0, prelude_verb = 0\<rparr>, cmd_arguments = []\<rparr>"
  by (rule parse_fixture) (simp add: COMMAND_READ_BOARD_ID_def prelude_enc_def le32_def)

lemma test_dispatch_read_board_id:
  "core_dispatch (core_new test_SUPPORTED_CLASSES test_BOARD_INFORMATION) 0 [] response_buffer =
     Inr [0x00, 0x00, 0x00, 0x00]"
  by (simp add: core_dispatch_def read_board_id_def core_new_def test_BOARD_INFORMATION_def)

lemma test_dispatch_get_verb_descriptor:
  "core_dispatch (core_new test_SUPPORTED_CLASSES test_BOARD_INFORMATION) 7 (le32 0 @ le32 7 @ [1])
     response_buffer = Inr [60, 73, 73, 73, 0]"
proof -
  let ?c = "core_new test_SUPPORTED_CLASSES test_BOARD_INFORMATION" and ?v = "core_VERBS ! 7"
  have "registry_ok (core_classes ?c)"
    by (simp add: registry_ok_def core_new_def test_SUPPORTED_CLASSES_def test_CLASS_CORE_def class_ok_def
        core_verb_ids class_id_from_known)
  moreover have "test_CLASS_CORE \<in> set (core_classes ?c)" by (simp add: core_new_def test_SUPPORTED_CLASSES_def)
  moreover have "?v \<in> set (class_verbs test_CLASS_CORE)" by (simp add: test_CLASS_CORE_def core_VERBS_def)
  moreover have "(7, le32 0 @ le32 7 @ [1], as_bytes (in_signature ?v)) \<in> set (introspection test_CLASS_CORE ?v)"
    by (simp add: introspection_def Let_def test_CLASS_CORE_def) (simp add: core_VERBS_def)
  moreover have "as_bytes (in_signature ?v) = [60, 73, 73, 73, 0]"
    by (simp add: core_VERBS_def as_bytes_def cstr_def)
  ultimately show ?thesis
    using core_answers [of ?c test_CLASS_CORE ?v 7 _ _ response_buffer]
    by (fastforce simp: LIBGREAT_MAX_COMMAND_SIZE_def)
qed

lemma test_introspection:
  "test_available_classes = [0x00, 0x00, 0x00, 0x00, 0x01, 0x00, 0x00, 0x00, 0x03, 0x01, 0x00, 0x00]"
  "test_available_verbs_core core_VERBS =
     [0x00, 0x00, 0x00, 0x00, 0x01, 0x00, 0x00, 0x00, 0x02, 0x00, 0x00, 0x00, 0x03, 0x00,
      0x00, 0x00, 0x04, 0x00, 0x00, 0x00, 0x05, 0x00, 0x00, 0x00, 0x06, 0x00, 0x00, 0x00,
      0x07, 0x00, 0x00, 0x00, 0x08, 0x00, 0x00, 0x00, 0x09, 0x00, 0x00, 0x00]"
  by (simp_all add: test_available_classes_def test_available_verbs_core_def core_VERBS_def le32_def)

lemma test_buffer_copy: "iter_to_response test_available_classes (replicate 32 0) = test_available_classes"
  by (simp add: iter_to_response_eq test_introspection)

end
