(* ===== verification/ControlPort.thy ===== *)
theory ControlPort
  imports ControlFacts UsbTransfer
begin

text \<open>
  The driver of the SoC is one over which the control endpoint loses no data: the contract
  \<open>delivers\<close> of theory \<open>ControlFacts\<close> follows from what the gateware does with the registers of the
  OUT endpoint. Priming an endpoint is the write of its number, of the prime bit and of the enable
  bit, in this order; the packet that the host sends next is then in the receive FIFO.
\<close>

section \<open>The receiving side of a peripheral\<close>

definition next_packet :: "('h, 'q) env \<Rightarrow> usb_idx \<Rightarrow> u8 \<Rightarrow> 'h \<Rightarrow> 'h" where
  "next_packet env i ep h =
     env_write env (USB i OutEnable) 1
       (env_write env (USB i OutPrime) 1 (env_write env (USB i OutEpno) (ucast ep AND mask 4) h))"

text \<open>
  \<open>contents\<close> is what the receive FIFO holds, \<open>host\<close> the packets the host has still to send. The
  registers of the other direction and the interrupts leave both alone.
\<close>

definition out_endpoint ::
  "('h, 'q) env \<Rightarrow> usb_idx \<Rightarrow> u8 \<Rightarrow> ('h \<Rightarrow> bytes) \<Rightarrow> ('h \<Rightarrow> bytes list) \<Rightarrow> bool" where
  "out_endpoint env i ep contents host \<longleftrightarrow>
     rx_fifo env (USB i OutHave) (USB i OutData) contents \<and>
     (\<forall>h r. host (snd (env_read env r h)) = host h) \<and>
     (\<forall>h. contents (snd (env_read env (USB i InHave) h)) = contents h) \<and>
     (\<forall>h p ps. contents h = [] \<longrightarrow> host h = p # ps \<longrightarrow>
        contents (next_packet env i ep h) = p \<and> host (next_packet env i ep h) = ps) \<and>
     (\<forall>h v. \<forall>r \<in> {USB i InReset, USB i InEpno}.
        contents (env_write env r v h) = contents h \<and> host (env_write env r v h) = host h) \<and>
     (\<forall>w. acks_ok w \<longrightarrow>
        (\<exists>w'. env_irq env w = Ret w' \<and> acks_ok w' \<and> device_speed w' = device_speed w \<and>
           contents (hw w') = contents (hw w) \<and> host (hw w') = host (hw w)))"

text \<open>What the methods of the transmitting side leave alone, for any view of the hardware.\<close>

definition tx_frame :: "('h, 'q) env \<Rightarrow> usb_idx \<Rightarrow> ('h \<Rightarrow> 'v) \<Rightarrow> bool" where
  "tx_frame env i view \<longleftrightarrow>
     (\<forall>h. view (snd (env_read env (USB i InHave) h)) = view h) \<and>
     (\<forall>h v. \<forall>r \<in> {USB i InReset, USB i InEpno}. view (env_write env r v h) = view h) \<and>
     (\<forall>w. acks_ok w \<longrightarrow>
        (\<exists>w'. env_irq env w = Ret w' \<and> acks_ok w' \<and> device_speed w' = device_speed w \<and>
           view (hw w') = view (hw w)))"

lemma tx_frame_irq:
  assumes "tx_frame env i view" and "acks_ok w"
  obtains w' where "env_irq env w = Ret w'" "acks_ok w'" "device_speed w' = device_speed w"
    "view (hw w') = view (hw w)"
  using assms unfolding tx_frame_def by blast

lemma tx_frame_irq_returns: "tx_frame env i view \<Longrightarrow> irq_returns env"
  unfolding tx_frame_def irq_returns_def by blast

lemma tx_frame_have:
  "tx_frame env i view \<Longrightarrow> read_bit env (USB i InHave) w = (b, w') \<Longrightarrow> view (hw w') = view (hw w)"
  by (auto simp: tx_frame_def read_bit_eq)

lemma tx_frame_reset:
  "tx_frame env i view \<Longrightarrow> view (hw (write_bit env (USB i InReset) b w)) = view (hw w)"
  by (simp add: tx_frame_def write_bit_def reg_write_def)

lemma tx_frame_epno:
  "tx_frame env i view \<Longrightarrow> view (hw (write_field env n (USB i InEpno) v w)) = view (hw w)"
  by (simp add: tx_frame_def write_field_def reg_write_def)

lemma set_ack_hw: "set_tx_ack_active i ep w = Ret w' \<Longrightarrow> hw w' = hw w"
  by (auto simp: set_tx_ack_active_def Let_def split: if_splits)

lemma clear_ack_hw: "clear_tx_ack_active i ep w = Ret w' \<Longrightarrow> hw w' = hw w"
  by (auto simp: clear_tx_ack_active_def Let_def split: if_splits)

lemma wait_fifo_empty_view:
  assumes "tx_frame env i view" and "unat ep < 16" and "acks_ok w"
  shows "\<exists>b w'. wait_fifo_empty env i ep t w = Ret (b, w') \<and> acks_ok w' \<and>
    view (hw w') = view (hw w)"
  using assms(3)
proof (induction env\<equiv>env i\<equiv>i ep\<equiv>ep t w rule: wait_fifo_empty.induct)
  case (1 t w)
  obtain w1 where w1: "env_irq env w = Ret w1" "acks_ok w1" "view (hw w1) = view (hw w)"
    using assms(1) 1(2) by (rule tx_frame_irq)
  obtain b w2 where r: "read_bit env (USB i InHave) w1 = (b, w2)" by fastforce
  then have w2: "acks_ok w2" "view (hw w2) = view (hw w)"
    using w1 tx_frame_have [OF assms(1) r] by (auto simp: acks_ok_read_bit)
  show ?case
  proof (cases "b \<and> \<not> (t > 0 \<and> t > DEFAULT_TIMEOUT)")
    case True
    then have "\<exists>c w'. wait_fifo_empty env i ep (t + 1) w2 = Ret (c, w') \<and> acks_ok w' \<and>
        view (hw w') = view (hw w2)"
      by (intro 1(1) [OF r [symmetric]] w2) auto
    with True show ?thesis by (subst wait_fifo_empty.simps) (auto simp: w1 r w2)
  next
    case False
    let ?w = "write_bit env (USB i InReset) True w2"
    obtain w3 where w3: "clear_tx_ack_active i ep ?w = Ret w3" "acks_ok w3"
      using clear_tx_ack_active_Ret [of ?w ep i] w2 assms(2) by auto
    then have "view (hw w3) = view (hw w)"
      using clear_ack_hw [OF w3(1)] tx_frame_reset [OF assms(1)] w2 by simp
    with w3 False show ?thesis by (subst wait_fifo_empty.simps) (auto simp: w1 r w2)
  qed
qed

lemma prime_in_view:
  assumes "tx_frame env i view" and "unat ep < 16" and "acks_ok w"
  shows "\<exists>w'. prime_in env i ep w = Ret w' \<and> acks_ok w' \<and> view (hw w') = view (hw w)"
proof -
  obtain w1 where w1: "set_tx_ack_active i ep w = Ret w1" "acks_ok w1"
    using set_tx_ack_active_Ret [OF assms(3,2)] by blast
  obtain w2 where "env_irq env w1 = Ret w2" "acks_ok w2" "view (hw w2) = view (hw w1)"
    using assms(1) w1(2) by (rule tx_frame_irq)
  with w1 show ?thesis
    by (simp add: prime_in_def tx_frame_epno [OF assms(1)] set_ack_hw [OF w1(1)])
qed

lemma hal_write_zlp:
  assumes "tx_frame env i view" and "unat ep < 16" and "acks_ok w"
  shows "\<exists>w'. hal_write env i ep [] w = Ret (0, w') \<and> acks_ok w' \<and> view (hw w') = view (hw w)"
proof -
  obtain w1 where w1: "set_tx_ack_active i ep w = Ret w1" "acks_ok w1"
    using set_tx_ack_active_Ret [OF assms(3,2)] by blast
  obtain b w2 where w2: "wait_fifo_empty env i ep 0 w1 = Ret (b, w2)" "acks_ok w2"
      "view (hw w2) = view (hw w1)"
    using wait_fifo_empty_view [OF assms(1,2) w1(2)] by blast
  obtain w3 where "prime_in env i ep w2 = Ret w3" "acks_ok w3" "view (hw w3) = view (hw w2)"
    using prime_in_view [OF assms(1,2) w2(2)] by blast
  with w1 w2 show ?thesis
    using max_packet_size_pos [of "device_speed w i" ep]
    by (cases b) (simp_all add: hal_write_def write_with_packet_size_def set_ack_hw [OF w1(1)])
qed

section \<open>The contract of the data stage\<close>

lemma out_endpoint_tx_frame:
  assumes "out_endpoint env i ep contents host"
  shows "tx_frame env i (\<lambda>h. (contents h, host h))"
  using assms by (auto simp: out_endpoint_def tx_frame_def)

text \<open>The packet in the FIFO, if there is one, and the states with no empty packet to come.\<close>

definition fifo_inbox :: "('h \<Rightarrow> bytes) \<Rightarrow> ('h, 'q) world \<Rightarrow> bytes option" where
  "fifo_inbox contents w = (if contents (hw w) = [] then None else Some (contents (hw w)))"

definition port_ok :: "('h \<Rightarrow> bytes list) \<Rightarrow> ('h, 'q) world \<Rightarrow> bool" where
  "port_ok host w \<longleftrightarrow> acks_ok w \<and> [] \<notin> set (host (hw w))"

text \<open>A read keeps what reading the two registers of the FIFO keeps.\<close>

definition out_reads_keep :: "('h, 'q) env \<Rightarrow> usb_idx \<Rightarrow> (('h, 'q) world \<Rightarrow> bool) \<Rightarrow> bool" where
  "out_reads_keep env i P \<longleftrightarrow>
     (\<forall>w. P w \<longrightarrow>
        P (w\<lparr>hw := snd (env_read env (USB i OutHave) (hw w))\<rparr>) \<and>
        P (w\<lparr>hw := snd (env_read env (USB i OutData) (hw w))\<rparr>))"

lemma out_reads_keep_bit:
  "out_reads_keep env i P \<Longrightarrow> P w \<Longrightarrow> read_bit env (USB i OutHave) w = (b, w') \<Longrightarrow> P w'"
  unfolding out_reads_keep_def read_bit_eq by blast

lemma out_reads_keep_field:
  "out_reads_keep env i P \<Longrightarrow> P w \<Longrightarrow> read_field env n (USB i OutData) w = (v, w') \<Longrightarrow> P w'"
  unfolding out_reads_keep_def read_field_eq by blast

lemma read_loop_keep:
  "out_reads_keep env i P \<Longrightarrow> P w \<Longrightarrow> read_loop env i buffer w = (buffer', n, full, w') \<Longrightarrow> P w'"
proof (induction buffer arbitrary: w buffer' n full w')
  case (Cons b buffer)
  obtain x w1 where r: "read_bit env (USB i OutHave) w = (x, w1)" by fastforce
  have w1: "P w1" using out_reads_keep_bit [OF Cons.prems(1,2) r] .
  obtain v w2 where d: "read_field env 8 (USB i OutData) w1 = (v, w2)" by fastforce
  have w2: "P w2" using out_reads_keep_field [OF Cons.prems(1) w1 d] .
  obtain bs k f w3 where l: "read_loop env i buffer w2 = (bs, k, f, w3)" by (metis prod_cases4)
  show ?case using Cons.prems(3) w1 Cons.IH [OF Cons.prems(1) w2 l] by (cases x) (simp_all add: r d l)
qed simp

lemma drain_keep:
  assumes "out_reads_keep env i P" and "drain env i n w = Some (k, w')" and "P w"
  shows "P w'"
proof -
  have "out_reads_keep env i P \<longrightarrow> P w \<longrightarrow> P (snd (k, w'))"
  proof (rule drain.raw_induct [where
        P = "\<lambda>env i n w r. out_reads_keep env i P \<longrightarrow> P w \<longrightarrow> P (snd r)", OF _ assms(2)])
    fix loop env i n w and r :: "nat \<times> ('a, 'b) world"
    assume IH: "\<And>env i n w r. loop env i n w = Some r \<Longrightarrow>
        out_reads_keep env i P \<longrightarrow> P w \<longrightarrow> P (snd r)"
      and eq: "(let (have, w) = read_bit env (USB i OutHave) w in
        if \<not> have then Some (n, w)
        else let (data, w) = read_field env 8 (USB i OutData) w in loop env i (Suc n) w) = Some r"
    obtain x w1 where r: "read_bit env (USB i OutHave) w = (x, w1)" by fastforce
    obtain v w2 where d: "read_field env 8 (USB i OutData) w1 = (v, w2)" by fastforce
    show "out_reads_keep env i P \<longrightarrow> P w \<longrightarrow> P (snd r)"
    proof (intro impI)
      assume k: "out_reads_keep env i P" "P w"
      have w1: "P w1" using out_reads_keep_bit [OF k r] .
      have w2: "P w2" using out_reads_keep_field [OF k(1) w1 d] .
      show "P (snd r)" using eq IH [of env i "Suc n" w2 r] k w1 w2 by (cases x) (auto simp: r d)
    qed
  qed
  with assms show ?thesis by simp
qed

lemma hal_read_keep:
  assumes "out_reads_keep env i P" and "P w" and "hal_read env i ep buffer w = Ret (n, buffer', w')"
  shows "P w'"
proof -
  obtain bs k f w1 where l: "read_loop env i buffer w = (bs, k, f, w1)" by (metis prod_cases4)
  have "P w1" using read_loop_keep [OF assms(1,2) l] .
  then show ?thesis using assms(3) drain_keep [OF assms(1)]
    by (cases f) (auto simp: hal_read_def l rust_simps)
qed

lemma out_endpoint_delivers:
  assumes "out_endpoint env i ep contents host" and "unat ep < 16"
  shows "delivers (hal_driver env i) ep (port_ok host) (fifo_inbox contents) (\<lambda>w. host (hw w))"
proof -
  note tx = out_endpoint_tx_frame [OF assms(1)]
  have rx: "rx_fifo env (USB i OutHave) (USB i OutData) contents"
    using assms(1) by (simp add: out_endpoint_def)
  have keep: "out_reads_keep env i (\<lambda>v. acks_ok v \<and> host (hw v) = hs)" for hs
    using assms(1) by (auto simp: out_reads_keep_def acks_ok_def out_endpoint_def)
  have read: "\<exists>w'. drv_read (hal_driver env i) ep (replicate EP_MAX_PACKET_SIZE 0) w =
      Ret (length p, p @ replicate (EP_MAX_PACKET_SIZE - length p) 0, w') \<and>
      port_ok host w' \<and> fifo_inbox contents w' = None \<and> host (hw w') = host (hw w)"
    if "port_ok host w" "fifo_inbox contents w = Some p" "length p \<le> EP_MAX_PACKET_SIZE" for w p
  proof -
    note asm = that
    have p: "contents (hw w) = p" using that(2) by (auto simp: fifo_inbox_def split: if_splits)
    obtain w' where w': "hal_read env i ep (replicate EP_MAX_PACKET_SIZE 0) w =
        Ret (length p, p @ replicate (EP_MAX_PACKET_SIZE - length p) 0, w')" "contents (hw w') = []"
      using hal_read_fifo [OF rx, of ep "replicate EP_MAX_PACKET_SIZE 0" w] p asm(3) by auto
    have "acks_ok w' \<and> host (hw w') = host (hw w)"
      using hal_read_keep [OF keep, of w "host (hw w)"] w'(1) that(1) by (auto simp: port_ok_def)
    with w' that(1) show ?thesis by (auto simp: hal_driver_def port_ok_def fifo_inbox_def)
  qed
  have prime: "let w' = drv_ep_out_prime_receive (hal_driver env i) ep w in
      port_ok host w' \<and> fifo_inbox contents w' = Some p \<and> host (hw w') = ps"
    if "port_ok host w" "fifo_inbox contents w = None" "host (hw w) = p # ps" for w p ps
  proof -
    have c: "contents (hw w) = []"
      using that(2) by (simp add: fifo_inbox_def split: if_splits)
    obtain w1 where w1: "read_bit env (USB i OutHave) w = (False, w1)" "contents (hw w1) = []"
      using rx_have [OF rx, of w] c by auto
    have k: "acks_ok w1 \<and> host (hw w1) = p # ps"
      using out_reads_keep_bit [OF keep _ w1(1)] that(1,3) by (auto simp: port_ok_def)
    let ?w' = "drv_ep_out_prime_receive (hal_driver env i) ep w"
    have h: "hw ?w' = next_packet env i ep (hw w1)" and a: "acks_ok ?w'"
      using k by (simp_all add: hal_driver_def ep_out_prime_receive_def w1 write_bit_def
          write_field_def reg_write_def field_bits_zero reset_value_def next_packet_def acks_ok_def)
    have "contents (hw ?w') = p \<and> host (hw ?w') = ps"
      unfolding h using assms(1) w1(2) k unfolding out_endpoint_def by blast
    with that a show ?thesis by (auto simp: port_ok_def fifo_inbox_def Let_def)
  qed
  have zlp: "\<exists>w'. drv_write (hal_driver env i) ep [] w = Ret (0, w') \<and> port_ok host w' \<and>
      fifo_inbox contents w' = fifo_inbox contents w \<and> host (hw w') = host (hw w)"
    if "port_ok host w" for w
  proof -
    have a: "acks_ok w" "[] \<notin> set (host (hw w))" using that by (simp_all add: port_ok_def)
    obtain w' where "hal_write env i ep [] w = Ret (0, w')" "acks_ok w'"
        "(contents (hw w'), host (hw w')) = (contents (hw w), host (hw w))"
      using hal_write_zlp [OF tx assms(2) a(1)] by blast
    with a(2) show ?thesis by (simp add: hal_driver_def port_ok_def fifo_inbox_def)
  qed
  show ?thesis
    unfolding delivers_def by (intro conjI allI impI) (rule read prime zlp; assumption)+
qed

section \<open>Descriptors\<close>

definition asks_descriptor :: "setup_packet \<Rightarrow> bool" where
  "asks_descriptor sp \<longleftrightarrow> setup_direction sp = DeviceToHost \<and> setup_request_type sp = Standard \<and>
     setup_request sp = GetDescriptor"

lemma control_asks_descriptor:
  assumes "asks_descriptor sp" and "ctl_endpoint_number c = ep" and "ctl_next c \<in> {StIdle, StStall}"
  shows "control_dispatch_event D (ReceiveSetupPacket ep sp) c w =
    rbind (descriptors_write D (ctl_descriptors c) ep sp w) (\<lambda>(r, w). Ret (r, to_state StSend c, w))"
  using assms
  by (auto simp: asks_descriptor_def control_dispatch_event_def control_setup_def Let_def to_state_def)

text \<open>A descriptor that is answered goes to the host in packets of 64 bytes, and nothing else does.\<close>

lemma descriptor_reply_on_the_bus:
  assumes "logs_writes env log" and "patient_host env i 0 log" and "acks_ok w"
    and "asks_descriptor sp" and "ctl_endpoint_number c = 0" and "ctl_next c \<in> {StIdle, StStall}"
    and "descriptors_write (hal_driver env i) (ctl_descriptors c) 0 sp w =
      rbind (drv_write_requested (hal_driver env i) 0 (unat (sp_length sp)) bs w) (\<lambda>(_, w). Ret (None, w))"
  shows "\<exists>w'. control_dispatch_event (hal_driver env i) (ReceiveSetupPacket 0 sp) c w =
      Ret (None, to_state StSend c, w') \<and>
    log (hw w') = log (hw w) @
      concat (map (packet_writes i 0) (in_packets 64 (Some (unat (sp_length sp))) bs))"
proof -
  have z: "unat (0 :: u8) < 16" "(0 :: nat) < 64" by simp_all
  obtain k w' where w': "write_requested env i 0 (unat (sp_length sp)) bs w = Ret (k, w')"
    "log (hw w') = log (hw w) @
      concat (map (packet_writes i 0) (in_packets 64 (Some (unat (sp_length sp))) bs))"
    using write_refines_packets [OF assms(1,2) z assms(3), of "Some (unat (sp_length sp))" bs]
    by (auto simp: write_requested_def)
  have "drv_write_requested (hal_driver env i) = write_requested env i" by (simp add: hal_driver_def)
  with assms(7) w'(1)
  have "descriptors_write (hal_driver env i) (ctl_descriptors c) 0 sp w = Ret (None, w')" by simp
  with control_asks_descriptor [OF assms(4-6), of "hal_driver env i" w] w'(2) show ?thesis by simp
qed

end
