(* ===== verification/FirmwareFacts.thy ===== *)
theory FirmwareFacts
  imports Firmware ControlPort
begin

text \<open>
  The running firmware keeps its invariant; the libgreat protocol on top of it is a machine of three
  states, which every step of the firmware refines; a command sent to the control port is executed
  once, on exactly the bytes the host sent, and its response is what the host reads back.
\<close>

section \<open>The protocol, abstractly\<close>

text \<open>Nothing to report, a response to read, or an error to read.\<close>

datatype protocol = Quiet | Responded bytes | Failed great_error

definition fw_protocol :: "firmware \<Rightarrow> protocol" where
  "fw_protocol fw =
     (case fw_libgreat_response fw of
        Some response \<Rightarrow> Responded response
      | None \<Rightarrow>
          (case fw_libgreat_response_last_error fw of Some e \<Rightarrow> Failed e | None \<Rightarrow> Quiet))"

text \<open>The outcome of a command, the answer to a read, and the code reported by an abort.\<close>

fun protocol_outcome :: "great_response great_result \<Rightarrow> protocol" where
  "protocol_outcome (Inr response) = Responded response"
| "protocol_outcome (Inl e) = Failed e"

fun protocol_after_read :: "protocol \<Rightarrow> protocol" where
  "protocol_after_read (Responded response) = Quiet"
| "protocol_after_read p = p"

fun protocol_error_code :: "protocol \<Rightarrow> u32" where
  "protocol_error_code (Failed e) = great_error_code e"
| "protocol_error_code _ = great_error_code StateNotRecoverable"

section \<open>Invariant\<close>

definition fw_protocol_ok :: "firmware \<Rightarrow> bool" where
  "fw_protocol_ok fw \<longleftrightarrow>
     (fw_libgreat_response fw = None \<or> fw_libgreat_response_last_error fw = None) \<and>
     (\<forall>response. fw_libgreat_response fw = Some response \<longrightarrow>
        length response \<le> LIBGREAT_MAX_COMMAND_SIZE)"

definition fw_control_ok :: "firmware \<Rightarrow> bool" where
  "fw_control_ok fw \<longleftrightarrow>
     ctl_ok (fw_usb2_control fw) \<and> ctl_endpoint_number (fw_usb2_control fw) = 0 \<and>
     length (ctl_rx_buffer (fw_usb2_control fw)) = LIBGREAT_MAX_COMMAND_SIZE"

definition fw_ok :: "firmware \<Rightarrow> bool" where
  "fw_ok fw \<longleftrightarrow> fw_control_ok fw \<and> fw_protocol_ok fw \<and> md_ok (fw_moondancer fw)"

lemma fw_okI: "fw_control_ok fw \<Longrightarrow> fw_protocol_ok fw \<Longrightarrow> md_ok (fw_moondancer fw) \<Longrightarrow> fw_ok fw"
  by (simp add: fw_ok_def)

lemma fw_new_ok: "firmware_new env w = Ret (fw, w') \<Longrightarrow> fw_ok fw"
  by (auto simp: firmware_new_def Let_def rust_simps case_prod_beta' fw_ok_def fw_control_ok_def
      fw_protocol_ok_def moondancer_new_ok control_new_ok, simp_all add: control_new_def)

lemma fw_class_dispatch_fits:
  assumes "fw_class_dispatch env cid v args fw w = Ret (Inr response, fw', w')"
  shows "length response \<le> LIBGREAT_MAX_COMMAND_SIZE"
proof (cases cid)
  case ClassCore
  with assms have "core_dispatch (fw_core fw) v args response_buffer = Inr response"
    by (auto simp: fw_class_dispatch_def)
  then show ?thesis
    using core_disp.dispatch_within_limit [of "fw_core fw" v args "()" response "()"]
    by (simp add: stateless_def)
next
  case ClassFirmware
  with assms have "fw_dispatch v args response_buffer = Inr response"
    by (simp add: fw_class_dispatch_def)
  then show ?thesis
    using fw_disp.dispatch_within_limit [of v args "()" response "()"] by (simp add: stateless_def)
next
  case ClassSelftest
  with assms have "st_dispatch v args response_buffer = Ret (Inr response)"
    by (auto simp: fw_class_dispatch_def rust_simps)
  then show ?thesis
    using st_disp.dispatch_within_limit [of v args "()" response "()"] by (simp add: st_dispatcher_def)
next
  case ClassMoondancer
  with assms obtain s' where
    "md_dispatch env v args response_buffer (fw_moondancer fw, w) = Ret (Inr response, s')"
    by (auto simp: fw_class_dispatch_def rust_simps)
  then show ?thesis by (rule md_disp.dispatch_within_limit)
qed (use assms in \<open>simp_all add: fw_class_dispatch_def\<close>)

text \<open>A class changes its own state only.\<close>

lemma fw_class_dispatch_frame:
  assumes "fw_class_dispatch env cid v args fw w = Ret (r, fw', w')"
  shows "\<exists>m. fw' = fw\<lparr>fw_moondancer := m\<rparr> \<and> (md_ok (fw_moondancer fw) \<longrightarrow> md_ok m)"
proof (cases cid)
  case ClassMoondancer
  with assms obtain m where
    "md_dispatch env v args response_buffer (fw_moondancer fw, w) = Ret (r, m, w')"
    "fw' = fw\<lparr>fw_moondancer := m\<rparr>"
    by (auto simp: fw_class_dispatch_def rust_simps)
  then show ?thesis using md_dispatch_ok by blast
next
  case ClassSelftest
  with assms have "fw' = fw\<lparr>fw_moondancer := fw_moondancer fw\<rparr>"
    by (auto simp: fw_class_dispatch_def rust_simps)
  then show ?thesis by blast
qed (use assms in \<open>auto simp: fw_class_dispatch_def intro: exI [of _ "fw_moondancer fw"]\<close>)

text \<open>What a command leaves behind, of its result and the firmware its class returned.\<close>

definition fw_outcome :: "great_response great_result \<Rightarrow> firmware \<Rightarrow> firmware" where
  "fw_outcome r fw =
     fw\<lparr>fw_libgreat_response := (case r of Inr x \<Rightarrow> Some x | Inl e \<Rightarrow> None),
        fw_libgreat_response_last_error := (case r of Inr x \<Rightarrow> None | Inl e \<Rightarrow> Some e)\<rparr>"

definition fw_outcome_world ::
  "'h fw_env \<Rightarrow> great_response great_result \<Rightarrow> 'h fw_world \<Rightarrow> 'h fw_world" where
  "fw_outcome_world env r w = (case r of Inr x \<Rightarrow> w | Inl e \<Rightarrow> stall_endpoint_in env Usb2 0 w)"

lemma dispatch_libgreat_request_eq:
  assumes "ctl_ok (fw_usb2_control fw)"
    and "command_parse (received (fw_usb2_control fw)) = Some cmd"
  shows "dispatch_libgreat_request env fw w =
    rbind (fw_class_dispatch env (command_class_id cmd) (command_verb_number cmd)
        (cmd_arguments cmd) fw w)
      (\<lambda>(r, fw, w). Ret (fw_outcome r fw, fw_outcome_world env r w))"
  unfolding dispatch_libgreat_request_def control_data_Ret [OF assms(1)] rbind.simps
    assms(2) [unfolded received_def] option.case fw_outcome_def fw_outcome_world_def
  by (rule arg_cong [where f = "rbind _"]) (auto split: sum.splits)

lemma dispatch_libgreat_request_short:
  assumes "ctl_ok (fw_usb2_control fw)" and "length (received (fw_usb2_control fw)) < 8"
  shows "dispatch_libgreat_request env fw w = Ret (fw, w)"
  using assms(2) control_data_Ret [OF assms(1)] command_parse_None_iff [of "received (fw_usb2_control fw)"]
  by (simp add: dispatch_libgreat_request_def received_def)

lemma fw_outcome_protocol: "fw_protocol (fw_outcome r fw) = protocol_outcome r"
  by (cases r) (simp_all add: fw_outcome_def fw_protocol_def)

lemma fw_outcome_ok:
  assumes "fw_ok fw" and "\<And>x. r = Inr x \<Longrightarrow> length x \<le> LIBGREAT_MAX_COMMAND_SIZE"
  shows "fw_ok (fw_outcome r fw)"
  using assms by (cases r) (simp_all add: fw_outcome_def fw_ok_def fw_control_ok_def fw_protocol_ok_def)

lemma fw_class_dispatch_ok:
  assumes "fw_class_dispatch env cid v args fw w = Ret (r, fw', w')" and "fw_ok fw"
  shows "fw_ok fw'"
  using fw_class_dispatch_frame [OF assms(1)] assms(2)
  by (auto simp: fw_ok_def fw_control_ok_def fw_protocol_ok_def)

lemma dispatch_libgreat_request_ok:
  assumes "dispatch_libgreat_request env fw w = Ret (fw', w')" and "fw_ok fw"
  shows "fw_ok fw'"
proof (cases "command_parse (received (fw_usb2_control fw))")
  case None
  then show ?thesis
    using assms dispatch_libgreat_request_short [of fw env w]
    by (auto simp: command_parse_None_iff fw_ok_def fw_control_ok_def)
next
  case (Some cmd)
  have "ctl_ok (fw_usb2_control fw)" using assms(2) by (simp add: fw_ok_def fw_control_ok_def)
  from assms(1) [unfolded dispatch_libgreat_request_eq [OF this Some]] obtain r fw1 w1 where
    d: "fw_class_dispatch env (command_class_id cmd) (command_verb_number cmd) (cmd_arguments cmd)
      fw w = Ret (r, fw1, w1)" "fw' = fw_outcome r fw1"
    unfolding rbind_Ret_iff by auto
  then show ?thesis
    using fw_class_dispatch_ok [OF d(1) assms(2)] fw_class_dispatch_fits d(1)
    by (auto intro!: fw_outcome_ok)
qed

lemma dispatch_libgreat_response_ok:
  "dispatch_libgreat_response env sp fw w = Ret (fw', w') \<Longrightarrow> fw_ok fw \<Longrightarrow> fw_ok fw'"
  by (auto simp: dispatch_libgreat_response_def Let_def rust_simps fw_ok_def fw_control_ok_def
      fw_protocol_ok_def split: option.splits)

lemma dispatch_libgreat_abort_ok:
  "dispatch_libgreat_abort env sp fw w = Ret (fw', w') \<Longrightarrow> fw_ok fw \<Longrightarrow> fw_ok fw'"
  by (auto simp: dispatch_libgreat_abort_def Let_def rust_simps fw_ok_def fw_control_ok_def
      fw_protocol_ok_def)

lemma handle_vendor_request_ok:
  "handle_vendor_request env sp fw w = Ret (fw', w') \<Longrightarrow> fw_ok fw \<Longrightarrow> fw_ok fw'"
  by (auto simp: handle_vendor_request_def Let_def rust_simps
      split: if_splits vendor_request.splits vendor_value.splits direction.splits
      dest: dispatch_libgreat_request_ok dispatch_libgreat_response_ok dispatch_libgreat_abort_ok)

lemma fw_control_event_ok:
  assumes "fw_control_event env ev fw w = Ret (fw', w')" and "fw_ok fw"
  shows "fw_ok fw'"
proof -
  obtain r c w1 where c: "control_dispatch_event (hal_driver env Usb2) ev (fw_usb2_control fw) w =
      Ret (r, c, w1)"
    and k: "(case r of None \<Rightarrow> Ret (fw\<lparr>fw_usb2_control := c\<rparr>, w1)
      | Some sp \<Rightarrow> handle_vendor_request env sp (fw\<lparr>fw_usb2_control := c\<rparr>) w1) = Ret (fw', w')"
    using assms(1) by (auto simp: fw_control_event_def rust_simps Let_def)
  have "fw_ok (fw\<lparr>fw_usb2_control := c\<rparr>)"
    using control_dispatch_event_ok [OF c] assms(2)
    by (simp add: fw_ok_def fw_control_ok_def fw_protocol_ok_def ctl_step_ok_def ctl_frame_def)
  with k show ?thesis by (cases r) (auto dest: handle_vendor_request_ok)
qed

lemma fw_handle_event_ok:
  "fw_handle_event env ev fw w = Ret (fw', w') \<Longrightarrow> fw_ok fw \<Longrightarrow> fw_ok fw'"
  by (auto simp: fw_handle_event_def rust_simps
      split: interrupt_event.splits usb_interface.splits if_splits
      dest: fw_control_event_ok md_dispatch_event_ok)
    (auto simp: fw_ok_def fw_control_ok_def fw_protocol_ok_def dest: md_dispatch_event_ok)

lemma loop_event_ok:
  "loop_event env ev l fw w = Ret (l', fw', w') \<Longrightarrow> fw_ok fw \<Longrightarrow> fw_ok fw'"
  by (auto simp: loop_event_def Let_def rust_simps dest: fw_handle_event_ok)

lemma main_step_ok: "main_step env (l, fw, w) (l', fw', w') \<Longrightarrow> fw_ok fw \<Longrightarrow> fw_ok fw'"
  by (auto simp: main_step_simps dest: loop_event_ok)

lemma main_reachable_ok: "main_reachable env s \<Longrightarrow> fw_ok (fst (snd s))"
proof (induction rule: main_reachable.induct)
  case (main_next s s')
  then show ?case by (cases s; cases s') (auto dest: main_step_ok)
qed (auto dest: fw_new_ok)

section \<open>The firmware refines the protocol\<close>

lemma fw_protocol_Responded:
  "fw_protocol fw = Responded x \<longleftrightarrow> fw_libgreat_response fw = Some x"
  by (auto simp: fw_protocol_def split: option.splits)

lemma fw_protocol_Failed:
  "fw_protocol fw = Failed e \<longleftrightarrow>
     fw_libgreat_response fw = None \<and> fw_libgreat_response_last_error fw = Some e"
  by (auto simp: fw_protocol_def split: option.splits)

lemma fw_protocol_Quiet:
  "fw_protocol fw = Quiet \<longleftrightarrow>
     fw_libgreat_response fw = None \<and> fw_libgreat_response_last_error fw = None"
  by (auto simp: fw_protocol_def split: option.splits)

text \<open>The endpoint is 0, so the three handlers return whatever the hardware does.\<close>

lemma write_requested_0_Ret:
  assumes "irq_returns env" and "acks_ok w"
  shows "\<exists>n w'. write_requested env i 0 len bs w = Ret (n, w') \<and> acks_ok w'"
proof -
  have "unat (0 :: u8) < 16" by simp
  from write_with_packet_size_Ret [OF assms(1) this max_packet_size_pos assms(2)] show ?thesis
    unfolding write_requested_def by blast
qed

lemma acks_ok_ep_out_prime_receive [simp]:
  "acks_ok (ep_out_prime_receive env i ep w) = acks_ok w"
  by (auto simp: ep_out_prime_receive_def acks_ok_read_bit split: prod.splits)

lemma dispatch_libgreat_response_refines:
  assumes "irq_returns env" and "acks_ok w" and "fw_ok fw"
  shows "\<exists>fw' w'. dispatch_libgreat_response env sp fw w = Ret (fw', w') \<and>
    fw_protocol fw' = protocol_after_read (fw_protocol fw) \<and> fw_ok fw'"
proof (cases "fw_protocol fw")
  case (Responded x)
  obtain n w' where "write_requested env Usb2 0 (unat (sp_length sp)) x
      (ep_out_prime_receive env Usb2 0 w) = Ret (n, w')"
    using write_requested_0_Ret [OF assms(1)] assms(2) acks_ok_ep_out_prime_receive by metis
  moreover have "fw_protocol (fw\<lparr>fw_libgreat_response := None\<rparr>) = Quiet"
    using Responded assms(3)
    by (auto simp: fw_protocol_Responded fw_protocol_Quiet fw_ok_def fw_protocol_ok_def)
  moreover have "fw_ok (fw\<lparr>fw_libgreat_response := None\<rparr>)"
    using assms(3) by (simp add: fw_ok_def fw_control_ok_def fw_protocol_ok_def)
  ultimately show ?thesis
    using Responded [unfolded fw_protocol_Responded]
    by (simp add: dispatch_libgreat_response_def Responded)
next
  case Quiet
  then show ?thesis using assms(3) Quiet [unfolded fw_protocol_Quiet]
    by (simp add: dispatch_libgreat_response_def)
next
  case (Failed e)
  then show ?thesis using assms(3) Failed [unfolded fw_protocol_Failed]
    by (simp add: dispatch_libgreat_response_def)
qed

lemma abort_error_code:
  "fw_ok fw \<Longrightarrow>
     great_error_code (case fw_libgreat_response_last_error fw of
       Some error \<Rightarrow> error | None \<Rightarrow> StateNotRecoverable) = protocol_error_code (fw_protocol fw)"
  by (auto simp: fw_protocol_def fw_ok_def fw_protocol_ok_def split: option.splits)

lemma dispatch_libgreat_abort_refines:
  assumes "irq_returns env" and "acks_ok w" and "fw_ok fw"
  shows "\<exists>n fw' w'. write_requested env Usb2 0 (unat (sp_length sp))
        (le32 (protocol_error_code (fw_protocol fw))) (ep_out_prime_receive env Usb2 0 w) =
        Ret (n, w') \<and>
      dispatch_libgreat_abort env sp fw w = Ret (fw', w') \<and> fw_protocol fw' = Quiet \<and> fw_ok fw'"
proof -
  obtain n w' where "write_requested env Usb2 0 (unat (sp_length sp))
      (le32 (protocol_error_code (fw_protocol fw))) (ep_out_prime_receive env Usb2 0 w) = Ret (n, w')"
    using write_requested_0_Ret [OF assms(1)] assms(2) acks_ok_ep_out_prime_receive by metis
  then show ?thesis using assms(3)
    by (simp add: dispatch_libgreat_abort_def abort_error_code [OF assms(3)] fw_protocol_Quiet
        fw_ok_def fw_control_ok_def fw_protocol_ok_def)
qed

section \<open>A command over the control port\<close>

definition is_execute :: "direction \<Rightarrow> setup_packet \<Rightarrow> bool" where
  "is_execute d sp \<longleftrightarrow>
     setup_direction sp = d \<and> setup_request_type sp = Vendor \<and>
     vendor_request_from (sp_request sp) = UsbCommandRequest \<and>
     vendor_value_from (sp_value sp) = VendorExecute"

definition is_abort :: "setup_packet \<Rightarrow> bool" where
  "is_abort sp \<longleftrightarrow>
     setup_direction sp = DeviceToHost \<and> setup_request_type sp = Vendor \<and>
     vendor_request_from (sp_request sp) = UsbCommandRequest \<and>
     vendor_value_from (sp_value sp) = VendorCancel"

lemma handle_execute:
  "is_execute HostToDevice sp \<Longrightarrow>
     handle_vendor_request env sp fw w = dispatch_libgreat_request env fw w"
  "is_execute DeviceToHost sp \<Longrightarrow>
     handle_vendor_request env sp fw w = dispatch_libgreat_response env sp fw w"
  "is_abort sp \<Longrightarrow> handle_vendor_request env sp fw w = dispatch_libgreat_abort env sp fw w"
  by (simp_all add: handle_vendor_request_def is_execute_def is_abort_def)

section \<open>The answer to a command\<close>

lemma command_request:
  "vendor_request_from (sp_request sp) = UsbCommandRequest \<Longrightarrow> setup_request_type sp = Vendor \<Longrightarrow>
     setup_request sp = ClassOrVendor 0x65"
  by (auto simp: vendor_request_from_def setup_request_def request_from_def split: if_splits)

text \<open>A vendor request without a data stage is handed out at once.\<close>

lemma command_setup:
  assumes "vendor_request_from (sp_request sp) = UsbCommandRequest" and "setup_request_type sp = Vendor"
    and "setup_direction sp = DeviceToHost \<or> sp_length sp = 0" and "ctl_next c \<in> {StIdle, StStall}"
  shows "control_dispatch_event D (ReceiveSetupPacket (ctl_endpoint_number c) sp) c w =
    Ret (Some sp, to_state StIdle c, w)"
proof -
  have "to_state StIdle (clear_stall c) = to_state StIdle c"
    by (simp add: clear_stall_def to_state_def)
  then have "control_setup D sp c w = Ret (Some sp, to_state StIdle (clear_stall c), w)"
    using command_request [OF assms(1,2)] assms(2,3)
    by (cases "setup_direction sp") (auto simp: control_setup_def Let_def setup_other_def clear_stall_def
        VendorRequest_Microsoft_def)
  with assms(4) \<open>to_state StIdle (clear_stall c) = to_state StIdle c\<close>
  show ?thesis by (auto simp: control_dispatch_event_def)
qed

lemma execute_out_setup:
  assumes "is_execute d sp" and "d = DeviceToHost \<or> sp_length sp = 0"
    and "ctl_next c \<in> {StIdle, StStall}"
  shows "control_dispatch_event D (ReceiveSetupPacket (ctl_endpoint_number c) sp) c w =
    Ret (Some sp, to_state StIdle c, w)"
  using assms by (intro command_setup) (auto simp: is_execute_def)

text \<open>
  How the host fetches the outcome of a command, and what it gets: the response, or after a failure the
  number of the error with an abort.
\<close>

definition fetches :: "great_response great_result \<Rightarrow> setup_packet \<Rightarrow> bool" where
  "fetches r sp = (case r of Inr x \<Rightarrow> is_execute DeviceToHost sp | Inl e \<Rightarrow> is_abort sp)"

definition outcome_bytes :: "great_response great_result \<Rightarrow> bytes" where
  "outcome_bytes r = (case r of Inr x \<Rightarrow> x | Inl e \<Rightarrow> le32 (great_error_code e))"

lemma fw_read_outcome:
  assumes "logs_writes env log" and "patient_host env Usb2 0 log" and "acks_ok w" and "fw_ok fw"
    and "ctl_next (fw_usb2_control fw) \<in> {StIdle, StStall}" and "fetches r sp"
    and "fw_protocol fw = protocol_outcome r"
  shows "\<exists>fw' w'. fw_control_event env (ReceiveSetupPacket 0 sp) fw w = Ret (fw', w') \<and>
    log (hw w') = log (hw (ep_out_prime_receive env Usb2 0 w)) @
      concat (map (packet_writes Usb2 0) (in_packets 64 (Some (unat (sp_length sp))) (outcome_bytes r))) \<and>
    fw_protocol fw' = Quiet \<and> ctl_next (fw_usb2_control fw') = StIdle \<and> fw_core fw' = fw_core fw \<and>
    fw_moondancer fw' = fw_moondancer fw \<and> acks_ok w'"
proof -
  let ?c = "fw_usb2_control fw" and ?w = "ep_out_prime_receive env Usb2 0 w"
  define fw1 where "fw1 = fw\<lparr>fw_usb2_control := to_state StIdle ?c\<rparr>"
  have "ctl_endpoint_number ?c = 0" using assms(4) by (simp add: fw_ok_def fw_control_ok_def)
  then have "control_dispatch_event (hal_driver env Usb2) (ReceiveSetupPacket 0 sp) ?c w =
      Ret (Some sp, to_state StIdle ?c, w)"
    using command_setup [OF _ _ _ assms(5), of sp "hal_driver env Usb2" w] assms(6)
    by (auto simp: fetches_def is_execute_def is_abort_def split: sum.splits)
  then have ev: "fw_control_event env (ReceiveSetupPacket 0 sp) fw w = handle_vendor_request env sp fw1 w"
    by (simp add: fw_control_event_def fw1_def)
  have z: "unat (0 :: u8) < 16" "(0 :: nat) < 64" "acks_ok ?w" using assms(3) by simp_all
  obtain w' where sends: "write_requested env Usb2 0 (unat (sp_length sp)) (outcome_bytes r) ?w =
        Ret (length (outcome_bytes r), w')" and w': "acks_ok w'"
      "log (hw w') = log (hw ?w) @
        concat (map (packet_writes Usb2 0) (in_packets 64 (Some (unat (sp_length sp))) (outcome_bytes r)))"
    using write_refines_packets [OF assms(1,2) z] by (auto simp: write_requested_def max_packet_size_def)
  have "handle_vendor_request env sp fw1 w =
      Ret (fw1\<lparr>fw_libgreat_response := None, fw_libgreat_response_last_error := None\<rparr>, w')"
  proof (cases r)
    case (Inl e)
    then have "is_abort sp" "fw_libgreat_response_last_error fw1 = Some e"
      using assms(4,6,7) by (auto simp: fetches_def fw1_def fw_protocol_Failed fw_ok_def fw_protocol_ok_def)
    with Inl sends show ?thesis
      by (simp add: handle_execute(3) dispatch_libgreat_abort_def outcome_bytes_def)
  next
    case (Inr x)
    then have "is_execute DeviceToHost sp" "fw_libgreat_response fw1 = Some x"
      "fw_libgreat_response_last_error fw1 = None"
      using assms(4,6,7) by (auto simp: fetches_def fw1_def fw_protocol_Responded fw_ok_def fw_protocol_ok_def)
    with Inr sends show ?thesis
      by (simp add: handle_execute(2) dispatch_libgreat_response_def outcome_bytes_def)
  qed
  with ev w' show ?thesis by (simp add: fw_protocol_Quiet) (simp add: fw1_def)
qed

section \<open>An empty command replays the last one\<close>

text \<open>
  A vendor request without a data stage does not reset the receive position, so the command in the
  buffer is executed again.
\<close>

lemma fw_empty_execute:
  assumes "fw_ok fw" and "ctl_next (fw_usb2_control fw) \<in> {StIdle, StStall}"
    and "is_execute HostToDevice sp" and "sp_length sp = 0"
    and "command_parse (received (fw_usb2_control fw)) = Some cmd"
  shows "fw_control_event env (ReceiveSetupPacket 0 sp) fw w =
    rbind (fw_class_dispatch env (command_class_id cmd) (command_verb_number cmd)
        (cmd_arguments cmd)
        (fw\<lparr>fw_usb2_control := (fw_usb2_control fw)\<lparr>ctl_next := StIdle\<rparr>\<rparr>) w)
      (\<lambda>(r, fw, w). Ret (fw_outcome r fw, fw_outcome_world env r w))"
proof -
  let ?c = "fw_usb2_control fw"
  let ?fw = "fw\<lparr>fw_usb2_control := to_state StIdle ?c\<rparr>"
  have c: "ctl_endpoint_number ?c = 0" "ctl_ok ?c"
    using assms(1) by (simp_all add: fw_ok_def fw_control_ok_def)
  then have ctl: "ctl_ok (fw_usb2_control ?fw)" by (simp add: ctl_ok_def)
  have cmd: "command_parse (received (fw_usb2_control ?fw)) = Some cmd" using assms(5) by simp
  have "fw_control_event env (ReceiveSetupPacket 0 sp) fw w = dispatch_libgreat_request env ?fw w"
    using execute_out_setup [OF assms(3) _ assms(2), of "hal_driver env Usb2" w] c(1) assms(4)
    by (simp add: fw_control_event_def handle_execute(1) [OF assms(3)])
  then show ?thesis
    unfolding dispatch_libgreat_request_eq [OF ctl cmd] by (simp add: to_state_def)
qed

end
