(* ===== verification/ControlReturns.thy ===== *)
theory ControlReturns
  imports ControlPort InterruptsFacts
begin

text \<open>
  The control endpoint always comes back to its caller: over every driver whose methods return, an
  event is handled, except for the three requests that the code does not guard against. The
  contract of such a driver extends the one of theory \<open>UsbDriver\<close> and holds for the driver of the
  SoC as long as interrupts are served and the receive FIFO is one.
\<close>

section \<open>Drivers that return\<close>

text \<open>\<open>ok\<close> is an invariant of the driver's state, \<open>waiting\<close> the number of bytes in its receive FIFO.\<close>

locale returning_driver = usb_driver_contract D for D :: "'w usb_driver" +
  fixes ok :: "'w \<Rightarrow> bool" and waiting :: "'w \<Rightarrow> nat"
  assumes write_returns: "ok w \<Longrightarrow> unat ep < 16 \<Longrightarrow> \<exists>n w'. drv_write D ep bs w = Ret (n, w') \<and> ok w'"
    and write_requested_returns:
      "ok w \<Longrightarrow> unat ep < 16 \<Longrightarrow> \<exists>n w'. drv_write_requested D ep len bs w = Ret (n, w') \<and> ok w'"
    and read_returns: "ok w \<Longrightarrow> \<exists>buf' w'. drv_read D ep buf w = Ret (waiting w, buf', w') \<and> ok w'"
    and ok_stall_in [simp]: "ok w \<Longrightarrow> ok (drv_stall_endpoint_in D ep w)"
    and ok_stall_out [simp]: "ok w \<Longrightarrow> ok (drv_stall_endpoint_out D ep w)"
    and ok_clear_halt [simp]: "ok w \<Longrightarrow> ok (drv_clear_feature_endpoint_halt D ep d w)"
    and ok_prime [simp]: "ok w \<Longrightarrow> ok (drv_ep_out_prime_receive D ep w)"
    and ok_address [simp]: "ok w \<Longrightarrow> ok (drv_set_address D a w)"

definition returns_ok :: "('w \<Rightarrow> bool) \<Rightarrow> ('a \<times> 'b \<times> 'w) rust \<Rightarrow> bool" where
  "returns_ok ok m \<longleftrightarrow> (\<exists>r c w'. m = Ret (r, c, w') \<and> ok w')"

lemma returns_ok_Ret [simp]: "returns_ok ok (Ret (r, c, w)) = ok w"
  by (simp add: returns_ok_def)

text \<open>
  What must not happen: a request for the string number just behind the table, and a packet that is
  larger than the buffer it is read into while there is room for it behind the data received so far.
\<close>

definition string_behind_table :: "control \<Rightarrow> setup_packet \<Rightarrow> bool" where
  "string_behind_table c sp \<longleftrightarrow>
     setup_direction sp = DeviceToHost \<and> setup_request_type sp = Standard \<and>
     setup_request sp = GetDescriptor \<and>
     descriptor_type_from (le16 (sp_value sp) ! 1) = DtString \<and>
     le16 (sp_value sp) ! 0 \<notin> {0, 0xee} \<and>
     unat (le16 (sp_value sp) ! 0 - 1) = length (ds_string_descriptors (ctl_descriptors c))"

fun control_safe :: "control \<Rightarrow> nat \<Rightarrow> usb_event \<Rightarrow> bool" where
  "control_safe c n (ReceiveSetupPacket ep sp) = (\<not> string_behind_table c sp)"
| "control_safe c n (ReceivePacket ep) =
     (n \<le> EP_MAX_PACKET_SIZE \<or> ctl_rx_buffer_position c + n > length (ctl_rx_buffer c))"
| "control_safe c n _ = True"

context returning_driver
begin

lemma write_zlp_returns:
  "ok w \<Longrightarrow> unat (ctl_endpoint_number c) < 16 \<Longrightarrow> \<exists>w'. write_zlp D c w = Ret w' \<and> ok w'"
  using write_returns [of w "ctl_endpoint_number c" "[]"] by (auto simp: write_zlp_def)

lemma status_zlp_returns:
  "ok w \<Longrightarrow> unat (ctl_endpoint_number c) < 16 \<Longrightarrow> returns_ok ok (status_zlp D c w)"
  using write_zlp_returns [of w c] by (auto simp: status_zlp_def returns_ok_def)

lemma sent_returns:
  "ok w \<Longrightarrow> unat ep < 16 \<Longrightarrow> returns_ok ok (sent c (drv_write D ep bs w))"
  "ok w \<Longrightarrow> unat ep < 16 \<Longrightarrow> returns_ok ok (sent c (drv_write_requested D ep len bs w))"
  using write_returns [of w ep bs] write_requested_returns [of w ep len bs]
  by (auto simp: sent_def returns_ok_def)

lemma descriptors_write_returns:
  assumes "ok w" and "unat ep < 16"
    and "\<not> (descriptor_type_from (le16 (sp_value sp) ! 1) = DtString \<and>
      le16 (sp_value sp) ! 0 \<notin> {0, 0xee} \<and>
      unat (le16 (sp_value sp) ! 0 - 1) = length (ds_string_descriptors ds))"
  shows "\<exists>r w'. descriptors_write D ds ep sp w = Ret (r, w') \<and> ok w'"
proof -
  have reply: "\<exists>r w'. rbind (drv_write_requested D ep len bs w) (\<lambda>(_, w). Ret (None, w)) =
      Ret (r :: setup_packet option, w') \<and> ok w'" for len bs
    using write_requested_returns [OF assms(1,2), of len bs] by auto
  have ack: "\<exists>r w'. rbind (drv_write D ep [] w) (\<lambda>(_, w). Ret (None, w)) =
      Ret (r :: setup_packet option, w') \<and> ok w'"
    using write_returns [OF assms(1,2), of "[]"] by auto
  show ?thesis
    using assms(1,3)
    by (cases "descriptor_type_from (le16 (sp_value sp) ! 1)")
      (auto simp: descriptors_write_def Let_def reply ack StringDescriptorNumber_Zero_def
        StringDescriptorNumber_Microsoft_def split: option.split)
qed

lemma control_setup_returns:
  assumes "ok w" and "unat (ctl_endpoint_number c) < 16" and "\<not> string_behind_table c sp"
  shows "returns_ok ok (control_setup D sp c w)"
proof -
  let ?d = "clear_stall c"
  have d: "ctl_endpoint_number ?d = ctl_endpoint_number c" "ctl_descriptors ?d = ctl_descriptors c"
    by (simp_all add: clear_stall_def)
  have ep: "unat (ctl_endpoint_number ?d) < 16" "unat (0 :: u8) < 16" using assms(2) d by simp_all
  note simple = assms(1,2) ep(2) d sent_returns status_zlp_returns
  have microsoft: "returns_ok ok (setup_microsoft D sp ?d w)"
    by (auto simp: setup_microsoft_def Let_def simple split: recipient.split vendor_index.split option.split)
  have other: "returns_ok ok (setup_other D sp ?d w)"
    by (simp add: setup_other_def simple)
  have conf: "returns_ok ok (setup_set_configuration D sp ?d w)"
    by (simp add: setup_set_configuration_def Let_def simple)
  have status: "returns_ok ok (setup_get_status D sp ?d w)"
    by (simp add: setup_get_status_def Let_def simple)
  have features: "returns_ok ok (setup_clear_feature D sp ?d w)" "returns_ok ok (setup_set_feature D sp ?d w)"
    by (auto simp: setup_clear_feature_def setup_set_feature_def Let_def simple
        split: recipient.split feature.split)
  show ?thesis
  proof (cases "setup_direction sp = DeviceToHost \<and> setup_request_type sp = Standard \<and>
      setup_request sp = GetDescriptor")
    case True
    then have "\<exists>r w'. descriptors_write D (ctl_descriptors ?d) (ctl_endpoint_number ?d) sp w =
        Ret (r, w') \<and> ok w'"
      using assms(3) d by (intro descriptors_write_returns assms(1) ep) (auto simp: string_behind_table_def)
    with True show ?thesis
      by (auto simp: control_setup_def Let_def returns_ok_def clear_stall_def)
  next
    case False
    then show ?thesis
      unfolding control_setup_def Let_def clear_stall_def [symmetric]
      by (auto simp: microsoft other conf status features simple
          split: direction.split request_type.split request.split)
  qed
qed

lemma control_receive_returns:
  assumes "ok w" and "unat (ctl_endpoint_number c) < 16" and "control_safe c (waiting w) (ReceivePacket ep)"
  shows "returns_ok ok (control_receive D sp c w)"
proof -
  let ?buf = "replicate EP_MAX_PACKET_SIZE (0 :: u8)"
  obtain buf w1 where w1: "drv_read D (ctl_endpoint_number c) ?buf w = Ret (waiting w, buf, w1)" "ok w1"
    using read_returns [OF assms(1)] by blast
  have "length buf = EP_MAX_PACKET_SIZE" using read_buffer [OF w1(1)] by simp
  with w1 assms(2,3) show ?thesis
    by (auto simp: control_receive_def Let_def status_zlp_returns rx_append_def)
qed

lemma control_receive_zlp_returns:
  "ok w \<Longrightarrow> returns_ok ok (control_receive_zlp D c w)"
  using read_returns [of w "ctl_endpoint_number c" "replicate EP_MAX_PACKET_SIZE 0"]
  by (auto simp: control_receive_zlp_def read_zlp_def returns_ok_def)

lemma control_dispatch_event_returns:
  assumes "ok w" and "unat (ctl_endpoint_number c) < 16" and "control_safe c (waiting w) event"
  shows "returns_ok ok (control_dispatch_event D event c w)"
proof -
  note parts = control_setup_returns [OF assms(1,2)] control_receive_returns [OF assms(1,2)]
    control_receive_zlp_returns [OF assms(1)]
  show ?thesis
    using assms(1,3)
    by (cases event; cases "ctl_next c") (auto simp: control_dispatch_event_def parts)
qed

end

section \<open>The driver of the SoC\<close>

lemma read_loop_memory:
  "read_loop env i buffer w = (buffer', n, full, w') \<Longrightarrow> same_memory w w'"
  by (induction env i buffer w arbitrary: buffer' n full w' rule: read_loop.induct)
    (auto simp: same_memory_refl Let_def split: prod.splits if_splits
      dest!: read_bit_memory read_field_memory intro: same_memory_trans)

lemma drain_memory: "drain env i n w = Some r \<Longrightarrow> same_memory w (snd r)"
proof (erule drain.raw_induct [where P = "\<lambda>env i n w r. same_memory w (snd r)", rotated])
  fix loop env i n w r
  assume IH: "\<And>env i n w r. loop env i n w = Some r \<Longrightarrow> same_memory w (snd r)"
    and eq: "(let (have, w) = read_bit env (USB i OutHave) w in
      if \<not> have then Some (n, w)
      else let (data, w) = read_field env 8 (USB i OutData) w in loop env i (Suc n) w) = Some r"
  obtain b w1 where h: "read_bit env (USB i OutHave) w = (b, w1)" by fastforce
  obtain d w2 where d: "read_field env 8 (USB i OutData) w1 = (d, w2)" by fastforce
  have m: "same_memory w w1" "same_memory w w2"
    using h d by (auto dest: read_bit_memory read_field_memory intro: same_memory_trans)
  show "same_memory w (snd r)"
  proof (cases b)
    case True
    with eq h d have "loop env i (Suc n) w2 = Some r" by simp
    with IH m(2) show ?thesis by (blast intro: same_memory_trans)
  qed (use eq h m in auto)
qed

lemma hal_read_memory: "hal_read env i ep buffer w = Ret (n, buffer', w') \<Longrightarrow> same_memory w w'"
  by (auto simp: hal_read_def rust_simps split: prod.splits if_splits
      dest!: read_loop_memory drain_memory intro: same_memory_trans)

definition hal_ready :: "('h, 'q) env \<Rightarrow> usb_idx \<Rightarrow> ('h \<Rightarrow> bytes) \<Rightarrow> ('h, 'q) world \<Rightarrow> bool" where
  "hal_ready env i contents w \<longleftrightarrow> irq_returns env \<and> acks_ok w \<and>
     rx_fifo env (USB i OutHave) (USB i OutData) contents"

interpretation hal_ret: returning_driver "hal_driver env i" "hal_ready env i contents"
    "\<lambda>w. length (contents (hw w))" for env i contents
proof
  fix w :: "('a, 'b) world" and ep bs len buf d a
  assume ok: "hal_ready env i contents w"
  then have irq: "irq_returns env" "acks_ok w"
    and rx: "rx_fifo env (USB i OutHave) (USB i OutData) contents"
    by (simp_all add: hal_ready_def)
  note wr = write_with_packet_size_Ret [OF irq(1) _ max_packet_size_pos [of "device_speed w i" ep] irq(2)]
  show "\<exists>n w'. drv_write (hal_driver env i) ep bs w = Ret (n, w') \<and> hal_ready env i contents w'"
    if "unat ep < 16"
    using wr [OF that, of i None bs] irq(1) rx
    by (auto simp: hal_driver_def hal_write_def hal_ready_def)
  show "\<exists>n w'. drv_write_requested (hal_driver env i) ep len bs w = Ret (n, w') \<and>
      hal_ready env i contents w'"
    if "unat ep < 16"
    using wr [OF that, of i "Some len" bs] irq(1) rx
    by (auto simp: hal_driver_def write_requested_def hal_ready_def)
  obtain w' where w': "hal_read env i ep buf w = Ret (length (contents (hw w)),
      take (length buf) (contents (hw w)) @ drop (length (contents (hw w))) buf, w')"
    using hal_read_fifo [OF rx] by blast
  with irq rx same_memory_acks [OF hal_read_memory [OF w']]
  show "\<exists>buf' w'. drv_read (hal_driver env i) ep buf w = Ret (length (contents (hw w)), buf', w') \<and>
      hal_ready env i contents w'"
    by (auto simp: hal_driver_def hal_ready_def)
  show "hal_ready env i contents (drv_stall_endpoint_in (hal_driver env i) ep w)"
    "hal_ready env i contents (drv_stall_endpoint_out (hal_driver env i) ep w)"
    "hal_ready env i contents (drv_clear_feature_endpoint_halt (hal_driver env i) ep d w)"
    "hal_ready env i contents (drv_ep_out_prime_receive (hal_driver env i) ep w)"
    "hal_ready env i contents (drv_set_address (hal_driver env i) a w)"
    using irq rx
    by (auto simp: hal_driver_def hal_ready_def stall_endpoint_in_def stall_endpoint_out_def Let_def
        clear_feature_endpoint_halt_def ep_out_prime_receive_def set_address_def acks_ok_read_bit
        split: direction.split prod.split)
qed

end
