(* ===== verification/MoondancerReturns.thy ===== *)
theory MoondancerReturns
  imports MoondancerTransfer ControlReturns
begin

text \<open>
  The class \<open>moondancer\<close> always comes back to its caller, for every hardware that serves interrupts,
  except in the cases listed here: a full or an empty queue of SETUP packets, on which the code
  spins, and endpoint numbers and packet sizes that it does not check.
\<close>

section \<open>Events\<close>

fun md_event_safe :: "moondancer \<Rightarrow> usb_event \<Rightarrow> bool" where
  "md_event_safe m (ReceiveSetupPacket ep sp) =
     (if is_set_address sp then unat ep < 16 else length (md_control_queue m) < CONTROL_QUEUE_SIZE)"
| "md_event_safe m _ = True"

lemma acks_ok_set_address [simp]: "acks_ok (set_address env i a w) = acks_ok w"
  by (simp add: acks_ok_def)

lemma md_dispatch_event_returns:
  assumes "hal_ready env Usb0 contents w" and "md_event_safe m event"
  shows "\<exists>m' w'. md_dispatch_event env event m w = Ret (m', w') \<and> acks_ok w'"
proof (cases event)
  case (ReceiveSetupPacket ep sp)
  show ?thesis
  proof (cases "is_set_address sp")
    case True
    with assms ReceiveSetupPacket
    have "unat ep < 16" "irq_returns env" "acks_ok w" by (simp_all add: hal_ready_def)
    from md_set_address_event [OF this(2,1,3) True, of m] ReceiveSetupPacket show ?thesis by blast
  next
    case False
    with assms ReceiveSetupPacket show ?thesis
      by (auto simp: md_dispatch_event_def enqueue_def hal_ready_def)
  qed
next
  case (ReceivePacket ep)
  obtain buf w' where "hal_read env Usb0 ep (replicate EP_MAX_PACKET_SIZE 0) w =
      Ret (length (contents (hw w)), buf, w')" "hal_ready env Usb0 contents w'"
    using hal_ret.read_returns [OF assms(1), of ep "replicate EP_MAX_PACKET_SIZE 0"]
    by (auto simp: hal_driver_def)
  with ReceivePacket show ?thesis by (simp add: md_dispatch_event_def hal_ready_def)
qed (use assms in \<open>auto simp: md_dispatch_event_def hal_ready_def split: option.split\<close>)

section \<open>Verbs\<close>

text \<open>The endpoint numbers that \<open>configure_endpoints\<close> uses as indices, up to the first size it refuses.\<close>

fun configurable :: "bytes \<Rightarrow> bool" where
  "configurable (address # lo # hi # transfer_type # next) =
     (if address AND 0x7f = 0 then configurable next
      else if unat (u16_of lo hi) > EP_MAX_PACKET_SIZE then True
      else unat (address AND 0x7f) < 16 \<and> configurable next)"
| "configurable _ = True"

definition md_command_safe :: "moondancer \<Rightarrow> u32 \<Rightarrow> bytes \<Rightarrow> bool" where
  "md_command_safe m v args \<longleftrightarrow>
     (if v = 0x03 then md_control_queue m \<noteq> []
      else if v = 0x05 then configurable args
      else if v = 0x0b then length args < 4 \<or> unat (hd args) < 16
      else if v = 0x0c then length args < 2 \<or> unat (hd args) < 16 \<and>
        (0 < unat (md_ep_in_max_packet_size m ! unat (hd args)) \<or> length args = 2)
      else True)"

definition md_ready :: "('h, 'q) env \<Rightarrow> ('h \<Rightarrow> u32) \<Rightarrow> ('h, 'q) world \<Rightarrow> bool" where
  "md_ready env mim w \<longleftrightarrow> irq_returns env \<and> mim_storage env mim \<and> acks_ok w"

definition verb_returns :: "('h, 'q) md_result \<Rightarrow> bool" where
  "verb_returns r \<longleftrightarrow> (\<exists>x m w. r = Ret (x, m, w) \<and> acks_ok w)"

lemma verb_returns_Ret [simp]: "verb_returns (Ret (x, m, w)) = acks_ok w"
  by (simp add: verb_returns_def)

lemma wait_mim_memory: "wait_mim env v w = Some w' \<Longrightarrow> same_memory w w'"
proof (erule wait_mim.raw_induct [where P = "\<lambda>env v w w'. same_memory w w'", rotated])
  fix loop env v w w'
  assume IH: "\<And>env v w w'. loop env v w = Some w' \<Longrightarrow> same_memory w w'"
    and eq: "(let (x, w) = reg_read env (CSR Mim) w in if x = v then Some w else loop env v w) = Some w'"
  obtain x w1 where r: "reg_read env (CSR Mim) w = (x, w1)" by fastforce
  then have "same_memory w w1" by (auto simp: same_memory_def dest: reg_read_frame)
  with eq r IH show "same_memory w w'" by (auto split: if_splits intro: same_memory_trans)
qed

lemma set_mim_acks: "set_mim env v w = Ret w' \<Longrightarrow> acks_ok w' = acks_ok w"
  by (auto simp: set_mim_def rust_simps acks_ok_def same_memory_def dest!: wait_mim_memory)

lemma interrupt_acks:
  "interrupt_enable env i w = Ret w' \<Longrightarrow> acks_ok w' = acks_ok w"
  "interrupt_disable env i w = Ret w' \<Longrightarrow> acks_ok w' = acks_ok w"
  by (auto simp: interrupt_enable_def interrupt_disable_def Let_def split: prod.splits
      dest!: set_mim_acks acks_ok_read)

lemma enable_usb_interrupts_returns:
  assumes "mim_storage env mim" and "acks_ok w"
  shows "\<exists>w'. enable_usb_interrupts env w = Ret w' \<and> acks_ok w'"
    and "\<exists>w'. disable_usb_interrupts env w = Ret w' \<and> acks_ok w'"
proof -
  have on: "\<exists>w'. interrupt_enable env i v = Ret w' \<and> acks_ok w'" if "acks_ok v" for i v
    using interrupt_enable_mask [OF assms(1), of i v] interrupt_acks(1) that by blast
  have off: "\<exists>w'. interrupt_disable env i v = Ret w' \<and> acks_ok w'" if "acks_ok v" for i v
    using interrupt_disable_mask [OF assms(1), of i v] interrupt_acks(2) that by blast
  have e: "acks_ok (enable_events env Usb0 v) = acks_ok v" "acks_ok (disable_events env Usb0 v) = acks_ok v"
    for v by (simp_all add: acks_ok_def)
  obtain w1 w2 w3 w4 where "interrupt_enable env USB0 w = Ret w1"
      "interrupt_enable env USB0_EP_CONTROL w1 = Ret w2" "interrupt_enable env USB0_EP_IN w2 = Ret w3"
      "interrupt_enable env USB0_EP_OUT w3 = Ret w4" "acks_ok w4"
    using on assms(2) by meson
  then show "\<exists>w'. enable_usb_interrupts env w = Ret w' \<and> acks_ok w'"
    by (simp add: enable_usb_interrupts_def e)
  obtain w1 w2 w3 w4 where "interrupt_disable env USB0 (disable_events env Usb0 w) = Ret w1"
      "interrupt_disable env USB0_EP_CONTROL w1 = Ret w2" "interrupt_disable env USB0_EP_IN w2 = Ret w3"
      "interrupt_disable env USB0_EP_OUT w3 = Ret w4" "acks_ok w4"
    using off assms(2) e(2) by meson
  then show "\<exists>w'. disable_usb_interrupts env w = Ret w' \<and> acks_ok w'"
    by (simp add: disable_usb_interrupts_def Let_def)
qed

lemma acks_ok_unprime_all [simp]: "acks_ok (unprime_all env i eps w) = acks_ok w"
  by (induction env i eps w rule: unprime_all.induct) simp_all

lemma acks_ok_speed [simp]: "acks_ok (set_speed i s w) = acks_ok w"
  by (simp add: set_speed_def acks_ok_def)

lemma acks_ok_hal [simp]:
  "acks_ok (stall_endpoint_in env i ep w) = acks_ok w"
  "acks_ok (stall_endpoint_out env i ep w) = acks_ok w"
  "acks_ok (clear_feature_endpoint_halt env i ep d w) = acks_ok w"
  "acks_ok (reset_fifos env i w) = acks_ok w"
  "acks_ok (disable_events env i w) = acks_ok w"
  by (simp_all add: stall_endpoint_in_def stall_endpoint_out_def clear_feature_endpoint_halt_def
      reset_fifos_def disable_events_def clear_pending_def Let_def split: direction.split)

lemma acks_ok_prime [simp]: "acks_ok (ep_out_prime_receive env i ep w) = acks_ok w"
  by (auto simp: ep_out_prime_receive_def acks_ok_read_bit split: prod.split)

lemma acks_ok_connect [simp]:
  "acks_ok (hal_connect env i s w) = acks_ok w"
  "acks_ok (hal_disconnect env i w) = acks_ok w"
  by (simp_all add: hal_connect_def hal_disconnect_def Let_def split: speed.split)

lemma hal_ack_0_returns:
  assumes "irq_returns env" and "acks_ok w"
  shows "\<exists>w'. hal_ack env i 0 HostToDevice w = Ret w' \<and> acks_ok w'"
  using hal_ack_out_Ret [OF assms(1) _ assms(2), of 0 i] by simp

lemma md_connect_returns:
  assumes "md_ready env mim w"
  shows "verb_returns (md_connect env args m w)"
proof (cases "read_from 5 dec_connect args")
  case None
  with assms show ?thesis by (simp add: md_connect_def md_ready_def)
next
  case (Some a)
  obtain size s quirks where a: "a = (size, s, quirks)" by (cases a) auto
  have ok: "irq_returns env" "mim_storage env mim" "acks_ok w" using assms by (simp_all add: md_ready_def)
  obtain w1 where w1: "enable_usb_interrupts env (hal_connect env Usb0 (from_libusb s) w) = Ret w1" "acks_ok w1"
    using enable_usb_interrupts_returns(1) [OF ok(2), of "hal_connect env Usb0 (from_libusb s) w"] ok(3)
    by auto
  obtain w2 where w2: "env_irq env w1 = Ret w2" "acks_ok w2" using ok(1) w1(2) by (rule irq_returnsE)
  obtain bits w3 where w3: "read_field env 2 (USB Usb0 SpeedReg) w2 = (bits, w3)" by fastforce
  obtain sp where "speed_from (ucast bits) = Ret sp" using speed_from_returns by blast
  with Some a w1 w2 w3 same_memory_acks [OF read_field_memory [OF w3]] show ?thesis
    by (simp add: md_connect_def Let_def)
qed

lemma md_disconnect_returns: "md_ready env mim w \<Longrightarrow> verb_returns (md_disconnect env args m w)"
  using enable_usb_interrupts_returns(2) [of env mim w]
  by (auto simp: md_ready_def md_disconnect_def Let_def)

lemma md_set_address_returns:
  assumes "md_ready env mim w"
  shows "verb_returns (md_set_address env args m w)"
proof -
  have ack: "\<exists>w'. hal_ack env Usb0 0 HostToDevice (set_address env Usb0 a w) = Ret w' \<and> acks_ok w'" for a
    using assms by (intro hal_ack_0_returns) (simp_all add: md_ready_def)
  have "verb_returns (rbind (hal_ack env Usb0 0 HostToDevice (set_address env Usb0 a w))
      (\<lambda>w. Ret (x, m, w)))" for a x
    using ack [of a] by auto
  then show ?thesis using assms
    by (simp add: md_set_address_def md_ready_def split: option.split prod.split)
qed

lemma md_configure_loop_returns:
  "acks_ok w \<Longrightarrow> md_tables_ok m \<Longrightarrow> configurable args \<Longrightarrow> verb_returns (md_configure_loop env args m w)"
proof (induction env args m w rule: md_configure_loop.induct)
  case (1 env address lo hi tt nxt m w)
  consider "address AND 0x7f = 0" | "address AND 0x7f \<noteq> 0" "unat (u16_of lo hi) > EP_MAX_PACKET_SIZE"
    | "address AND 0x7f \<noteq> 0" "unat (u16_of lo hi) \<le> EP_MAX_PACKET_SIZE"
    by linarith
  then show ?case
  proof cases
    case 3
    then have "0 < unat (address AND 0x7f)" by (simp add: unat_gt_0)
    note upd = md_tables_update [OF "1.prems"(2) this 3(2)]
    show ?thesis
      using 3 "1.IH"(2,3) "1.prems" upd
      by (auto simp: Let_def md_tables_ok_def [of m] EP_MAX_ENDPOINTS_def)
  qed (use 1 in \<open>auto simp: Let_def\<close>)
qed auto

lemma md_write_control_endpoint_returns:
  assumes "md_ready env mim w" and "md_tables_ok m" and "length args < 4 \<or> unat (hd args) < 16"
  shows "verb_returns (md_write_control_endpoint env args m w)"
proof (cases "(env, args, m, w)" rule: md_write_control_endpoint.cases)
  case (1 env' ep lo hi blocking payload m' w')
  then have args: "args = ep # lo # hi # blocking # payload" by simp
  have ok: "irq_returns env" "acks_ok w" "unat ep < 16" using assms by (simp_all add: md_ready_def args)
  let ?len = "unat (u16_of lo hi)"
  obtain n w1 where w1: "write_requested env Usb0 ep ?len (take ?len payload) w = Ret (n, w1)" "acks_ok w1"
    using write_with_packet_size_Ret [OF ok(1,3) max_packet_size_pos [of "device_speed w Usb0" ep] ok(2)]
    unfolding write_requested_def by blast
  obtain b w2 where "md_wait_blocking env ep (blocking \<noteq> 0) w1 = Ret (b, w2)" "acks_ok w2"
    using md_wait_blocking_Ret [OF ok(1,3) w1(2)] by blast
  with w1 ok(3) assms(2) show ?thesis
    by (simp add: args Let_def md_tables_ok_def EP_MAX_ENDPOINTS_def)
qed (use assms in \<open>simp_all add: md_ready_def\<close>)

lemma md_write_endpoint_returns:
  assumes "md_ready env mim w" and "md_ok m"
    and "length args < 2 \<or> unat (hd args) < 16 \<and>
      (0 < unat (md_ep_in_max_packet_size m ! unat (hd args)) \<or> length args = 2)"
  shows "verb_returns (md_write_endpoint env args m w)"
proof (cases "length args < 2")
  case True
  with assms(1) show ?thesis by (simp add: md_write_endpoint_short md_ready_def)
next
  case False
  then obtain ep blocking payload where args: "args = ep # blocking # payload"
    by (cases args; cases "tl args") auto
  then show ?thesis
    using md_write_endpoint_Ret [of env ep m w payload blocking] assms
    by (fastforce simp: md_ready_def verb_returns_def)
qed

lemma md_simple_returns:
  assumes "acks_ok w"
  shows "verb_returns (md_bus_reset env args m w)"
    "verb_returns (md_stall_endpoint_in env args m w)"
    "verb_returns (md_stall_endpoint_out env args m w)"
    "verb_returns (md_clear_feature_endpoint_halt env args m w)"
    "verb_returns (md_read_endpoint env args m w)"
    "verb_returns (md_test_read_endpoint env args m w)"
    "verb_returns (md_ep_out_prime_receive env args m w)"
    "verb_returns (md_ep_out_interface_enable env args m w)"
    "verb_returns (md_get_interrupt_events env args m w)"
    "verb_returns (md_test_get_interrupt_events env args m w)"
    "verb_returns (md_get_nak_status env args m w)"
    "verb_returns (md_test_write_endpoint env args m w)"
  using assms
  by (auto simp: md_bus_reset_def md_stall_endpoint_in_def md_stall_endpoint_out_def Let_def
      md_clear_feature_endpoint_halt_def md_read_endpoint_def md_test_read_endpoint_def
      md_ep_out_prime_receive_def md_ep_out_interface_enable_def acks_ok_read_bit
      md_get_interrupt_events_def md_test_get_interrupt_events_def md_get_nak_status_def acks_ok_read
      split: option.split prod.split)
    (cases args; simp)

lemma md_read_control_returns:
  "acks_ok w \<Longrightarrow> md_control_queue m \<noteq> [] \<Longrightarrow> verb_returns (md_read_control env args m w)"
  by (cases "md_control_queue m") (simp_all add: md_read_control_def)

lemma md_respond_returns: "verb_returns r \<Longrightarrow> verb_returns (md_respond r buf)"
  by (auto simp: verb_returns_def md_respond_def)

lemma md_dispatch_returns:
  assumes "md_ready env mim w" and "md_ok m" and "md_command_safe m v args"
  shows "\<exists>r m' w'. md_dispatch env v args buf (m, w) = Ret (r, m', w') \<and> acks_ok w'"
proof -
  have acks: "acks_ok w" and tables: "md_tables_ok m"
    using assms(1,2) by (simp_all add: md_ready_def md_ok_def)
  note verbs = md_connect_returns [OF assms(1)] md_disconnect_returns [OF assms(1)]
    md_set_address_returns [OF assms(1)] md_configure_loop_returns [OF acks tables]
    md_write_control_endpoint_returns [OF assms(1) tables] md_write_endpoint_returns [OF assms(1,2)]
    md_simple_returns [OF acks] md_read_control_returns [OF acks]
  have "verb_returns (md_dispatch env v args buf (m, w))"
    using assms(3)
    unfolding md_dispatch_def md_command_safe_def Let_def prod.case
    by (auto simp: acks md_configure_endpoints_def intro!: md_respond_returns verbs
        split: if_splits)
  then show ?thesis unfolding verb_returns_def .
qed

end
