(* ===== verification/FirmwareSafety.thy ===== *)
theory FirmwareSafety
  imports FirmwareFacts MoondancerReturns
begin

text \<open>
  The running firmware keeps its identity, the descriptors and the classes it was built with, and it
  survives every event that is not one of a few the code does not guard against. Both are proved
  for each part of the event loop and put together for the loop.
\<close>

section \<open>Identity\<close>

text \<open>What no event may change: the class registry, the descriptors, the endpoint and the buffer size.\<close>

definition fw_frame :: "firmware \<Rightarrow> firmware \<Rightarrow> bool" where
  "fw_frame fw fw' \<longleftrightarrow>
     fw_core fw' = fw_core fw \<and> ctl_frame (fw_usb2_control fw) (fw_usb2_control fw')"

lemma fw_frame_refl [simp]: "fw_frame fw fw"
  by (simp add: fw_frame_def)

lemma fw_frame_trans: "fw_frame a b \<Longrightarrow> fw_frame b c \<Longrightarrow> fw_frame a c"
  by (auto simp: fw_frame_def intro: ctl_frame_trans)

lemma fw_class_dispatch_identity:
  "fw_class_dispatch env cid v args fw w = Ret (r, fw', w') \<Longrightarrow> fw_frame fw fw'"
  by (drule fw_class_dispatch_frame) (auto simp: fw_frame_def)

lemma dispatch_libgreat_request_identity:
  "dispatch_libgreat_request env fw w = Ret (fw', w') \<Longrightarrow> fw_frame fw fw'"
proof -
  have "fw_frame fw fw'"
    if "fw_class_dispatch env cid v args fw w = Ret (r, fw1, w1)"
      "(case r of
          Inr response \<Rightarrow> Ret (fw1\<lparr>fw_libgreat_response := Some response,
            fw_libgreat_response_last_error := None\<rparr>, w1)
        | Inl e \<Rightarrow> Ret (fw1\<lparr>fw_libgreat_response := None,
            fw_libgreat_response_last_error := Some e\<rparr>, stall_endpoint_in env Usb2 0 w1)) = Ret (fw', w')"
    for cid v args r fw1 w1
    using fw_class_dispatch_identity [OF that(1)] that(2) by (cases r) (auto simp: fw_frame_def)
  then show "dispatch_libgreat_request env fw w = Ret (fw', w') \<Longrightarrow> fw_frame fw fw'"
    by (auto simp: dispatch_libgreat_request_def rbind_Ret_iff split: option.splits)
qed

lemma handle_vendor_request_identity:
  assumes "handle_vendor_request env sp fw w = Ret (fw', w')"
  shows "fw_frame fw fw'"
proof -
  have "fw_frame fw fw'" if "dispatch_libgreat_response env sp fw w = Ret (fw', w')"
    using that by (auto simp: dispatch_libgreat_response_def Let_def rust_simps fw_frame_def split: option.splits)
  moreover have "fw_frame fw fw'" if "dispatch_libgreat_abort env sp fw w = Ret (fw', w')"
    using that by (auto simp: dispatch_libgreat_abort_def Let_def rust_simps fw_frame_def)
  ultimately show ?thesis
    using assms dispatch_libgreat_request_identity [of env fw w fw' w']
    by (auto simp: handle_vendor_request_def Let_def rust_simps
        split: if_splits vendor_request.splits vendor_value.splits direction.splits)
qed

lemma fw_control_event_identity:
  assumes "fw_control_event env ev fw w = Ret (fw', w')"
  shows "fw_frame fw fw'"
proof -
  obtain r c w1 where c: "control_dispatch_event (hal_driver env Usb2) ev (fw_usb2_control fw) w =
      Ret (r, c, w1)"
    and k: "(case r of None \<Rightarrow> Ret (fw\<lparr>fw_usb2_control := c\<rparr>, w1)
      | Some sp \<Rightarrow> handle_vendor_request env sp (fw\<lparr>fw_usb2_control := c\<rparr>) w1) = Ret (fw', w')"
    using assms by (auto simp: fw_control_event_def rust_simps Let_def)
  have f: "fw_frame fw (fw\<lparr>fw_usb2_control := c\<rparr>)"
    using control_dispatch_event_ok [OF c] by (simp add: fw_frame_def ctl_step_ok_def)
  with k show ?thesis
    by (cases r) (auto dest!: handle_vendor_request_identity intro: fw_frame_trans)
qed

lemma loop_event_identity:
  "loop_event env ev l fw w = Ret (l', fw', w') \<Longrightarrow> fw_frame fw fw'"
  by (auto simp: loop_event_def fw_handle_event_def Let_def rust_simps
      split: interrupt_event.splits usb_interface.splits if_splits dest: fw_control_event_identity)
    (simp add: fw_frame_def)

text \<open>The identity the firmware is built with: its serial number is the text of a flash UUID.\<close>

definition fw_identity :: "firmware \<Rightarrow> bool" where
  "fw_identity fw \<longleftrightarrow> fw_core fw = core_new CLASSES BOARD_INFORMATION \<and>
     (\<exists>uuid version. ctl_descriptors (fw_usb2_control fw) =
        set_total_lengths (fw_descriptors (format_flash_uuid uuid) version))"

lemma fw_frame_identity: "fw_frame fw fw' \<Longrightarrow> fw_identity fw \<Longrightarrow> fw_identity fw'"
  by (simp add: fw_frame_def fw_identity_def ctl_frame_def)

lemma fw_new_identity: "firmware_new env w = Ret (fw, w') \<Longrightarrow> fw_identity fw"
  by (auto simp: firmware_new_def Let_def rust_simps case_prod_beta' fw_identity_def control_new_def) blast

lemma main_reachable_identity: "main_reachable env s \<Longrightarrow> fw_identity (fst (snd s))"
proof (induction rule: main_reachable.induct)
  case (main_next s s')
  then show ?case
    by (cases s; cases s') (auto simp: main_step_simps dest: loop_event_identity fw_frame_identity)
qed (auto dest: fw_new_identity)

lemma fw_identity_strings:
  "fw_identity fw \<Longrightarrow> length (ds_string_descriptors (ctl_descriptors (fw_usb2_control fw))) = 9"
  by (auto simp: fw_identity_def set_total_lengths_fields fw_descriptors_def fw_string_descriptors_def
      md_STRING_DESCRIPTORS_def md_STRINGS_def)

section \<open>Requests handed out\<close>

lemma descriptors_write_hands_out:
  "descriptors_write D ds ep sp w = Ret (Some sp', w') \<Longrightarrow> sp' = sp"
  by (auto simp: descriptors_write_def Let_def rust_simps
      split: descriptor_type.splits if_splits option.splits)

lemma setup_arm_hands_nothing:
  "setup_microsoft D sp c w = Ret (r, c', w') \<Longrightarrow> r = None"
  "setup_clear_feature D sp c w = Ret (r, c', w') \<Longrightarrow> r = None"
  "setup_set_feature D sp c w = Ret (r, c', w') \<Longrightarrow> r = None"
  "setup_set_configuration D sp c w = Ret (r, c', w') \<Longrightarrow> r = None"
  "setup_get_status D sp c w = Ret (r, c', w') \<Longrightarrow> r = None"
  by (auto simp: setup_microsoft_def setup_clear_feature_def setup_set_feature_def Let_def
      setup_set_configuration_def setup_get_status_def dest!: tail_Ret
      split: recipient.splits vendor_index.splits option.splits feature.splits if_splits)

lemma received_clear_stall [simp]: "received (clear_stall c) = received c"
  by (simp add: clear_stall_def)

lemma control_setup_hands_out:
  assumes "control_setup D sp c w = Ret (Some sp', c', w')"
  shows "sp' = sp \<and> received c' = received c"
proof -
  have other: "setup_other D sp d w = Ret (Some sp', c', w') \<Longrightarrow> sp' = sp \<and> received c' = received d" for d
    by (auto simp: setup_other_def split: if_splits)
  show ?thesis
    by (rule control_setup_arms [of D sp c w]; drule assms [symmetric, THEN trans, THEN sym])
      (auto dest!: setup_arm_hands_nothing tail_Ret descriptors_write_hands_out other simp: rust_simps)
qed

lemma control_receive_hands_nothing: "control_receive D sp c w = Ret (r, c', w') \<Longrightarrow> r = None"
  by (auto simp: control_receive_def Let_def rust_simps split: if_splits dest!: status_zlp_Ret)

fun hands_out :: "control \<Rightarrow> usb_event \<Rightarrow> setup_packet option" where
  "hands_out c (ReceiveSetupPacket ep sp) = Some sp"
| "hands_out c (SendComplete ep) =
     (case ctl_next c of StFinishHostData sp \<Rightarrow> Some sp | _ \<Rightarrow> None)"
| "hands_out c _ = None"

lemma control_dispatch_event_hands_out:
  "control_dispatch_event D ev c w = Ret (Some sp, c', w') \<Longrightarrow>
     hands_out c ev = Some sp \<and> received c' = received c"
  by (cases ev; cases "ctl_next c")
    (auto simp: control_dispatch_event_def split: if_splits
      dest: control_setup_hands_out control_receive_hands_nothing control_receive_zlp_ok)

section \<open>Survival\<close>

text \<open>What the firmware needs of the hardware to come back from an event.\<close>

definition fw_ready ::
  "'h fw_env \<Rightarrow> ('h \<Rightarrow> u32) \<Rightarrow> ('h \<Rightarrow> bytes) \<Rightarrow> ('h \<Rightarrow> bytes) \<Rightarrow> 'h fw_world \<Rightarrow> bool" where
  "fw_ready env mim target port w \<longleftrightarrow>
     md_ready env mim w \<and> hal_ready env Usb0 target w \<and> hal_ready env Usb2 port w"

lemma fw_ready_frame: "fw_ready env mim target port w \<Longrightarrow> acks_ok w' \<Longrightarrow> fw_ready env mim target port w'"
  by (simp add: fw_ready_def md_ready_def hal_ready_def)

lemma fw_readyD:
  "fw_ready env mim target port w \<Longrightarrow> irq_returns env"
  "fw_ready env mim target port w \<Longrightarrow> acks_ok w"
  "fw_ready env mim target port w \<Longrightarrow> md_ready env mim w"
  "fw_ready env mim target port w \<Longrightarrow> hal_ready env Usb0 target w"
  "fw_ready env mim target port w \<Longrightarrow> hal_ready env Usb2 port w"
  by (simp_all add: fw_ready_def md_ready_def)

text \<open>The commands that stop it: what \<open>moondancer\<close> does not guard, and error numbers that do not exist.\<close>

definition st_command_safe :: "u32 \<Rightarrow> bytes \<Rightarrow> bool" where
  "st_command_safe v args \<longleftrightarrow>
     v = 0x10 \<longrightarrow>
     (case read_from 4 dec32 args of
        None \<Rightarrow> True | Some code \<Rightarrow> code = 0 \<or> great_error_of_code code \<noteq> None)"

definition command_safe :: "firmware \<Rightarrow> bool" where
  "command_safe fw \<longleftrightarrow>
     (case command_parse (received (fw_usb2_control fw)) of
        None \<Rightarrow> True
      | Some c \<Rightarrow>
          (case command_class_id c of
             ClassSelftest \<Rightarrow> st_command_safe (command_verb_number c) (cmd_arguments c)
           | ClassMoondancer \<Rightarrow>
               md_command_safe (fw_moondancer fw) (command_verb_number c) (cmd_arguments c)
           | _ \<Rightarrow> True))"

text \<open>
  An event is safe when it does not make the endpoint panic, does not execute one of those commands,
  and does not overflow the queue of the target port.
\<close>

definition fw_event_safe :: "firmware \<Rightarrow> nat \<Rightarrow> interrupt_event \<Rightarrow> bool" where
  "fw_event_safe fw n interrupt_event \<longleftrightarrow>
     (case interrupt_event of
        UsbEv ControlPort event \<Rightarrow>
          control_safe (fw_usb2_control fw) n event \<and>
          (case hands_out (fw_usb2_control fw) event of
             Some sp \<Rightarrow> is_execute HostToDevice sp \<longrightarrow> command_safe fw
           | None \<Rightarrow> True)
      | UsbEv Target event \<Rightarrow> md_event_safe (fw_moondancer fw) event
      | _ \<Rightarrow> True)"

lemma st_dispatch_returns: "st_command_safe v args \<Longrightarrow> \<exists>r. st_dispatch v args buf = Ret r"
  by (auto simp: st_command_safe_def st_dispatch_def test_error_return_code_def split: option.splits)

lemma fw_class_dispatch_returns:
  assumes "fw_ready env mim target port w" and "md_ok (fw_moondancer fw)"
    and "cid = ClassSelftest \<Longrightarrow> st_command_safe v args"
    and "cid = ClassMoondancer \<Longrightarrow> md_command_safe (fw_moondancer fw) v args"
  shows "\<exists>r fw' w'. fw_class_dispatch env cid v args fw w = Ret (r, fw', w') \<and> acks_ok w'"
proof (cases cid)
  case ClassSelftest
  with st_dispatch_returns [OF assms(3), of response_buffer] fw_readyD(2) [OF assms(1)] show ?thesis
    by (auto simp: fw_class_dispatch_def)
next
  case ClassMoondancer
  with md_dispatch_returns [OF fw_readyD(3) [OF assms(1)] assms(2) assms(4), of response_buffer]
  show ?thesis by (auto simp: fw_class_dispatch_def)
qed (use fw_readyD(2) [OF assms(1)] in \<open>auto simp: fw_class_dispatch_def\<close>)

definition fw_returns :: "'h fw_result \<Rightarrow> bool" where
  "fw_returns m \<longleftrightarrow> (\<exists>fw w. m = Ret (fw, w) \<and> acks_ok w)"

lemma fw_returns_Ret [simp]: "fw_returns (Ret (fw, w)) = acks_ok w"
  by (simp add: fw_returns_def)

lemma dispatch_libgreat_request_returns:
  assumes "fw_ready env mim target port w" and "fw_ok fw" and "command_safe fw"
  shows "fw_returns (dispatch_libgreat_request env fw w)"
proof (cases "command_parse (received (fw_usb2_control fw))")
  case None
  then show ?thesis
    using assms(2) fw_readyD(2) [OF assms(1)] dispatch_libgreat_request_short [of fw env w]
    by (simp add: command_parse_None_iff fw_ok_def fw_control_ok_def)
next
  case (Some cmd)
  have ok: "ctl_ok (fw_usb2_control fw)" "md_ok (fw_moondancer fw)"
    using assms(2) by (simp_all add: fw_ok_def fw_control_ok_def)
  have "\<exists>r fw1 w1. fw_class_dispatch env (command_class_id cmd) (command_verb_number cmd)
      (cmd_arguments cmd) fw w = Ret (r, fw1, w1) \<and> acks_ok w1"
    using assms(3) Some
    by (intro fw_class_dispatch_returns [OF assms(1) ok(2)]) (simp_all add: command_safe_def)
  then obtain r fw1 w1 where "fw_class_dispatch env (command_class_id cmd) (command_verb_number cmd)
      (cmd_arguments cmd) fw w = Ret (r, fw1, w1)" "acks_ok w1" by blast
  then show ?thesis
    unfolding dispatch_libgreat_request_eq [OF ok(1) Some]
    by (cases r) (simp_all add: fw_outcome_world_def)
qed

lemma handle_vendor_request_returns:
  assumes "fw_ready env mim target port w" and "fw_ok fw"
    and "is_execute HostToDevice sp \<Longrightarrow> command_safe fw"
  shows "fw_returns (handle_vendor_request env sp fw w)"
proof -
  note irq = fw_readyD(1,2) [OF assms(1)]
  have stall: "fw_returns (Ret (fw, stall_direction env d w))" for d
    using irq(2) by (simp add: stall_direction_def split: direction.split)
  obtain n w' where zlp: "hal_write env Usb2 0 [] w = Ret (n, w')" "acks_ok w'"
    using hal_ret.write_returns [OF fw_readyD(5) [OF assms(1)], of 0 "[]"]
    by (auto simp: hal_driver_def hal_ready_def)
  have wr: "\<exists>n w'. write_requested env Usb2 0 len bs (ep_out_prime_receive env Usb2 0 w) = Ret (n, w') \<and>
      acks_ok w'" for len bs
    by (rule write_requested_0_Ret [OF irq(1)]) (simp add: irq(2))
  have resp: "fw_returns (dispatch_libgreat_response env sp fw w)"
  proof (cases "fw_libgreat_response fw")
    case (Some response)
    with wr [of "unat (sp_length sp)" response] show ?thesis
      by (auto simp: dispatch_libgreat_response_def)
  qed (use irq(2) in \<open>simp add: dispatch_libgreat_response_def split: option.split\<close>)
  have abort: "fw_returns (dispatch_libgreat_abort env sp fw w)"
  proof -
    let ?e = "case fw_libgreat_response_last_error fw of Some e \<Rightarrow> e | None \<Rightarrow> StateNotRecoverable"
    from wr [of "unat (sp_length sp)" "le32 (great_error_code ?e)"] show ?thesis
      by (auto simp: dispatch_libgreat_abort_def Let_def)
  qed
  have req: "fw_returns (dispatch_libgreat_request env fw w)" if "is_execute HostToDevice sp"
    using dispatch_libgreat_request_returns [OF assms(1,2) assms(3) [OF that]] .
  show ?thesis
    using stall resp abort req zlp irq(2)
    by (auto simp: handle_vendor_request_def Let_def is_execute_def
        split: vendor_request.split vendor_value.split direction.split)
qed

lemma command_safe_control:
  "received c = received (fw_usb2_control fw) \<Longrightarrow>
     command_safe (fw\<lparr>fw_usb2_control := c\<rparr>) = command_safe fw"
  by (simp add: command_safe_def split: option.split class_id.split)

lemma fw_control_event_returns:
  assumes "fw_ready env mim target port w" and "fw_ok fw"
    and "fw_event_safe fw (length (port (hw w))) (UsbEv ControlPort event)"
  shows "fw_returns (fw_control_event env event fw w)"
proof -
  let ?c = "fw_usb2_control fw"
  have ep: "unat (ctl_endpoint_number ?c) < 16"
    using assms(2) by (simp add: fw_ok_def fw_control_ok_def)
  obtain r c w1 where c: "control_dispatch_event (hal_driver env Usb2) event ?c w = Ret (r, c, w1)"
      "hal_ready env Usb2 port w1"
    using hal_ret.control_dispatch_event_returns [OF fw_readyD(5) [OF assms(1)] ep, of event] assms(3)
    by (auto simp: fw_event_safe_def returns_ok_def)
  have acks: "acks_ok w1" using c(2) by (simp add: hal_ready_def)
  show ?thesis
  proof (cases r)
    case None
    with c(1) acks show ?thesis by (simp add: fw_control_event_def)
  next
    case (Some sp)
    let ?fw = "fw\<lparr>fw_usb2_control := c\<rparr>"
    have out: "hands_out ?c event = Some sp" "received c = received ?c"
      using control_dispatch_event_hands_out [OF c(1) [unfolded Some]] by simp_all
    have "fw_ok ?fw"
      using control_dispatch_event_ok [OF c(1)] assms(2)
      by (simp add: fw_ok_def fw_control_ok_def fw_protocol_ok_def ctl_step_ok_def ctl_frame_def)
    moreover have "command_safe ?fw" if "is_execute HostToDevice sp"
      using assms(3) that out by (simp add: fw_event_safe_def command_safe_control)
    ultimately have "fw_returns (handle_vendor_request env sp ?fw w1)"
      using fw_ready_frame [OF assms(1) acks] by (intro handle_vendor_request_returns)
    with c(1) Some show ?thesis by (simp add: fw_control_event_def)
  qed
qed

lemma acks_ok_leds [simp]: "acks_ok (write_leds env v w) = acks_ok w"
  by (simp add: write_leds_def)

lemma loop_event_returns:
  assumes "fw_ready env mim target port w" and "fw_ok fw"
    and "fw_event_safe fw (length (port (hw (write_leds env 1 w)))) event"
  shows "\<exists>l' fw' w'. loop_event env event l fw w = Ret (l', fw', w') \<and> acks_ok w'"
proof -
  let ?w = "write_leds env 1 w"
  have ready: "fw_ready env mim target port ?w"
    using assms(1) by (rule fw_ready_frame) (simp add: fw_readyD(2) [OF assms(1)])
  have "fw_returns (fw_handle_event env event fw ?w)"
  proof (cases event)
    case (UsbEv interface e)
    show ?thesis
    proof (cases interface)
      case Target
      have "md_event_safe (fw_moondancer fw) e"
        using assms(3) UsbEv Target by (simp add: fw_event_safe_def)
      from md_dispatch_event_returns [OF fw_readyD(4) [OF ready] this] UsbEv Target show ?thesis
        by (auto simp: fw_handle_event_def)
    next
      case ControlPort
      from fw_control_event_returns [OF ready assms(2)] assms(3) UsbEv ControlPort
        fw_readyD(2) [OF ready]
      show ?thesis by (simp add: fw_handle_event_def)
    qed (use UsbEv fw_readyD(2) [OF ready] in \<open>simp add: fw_handle_event_def\<close>)
  qed (use fw_readyD(2) [OF ready] in \<open>simp_all add: fw_handle_event_def\<close>)
  then show ?thesis by (auto simp: loop_event_def fw_returns_def)
qed

section \<open>String descriptors\<close>

text \<open>What GET_DESCRIPTOR of a string does on the control port of the running firmware.\<close>

lemma fw_handle_setup:
  "fw_handle_event env (UsbEv ControlPort (ReceiveSetupPacket 0 sp)) fw w =
     rbind (control_dispatch_event (hal_driver env Usb2) (ReceiveSetupPacket 0 sp) (fw_usb2_control fw) w)
       (\<lambda>(r, c, w). case r of None \<Rightarrow> Ret (fw\<lparr>fw_usb2_control := c\<rparr>, w)
         | Some sp \<Rightarrow> handle_vendor_request env sp (fw\<lparr>fw_usb2_control := c\<rparr>) w)"
  by (simp add: fw_handle_event_def fw_control_event_def Let_def)

lemma fw_handle_descriptor:
  assumes "asks_descriptor sp" and "fw_ok fw" and "ctl_next (fw_usb2_control fw) \<in> {StIdle, StStall}"
    and "descriptors_write (hal_driver env Usb2) (ctl_descriptors (fw_usb2_control fw)) 0 sp w = r"
  shows "fw_handle_event env (UsbEv ControlPort (ReceiveSetupPacket 0 sp)) fw w =
    rbind r (\<lambda>(r, w). case r of
        None \<Rightarrow> Ret (fw\<lparr>fw_usb2_control := to_state StSend (fw_usb2_control fw)\<rparr>, w)
      | Some sp' \<Rightarrow> handle_vendor_request env sp'
          (fw\<lparr>fw_usb2_control := to_state StSend (fw_usb2_control fw)\<rparr>) w)"
proof -
  have "ctl_endpoint_number (fw_usb2_control fw) = 0"
    using assms(2) by (simp add: fw_ok_def fw_control_ok_def)
  from control_asks_descriptor [OF assms(1) this assms(3), of "hal_driver env Usb2" w] assms(4)
  show ?thesis
    by (cases r) (auto simp: fw_handle_setup)
qed

lemma handle_standard_request:
  "setup_request_type sp = Standard \<Longrightarrow> setup_direction sp = DeviceToHost \<Longrightarrow>
     handle_vendor_request env sp fw w = Ret (fw, stall_endpoint_in env Usb2 0 w)"
  by (simp add: handle_vendor_request_def Let_def stall_direction_def)

lemma fw_string_answered:
  assumes "logs_writes env log" and "patient_host env Usb2 0 log" and "acks_ok w"
    and "fw_ok fw" and "ctl_next (fw_usb2_control fw) \<in> {StIdle, StStall}"
    and "asks_descriptor sp" and "descriptor_request 0x03 n sp" and "n \<noteq> 0" and "n \<noteq> 0xee"
    and "unat (n - 1) < length (ds_string_descriptors (ctl_descriptors (fw_usb2_control fw)))"
  shows "\<exists>w'. fw_handle_event env (UsbEv ControlPort (ReceiveSetupPacket 0 sp)) fw w =
      Ret (fw\<lparr>fw_usb2_control := to_state StSend (fw_usb2_control fw)\<rparr>, w') \<and>
    log (hw w') = log (hw w) @ concat (map (packet_writes Usb2 0)
      (in_packets 64 (Some (unat (sp_length sp))) (take (unat (sp_length sp)) (string_descriptor_iter
        (ds_string_descriptors (ctl_descriptors (fw_usb2_control fw)) ! unat (n - 1))))))"
proof -
  have "ctl_endpoint_number (fw_usb2_control fw) = 0"
    using assms(4) by (simp add: fw_ok_def fw_control_ok_def)
  from descriptor_reply_on_the_bus [OF assms(1-3,6) this assms(5) string_index_answered [OF assms(7-10)]]
  show ?thesis by (auto simp: fw_handle_setup)
qed

lemma fw_string_unanswered:
  assumes "fw_ok fw" and "ctl_next (fw_usb2_control fw) \<in> {StIdle, StStall}"
    and "asks_descriptor sp" and "descriptor_request 0x03 n sp" and "n \<noteq> 0" and "n \<noteq> 0xee"
    and "length (ds_string_descriptors (ctl_descriptors (fw_usb2_control fw))) \<le> unat (n - 1)"
  shows "fw_handle_event env (UsbEv ControlPort (ReceiveSetupPacket 0 sp)) fw w =
    (if unat (n - 1) = length (ds_string_descriptors (ctl_descriptors (fw_usb2_control fw))) then Panic
     else Ret (fw\<lparr>fw_usb2_control := to_state StSend (fw_usb2_control fw)\<rparr>,
       stall_endpoint_in env Usb2 0 w))"
proof -
  have "descriptors_write (hal_driver env Usb2) (ctl_descriptors (fw_usb2_control fw)) 0 sp w =
      (if unat (n - 1) = length (ds_string_descriptors (ctl_descriptors (fw_usb2_control fw))) then Panic
       else Ret (Some sp, w))"
    using assms(4-7)
    by (simp add: descriptors_write_def descriptor_request_def descriptor_type_from_def Let_def
        StringDescriptorNumber_Zero_def StringDescriptorNumber_Microsoft_def)
  from fw_handle_descriptor [OF assms(3,1,2) this] show ?thesis
    using assms(3) by (simp add: asks_descriptor_def handle_standard_request)
qed

end
