(* ===== verification/FirmwareBoot.thy ===== *)
theory FirmwareBoot
  imports FirmwareSafety
begin

text \<open>
  Bringing the firmware up: what its construction and initialisation keep of the world, and that
  both return. What they keep is a locale: any property of the world that register accesses do not
  break, except for those that let a host send, holds after the start as it did before.
\<close>

section \<open>What the start keeps\<close>

locale boot_invariant =
  fixes env :: "'h fw_env" and P :: "'h fw_world \<Rightarrow> bool"
  assumes keep_read: "P w \<Longrightarrow> P (w\<lparr>hw := snd (env_read env r (hw w))\<rparr>)"
    and keep_write: "P w \<Longrightarrow> v = 0 \<or> (\<forall>i. r \<noteq> USB i OutEnable) \<Longrightarrow>
      P (w\<lparr>hw := env_write env r v (hw w)\<rparr>)"
    and keep_speed: "P w \<Longrightarrow> P (set_speed i s w)"
begin

lemma read: "P w \<Longrightarrow> reg_read env r w = (v, w') \<Longrightarrow> P w'"
  by (auto simp: reg_read_eq keep_read)

lemma bit: "P w \<Longrightarrow> read_bit env r w = (b, w') \<Longrightarrow> P w'"
  by (auto simp: read_bit_eq keep_read)

lemma writes:
  assumes "P w" and "\<forall>i. r \<noteq> USB i OutEnable"
  shows "P (write_bit env r b w)" "P (write_field env n r x w)" "P (modify_bit env r b w)"
    "P (write_u32 env r y w)" "P (clear_pending env r w)"
  using assms
  by (auto simp: write_bit_def write_field_def modify_bit_def write_u32_def clear_pending_def
      reg_write_def reg_modify_def reg_read_eq Let_def
      intro: keep_write keep_read keep_write [OF keep_read, simplified])

lemma receive_off: "P w \<Longrightarrow> P (write_bit env (USB i OutEnable) False w)"
  by (simp add: write_bit_def reg_write_def reset_value_def field_bits_zero keep_write)

lemma events: "P w \<Longrightarrow> P (enable_events env i w)" "P w \<Longrightarrow> P (disable_events env i w)"
  by (simp_all add: enable_events_def disable_events_def Let_def writes)

lemma unprime: "P w \<Longrightarrow> P (unprime_all env i eps w)"
  by (induction eps arbitrary: w) (simp_all add: writes)

lemma connect: "P w \<Longrightarrow> P (hal_connect env i s w)"
  by (simp add: hal_connect_def reset_fifos_def Let_def writes receive_off events unprime keep_speed
      split: speed.split)

lemma mim_wait:
  assumes "wait_mim env m w = Some w'" and "P w"
  shows "P w'"
proof -
  have "env = env \<longrightarrow> P w \<longrightarrow> P w'"
    using assms(1)
  proof (rule wait_mim.raw_induct [where P = "\<lambda>e m w w'. e = env \<longrightarrow> P w \<longrightarrow> P w'", rotated])
    fix loop e m w w'
    assume IH: "\<And>e m w w'. loop e m w = Some w' \<Longrightarrow> e = env \<longrightarrow> P w \<longrightarrow> P w'"
      and eq: "(let (v, w) = reg_read e (CSR Mim) w in if v = m then Some w else loop e m w) = Some w'"
    show "e = env \<longrightarrow> P w \<longrightarrow> P w'"
    proof (intro impI)
      assume e: "e = env" "P w"
      obtain v w1 where r: "reg_read env (CSR Mim) w = (v, w1)" by fastforce
      then have "P w1" using read [OF e(2)] by blast
      with eq r e IH show "P w'" by (auto split: if_splits)
    qed
  qed
  with assms(2) show ?thesis by simp
qed

lemma enable_interrupt:
  assumes "P w" and "interrupt_enable env i w = Ret w'"
  shows "P w'"
proof -
  obtain m w1 where r: "reg_read env (CSR Mim) w = (m, w1)" by fastforce
  have "P (w1\<lparr>hw := env_write env (CSR Mim) (m OR interrupt_bit i) (hw w1)\<rparr>)"
    using read [OF assms(1) r] by (rule keep_write) simp
  moreover have "wait_mim env (m OR interrupt_bit i)
      (w1\<lparr>hw := env_write env (CSR Mim) (m OR interrupt_bit i) (hw w1)\<rparr>) = Some w'"
    using assms(2) r by (simp add: interrupt_enable_def set_mim_def rust_simps)
  ultimately show ?thesis by (rule mim_wait [rotated])
qed

lemma initialize:
  assumes "P w" and "firmware_initialize env w = Ret w'"
  shows "P w'"
proof -
  let ?w = "hal_connect env Usb2 DEVICE_SPEED (write_leds env (push_bit 2 1) w)"
  obtain w1 w2 w3 w4 where ws: "interrupt_enable env USB2 ?w = Ret w1"
      "interrupt_enable env USB2_EP_CONTROL w1 = Ret w2" "interrupt_enable env USB2_EP_IN w2 = Ret w3"
      "interrupt_enable env USB2_EP_OUT w3 = Ret w4" and w': "w' = enable_events env Usb2 w4"
    using assms(2) by (auto simp: firmware_initialize_def rust_simps Let_def)
  have "P ?w" using assms(1) by (simp add: connect write_leds_def writes)
  then have "P w4" using enable_interrupt ws by meson
  then show ?thesis by (simp add: w' events)
qed

lemma flash_ready: "P w \<Longrightarrow> spi_ready env r n w = (b, w') \<Longrightarrow> P w'"
proof (induction "1000 - n" arbitrary: n w rule: less_induct)
  case less
  obtain c w1 where r: "read_bit env r w = (c, w1)" by fastforce
  with less.prems(1) have "P w1" using bit by blast
  with less.prems less.hyps [of "Suc n" w1] r show ?case
    by (auto simp: spi_ready.simps [of env r n w] split: if_splits)
qed

lemma flash_write: "P w \<Longrightarrow> P (spi_write_all env bs w)"
  by (induction bs arbitrary: w) (simp_all add: writes)

lemma flash_read: "P w \<Longrightarrow> uuid_read env bs n w = Ret (r, w') \<Longrightarrow> P w'"
proof (induction "length bs - n" arbitrary: bs n w rule: less_induct)
  case less
  obtain c w1 where c: "read_bit env (SPI0 RxRdy) w = (c, w1)" by fastforce
  obtain v w2 where v: "reg_read env (SPI0 RxTx) w1 = (v, w2)" by fastforce
  have "P w1" using bit [OF less.prems(1) c] .
  moreover from this have "P w2" using v by (rule read)
  ultimately show ?case
    using less.prems less.hyps [of "bs[n := ucast v]" "Suc n" w2] c v
    by (auto simp: uuid_read.simps [of env bs n w] Let_def split: if_splits)
qed

lemma flash_uuid:
  assumes "P w" and "read_flash_uuid env w = Ret (r, w')"
  shows "P w'"
proof -
  let ?w = "write_bit env (SPI0 SpiCs) False (write_field env 8 (SPI0 PhyMask) 1
    (write_field env 4 (SPI0 PhyWidth) 1 (write_field env 6 (SPI0 PhyLen) 8 w)))"
  obtain a w1 where a: "spi_ready env (SPI0 TxRdy) 0 ?w = (a, w1)" by fastforce
  obtain b w2 where b: "spi_ready env (SPI0 RxRdy) 0 (spi_write_all env uuid_command w1) = (b, w2)"
    by fastforce
  have "P ?w" using assms(1) by (simp add: writes)
  then have w1: "P w1" using a by (rule flash_ready)
  with b have w2: "P w2" using flash_ready [OF flash_write] by blast
  show ?thesis
    using assms(2) w1 w2 flash_read [OF w2]
    by (auto simp: read_flash_uuid_def Let_def a b rust_simps split: if_splits)
qed

lemma construct:
  assumes "P w" and "firmware_new env w = Ret (fw, w')"
  shows "P w'"
proof -
  obtain a w1 where a: "reg_read env VersionMajor (write_bit env ADVERTISER True w) = (a, w1)"
    by fastforce
  obtain b w2 where b: "reg_read env VersionMinor w1 = (b, w2)" by fastforce
  have "P (write_bit env ADVERTISER True w)" using assms(1) by (simp add: writes)
  then have "P w2" using a b by (meson read)
  with flash_uuid assms(2) show ?thesis
    by (auto simp: firmware_new_def a b Let_def rust_simps)
qed

end

interpretation boot_acks: boot_invariant env acks_ok for env
  by unfold_locales (simp_all add: acks_ok_def set_speed_def)

section \<open>The start returns\<close>

lemma firmware_new_Ret:
  "\<exists>fw w'. firmware_new env w = Ret (fw, w') \<and> fw_protocol fw = Quiet \<and>
     ctl_next (fw_usb2_control fw) = StIdle \<and> fw_moondancer fw = moondancer_new"
proof -
  obtain a w1 where a: "reg_read env VersionMajor (write_bit env ADVERTISER True w) = (a, w1)"
    by fastforce
  obtain b w2 where b: "reg_read env VersionMinor w1 = (b, w2)" by fastforce
  obtain r w3 where "read_flash_uuid env w2 = Ret (r, w3)" using read_flash_uuid_Ret by blast
  then show ?thesis
    by (simp add: firmware_new_def a b Let_def fw_protocol_def control_new_def)
qed

lemma firmware_initialize_mask:
  assumes "mim_private env mim"
  shows "\<exists>w'. firmware_initialize env w = Ret w' \<and> mim (hw w') AND 0xF000 = 0xF000"
proof -
  have m: "mim_storage env mim" using assms by (simp add: mim_private_def)
  let ?w = "hal_connect env Usb2 DEVICE_SPEED (write_leds env (push_bit 2 1) w)"
  obtain w1 where w1: "interrupt_enable env USB2 ?w = Ret w1"
      "mim (hw w1) = mim (hw ?w) OR interrupt_bit USB2"
    using interrupt_enable_mask [OF m] by blast
  obtain w2 where w2: "interrupt_enable env USB2_EP_CONTROL w1 = Ret w2"
      "mim (hw w2) = mim (hw w1) OR interrupt_bit USB2_EP_CONTROL"
    using interrupt_enable_mask [OF m] by blast
  obtain w3 where w3: "interrupt_enable env USB2_EP_IN w2 = Ret w3"
      "mim (hw w3) = mim (hw w2) OR interrupt_bit USB2_EP_IN"
    using interrupt_enable_mask [OF m] by blast
  obtain w4 where w4: "interrupt_enable env USB2_EP_OUT w3 = Ret w4"
      "mim (hw w4) = mim (hw w3) OR interrupt_bit USB2_EP_OUT"
    using interrupt_enable_mask [OF m] by blast
  have "mim (hw w4) = mim (hw ?w) OR 0xF000"
    unfolding w1 w2 w3 w4 by (simp add: interrupt_bit_def or.assoc)
  then have "mim (hw w4) AND 0xF000 = 0xF000" by (simp add: bit.conj_disj_distrib2)
  with w1(1) w2(1) w3(1) w4(1) show ?thesis
    by (simp add: firmware_initialize_def mim_enable_events [OF assms])
qed

context boot_invariant
begin

lemma starts:
  assumes "mim_private env mim" and "P w"
  shows "\<exists>fw w'. main_reachable env (loop_start, fw, w') \<and> P w' \<and> fw_protocol fw = Quiet \<and>
    ctl_next (fw_usb2_control fw) = StIdle \<and> fw_moondancer fw = moondancer_new"
proof -
  obtain fw w1 where new: "firmware_new env w = Ret (fw, w1)" "fw_protocol fw = Quiet"
      "ctl_next (fw_usb2_control fw) = StIdle" "fw_moondancer fw = moondancer_new"
    using firmware_new_Ret by blast
  obtain w2 where init: "firmware_initialize env w1 = Ret w2"
    using firmware_initialize_mask [OF assms(1)] by blast
  have "P w2" using initialize [OF construct [OF assms(2) new(1)] init] .
  with main_start [OF new(1) init] new(2-4) show ?thesis by blast
qed

end

end
