(* ===== verification/UsbConnect.thy ===== *)
theory UsbConnect
  imports UsbTransfer
begin

text \<open>
  What connecting and disconnecting do to the peripheral, as the sequence of writes to the registers
  that matter for it: the connection itself, the OUT endpoints, the FIFOs and the address.
\<close>

section \<open>Traces\<close>

definition quiet_reads :: "('h, 'q) env \<Rightarrow> ('h \<Rightarrow> (reg \<times> u32) list) \<Rightarrow> bool" where
  "quiet_reads env log \<longleftrightarrow> (\<forall>r h. log (snd (env_read env r h)) = log h)"

text \<open>The writes to the registers of a set between two worlds.\<close>

definition trace ::
  "('h \<Rightarrow> (reg \<times> u32) list) \<Rightarrow> reg set \<Rightarrow> ('h, 'q) world \<Rightarrow> (reg \<times> u32) list \<Rightarrow> ('h, 'q) world \<Rightarrow> bool"
  where
  "trace log R w t w' \<longleftrightarrow>
     (\<exists>full. log (hw w') = log (hw w) @ full \<and> filter (\<lambda>(r, _). r \<in> R) full = t)"

lemma trace_refl [simp]: "trace log R w [] w"
  by (simp add: trace_def)

lemma trace_trans: "trace log R w t w' \<Longrightarrow> trace log R w' u w'' \<Longrightarrow> trace log R w (t @ u) w''"
  unfolding trace_def by (metis append.assoc filter_append)

lemma trace_speed [simp]: "trace log R w t (set_speed i s w') = trace log R w t w'"
  by (simp add: trace_def set_speed_def)

lemma trace_write_bit:
  "logs_writes env log \<Longrightarrow> r \<in> R \<Longrightarrow> trace log R w [(r, of_bool b)] (write_bit env r b w)"
  "logs_writes env log \<Longrightarrow> r \<notin> R \<Longrightarrow> trace log R w [] (write_bit env r b w)"
  by (simp_all add: trace_def logs_writes_def write_bit_def reg_write_def field_bits_zero reset_value_def)

lemma trace_write_field:
  "logs_writes env log \<Longrightarrow> r \<in> R \<Longrightarrow> trace log R w [(r, ucast v AND mask n)] (write_field env n r v w)"
  by (simp add: trace_def log_write_field)

lemma trace_modify:
  assumes "logs_writes env log" and "quiet_reads env log" and "r \<notin> R"
  shows "trace log R w [] (modify_bit env r b w)" "trace log R w [] (clear_pending env r w)"
  using assms
  by (auto simp: trace_def logs_writes_def quiet_reads_def modify_bit_def clear_pending_def
      reg_modify_def reg_read_eq)

text \<open>The registers are not where the speed is kept.\<close>

lemma device_speed_registers [simp]:
  "device_speed (clear_pending env r w) = device_speed w"
  "device_speed (disable_events env i w) = device_speed w"
  "device_speed (reset_fifos env i w) = device_speed w"
  "device_speed (set_address env i a w) = device_speed w"
  by (simp_all add: clear_pending_def disable_events_def reset_fifos_def set_address_def Let_def)

lemma device_speed_unprime [simp]: "device_speed (unprime_all env i eps w) = device_speed w"
  by (induction eps arbitrary: w) simp_all

section \<open>Connecting and disconnecting\<close>

definition connection_registers :: "usb_idx \<Rightarrow> reg set" where
  "connection_registers i = USB i `
     {Connect, OutEpno, OutPrime, OutEnable, CtlReset, InReset, OutReset, OutAddress, CtlAddress}"

definition unprime_writes :: "usb_idx \<Rightarrow> u8 list \<Rightarrow> (reg \<times> u32) list" where
  "unprime_writes i eps = concat (map (\<lambda>ep. [(USB i OutEpno, ucast ep AND mask 4), (USB i OutPrime, 0)]) eps)"

lemma unprime_writes_all:
  "unprime_writes i endpoint_numbers =
     concat (map (\<lambda>n. [(USB i OutEpno, of_nat n), (USB i OutPrime, 0)]) [0..<16])"
  by (simp add: unprime_writes_def endpoint_numbers_def EP_MAX_ENDPOINTS_def upt_rec mask_eq_exp_minus_1)

definition reset_writes :: "usb_idx \<Rightarrow> (reg \<times> u32) list" where
  "reset_writes i = [(USB i OutEnable, 0), (USB i CtlReset, 1), (USB i InReset, 1), (USB i OutReset, 1)]"

lemma trace_unprime:
  assumes "logs_writes env log"
  shows "trace log (connection_registers i) w (unprime_writes i eps) (unprime_all env i eps w)"
proof (induction eps arbitrary: w)
  case (Cons ep eps)
  let ?R = "connection_registers i"
  have "trace log ?R w [(USB i OutEpno, ucast ep AND mask 4)] (write_field env 4 (USB i OutEpno) ep w)"
    by (rule trace_write_field [OF assms]) (simp add: connection_registers_def)
  moreover have "trace log ?R v [(USB i OutPrime, 0)] (write_bit env (USB i OutPrime) False v)" for v
    using trace_write_bit(1) [OF assms, of "USB i OutPrime" ?R v False]
    by (simp add: connection_registers_def)
  ultimately show ?case
    using trace_trans [OF trace_trans [OF _ ] Cons] by (fastforce simp: unprime_writes_def)
qed (simp add: unprime_writes_def)

lemma trace_disable_events:
  assumes "logs_writes env log" and "quiet_reads env log"
  shows "trace log (connection_registers i) w [] (disable_events env i w)"
proof -
  let ?R = "connection_registers i"
  have c: "trace log ?R w t (clear_pending env (USB i r) v)" if "trace log ?R w t v"
      "r \<in> {CtrlEvPending, CtlEvPending, InEvPending, OutEvPending}" for t v r
    using trace_trans [OF that(1) trace_modify(2) [OF assms, of "USB i r"]] that(2)
    by (auto simp: connection_registers_def)
  have b: "trace log ?R w t (write_bit env (USB i r) False v)" if "trace log ?R w t v"
      "r \<in> {CtrlEvEnable, CtlEvEnable, InEvEnable, OutEvEnable}" for t v r
    using trace_trans [OF that(1) trace_write_bit(2) [OF assms(1), of "USB i r"]] that(2)
    by (auto simp: connection_registers_def)
  show ?thesis by (simp add: disable_events_def Let_def b c)
qed

lemma trace_reset:
  assumes "logs_writes env log"
  shows "trace log (connection_registers i) w (reset_writes i)
    (reset_fifos env i (write_bit env (USB i OutEnable) False w))"
proof -
  let ?R = "connection_registers i"
  have b: "trace log ?R v [(USB i r, of_bool x)] (write_bit env (USB i r) x v)"
    if "USB i r \<in> ?R" for v r x
    using that by (rule trace_write_bit(1) [OF assms])
  have R: "USB i OutEnable \<in> ?R" "USB i CtlReset \<in> ?R" "USB i InReset \<in> ?R" "USB i OutReset \<in> ?R"
    by (simp_all add: connection_registers_def)
  show ?thesis
    using trace_trans [OF trace_trans [OF trace_trans [OF b [OF R(1)] b [OF R(2)]] b [OF R(3)]] b [OF R(4)],
        of w False True True True]
    by (simp add: reset_fifos_def Let_def reset_writes_def)
qed

text \<open>The speed the port is set to: the asked one where the peripheral has it, and high speed otherwise.\<close>

definition connect_speed :: "speed \<Rightarrow> speed" where
  "connect_speed s = (if s \<in> {SpeedHigh, SpeedFull, SpeedLow} then s else SpeedHigh)"

lemma hal_connect_trace:
  assumes "logs_writes env log" and "quiet_reads env log"
  shows "trace log (connection_registers i) w
      ((USB i Connect, 0) # unprime_writes i endpoint_numbers @ reset_writes i @ [(USB i Connect, 1)])
      (hal_connect env i s w) \<and>
    device_speed (hal_connect env i s w) i = connect_speed s"
proof -
  let ?R = "connection_registers i"
  have m: "trace log ?R w t (modify_bit env (USB i r) x v)" if "trace log ?R w t v"
      "r \<in> {FullSpeedOnly, LowSpeedOnly}" for t v r x
    using trace_trans [OF that(1) trace_modify(1) [OF assms, of "USB i r"]] that(2)
    by (auto simp: connection_registers_def)
  define v where "v = (case s of
      SpeedHigh \<Rightarrow> modify_bit env (USB i LowSpeedOnly) False
        (modify_bit env (USB i FullSpeedOnly) False (set_speed i s w))
    | SpeedFull \<Rightarrow> modify_bit env (USB i LowSpeedOnly) False
        (modify_bit env (USB i FullSpeedOnly) True (set_speed i s w))
    | SpeedLow \<Rightarrow> modify_bit env (USB i LowSpeedOnly) True
        (modify_bit env (USB i FullSpeedOnly) False (set_speed i s w))
    | _ \<Rightarrow> set_speed i SpeedHigh (set_speed i s w))"
  have v: "trace log ?R w [] v" by (auto simp: v_def m split: speed.split)
  have speed: "device_speed v i = connect_speed s"
    by (simp add: v_def connect_speed_def set_speed_def split: speed.split)
  have C: "USB i Connect \<in> ?R" by (simp add: connection_registers_def)
  have t: "trace log ?R w [(USB i Connect, 0)] (write_bit env (USB i Connect) False v)"
    using trace_trans [OF v trace_write_bit(1) [OF assms(1) C, of v False]] by simp
  let ?u = "unprime_all env i endpoint_numbers (disable_events env i (write_bit env (USB i Connect) False v))"
  have u: "trace log ?R w ((USB i Connect, 0) # unprime_writes i endpoint_numbers) ?u"
    using trace_trans [OF trace_trans [OF t trace_disable_events [OF assms]] trace_unprime [OF assms(1)]]
    by simp
  have e: "hal_connect env i s w = write_bit env (USB i Connect) True
      (reset_fifos env i (write_bit env (USB i OutEnable) False ?u))"
    by (simp add: hal_connect_def Let_def v_def)
  show ?thesis
    using trace_trans [OF trace_trans [OF u trace_reset [OF assms(1)]]
        trace_write_bit(1) [OF assms(1) C, of _ True]] speed
    by (simp add: e)
qed

lemma hal_disconnect_trace:
  assumes "logs_writes env log" and "quiet_reads env log"
  shows "trace log (connection_registers i) w
      ([(USB i OutAddress, 0), (USB i CtlAddress, 0), (USB i Connect, 0)] @
        unprime_writes i endpoint_numbers @ reset_writes i) (hal_disconnect env i w) \<and>
    device_speed (hal_disconnect env i w) i = SpeedUnknown"
proof -
  let ?R = "connection_registers i"
  have b: "trace log ?R w t (write_bit env (USB i r) x v)" if "trace log ?R w t v"
      "r \<in> {FullSpeedOnly, LowSpeedOnly}" for t v r x
    using trace_trans [OF that(1) trace_write_bit(2) [OF assms(1), of "USB i r"]] that(2)
    by (auto simp: connection_registers_def)
  define v where "v = set_speed i SpeedUnknown
    (write_bit env (USB i LowSpeedOnly) False (write_bit env (USB i FullSpeedOnly) False w))"
  have "trace log ?R w [] v" by (simp add: v_def b)
  note v = trace_trans [OF this trace_disable_events [OF assms]]
  have R: "USB i OutAddress \<in> ?R" "USB i CtlAddress \<in> ?R" "USB i Connect \<in> ?R"
    by (simp_all add: connection_registers_def)
  let ?a = "set_address env i 0 (disable_events env i v)"
  have "trace log ?R w [(USB i OutAddress, 0), (USB i CtlAddress, 0)] ?a"
    using trace_trans [OF trace_trans [OF v trace_write_field [OF assms(1) R(1), of _ 0 8]]
        trace_write_field [OF assms(1) R(2), of _ 0 8]]
    by (simp add: set_address_def Let_def)
  note a = trace_trans [OF this trace_write_bit(1) [OF assms(1) R(3), of _ False]]
  let ?c = "write_bit env (USB i Connect) False ?a"
  have "trace log ?R w ([(USB i OutAddress, 0), (USB i CtlAddress, 0), (USB i Connect, 0)] @
      unprime_writes i endpoint_numbers @ reset_writes i)
      (reset_fifos env i (write_bit env (USB i OutEnable) False (unprime_all env i endpoint_numbers ?c)))"
    using trace_trans [OF trace_trans [OF a trace_unprime [OF assms(1)]] trace_reset [OF assms(1)]]
    by simp
  moreover have "hal_disconnect env i w =
      reset_fifos env i (write_bit env (USB i OutEnable) False (unprime_all env i endpoint_numbers ?c))"
    by (simp add: hal_disconnect_def Let_def v_def)
  moreover have "device_speed (hal_disconnect env i w) i = SpeedUnknown"
    by (simp add: hal_disconnect_def Let_def set_speed_def)
  ultimately show ?thesis by simp
qed

end
