(* ===== verification/ExampleSerial.thy ===== *)
theory ExampleSerial
  imports FirmwareBoot UsbConnect
begin

text \<open>
  \<open>moondancer/examples/acm_serial.rs\<close>: a serial device on the target port that echoes what it receives in
  upper case. It has its own event queue of 16 elements, its own interrupt handler and its own main loop
  around the control endpoint of \<open>smolusb\<close>. Its descriptors leave out the field \<open>microsoft10\<close> of the
  struct, so it does not compile as it is; the field is an argument of the model. Logging and the delay of
  the start are left out.
\<close>

section \<open>Interrupts\<close>

definition serial_dispatch_event ::
  "interrupt_event \<Rightarrow> 'h fw_world \<Rightarrow> 'h fw_world rust" where
  "serial_dispatch_event event w =
     (case enqueue EP_MAX_ENDPOINTS event (irq_ext w) of
        Some q \<Rightarrow> Ret (w\<lparr>irq_ext := q\<rparr>)
      | None \<Rightarrow> (let w = w\<lparr>irq_ext := flush (irq_ext w)\<rparr> in Hang))"

definition bits_pending :: "('h, 'q) env \<Rightarrow> ('h, 'q) world \<Rightarrow> u32 \<times> ('h, 'q) world" where
  "bits_pending env w = reg_read env (CSR Mip) w"

definition serial_MachineExternal :: "'h fw_env \<Rightarrow> 'h fw_world \<Rightarrow> 'h fw_world rust" where
  "serial_MachineExternal env w =
     (let (bits, w) = bits_pending env w;
          w = write_leds env (ucast bits) w;
          (r, w) = interrupt_pending env w
      in
      case r of
        Inl pending \<Rightarrow> serial_dispatch_event (UnknownInterrupt pending) w
      | Inr pending \<Rightarrow>
          (case pending of
             USB0 \<Rightarrow>
               rbind (hal_bus_reset env Usb0 w) (\<lambda>w.
               let w = ep_out_prime_receive env Usb0 4 w
               in Ret (clear_pending env (USB Usb0 CtrlEvPending) w))
           | USB0_EP_CONTROL \<Rightarrow>
               let (bits, w) = reg_read env (USB Usb0 CtlEpno) w;
                   endpoint = ucast bits
               in
               rbind (read_control env Usb0 (replicate 8 0) w) (\<lambda>(_, buffer, w).
               case setup_from buffer of
                 None \<Rightarrow> Undef
               | Some setup_packet \<Rightarrow>
                   rbind (serial_dispatch_event (UsbEv Target (ReceiveSetupPacket endpoint setup_packet)) w)
                     (\<lambda>w. Ret (clear_pending env (USB Usb0 CtlEvPending) w)))
           | USB0_EP_IN \<Rightarrow>
               let (bits, w) = reg_read env (USB Usb0 InEpno) w;
                   endpoint = ucast bits
               in
               rbind (clear_tx_ack_active Usb0 endpoint w) (\<lambda>w.
               rbind (serial_dispatch_event (UsbEv Target (SendComplete endpoint)) w) (\<lambda>w.
               Ret (clear_pending env (USB Usb0 InEvPending) w)))
           | USB0_EP_OUT \<Rightarrow>
               let (bits, w) = reg_read env (USB Usb0 OutEpno) w;
                   endpoint = ucast bits
               in
               rbind (serial_dispatch_event (UsbEv Target (ReceivePacket endpoint)) w) (\<lambda>w.
               Ret (clear_pending env (USB Usb0 OutEvPending) w))
           | _ \<Rightarrow> serial_dispatch_event (UnhandledInterrupt pending) w))"

section \<open>Start\<close>

definition serial_descriptors :: "ms_descriptors option \<Rightarrow> descriptors" where
  "serial_descriptors microsoft10 =
     \<lparr>ds_device_speed = SpeedFull,
      ds_device_descriptor = acm_DEVICE_DESCRIPTOR,
      ds_configuration_descriptor = acm_CONFIGURATION_DESCRIPTOR_0,
      ds_string_descriptor_zero = acm_STRING_DESCRIPTOR_0,
      ds_string_descriptors = acm_STRING_DESCRIPTORS,
      ds_device_qualifier_descriptor = Some acm_DEVICE_QUALIFIER_DESCRIPTOR,
      ds_other_speed_configuration_descriptor = Some acm_OTHER_SPEED_CONFIGURATION_DESCRIPTOR_0,
      ds_microsoft10 = microsoft10\<rparr>"

definition serial_main ::
  "'h fw_env \<Rightarrow> ms_descriptors option \<Rightarrow> 'h fw_world \<Rightarrow> (control \<times> 'h fw_world) rust" where
  "serial_main env microsoft10 w =
     (let w = reg_write env LEDS (\<lambda>_. 0x0) w;
          control_usb0 = control_new 8 0 (set_total_lengths (serial_descriptors microsoft10));
          w = hal_disconnect env Usb0 w;
          w = hal_connect env Usb0 SpeedFull w;
          (speed, w) = read_field env 2 (USB Usb0 SpeedReg) w
      in
      rbind (interrupt_enable env USB0 w) (\<lambda>w.
      rbind (interrupt_enable env USB0_EP_CONTROL w) (\<lambda>w.
      rbind (interrupt_enable env USB0_EP_IN w) (\<lambda>w.
      rbind (interrupt_enable env USB0_EP_OUT w) (\<lambda>w.
      Ret (control_usb0, enable_events env Usb0 w))))))"

section \<open>The main loop\<close>

definition handle_class_request ::
  "'h fw_env \<Rightarrow> setup_packet \<Rightarrow> 'h fw_world \<Rightarrow> 'h fw_world" where
  "handle_class_request env sp w =
     (case (setup_request_type sp, setup_request sp) of
        (ClassType, ClassOrVendor class_request) \<Rightarrow>
          (case (setup_direction sp, acm_class_request_from class_request) of
             (HostToDevice, SetLineCoding) \<Rightarrow> ep_out_prime_receive env Usb0 4 w
           | (DeviceToHost, _) \<Rightarrow> stall_endpoint_out env Usb0 0 w
           | (HostToDevice, _) \<Rightarrow> stall_endpoint_in env Usb0 0 w)
      | _ \<Rightarrow> w)"

definition to_uppercase :: "u8 \<Rightarrow> u8" where
  "to_uppercase b = (if 0x61 \<le> b \<and> b \<le> 0x7a then b - 32 else b)"

definition serial_event ::
  "'h fw_env \<Rightarrow> interrupt_event \<Rightarrow> control \<Rightarrow> 'h fw_world \<Rightarrow> (control \<times> 'h fw_world) rust" where
  "serial_event env event c w =
     (case event of
        UsbEv Target event \<Rightarrow>
          if control_port_event event then
            rbind (control_dispatch_event (hal_driver env Usb0) event c w) (\<lambda>(r, c, w).
            case r of None \<Rightarrow> Ret (c, w) | Some setup_packet \<Rightarrow> Ret (c, handle_class_request env setup_packet w))
          else if event = ReceivePacket 4 then
            rbind (hal_read env Usb0 4 (replicate EP_MAX_PACKET_SIZE 0) w) (\<lambda>(bytes_read, rx_buffer, w).
            if bytes_read > length rx_buffer then Panic
            else rbind (hal_write env Usb0 4 (map to_uppercase (take bytes_read rx_buffer)) w) (\<lambda>(_, w).
              Ret (c, w)))
          else if event = SendComplete 4 then Ret (c, ep_out_prime_receive env Usb0 4 w)
          else Ret (c, w)
      | _ \<Rightarrow> Ret (c, w))"

text \<open>An interrupt between two rounds, and a round of the loop with and without an event.\<close>

inductive serial_step ::
  "'h fw_env \<Rightarrow> control \<times> 'h fw_world \<Rightarrow> control \<times> 'h fw_world \<Rightarrow> bool" for env where
  serial_irq: "env_irq env w = Ret w' \<Longrightarrow> serial_step env (c, w) (c, w')"
| serial_next: "dequeue (irq_ext w) = Some (event, q) \<Longrightarrow>
     serial_event env event c (w\<lparr>irq_ext := q\<rparr>) = Ret s \<Longrightarrow> serial_step env (c, w) s"
| serial_empty: "dequeue (irq_ext w) = None \<Longrightarrow> serial_step env (c, w) (c, w)"

inductive_simps serial_step_simps: "serial_step env (c, w) s"

section \<open>Lemmas\<close>

lemma acks_ok_hw [simp]: "acks_ok (w\<lparr>hw := h\<rparr>) = acks_ok w"
  by (simp add: acks_ok_def)

text \<open>Starting returns on a mask that is memory, with the control endpoint idle.\<close>

lemma serial_main_returns:
  assumes "mim_storage env mim" and "acks_ok w"
  shows "\<exists>c w'. serial_main env ms w = Ret (c, w') \<and> acks_ok w' \<and> ctl_next c = StIdle \<and> ctl_ok c \<and>
    length (ctl_rx_buffer c) = 8"
proof -
  let ?w = "snd (read_field env 2 (USB Usb0 SpeedReg) (hal_connect env Usb0 SpeedFull
    (hal_disconnect env Usb0 (reg_write env LEDS (\<lambda>_. 0) w))))"
  have "acks_ok ?w" using assms(2) by (simp add: read_field_eq)
  from enable_usb_interrupts_returns(1) [OF assms(1) this]
  obtain w' where w': "enable_usb_interrupts env ?w = Ret w'" "acks_ok w'" by blast
  have "serial_main env ms w = rbind (enable_usb_interrupts env ?w)
      (\<lambda>w. Ret (control_new 8 0 (set_total_lengths (serial_descriptors ms)), w))"
    by (simp add: serial_main_def enable_usb_interrupts_def case_prod_beta Let_def rbind_assoc)
  with w' show ?thesis
    using control_new_ok [of 8 0 "set_total_lengths (serial_descriptors ms)"] by (simp add: control_new_def)
qed

text \<open>The steps keep the bounds of the control endpoint.\<close>

lemma serial_event_ok:
  assumes "serial_event env e c w = Ret (c', w')" and "ctl_ok c"
  shows "ctl_ok c' \<and> length (ctl_rx_buffer c') = length (ctl_rx_buffer c)"
proof -
  have "c' = c \<or> (\<exists>ev r w1. control_dispatch_event (hal_driver env Usb0) ev c w = Ret (r, c', w1))"
    using assms(1) by (auto simp: serial_event_def rust_simps split: interrupt_event.splits
        usb_interface.splits if_splits option.splits)
  then show ?thesis
    using assms(2) by (auto simp: ctl_step_ok_def ctl_frame_def dest: control_dispatch_event_ok)
qed

lemma serial_step_ok:
  "serial_step env (c, w) (c', w') \<Longrightarrow> ctl_ok c \<Longrightarrow>
     ctl_ok c' \<and> length (ctl_rx_buffer c') = length (ctl_rx_buffer c)"
  by (auto simp: serial_step_simps dest: serial_event_ok)

text \<open>
  Data is echoed in upper case, in packets of 64 bytes; what does not fit in the buffer stops the program.
\<close>

lemma serial_echo_packets:
  assumes "logs_writes env log" and "quiet_reads env log" and "patient_host env Usb0 4 log"
    and "rx_fifo env (USB Usb0 OutHave) (USB Usb0 OutData) contents" and "acks_ok w"
    and "device_speed w Usb0 = SpeedFull" and "length (contents (hw w)) \<le> EP_MAX_PACKET_SIZE"
  shows "\<exists>w'. serial_event env (UsbEv Target (ReceivePacket 4)) c w = Ret (c, w') \<and> acks_ok w' \<and>
    log (hw w') = log (hw w) @
      concat (map (packet_writes Usb0 4) (in_packets 64 None (map to_uppercase (contents (hw w)))))"
proof -
  let ?c = "contents (hw w)" and ?buf = "replicate EP_MAX_PACKET_SIZE 0 :: bytes"
  obtain w1 where w1: "hal_read env Usb0 4 ?buf w = Ret (length ?c, take (length ?buf) ?c @ drop (length ?c) ?buf, w1)"
    using hal_read_fifo [OF assms(4)] by blast
  have "out_reads_keep env Usb0 (\<lambda>v. acks_ok v \<and> device_speed v Usb0 = SpeedFull \<and> log (hw v) = log (hw w))"
    using assms(2) by (simp add: out_reads_keep_def quiet_reads_def)
  from hal_read_keep [OF this _ w1] assms(5,6)
  have k: "acks_ok w1" "device_speed w1 Usb0 = SpeedFull" "log (hw w1) = log (hw w)" by simp_all
  obtain w2 where w2: "write_with_packet_size env Usb0 4 None (map to_uppercase ?c) 64 w1 =
      Ret (length ?c, w2)" "acks_ok w2" "log (hw w2) = log (hw w1) @
        concat (map (packet_writes Usb0 4) (in_packets 64 None (map to_uppercase ?c)))"
    using write_refines_packets [OF assms(1,3) _ _ k(1), of 64 None "map to_uppercase ?c"] by auto
  have "hal_write env Usb0 4 (map to_uppercase ?c) w1 = Ret (length ?c, w2)"
    using w2(1) k(2) by (simp add: hal_write_def max_packet_size_def)
  with w1 w2(2,3) k(3) assms(7) show ?thesis by (simp add: serial_event_def)
qed

lemma serial_echo_panics:
  assumes "rx_fifo env (USB Usb0 OutHave) (USB Usb0 OutData) contents"
    and "EP_MAX_PACKET_SIZE < length (contents (hw w))"
  shows "serial_event env (UsbEv Target (ReceivePacket 4)) c w = Panic"
  using hal_read_fifo [OF assms(1), of 4 "replicate EP_MAX_PACKET_SIZE 0" w] assms(2)
  by (auto simp: serial_event_def)

lemma to_uppercase_idem: "to_uppercase (to_uppercase b) = to_uppercase b"
proof -
  have "\<not> 0x61 \<le> b - 32" if "0x61 \<le> b" "b \<le> 0x7a"
    using that by (simp add: word_le_nat_alt unat_sub)
  then show ?thesis by (auto simp: to_uppercase_def)
qed

text \<open>
  Requests of the class: only SET_LINE_CODING is taken, and all others are stalled on the endpoint of the
  other direction than the firmware stalls.
\<close>

lemma class_request_stalls:
  assumes "setup_request_type sp = ClassType" and "setup_request sp = ClassOrVendor r"
  shows "setup_direction sp = DeviceToHost \<Longrightarrow> handle_class_request env sp w = stall_endpoint_out env Usb0 0 w"
    and "setup_direction sp = HostToDevice \<Longrightarrow> r \<noteq> 0x20 \<Longrightarrow>
      handle_class_request env sp w = stall_endpoint_in env Usb0 0 w"
    and "setup_direction sp = HostToDevice \<Longrightarrow> r = 0x20 \<Longrightarrow>
      handle_class_request env sp w = ep_out_prime_receive env Usb0 4 w"
  using assms by (auto simp: handle_class_request_def acm_class_request_from_def split: acm_class_request.splits)

text \<open>A bus reset is handled in the interrupt alone: the control endpoint never learns of it.\<close>

lemma serial_bus_reset_silent:
  assumes "interrupt_pending env (write_leds env (ucast (fst (bits_pending env w))) (snd (bits_pending env w))) =
      (Inr USB0, w1)"
    and "serial_MachineExternal env w = Ret w'"
  shows "irq_ext w' = irq_ext w1"
proof -
  obtain w2 where "hal_bus_reset env Usb0 w1 = Ret w2"
      "w' = clear_pending env (USB Usb0 CtrlEvPending) (ep_out_prime_receive env Usb0 4 w2)"
    using assms by (auto simp: serial_MachineExternal_def case_prod_beta Let_def rust_simps)
  then show ?thesis
    by (auto simp: ep_out_prime_receive_def Let_def read_bit_eq dest!: hal_bus_reset_frame)
qed

end
