(* ===== verification/FirmwareEvents.thy ===== *)
theory FirmwareEvents
  imports FirmwareBoot
begin

text \<open>
  What the running firmware keeps of the world: a property that no access to the hardware, to the
  acknowledge flags and to the speeds can break, and that interrupts keep, is kept by every operation
  from the driver to the main loop. Applied to the event queue: only interrupts add events, at its
  end, and only the main loop takes them, at its front.
\<close>

section \<open>Outcomes\<close>

text \<open>A property of the value of a computation, if it returns one.\<close>

fun on_return :: "('a \<Rightarrow> bool) \<Rightarrow> 'a rust \<Rightarrow> bool" where
  "on_return Q (Ret x) = Q x"
| "on_return Q _ = True"

lemma on_return_iff: "on_return Q m \<longleftrightarrow> (\<forall>x. m = Ret x \<longrightarrow> Q x)"
  by (cases m) auto

lemma on_return_bind: "on_return Q m \<Longrightarrow> (\<And>x. Q x \<Longrightarrow> on_return R (f x)) \<Longrightarrow> on_return R (rbind m f)"
  by (cases m) auto

lemma on_return_option [simp]: "on_return Q (of_option m) \<longleftrightarrow> (\<forall>x. m = Some x \<longrightarrow> Q x)"
  by (cases m) auto

lemma on_return_mono: "on_return Q m \<Longrightarrow> (\<And>x. Q x \<Longrightarrow> R x) \<Longrightarrow> on_return R m"
  by (cases m) auto

lemma on_returnD: "on_return Q m \<Longrightarrow> m = Ret x \<Longrightarrow> Q x"
  by simp

lemma hal_driver_sel:
  "drv_set_address (hal_driver env i) = set_address env i"
  "drv_stall_endpoint_in (hal_driver env i) = stall_endpoint_in env i"
  "drv_stall_endpoint_out (hal_driver env i) = stall_endpoint_out env i"
  "drv_clear_feature_endpoint_halt (hal_driver env i) = clear_feature_endpoint_halt env i"
  "drv_ep_out_prime_receive (hal_driver env i) = ep_out_prime_receive env i"
  "drv_read (hal_driver env i) = hal_read env i" "drv_write (hal_driver env i) = hal_write env i"
  "drv_write_requested (hal_driver env i) = write_requested env i"
  by (simp_all add: hal_driver_def)

section \<open>Properties that every operation keeps\<close>

text \<open>First those that every operation of the driver keeps but the two that set its speed.\<close>

locale driver_invariant =
  fixes env :: "'h fw_env" and P :: "'h fw_world \<Rightarrow> bool"
  assumes keep_hw: "P w \<Longrightarrow> P (w\<lparr>hw := h\<rparr>)"
    and keep_flags: "P w \<Longrightarrow> P (w\<lparr>tx_ack_active := flags\<rparr>)"
    and keep_irq: "P w \<Longrightarrow> on_return P (env_irq env w)"
begin

lemma access_keep [simp]: "P w \<Longrightarrow> P (reg_write env r f w)" "P w \<Longrightarrow> P (reg_modify env r g w)"
  by (simp_all add: reg_write_def reg_modify_def reg_read_eq Let_def keep_hw
      keep_hw [OF keep_hw, simplified])

lemma write_bits [simp]:
  "P w \<Longrightarrow> P (write_bit env r b w)" "P w \<Longrightarrow> P (write_field env n r v w)"
  "P w \<Longrightarrow> P (modify_bit env r b w)" "P w \<Longrightarrow> P (clear_pending env r w)"
  by (simp_all add: write_bit_def write_field_def modify_bit_def clear_pending_def)

lemma read_keep:
  "P w \<Longrightarrow> reg_read env r w = (v, w') \<Longrightarrow> P w'" "P w \<Longrightarrow> read_bit env r w = (b, w') \<Longrightarrow> P w'"
  "P w \<Longrightarrow> read_field env n r w = (v, w') \<Longrightarrow> P w'"
  by (auto simp: reg_read_eq read_bit_eq read_field_eq keep_hw)

lemma snd_read [simp]:
  "P w \<Longrightarrow> P (snd (reg_read env r w))" "P w \<Longrightarrow> P (snd (read_bit env r w))"
  "P w \<Longrightarrow> P (snd (read_field env n r w))"
  by (simp_all add: reg_read_eq read_bit_eq read_field_eq keep_hw)

lemma unprime_all [simp]: "P w \<Longrightarrow> P (unprime_all env i eps w)"
  by (induction eps arbitrary: w) simp_all

lemma driver_writes [simp]:
  "P w \<Longrightarrow> P (enable_events env i w)"
  "P w \<Longrightarrow> P (disable_events env i w)" "P w \<Longrightarrow> P (set_address env i a w)"
  "P w \<Longrightarrow> P (reset_fifos env i w)" "P w \<Longrightarrow> P (stall_endpoint_in env i ep w)"
  "P w \<Longrightarrow> P (stall_endpoint_out env i ep w)" "P w \<Longrightarrow> P (clear_feature_endpoint_halt env i ep d w)"
  "P w \<Longrightarrow> P (ep_out_prime_receive env i ep w)" "P w \<Longrightarrow> P (write_leds env v w)"
  by (simp_all add: enable_events_def disable_events_def set_address_def reset_fifos_def
      stall_endpoint_in_def stall_endpoint_out_def clear_feature_endpoint_halt_def write_leds_def
      ep_out_prime_receive_def Let_def case_prod_beta split: direction.split)

section \<open>Transfers\<close>

lemma flags_keep [simp]:
  "P w \<Longrightarrow> on_return P (set_tx_ack_active i ep w)" "P w \<Longrightarrow> on_return P (clear_tx_ack_active i ep w)"
  by (simp_all add: set_tx_ack_active_def clear_tx_ack_active_def Let_def keep_flags)

lemma clear_acks_keep [simp]: "P w \<Longrightarrow> on_return P (clear_acks i eps w)"
  by (induction eps arbitrary: w) (auto intro: on_return_bind [OF flags_keep(2)])

lemma flag_then [simp]:
  "P w \<Longrightarrow> on_return (\<lambda>(_, w). P w) (rbind (clear_tx_ack_active i ep w) (\<lambda>w. Ret (b, w)))"
  by (rule on_return_bind [OF flags_keep(2)]) simp_all

lemma bus_reset_keep [simp]: "P w \<Longrightarrow> on_return P (hal_bus_reset env i w)"
  by (simp add: hal_bus_reset_def Let_def on_return_bind [OF clear_acks_keep])

lemma wait_fifo_keep [simp]: "P w \<Longrightarrow> on_return (\<lambda>(_, w). P w) (wait_fifo_empty env i ep t w)"
proof (induction env\<equiv>env i\<equiv>i ep\<equiv>ep t w rule: wait_fifo_empty.induct)
  case (1 t w)
  show ?case
  proof (subst wait_fifo_empty.simps, rule on_return_bind [OF keep_irq [OF 1(2)]])
    fix w1 assume w1: "P w1"
    obtain b w2 where r: "read_bit env (USB i InHave) w1 = (b, w2)" by fastforce
    then have "P w2" using read_keep(2) [OF w1] by blast
    with 1(1) [OF r [symmetric]] show "on_return (\<lambda>(_, w). P w) (let (have, w) = read_bit env (USB i InHave) w1 in
        if \<not> have then Ret (True, w)
        else if t > 0 \<and> t > DEFAULT_TIMEOUT then
          rbind (clear_tx_ack_active i ep (write_bit env (USB i InReset) True w)) (\<lambda>w. Ret (False, w))
        else wait_fifo_empty env i ep (t + 1) w)"
      by (simp add: r)
  qed
qed

lemma wait_ack_keep [simp]: "P w \<Longrightarrow> on_return (\<lambda>(_, w). P w) (wait_tx_ack env i ep t w)"
proof (induction env\<equiv>env i\<equiv>i ep\<equiv>ep t w rule: wait_tx_ack.induct)
  case (1 t w)
  show ?case
  proof (subst wait_tx_ack.simps, rule on_return_bind [OF keep_irq [OF 1(2)]])
    fix w1 assume w1: "P w1"
    show "on_return (\<lambda>(_, w). P w) (rbind (is_tx_ack_active i ep w1) (\<lambda>active.
       if \<not> active then Ret (True, w1)
       else if t + 1 > DEFAULT_TIMEOUT then rbind (clear_tx_ack_active i ep w1) (\<lambda>w. Ret (False, w))
       else wait_tx_ack env i ep (t + 1) w1))"
      using w1 1(1) [OF _ _ w1] by (cases "is_tx_ack_active i ep w1") simp_all
  qed
qed

lemma prime_keep [simp]: "P w \<Longrightarrow> on_return P (prime_in env i ep w)"
  unfolding prime_in_def
  by (rule on_return_bind [OF flags_keep(1)], assumption, rule on_return_bind [OF keep_irq]) simp_all

lemma prime_then [simp]:
  "P w \<Longrightarrow> on_return (\<lambda>(_, w). P w) (rbind (prime_in env i ep w) (\<lambda>w. Ret (n, w)))"
  by (rule on_return_bind [OF prime_keep]) simp_all

lemma send_keep [simp]: "P w \<Longrightarrow> on_return (\<lambda>(_, _, w). P w) (send_loop env i ep ps bs n w)"
proof (induction bs arbitrary: n w)
  case (Cons b bs)
  let ?w = "write_field env 8 (USB i InData) b w"
  have w: "P ?w" using Cons.prems by simp
  have "on_return (\<lambda>(_, _, w). P w) (rbind (prime_in env i ep ?w) (\<lambda>w.
      rbind (wait_tx_ack env i ep 0 w) (\<lambda>(acked, w).
      if acked then send_loop env i ep ps bs (n + 1) w else Ret (False, n + 1, w))))"
    by (rule on_return_bind [OF prime_keep [OF w]], rule on_return_bind [OF wait_ack_keep])
      (auto intro: Cons.IH)
  then show ?case using Cons.IH [OF w] by (simp only: send_loop.simps Let_def) simp
qed simp

lemma write_packets_keep [simp]:
  assumes "P w"
  shows "on_return (\<lambda>(_, w). P w) (write_with_packet_size env i ep req bs ps w)"
proof -
  have last: "on_return (\<lambda>(_, w). P w) (if \<not> completed then Ret (n, w)
      else if ps = 0 then Panic
      else let is_partial_packet = n mod ps \<noteq> 0;
             is_requested_length = (case req of Some len \<Rightarrow> n = len | None \<Rightarrow> False);
             is_zlp = n = 0
         in if \<not> is_partial_packet \<and> is_requested_length \<and> \<not> is_zlp then Ret (n, w)
            else rbind (prime_in env i ep w) (\<lambda>w. Ret (n, w)))" if "P w" for completed n w
    using that by (simp add: Let_def)
  have loop: "on_return (\<lambda>(_, _, w). P w) (send_loop env i ep ps bs 0 w)" if "P w" for w
    using that by simp
  show ?thesis
    unfolding write_with_packet_size_def
    by (rule on_return_bind [OF flags_keep(1) [OF assms]], rule on_return_bind [OF wait_fifo_keep])
      (auto intro!: on_return_bind [OF loop] intro: last)
qed

lemma writes_keep [simp]:
  "P w \<Longrightarrow> on_return (\<lambda>(_, w). P w) (hal_write env i ep bs w)"
  "P w \<Longrightarrow> on_return (\<lambda>(_, w). P w) (write_requested env i ep len bs w)"
  by (simp_all add: hal_write_def write_requested_def)

lemma ack_keep [simp]: "P w \<Longrightarrow> on_return P (hal_ack env i ep d w)"
  by (auto simp: hal_ack_def split: direction.split intro: on_return_bind [OF writes_keep(1)])

lemma hal_read_keeps [simp]: "P w \<Longrightarrow> on_return (\<lambda>(_, _, w). P w) (hal_read env i ep buffer w)"
proof -
  assume w: "P w"
  have "out_reads_keep env i P" by (simp add: out_reads_keep_def keep_hw)
  from hal_read_keep [OF this w] show ?thesis
    by (cases "hal_read env i ep buffer w") auto
qed

end

text \<open>The others also do not depend on the speeds: everything keeps them.\<close>

locale world_invariant = driver_invariant env P
  for env :: "'h fw_env" and P :: "'h fw_world \<Rightarrow> bool" +
  assumes keep_speeds: "P w \<Longrightarrow> P (w\<lparr>device_speed := speeds\<rparr>)"
begin

lemma speed_keep [simp]: "P w \<Longrightarrow> P (set_speed i s w)"
  by (simp add: set_speed_def keep_speeds)

lemma connection [simp]: "P w \<Longrightarrow> P (hal_connect env i s w)" "P w \<Longrightarrow> P (hal_disconnect env i w)"
  by (simp_all add: hal_connect_def hal_disconnect_def Let_def split: speed.split)

section \<open>The control endpoint\<close>

abbreviation kept :: "'a \<times> 'b \<times> 'h fw_world \<Rightarrow> bool" where
  "kept \<equiv> \<lambda>(_, _, w). P w"

lemma descriptors_keep [simp]:
  "P w \<Longrightarrow> on_return (\<lambda>(_, w). P w) (descriptors_write (hal_driver env i) ds ep sp w)"
proof -
  assume w: "P w"
  have reply: "on_return (\<lambda>(_, w). P w) (rbind (write_requested env i ep len bs w) (\<lambda>(_, w). Ret (r, w)))"
    and ack: "on_return (\<lambda>(_, w). P w) (rbind (hal_write env i ep [] w) (\<lambda>(_, w). Ret (r, w)))"
    for len bs and r :: "setup_packet option"
    by (auto intro!: on_return_bind [OF writes_keep(1) [OF w]] on_return_bind [OF writes_keep(2) [OF w]])
  show ?thesis using w
    by (simp add: descriptors_write_def hal_driver_sel Let_def reply ack
        split: descriptor_type.split option.split)
qed

lemma status_keep [simp]: "P w \<Longrightarrow> on_return kept (status_zlp (hal_driver env i) c w)"
  unfolding status_zlp_def write_zlp_def hal_driver_sel
  by (auto simp: rbind_assoc intro!: on_return_bind [OF writes_keep(1)])

lemma sent_keep [simp]: "on_return (\<lambda>(_, w). P w) m \<Longrightarrow> on_return kept (sent c m)"
  by (cases m) (auto simp: sent_def)

lemma setup_keep [simp]: "P w \<Longrightarrow> on_return kept (control_setup (hal_driver env i) sp c w)"
proof -
  assume w: "P w"
  have arms: "on_return kept (setup_microsoft (hal_driver env i) sp c w)"
    "on_return kept (setup_clear_feature (hal_driver env i) sp c w)"
    "on_return kept (setup_set_feature (hal_driver env i) sp c w)"
    "on_return kept (setup_set_configuration (hal_driver env i) sp c w)"
    "on_return kept (setup_other (hal_driver env i) sp c w)"
    "on_return kept (setup_get_status (hal_driver env i) sp c w)" for c
    using w
    by (simp_all add: setup_microsoft_def setup_clear_feature_def setup_set_feature_def
        setup_set_configuration_def setup_other_def setup_get_status_def Let_def hal_driver_sel
        split: recipient.split feature.split option.split vendor_index.split)
  have "on_return kept (rbind (descriptors_write (hal_driver env i) ds ep sp w) (\<lambda>(r, w). Ret (r, c, w)))"
    for ds ep and c :: control by (auto intro: on_return_bind [OF descriptors_keep [OF w]])
  with w arms show ?thesis
    by (simp add: control_setup_def Let_def hal_driver_sel split: direction.split request_type.split
        request.split)
qed

lemma receive_keep [simp]: "P w \<Longrightarrow> on_return kept (control_receive (hal_driver env i) sp c w)"
  unfolding control_receive_def Let_def hal_driver_sel
  by (rule on_return_bind [OF hal_read_keeps]) auto

lemma receive_zlp_keep [simp]: "P w \<Longrightarrow> on_return kept (control_receive_zlp (hal_driver env i) c w)"
  unfolding control_receive_zlp_def read_zlp_def hal_driver_sel rbind_assoc
  by (rule on_return_bind [OF hal_read_keeps]) auto

lemma control_keep [simp]: "P w \<Longrightarrow> on_return kept (control_dispatch_event (hal_driver env i) e c w)"
  unfolding control_dispatch_event_def
  by (cases "(hal_driver env i, e, ctl_next c, c, w)" rule: control_event.cases)
    (simp_all add: hal_driver_sel)

section \<open>The class \<open>moondancer\<close>\<close>

lemma mim_keep: "P w \<Longrightarrow> wait_mim env m w = Some w' \<Longrightarrow> P w'"
proof -
  assume w: "P w" and run: "wait_mim env m w = Some w'"
  have "env = env \<longrightarrow> P w \<longrightarrow> P w'"
    using run
  proof (rule wait_mim.raw_induct [where P = "\<lambda>e m w w'. e = env \<longrightarrow> P w \<longrightarrow> P w'", rotated])
    fix loop e m w w'
    assume IH: "\<And>e m w w'. loop e m w = Some w' \<Longrightarrow> e = env \<longrightarrow> P w \<longrightarrow> P w'"
      and eq: "(let (v, w) = reg_read e (CSR Mim) w in if v = m then Some w else loop e m w) = Some w'"
    show "e = env \<longrightarrow> P w \<longrightarrow> P w'"
      using eq IH by (auto simp: reg_read_eq keep_hw split: if_splits)
  qed
  with w show "P w'" by simp
qed

lemma interrupts_keep [simp]:
  "P w \<Longrightarrow> on_return P (interrupt_enable env i w)" "P w \<Longrightarrow> on_return P (interrupt_disable env i w)"
  by (auto simp: interrupt_enable_def interrupt_disable_def set_mim_def reg_read_eq keep_hw
      intro: mim_keep [rotated])

lemma usb_interrupts_keep [simp]:
  "P w \<Longrightarrow> on_return P (enable_usb_interrupts env w)"
  "P w \<Longrightarrow> on_return P (disable_usb_interrupts env w)"
  unfolding enable_usb_interrupts_def disable_usb_interrupts_def Let_def
  by (intro on_return_bind [OF interrupts_keep(1)] on_return_bind [OF interrupts_keep(2)]; simp)+

lemma speed_then [simp]: "P w \<Longrightarrow> on_return kept (rbind (speed_from v) (\<lambda>_. Ret (r, m, w)))"
  by (cases "speed_from v") simp_all

lemma speed_read_keep [simp]:
  "P w \<Longrightarrow> on_return kept (rbind (env_irq env w) (\<lambda>w.
     case read_field env 2 (USB Usb0 SpeedReg) w of
       (bits, w) \<Rightarrow> rbind (speed_from (ucast bits)) (\<lambda>_. Ret (r, m, w))))"
  by (rule on_return_bind [OF keep_irq]) (simp_all add: read_field_eq keep_hw)

lemma connect_keep [simp]: "P w \<Longrightarrow> on_return kept (md_connect env args m w)"
  by (auto simp: md_connect_def Let_def split: option.split
      intro!: on_return_bind [OF usb_interrupts_keep(1)])

lemma disconnect_keep [simp]: "P w \<Longrightarrow> on_return kept (md_disconnect env args m w)"
  unfolding md_disconnect_def Let_def by (rule on_return_bind [OF usb_interrupts_keep(2)]) simp_all

lemma configure_keep [simp]: "P w \<Longrightarrow> on_return kept (md_configure_endpoints env args m w)"
  unfolding md_configure_endpoints_def
  by (induction env\<equiv>env args m w rule: md_configure_loop.induct) (simp_all add: Let_def)

lemma blocking_keep [simp]: "P w \<Longrightarrow> on_return (\<lambda>(_, w). P w) (md_wait_blocking env ep b w)"
proof -
  assume w: "P w"
  have "on_return (\<lambda>(_, w). P w) (rbind (is_tx_ack_active Usb0 ep w) (\<lambda>_. Ret (True, w)))"
    if "P w" for w using that by (cases "is_tx_ack_active Usb0 ep w") simp_all
  with w show ?thesis by (simp add: md_wait_blocking_def on_return_bind [OF keep_irq])
qed

lemma blocking_then [simp]:
  "P w \<Longrightarrow> on_return kept (rbind (md_wait_blocking env ep b w) (\<lambda>(acked, w). Ret (f acked, m, w)))"
  by (rule on_return_bind [OF blocking_keep]) auto

lemma write_control_keep [simp]: "P w \<Longrightarrow> on_return kept (md_write_control_endpoint env args m w)"
  by (cases "(env, args, m, w)" rule: md_write_control_endpoint.cases)
    (auto simp: Let_def intro!: on_return_bind [OF writes_keep(2)])

lemma prime_blocking_then [simp]:
  "P w \<Longrightarrow> on_return kept (rbind (prime_in env Usb0 ep w) (\<lambda>w.
     rbind (md_wait_blocking env ep b w) (\<lambda>(acked, w). Ret (f acked, m, w))))"
  by (rule on_return_bind [OF prime_keep]) simp_all

lemma payload_then [simp]:
  "P w \<Longrightarrow> on_return kept (rbind (send_loop env Usb0 ep n payload 0 w) (\<lambda>(completed, k, w).
     if \<not> completed then Ret (r, m, w)
     else rbind (if k \<noteq> n then prime_in env Usb0 ep w else Ret w) (\<lambda>w.
       rbind (md_wait_blocking env ep b w) (\<lambda>(acked, w). Ret (f acked, m, w)))))"
  by (rule on_return_bind [OF send_keep]) auto

lemma fifo_then [simp]:
  "P w \<Longrightarrow> on_return kept (rbind (wait_fifo_empty env Usb0 ep 0 w) (\<lambda>(empty, w).
     if \<not> empty then Ret (r, m, w)
     else rbind (send_loop env Usb0 ep n payload 0 w) (\<lambda>(completed, k, w).
       if \<not> completed then Ret (r, m, w)
       else rbind (if k \<noteq> n then prime_in env Usb0 ep w else Ret w) (\<lambda>w.
         rbind (md_wait_blocking env ep b w) (\<lambda>(acked, w). Ret (f acked, m, w))))))"
  by (rule on_return_bind [OF wait_fifo_keep]) (auto intro: payload_then [simplified])

lemma write_endpoint_keep [simp]: "P w \<Longrightarrow> on_return kept (md_write_endpoint env args m w)"
  by (cases "(env, args, m, w)" rule: md_write_endpoint.cases)
    (auto simp: Let_def intro!: on_return_bind [OF flags_keep(1)] fifo_then [simplified])

lemma set_address_keep [simp]: "P w \<Longrightarrow> on_return kept (md_set_address env args m w)"
  by (auto simp: md_set_address_def split: option.split intro!: on_return_bind [OF ack_keep])

lemma small_verbs_keep [simp]:
  "P w \<Longrightarrow> on_return kept (md_bus_reset env args m w)"
  "P w \<Longrightarrow> on_return kept (md_read_control env args m w)"
  "P w \<Longrightarrow> on_return kept (md_stall_endpoint_in env args m w)"
  "P w \<Longrightarrow> on_return kept (md_stall_endpoint_out env args m w)"
  "P w \<Longrightarrow> on_return kept (md_clear_feature_endpoint_halt env args m w)"
  "P w \<Longrightarrow> on_return kept (md_read_endpoint env args m w)"
  "P w \<Longrightarrow> on_return kept (md_test_read_endpoint env args m w)"
  "P w \<Longrightarrow> on_return kept (md_ep_out_prime_receive env args m w)"
  "P w \<Longrightarrow> on_return kept (md_ep_out_interface_enable env args m w)"
  "P w \<Longrightarrow> on_return kept (md_test_write_endpoint env args m w)"
  "P w \<Longrightarrow> on_return kept (md_get_interrupt_events env args m w)"
  "P w \<Longrightarrow> on_return kept (md_test_get_interrupt_events env args m w)"
  "P w \<Longrightarrow> on_return kept (md_get_nak_status env args m w)"
  by (auto simp: md_bus_reset_def md_read_control_def md_stall_endpoint_in_def md_stall_endpoint_out_def
      md_clear_feature_endpoint_halt_def md_read_endpoint_def md_test_read_endpoint_def
      md_ep_out_prime_receive_def md_ep_out_interface_enable_def md_get_interrupt_events_def
      md_test_get_interrupt_events_def md_get_nak_status_def Let_def reg_read_eq read_bit_eq keep_hw
      split: option.split prod.split list.split intro: md_test_write_endpoint.cases [of "(env, args, m, w)"])

lemma respond_keep [simp]: "on_return kept m \<Longrightarrow> on_return kept (md_respond m buffer)"
  unfolding md_respond_def by (cases m) auto

lemma verbs_keep [simp]: "P w \<Longrightarrow> on_return kept (md_dispatch env v args buffer (m, w))"
  unfolding md_dispatch_def Let_def by simp

lemma target_event_keep [simp]: "P w \<Longrightarrow> on_return (\<lambda>(_, w). P w) (md_dispatch_event env e m w)"
  by (auto simp: md_dispatch_event_def Let_def split: usb_event.split option.split
      intro!: on_return_bind [OF ack_keep] on_return_bind [OF hal_read_keeps])

section \<open>The firmware\<close>

lemma class_keep [simp]: "P w \<Longrightarrow> on_return kept (fw_class_dispatch env cid v args fw w)"
proof -
  assume w: "P w"
  have "on_return kept (rbind (st_dispatch v args response_buffer) (\<lambda>r. Ret (r, fw, w)))"
    using w by (cases "st_dispatch v args response_buffer") simp_all
  moreover have "on_return kept (rbind (md_dispatch env v args response_buffer (fw_moondancer fw, w))
      (\<lambda>(r, m, w). Ret (r, fw\<lparr>fw_moondancer := m\<rparr>, w)))"
    by (rule on_return_bind [OF verbs_keep [OF w]]) auto
  ultimately show ?thesis
    using w by (simp add: fw_class_dispatch_def split: class_id.split)
qed

lemma request_keep [simp]: "P w \<Longrightarrow> on_return (\<lambda>(_, w). P w) (dispatch_libgreat_request env fw w)"
proof -
  assume w: "P w"
  have "on_return (\<lambda>(_, w). P w) (rbind (fw_class_dispatch env cid v args fw w) (\<lambda>(response, fw, w).
      case response of
        Inr response \<Rightarrow> Ret (fw\<lparr>fw_libgreat_response := Some response,
            fw_libgreat_response_last_error := None\<rparr>, w)
      | Inl e \<Rightarrow> Ret (fw\<lparr>fw_libgreat_response := None, fw_libgreat_response_last_error := Some e\<rparr>,
            stall_endpoint_in env Usb2 0 w)))" for cid v args
    by (rule on_return_bind [OF class_keep [OF w]]) (auto split: sum.split)
  with w show ?thesis
    by (cases "control_data (fw_usb2_control fw)")
      (simp_all add: dispatch_libgreat_request_def split: option.split)
qed

lemma vendor_keep [simp]: "P w \<Longrightarrow> on_return (\<lambda>(_, w). P w) (handle_vendor_request env sp fw w)"
proof -
  assume w: "P w"
  have "on_return (\<lambda>(_, w). P w) (dispatch_libgreat_response env sp fw w)"
    "on_return (\<lambda>(_, w). P w) (dispatch_libgreat_abort env sp fw w)"
    "on_return (\<lambda>(_, w). P w) (rbind (hal_write env Usb2 0 [] w)
       (\<lambda>(_, w). Ret (fw, write_bit env ADVERTISER False w)))"
    using w
    by (auto simp: dispatch_libgreat_response_def dispatch_libgreat_abort_def Let_def split: option.split
        intro!: on_return_bind [OF writes_keep(1)] on_return_bind [OF writes_keep(2)])
  with w show ?thesis
    by (simp add: handle_vendor_request_def Let_def stall_direction_def
        split: vendor_request.split vendor_value.split direction.split)
qed

lemma control_event_keep [simp]: "P w \<Longrightarrow> on_return (\<lambda>(_, w). P w) (fw_control_event env e fw w)"
  unfolding fw_control_event_def
  by (rule on_return_bind [OF control_keep]) (auto simp: Let_def split: option.split)

lemma event_keep [simp]: "P w \<Longrightarrow> on_return (\<lambda>(_, w). P w) (fw_handle_event env e fw w)"
  by (auto simp: fw_handle_event_def split: interrupt_event.split usb_interface.split
      intro!: on_return_bind [OF target_event_keep])

lemma loop_keep [simp]: "P w \<Longrightarrow> on_return kept (loop_event env e l fw w)"
  unfolding loop_event_def Let_def by (rule on_return_bind [OF event_keep]) auto

lemma idle_keep: "P w \<Longrightarrow> loop_idle env l w = (l', w') \<Longrightarrow> P w'"
  by (auto simp: loop_idle_def Let_def)

end

section \<open>The event queue\<close>

lemma isr_arms_queue:
  "isr_bus_reset env i f w = Ret (e, w') \<Longrightarrow> irq_ext w' = irq_ext w \<and> device_speed w' = device_speed w"
  "isr_ep_control env i f m w = Ret (e, w') \<Longrightarrow> irq_ext w' = irq_ext w \<and> device_speed w' = device_speed w"
  "isr_ep_in env i f w = Ret (e, w') \<Longrightarrow> irq_ext w' = irq_ext w \<and> device_speed w' = device_speed w"
  "isr_ep_out env i f w = Ret (e, w') \<Longrightarrow> irq_ext w' = irq_ext w \<and> device_speed w' = device_speed w"
  by (auto simp: isr_bus_reset_def isr_ep_control_def isr_ep_in_def isr_ep_out_def Let_def rust_simps
      same_memory_def split: prod.splits option.splits if_splits
      dest!: hal_bus_reset_frame clear_tx_ack_active_frame read_control_memory reg_read_frame)

lemma isr_queue: "get_usb_interrupt_event env w = Ret (e, w') \<Longrightarrow> irq_ext w' = irq_ext w \<and> device_speed w' = device_speed w"
proof -
  obtain r w1 where r: "interrupt_pending env w = (r, w1)" by fastforce
  then have "irq_ext w1 = irq_ext w \<and> device_speed w1 = device_speed w"
    by (auto simp: interrupt_pending_def split: prod.splits if_splits option.splits dest: reg_read_frame)
  then show "get_usb_interrupt_event env w = Ret (e, w') \<Longrightarrow> irq_ext w' = irq_ext w \<and> device_speed w' = device_speed w"
    by (auto simp: get_usb_interrupt_event_def r split: sum.splits interrupt.splits dest: isr_arms_queue)
qed

lemma MachineExternal_queue:
  "MachineExternal env w = Ret w' \<Longrightarrow> length (irq_ext w) < 64 \<and> (\<exists>e. irq_ext w' = irq_ext w @ [e])"
  by (auto simp: MachineExternal_def dispatch_interrupt_event_def enqueue_def EVENT_QUEUE_SIZE_def
      rust_simps Let_def split: option.splits if_splits dest!: isr_queue)

text \<open>
  On any hardware and whenever interrupts are taken, the queue behind its present contents only grows
  and stays within its size.
\<close>

definition queue_from :: "event_queue \<Rightarrow> 'h fw_world \<Rightarrow> bool" where
  "queue_from q w \<longleftrightarrow> length (irq_ext w) \<le> 64 \<and> (\<exists>new. irq_ext w = q @ new)"

interpretation queue_grows: world_invariant "with_isr env take_irq" "queue_from q" for env take_irq q
proof
  fix w :: "'a fw_world" assume q: "queue_from q w"
  have "queue_from q w'" if "MachineExternal env w = Ret w'" for w'
    using MachineExternal_queue [OF that] q by (auto simp: queue_from_def)
  then show "on_return (queue_from q) (env_irq (with_isr env take_irq) w)"
    using q by (auto simp: with_isr_def on_return_iff)
qed (simp_all add: queue_from_def)

text \<open>The handler leaves the speeds alone, so every operation of the driver but connecting does.\<close>

interpretation speeds_stay: driver_invariant "with_isr env take_irq" "\<lambda>w. device_speed w = speeds"
  for env take_irq speeds
proof
  fix w :: "'a fw_world" assume s: "device_speed w = speeds"
  have "device_speed w' = speeds" if "MachineExternal env w = Ret w'" for w'
    using that s
    by (auto simp: MachineExternal_def dispatch_interrupt_event_def rust_simps Let_def
        split: option.splits dest!: isr_queue)
  then show "on_return (\<lambda>w. device_speed w = speeds) (env_irq (with_isr env take_irq) w)"
    using s by (auto simp: with_isr_def on_return_iff)
qed simp_all

section \<open>Runs of the main loop\<close>

text \<open>The steps of the main loop, with the list of the events that it handled.\<close>

inductive main_run ::
  "'h fw_env \<Rightarrow> interrupt_event list \<Rightarrow> loop_state \<times> firmware \<times> 'h fw_world \<Rightarrow>
     loop_state \<times> firmware \<times> 'h fw_world \<Rightarrow> bool" for env where
  run_start: "main_run env [] s s"
| run_irq: "main_run env es s (l, fw, w) \<Longrightarrow> env_irq env w = Ret w' \<Longrightarrow> main_run env es s (l, fw, w')"
| run_event: "main_run env es s (l, fw, w) \<Longrightarrow> dequeue (irq_ext w) = Some (e, q) \<Longrightarrow>
     loop_event env e l fw (w\<lparr>irq_ext := q\<rparr>) = Ret s' \<Longrightarrow> main_run env (es @ [e]) s s'"
| run_idle: "main_run env es s (l, fw, w) \<Longrightarrow> dequeue (irq_ext w) = None \<Longrightarrow>
     loop_idle env l w = (l', w') \<Longrightarrow> main_run env es s (l', fw, w')"

lemma main_run_steps: "main_run env es s s' \<Longrightarrow> (main_step env)\<^sup>*\<^sup>* s s'"
proof (induction rule: main_run.induct)
  case (run_event es s l fw w e q s')
  then show ?case
    by (cases s') (auto intro: rtranclp.rtrancl_into_rtrancl step_event)
qed (auto intro: rtranclp.rtrancl_into_rtrancl step_irq step_idle)

lemma main_steps_run: "(main_step env)\<^sup>*\<^sup>* s s' \<Longrightarrow> \<exists>es. main_run env es s s'"
proof (induction rule: rtranclp_induct)
  case base
  show ?case using run_start by blast
next
  case (step s1 s2)
  then obtain es where "main_run env es s s1" by blast
  with step(2) show ?case by (auto elim!: main_step.cases intro: main_run.intros)
qed

lemma main_steps_reachable: "(main_step env)\<^sup>*\<^sup>* s s' \<Longrightarrow> main_reachable env s \<Longrightarrow> main_reachable env s'"
  by (induction rule: rtranclp_induct) (blast intro: main_next)+

lemma main_run_reachable: "main_run env es s s' \<Longrightarrow> main_reachable env s \<Longrightarrow> main_reachable env s'"
  using main_run_steps main_steps_reachable by blast

text \<open>The events are handled in the order in which they arrived, and none is lost.\<close>

lemma main_run_order:
  assumes "main_run (with_isr env take_irq) es (l, fw, w) (l', fw', w')" and "length (irq_ext w) \<le> 64"
  shows "\<exists>new. irq_ext w @ new = es @ irq_ext w' \<and> length (irq_ext w') \<le> 64"
  using assms
proof (induction es "(l, fw, w)" "(l', fw', w')" arbitrary: l' fw' w' rule: main_run.induct)
  case (run_irq es l1 fw1 w1 w2)
  then obtain new where "irq_ext w @ new = es @ irq_ext w1" "queue_from (irq_ext w1) w1"
    by (auto simp: queue_from_def)
  moreover from this(2) have "queue_from (irq_ext w1) w2"
    using queue_grows.keep_irq [of "irq_ext w1" w1 env take_irq] run_irq(3) by simp
  ultimately show ?case by (auto simp: queue_from_def) (metis append_assoc)
next
  case (run_event es l1 fw1 w1 e q)
  then obtain new where new: "irq_ext w @ new = es @ irq_ext w1" "length (irq_ext w1) \<le> 64" by blast
  have q: "irq_ext w1 = e # q" using run_event(3) by (cases "irq_ext w1") auto
  have "queue_from q (w1\<lparr>irq_ext := q\<rparr>)" using new(2) q by (simp add: queue_from_def)
  from queue_grows.loop_keep [OF this, of env take_irq e l1 fw1] run_event(4)
  have "queue_from q w'" by simp
  then obtain more where more: "irq_ext w' = q @ more" "length (irq_ext w') \<le> 64"
    by (auto simp: queue_from_def)
  have "(irq_ext w @ new) @ more = (es @ [e]) @ irq_ext w'" unfolding new(1) q more(1) by simp
  with more(2) show ?case by (metis append_assoc)
next
  case (run_idle es l1 fw1 w1)
  then obtain new where new: "irq_ext w @ new = es @ irq_ext w1" "queue_from (irq_ext w1) w1"
    by (auto simp: queue_from_def)
  from queue_grows.idle_keep [OF new(2) run_idle(4)] new(1) show ?case
    by (auto simp: queue_from_def) (metis append_assoc)
qed auto

end
