(* ===== verification/ExampleHal.thy ===== *)
theory ExampleHal
  imports ExampleSerial FirmwareEvents
begin

text \<open>
  \<open>moondancer/examples/usb_hal.rs\<close>: a test device on the target port. A vendor request asks it to take or
  send data on the control endpoint or on the bulk endpoints 0x01 and 0x81; the data it sends are the
  bytes 0, 1, 2, and so on. Like \<open>acm_serial.rs\<close> it leaves out the field \<open>microsoft10\<close>. Logging is left out.
\<close>

section \<open>Configuration\<close>

definition hal_DEVICE_SPEED :: speed where
  "hal_DEVICE_SPEED = SpeedHigh"

definition hal_VENDOR_REQUEST :: u8 where
  "hal_VENDOR_REQUEST = 0x65"

definition hal_VENDOR_CONTROL_OUT :: u16 where
  "hal_VENDOR_CONTROL_OUT = 0x0001"

definition hal_VENDOR_CONTROL_IN :: u16 where
  "hal_VENDOR_CONTROL_IN = 0x0002"

definition hal_VENDOR_BULK_OUT :: u16 where
  "hal_VENDOR_BULK_OUT = 0x0003"

definition hal_VENDOR_BULK_IN :: u16 where
  "hal_VENDOR_BULK_IN = 0x0004"

definition ENDPOINT_BULK_OUT :: u8 where
  "ENDPOINT_BULK_OUT = 0x01"

definition ENDPOINT_BULK_IN :: u8 where
  "ENDPOINT_BULK_IN = 0x81"

definition MAX_TRANSFER_SIZE :: nat where
  "MAX_TRANSFER_SIZE = EP_MAX_PACKET_SIZE * 4"

section \<open>Interrupts\<close>

definition hal_dispatch_event :: "interrupt_event \<Rightarrow> 'h fw_world \<Rightarrow> 'h fw_world rust" where
  "hal_dispatch_event event w =
     (case enqueue 64 event (irq_ext w) of Some q \<Rightarrow> Ret (w\<lparr>irq_ext := q\<rparr>) | None \<Rightarrow> Panic)"

text \<open>The arm for a SETUP packet does not look at the number of bytes it has read.\<close>

definition target_ep_control ::
  "'h fw_env \<Rightarrow> 'h fw_world \<Rightarrow> (interrupt_event \<times> 'h fw_world) rust" where
  "target_ep_control env w =
     (let w = clear_pending env (USB Usb0 CtlEvPending) w;
          (bits, w) = reg_read env (USB Usb0 CtlEpno) w;
          endpoint = ucast bits
      in
      rbind (read_control env Usb0 (replicate 8 0) w) (\<lambda>(_, buffer, w).
      case setup_from buffer of
        None \<Rightarrow> Undef
      | Some setup_packet \<Rightarrow> Ret (UsbEv Target (ReceiveSetupPacket endpoint setup_packet), w)))"

definition target_interrupt_event ::
  "'h fw_env \<Rightarrow> 'h fw_world \<Rightarrow> (interrupt_event \<times> 'h fw_world) rust" where
  "target_interrupt_event env w =
     (let (r, w) = interrupt_pending env w in
      case r of
        Inl pending \<Rightarrow> Ret (UnknownInterrupt pending, w)
      | Inr pending \<Rightarrow>
          (case pending of
             USB0 \<Rightarrow> isr_bus_reset env Usb0 Target w
           | USB0_EP_CONTROL \<Rightarrow> target_ep_control env w
           | USB0_EP_IN \<Rightarrow> isr_ep_in env Usb0 Target w
           | USB0_EP_OUT \<Rightarrow> isr_ep_out env Usb0 Target w
           | _ \<Rightarrow> Ret (UnhandledInterrupt pending, w)))"

definition hal_MachineExternal :: "'h fw_env \<Rightarrow> 'h fw_world \<Rightarrow> 'h fw_world rust" where
  "hal_MachineExternal env w =
     rbind (target_interrupt_event env w) (\<lambda>(event, w). hal_dispatch_event event w)"

section \<open>Descriptors\<close>

definition hal_DESCRIPTOR_MAX_PACKET_SIZE :: u16 where
  "hal_DESCRIPTOR_MAX_PACKET_SIZE = (if hal_DEVICE_SPEED = SpeedHigh then 512 else 64)"

definition hal_OTHER_DESCRIPTOR_MAX_PACKET_SIZE :: u16 where
  "hal_OTHER_DESCRIPTOR_MAX_PACKET_SIZE = (if hal_DEVICE_SPEED = SpeedHigh then 64 else 512)"

definition bVendorId_example :: u16 where
  "bVendorId_example = 0x1209"

definition bProductId_example :: u16 where
  "bProductId_example = 0x0001"

definition bManufacturerString_example :: rust_str where
  "bManufacturerString_example = str_lit ''https://pid.codes/1209/''"

definition bProductString_example :: rust_str where
  "bProductString_example = str_lit ''pid.codes Test PID 1''"

definition hal_DEVICE_DESCRIPTOR :: device_descriptor where
  "hal_DEVICE_DESCRIPTOR = device_descriptor_new
     \<lparr>dd_bcdUSB := 0x0200, dd_bDeviceClass := 0x00, dd_bDeviceSubClass := 0x00,
      dd_bDeviceProtocol := 0x00, dd_bMaxPacketSize := 64, dd_idVendor := bVendorId_example,
      dd_idProduct := bProductId_example, dd_iManufacturer := 1, dd_iProduct := 2,
      dd_iSerialNumber := 3, dd_bNumConfigurations := 1\<rparr>"

definition hal_DEVICE_QUALIFIER_DESCRIPTOR :: device_qualifier_descriptor where
  "hal_DEVICE_QUALIFIER_DESCRIPTOR = device_qualifier_new
     \<lparr>dq_bcdUSB := 0x0200, dq_bDeviceClass := 0x00, dq_bDeviceSubClass := 0x00,
      dq_bDeviceProtocol := 0x00, dq_bMaxPacketSize0 := 64, dq_bNumConfigurations := 1\<rparr>"

definition hal_CONFIGURATION_DESCRIPTOR_0 :: configuration_descriptor where
  "hal_CONFIGURATION_DESCRIPTOR_0 = configuration_new
     (configuration_header_new
        \<lparr>cfg_bConfigurationValue := 1, cfg_iConfiguration := 4, cfg_bmAttributes := 0x80,
         cfg_bMaxPower := 50\<rparr>)
     [interface_new
       (interface_header_new
        \<lparr>ifd_iInterfaceNumber := 0, ifd_bAlternateSetting := 0, ifd_bInterfaceClass := 0x00,
         ifd_bInterfaceSubClass := 0x00, ifd_bInterfaceProtocol := 0x00, ifd_iInterface := 5\<rparr>)
       [endpoint_descriptor_new
         \<lparr>epd_bEndpointAddress := ENDPOINT_BULK_OUT, epd_bmAttributes := 0x02,
          epd_wMaxPacketSize := hal_DESCRIPTOR_MAX_PACKET_SIZE, epd_bInterval := 0\<rparr>,
        endpoint_descriptor_new
         \<lparr>epd_bEndpointAddress := ENDPOINT_BULK_IN, epd_bmAttributes := 0x02,
          epd_wMaxPacketSize := hal_DESCRIPTOR_MAX_PACKET_SIZE, epd_bInterval := 0\<rparr>]]"

definition hal_OTHER_SPEED_CONFIGURATION_DESCRIPTOR_0 :: configuration_descriptor where
  "hal_OTHER_SPEED_CONFIGURATION_DESCRIPTOR_0 = configuration_new
     (configuration_header_new
        \<lparr>cfg_bDescriptorType := descriptor_type_code DtOtherSpeedConfiguration,
         cfg_bConfigurationValue := 1, cfg_iConfiguration := 6, cfg_bmAttributes := 0x80,
         cfg_bMaxPower := 50\<rparr>)
     [interface_new
       (interface_header_new
        \<lparr>ifd_iInterfaceNumber := 0, ifd_bAlternateSetting := 0, ifd_bInterfaceClass := 0x00,
         ifd_bInterfaceSubClass := 0x00, ifd_bInterfaceProtocol := 0x00, ifd_iInterface := 7\<rparr>)
       [endpoint_descriptor_new
         \<lparr>epd_bEndpointAddress := ENDPOINT_BULK_OUT, epd_bmAttributes := 0x02,
          epd_wMaxPacketSize := hal_OTHER_DESCRIPTOR_MAX_PACKET_SIZE, epd_bInterval := 0\<rparr>,
        endpoint_descriptor_new
         \<lparr>epd_bEndpointAddress := ENDPOINT_BULK_IN, epd_bmAttributes := 0x02,
          epd_wMaxPacketSize := hal_OTHER_DESCRIPTOR_MAX_PACKET_SIZE, epd_bInterval := 0\<rparr>]]"

definition hal_STRING_DESCRIPTOR_0 :: string_descriptor_zero where
  "hal_STRING_DESCRIPTOR_0 = string_zero_new [EnglishUnitedStates]"

definition hal_STRINGS :: "rust_str list" where
  "hal_STRINGS =
     [bManufacturerString_example, bProductString_example, str_lit ''0000000000000000'',
      str_lit ''config 1'', str_lit ''interface 0'', str_lit ''other config 1'',
      str_lit ''other interface 0'']"

definition hal_STRING_DESCRIPTORS :: "string_descriptor list" where
  "hal_STRING_DESCRIPTORS = map string_descriptor_new hal_STRINGS"

section \<open>Start\<close>

definition hal_descriptors :: "ms_descriptors option \<Rightarrow> descriptors" where
  "hal_descriptors microsoft10 =
     \<lparr>ds_device_speed = hal_DEVICE_SPEED,
      ds_device_descriptor = hal_DEVICE_DESCRIPTOR,
      ds_configuration_descriptor = hal_CONFIGURATION_DESCRIPTOR_0,
      ds_string_descriptor_zero = hal_STRING_DESCRIPTOR_0,
      ds_string_descriptors = hal_STRING_DESCRIPTORS,
      ds_device_qualifier_descriptor = Some hal_DEVICE_QUALIFIER_DESCRIPTOR,
      ds_other_speed_configuration_descriptor = Some hal_OTHER_SPEED_CONFIGURATION_DESCRIPTOR_0,
      ds_microsoft10 = microsoft10\<rparr>"

definition hal_main ::
  "'h fw_env \<Rightarrow> ms_descriptors option \<Rightarrow> 'h fw_world \<Rightarrow> (control \<times> 'h fw_world) rust" where
  "hal_main env microsoft10 w =
     (let control = control_new MAX_TRANSFER_SIZE 0 (hal_descriptors microsoft10);
          w = hal_connect env Usb0 hal_DEVICE_SPEED w
      in
      rbind (interrupt_enable env USB0 w) (\<lambda>w.
      rbind (interrupt_enable env USB0_EP_CONTROL w) (\<lambda>w.
      rbind (interrupt_enable env USB0_EP_IN w) (\<lambda>w.
      rbind (interrupt_enable env USB0_EP_OUT w) (\<lambda>w.
      Ret (control, enable_events env Usb0 w))))))"

section \<open>Vendor requests\<close>

text \<open>\<open>core::array::from_fn(|x| x as u8)\<close>\<close>

definition test_data :: bytes where
  "test_data = map of_nat [0..<MAX_TRANSFER_SIZE]"

text \<open>\<open>while usb.is_tx_ack_active(0)\<close>, with the timeout of five million polls: \<open>False\<close> when it is over.\<close>

function wait_control_ack :: "'h fw_env \<Rightarrow> nat \<Rightarrow> 'h fw_world \<Rightarrow> (bool \<times> 'h fw_world) rust" where
  "wait_control_ack env timeout w =
     rbind (env_irq env w) (\<lambda>w.
     rbind (is_tx_ack_active Usb0 0 w) (\<lambda>active.
     if \<not> active then Ret (True, w)
     else if timeout + 1 > 5000000 then Ret (False, w)
     else wait_control_ack env (timeout + 1) w))"
  by pat_completeness auto
termination
  by (relation "measure (\<lambda>(env, timeout, w). 5000000 - timeout)") auto

declare wait_control_ack.simps [simp del]

definition hal_vendor_request ::
  "'h fw_env \<Rightarrow> setup_packet \<Rightarrow> bytes \<Rightarrow> 'h fw_world \<Rightarrow> 'h fw_world rust" where
  "hal_vendor_request env sp rx_buffer w =
     (let vendor_request = sp_request sp;
          vendor_value = sp_value sp;
          payload_length = unat (sp_index sp)
      in
      if vendor_request = hal_VENDOR_REQUEST \<and> vendor_value = hal_VENDOR_CONTROL_OUT then Ret w
      else if vendor_request = hal_VENDOR_REQUEST \<and> vendor_value = hal_VENDOR_CONTROL_IN then
        rbind (hal_write env Usb0 0 (take payload_length test_data) w) (\<lambda>(bytes_written, w).
        hal_ack env Usb0 0 DeviceToHost w)
      else if vendor_request = hal_VENDOR_REQUEST \<and> vendor_value = hal_VENDOR_BULK_OUT then
        hal_ack env Usb0 0 HostToDevice (ep_out_prime_receive env Usb0 ENDPOINT_BULK_OUT w)
      else if vendor_request = hal_VENDOR_REQUEST \<and> vendor_value = hal_VENDOR_BULK_IN then
        let endpoint_number = ENDPOINT_BULK_IN AND 0x7f in
        rbind (set_tx_ack_active Usb0 0 w) (\<lambda>w.
        rbind (hal_ack env Usb0 0 HostToDevice w) (\<lambda>w.
        rbind (wait_control_ack env 0 w) (\<lambda>(acked, w).
        if \<not> acked then Ret w
        else rbind (hal_write env Usb0 endpoint_number (take payload_length test_data) w)
          (\<lambda>(bytes_written, w). Ret w))))
      else Ret w)"

section \<open>The main loop\<close>

fun hal_control_event :: "usb_event \<Rightarrow> bool" where
  "hal_control_event BusReset = True"
| "hal_control_event (ReceiveSetupPacket ep _) = (ep = 0)"
| "hal_control_event (ReceivePacket ep) = (ep = 0)"
| "hal_control_event (SendComplete ep) = (ep = 0)"
| "hal_control_event (ReceiveControl _) = False"

definition hal_event ::
  "'h fw_env \<Rightarrow> interrupt_event \<Rightarrow> control \<Rightarrow> 'h fw_world \<Rightarrow> (control \<times> 'h fw_world) rust" where
  "hal_event env event c w =
     (case event of
        UsbEv Target event \<Rightarrow>
          if hal_control_event event then
            rbind (control_dispatch_event (hal_driver env Usb0) event c w) (\<lambda>(r, c, w).
            case r of
              None \<Rightarrow> Ret (c, w)
            | Some setup_packet \<Rightarrow>
                rbind (control_data c) (\<lambda>rx_buffer.
                rbind (hal_vendor_request env setup_packet rx_buffer w) (\<lambda>w. Ret (c, w))))
          else if event = ReceivePacket ENDPOINT_BULK_OUT then
            rbind (hal_read env Usb0 ENDPOINT_BULK_OUT (replicate EP_MAX_PACKET_SIZE 0) w)
              (\<lambda>(bytes_read, rx_buffer, w). Ret (c, w))
          else Ret (c, w)
      | _ \<Rightarrow> Ret (c, w))"

section \<open>Lemmas\<close>

lemmas hal_requests =
  hal_VENDOR_REQUEST_def hal_VENDOR_CONTROL_OUT_def hal_VENDOR_CONTROL_IN_def hal_VENDOR_BULK_OUT_def
  hal_VENDOR_BULK_IN_def ENDPOINT_BULK_OUT_def ENDPOINT_BULK_IN_def

lemma length_test_data [simp]: "length test_data = 2048"
  by (simp add: test_data_def MAX_TRANSFER_SIZE_def EP_MAX_PACKET_SIZE_def)

lemma test_data_nth: "k < 2048 \<Longrightarrow> unat (test_data ! k) = k mod 256"
  by (simp add: test_data_def MAX_TRANSFER_SIZE_def EP_MAX_PACKET_SIZE_def unat_of_nat)

text \<open>A host that acknowledges in the time of the driver does so in the longer time of the example.\<close>

lemma wait_control_ack_patient:
  "wait_tx_ack env Usb0 0 k w = Ret (True, w') \<Longrightarrow> wait_control_ack env k w = Ret (True, w')"
proof (induction env "Usb0" "0 :: u8" k w rule: wait_tx_ack.induct)
  case (1 env k w)
  from 1(2) obtain w1 active where w1: "env_irq env w = Ret w1" "is_tx_ack_active Usb0 0 w1 = Ret active"
    by (subst (asm) wait_tx_ack.simps) (auto simp: rust_simps)
  show ?case
  proof (cases active)
    case True
    have "\<not> k + 1 > DEFAULT_TIMEOUT"
      using 1(2) w1 True by (subst (asm) wait_tx_ack.simps) (auto simp: rust_simps split: if_splits)
    moreover from this have "\<not> k + 1 > 5000000" by (simp add: DEFAULT_TIMEOUT_def)
    moreover have "wait_tx_ack env Usb0 0 (k + 1) w1 = Ret (True, w')"
      using 1(2) w1 True calculation(1) by (subst (asm) wait_tx_ack.simps) simp
    ultimately show ?thesis using 1(1) w1 True by (subst wait_control_ack.simps) simp
  next
    case False
    then show ?thesis using 1(2) w1
      by (subst (asm) wait_tx_ack.simps, subst wait_control_ack.simps) simp
  qed
qed

lemma hal_write_packets:
  assumes "logs_writes env log" and "patient_host env i ep log" and "unat ep < 16" and "acks_ok w"
  shows "\<exists>w'. hal_write env i ep bs w = Ret (length bs, w') \<and> acks_ok w' \<and> log (hw w') = log (hw w) @
    concat (map (packet_writes i ep) (in_packets (max_packet_size (device_speed w i) ep) None bs))"
  using write_refines_packets [OF assms(1-3) max_packet_size_pos assms(4)] by (simp add: hal_write_def)

text \<open>The data that was asked for is on the bus, up to 2048 bytes.\<close>

lemma hal_control_in_packets:
  assumes "logs_writes env log" and "patient_host env Usb0 0 log" and "acks_ok w"
    and "sp_request sp = 0x65" and "sp_value sp = 2"
  shows "\<exists>w1. hal_vendor_request env sp rx w = Ret (ep_out_prime_receive env Usb0 0 w1) \<and> acks_ok w1 \<and>
    log (hw w1) = log (hw w) @ concat (map (packet_writes Usb0 0)
      (in_packets 64 None (take (unat (sp_index sp)) test_data)))"
  using hal_write_packets [OF assms(1,2) _ assms(3), of "take (unat (sp_index sp)) test_data"] assms(4,5)
  by (auto simp: hal_vendor_request_def hal_requests hal_ack_def max_packet_size_def)

lemma hal_bulk_in_packets:
  assumes "logs_writes env log" and "patient_host env Usb0 0 log" and "patient_host env Usb0 1 log"
    and "acks_ok w" and "driver_invariant env (\<lambda>w. device_speed w Usb0 = SpeedHigh)"
    and "device_speed w Usb0 = SpeedHigh" and "sp_request sp = 0x65" and "sp_value sp = 4"
  shows "\<exists>w'. hal_vendor_request env sp rx w = Ret w' \<and> acks_ok w' \<and> log (hw w') = log (hw w) @
    packet_writes Usb0 0 [] @ concat (map (packet_writes Usb0 1)
      (in_packets 512 None (take (unat (sp_index sp)) test_data)))"
proof -
  note keep = driver_invariant.flags_keep(1) [OF assms(5)] driver_invariant.ack_keep [OF assms(5)]
    driver_invariant.wait_ack_keep [OF assms(5)]
  obtain w1 where w1: "set_tx_ack_active Usb0 0 w = Ret w1" "acks_ok w1" "hw w1 = hw w"
    using set_tx_ack_active_hw [OF assms(4), of 0 Usb0] by auto
  have s1: "device_speed w1 Usb0 = SpeedHigh" using on_returnD [OF keep(1) [OF assms(6)] w1(1)] .
  obtain w2 where w2: "hal_ack env Usb0 0 HostToDevice w1 = Ret w2" "acks_ok w2"
      "log (hw w2) = log (hw w1) @ packet_writes Usb0 0 []"
    using hal_write_packets [OF assms(1,2) _ w1(2), of "[]"]
    by (auto simp: hal_ack_def in_packets_def last_packet_def full_packets.simps max_packet_size_def)
  have s2: "device_speed w2 Usb0 = SpeedHigh" using on_returnD [OF keep(2) [OF s1] w2(1)] .
  obtain w3 where w3: "wait_tx_ack env Usb0 0 0 w2 = Ret (True, w3)" "acks_ok w3" "log (hw w3) = log (hw w2)"
    using patient_host_ack [OF assms(2) w2(2)] by blast
  have s3: "device_speed w3 Usb0 = SpeedHigh" using on_returnD [OF keep(3) [OF s2] w3(1)] by simp
  let ?bs = "take (unat (sp_index sp)) test_data"
  obtain w4 where w4: "hal_write env Usb0 1 ?bs w3 = Ret (length ?bs, w4)" "acks_ok w4" "log (hw w4) = log (hw w3) @
      concat (map (packet_writes Usb0 1) (in_packets 512 None ?bs))"
    using hal_write_packets [OF assms(1,3) _ w3(2), of ?bs] s3
    by (auto simp: max_packet_size_def EP_MAX_PACKET_SIZE_def)
  have "hal_vendor_request env sp rx w = Ret w4"
    using assms(7,8) w1(1) w2(1) wait_control_ack_patient [OF w3(1)] w4(1)
    by (simp add: hal_vendor_request_def hal_requests)
  with w1(3) w2(3) w3(3) w4(2,3) show ?thesis by simp
qed

text \<open>Whatever the hardware does, a request returns.\<close>

lemma wait_control_ack_returns:
  assumes "irq_returns env" and "acks_ok w"
  shows "\<exists>b w'. wait_control_ack env k w = Ret (b, w') \<and> acks_ok w'"
  using assms(2)
proof (induction env\<equiv>env k w rule: wait_control_ack.induct)
  case (1 k w)
  obtain w1 where w1: "env_irq env w = Ret w1" "acks_ok w1" using assms(1) 1(2) by (rule irq_returnsE)
  have a: "is_tx_ack_active Usb0 0 w1 = Ret (tx_ack_active w1 Usb0 ! 0)"
    using is_tx_ack_active_Ret [OF w1(2), of 0 Usb0] by simp
  show ?case
    using 1(1) [OF _ _ w1(2)] w1 a by (subst wait_control_ack.simps) (auto simp: linorder_not_less)
qed

lemma hal_vendor_request_returns:
  assumes "irq_returns env" and "acks_ok w"
  shows "\<exists>w'. hal_vendor_request env sp rx w = Ret w' \<and> acks_ok w'"
proof -
  have sends: "\<exists>n w'. hal_write env Usb0 ep bs w = Ret (n, w') \<and> acks_ok w'" if "unat ep < 16" "acks_ok w" for ep bs w
    using write_with_packet_size_Ret [OF assms(1) that(1) max_packet_size_pos that(2)]
    unfolding hal_write_def by blast
  have acks: "\<exists>w'. hal_ack env Usb0 0 d w = Ret w' \<and> acks_ok w'" if "acks_ok w" for d w
    using hal_ack_0_returns [OF assms(1) that] that by (cases d) (simp_all add: hal_ack_def)
  have "\<exists>w'. rbind (hal_write env Usb0 0 bs w) (\<lambda>(n, w). hal_ack env Usb0 0 DeviceToHost w) = Ret w' \<and> acks_ok w'" for bs
    using sends [of 0 w bs] acks assms(2) by fastforce
  moreover have "\<exists>w'. hal_ack env Usb0 0 HostToDevice (ep_out_prime_receive env Usb0 ENDPOINT_BULK_OUT w) = Ret w' \<and> acks_ok w'"
    using acks assms(2) by simp
  moreover have "\<exists>w'. rbind (set_tx_ack_active Usb0 0 w) (\<lambda>w. rbind (hal_ack env Usb0 0 HostToDevice w) (\<lambda>w.
      rbind (wait_control_ack env 0 w) (\<lambda>(acked, w). if \<not> acked then Ret w
        else rbind (hal_write env Usb0 (ENDPOINT_BULK_IN AND 0x7f) bs w) (\<lambda>(n, w). Ret w)))) = Ret w' \<and> acks_ok w'" for bs
  proof -
    obtain w1 where w1: "set_tx_ack_active Usb0 0 w = Ret w1" "acks_ok w1"
      using set_tx_ack_active_Ret [OF assms(2), of 0 Usb0] by auto
    obtain w2 where w2: "hal_ack env Usb0 0 HostToDevice w1 = Ret w2" "acks_ok w2" using acks [OF w1(2)] by blast
    obtain b w3 where w3: "wait_control_ack env 0 w2 = Ret (b, w3)" "acks_ok w3"
      using wait_control_ack_returns [OF assms(1) w2(2)] by blast
    obtain n w4 where "hal_write env Usb0 (ENDPOINT_BULK_IN AND 0x7f) bs w3 = Ret (n, w4)" "acks_ok w4"
      using sends [of "ENDPOINT_BULK_IN AND 0x7f" w3 bs] w3(2) by (auto simp: ENDPOINT_BULK_IN_def)
    with w1 w2 w3 show ?thesis by (cases b) simp_all
  qed
  ultimately show ?thesis using assms(2) by (simp add: hal_vendor_request_def Let_def)
qed

text \<open>The descriptors are well formed, and their strings are in the table.\<close>

lemmas hal_config_defs =
  hal_CONFIGURATION_DESCRIPTOR_0_def hal_OTHER_SPEED_CONFIGURATION_DESCRIPTOR_0_def

lemma hal_configurations:
  "configuration_sized hal_CONFIGURATION_DESCRIPTOR_0"
  "configuration_sized hal_OTHER_SPEED_CONFIGURATION_DESCRIPTOR_0"
  "length (configuration_iter hal_CONFIGURATION_DESCRIPTOR_0) = 32"
  "length (configuration_iter hal_OTHER_SPEED_CONFIGURATION_DESCRIPTOR_0) = 32"
proof -
  show "configuration_sized hal_CONFIGURATION_DESCRIPTOR_0"
    "configuration_sized hal_OTHER_SPEED_CONFIGURATION_DESCRIPTOR_0"
    unfolding hal_config_defs
    by (intro configuration_new_sized, simp add: interface_new_def interface_sized_def
        endpoint_descriptor_new_def)+
qed (simp_all add: length_configuration_iter hal_config_defs configuration_new_def interface_new_def)

lemma hal_strings_text: "list_all descriptor_text hal_STRINGS"
  by (simp add: hal_STRINGS_def descriptor_text_def str_lit_def str_len_def utf8_width_def
      bManufacturerString_example_def bProductString_example_def)

lemma hal_string_indices:
  "string_indices hal_DEVICE_DESCRIPTOR
     [hal_CONFIGURATION_DESCRIPTOR_0, hal_OTHER_SPEED_CONFIGURATION_DESCRIPTOR_0] = [1, 2, 3, 4, 5, 6, 7]"
  by (simp add: string_indices_def hal_config_defs hal_DEVICE_DESCRIPTOR_def configuration_new_def
      interface_new_def)

end
