(* ===== verification/ExampleSpeed.thy ===== *)
theory ExampleSpeed
  imports ExampleHal
begin

text \<open>
  \<open>moondancer/examples/bulk_speed_test.rs\<close> with the macro \<open>profile!\<close>: a device that sends packets on endpoint
  0x81 as fast as it can while it is told to by one-byte commands on endpoint 2, and takes data on
  endpoint 1. The cycle counter of the CPU (a register of the crate \<open>riscv\<close>) is the argument \<open>mcycle\<close>. Log
  messages are left out but for the slices they take of the receive buffer, which can panic; the argument
  \<open>tracing\<close> says whether messages of that level are compiled in, which the release build turns off.
\<close>

section \<open>Commands and statistics\<close>

datatype test_command = CmdStop | CmdIn | CmdOut | CmdError

definition test_command_from :: "u8 \<Rightarrow> test_command" where
  "test_command_from value =
     (if value = 0x23 then CmdIn
      else if value = 0x42 then CmdOut
      else if value = 0xff then CmdError
      else CmdStop)"

record test_stats =
  ts_max_queue_length :: u32
  ts_max_write_time :: u32
  ts_min_write_time :: u32
  ts_max_flush_time :: u32
  ts_min_flush_time :: u32
  ts_write_count :: u32
  ts_reset_count :: u32

definition test_stats_new :: test_stats where
  "test_stats_new =
     \<lparr>ts_max_queue_length = 0, ts_max_write_time = 0, ts_min_write_time = - 1, ts_max_flush_time = 0,
      ts_min_flush_time = - 1, ts_write_count = 0, ts_reset_count = 0\<rparr>"

definition test_stats_reset :: "test_stats \<Rightarrow> test_stats" where
  "test_stats_reset s = test_stats_new"

definition update_in :: "u32 \<Rightarrow> u32 \<Rightarrow> bool \<Rightarrow> test_stats \<Rightarrow> test_stats" where
  "update_in t_write t_flush did_reset s =
     (let s = (if t_write > ts_max_write_time s then s\<lparr>ts_max_write_time := t_write\<rparr> else s);
          s = (if t_write < ts_min_write_time s then s\<lparr>ts_min_write_time := t_write\<rparr> else s);
          s = (if t_flush > ts_max_flush_time s then s\<lparr>ts_max_flush_time := t_flush\<rparr> else s);
          s = (if t_flush < ts_min_flush_time s then s\<lparr>ts_min_flush_time := t_flush\<rparr> else s)
      in if did_reset then s\<lparr>ts_reset_count := ts_reset_count s + 1\<rparr> else s)"

section \<open>Sending\<close>

definition profile :: "('w \<Rightarrow> u32 \<times> 'w) \<Rightarrow> ('w \<Rightarrow> 'a \<times> 'w) \<Rightarrow> 'w \<Rightarrow> ('a \<times> u32) \<times> 'w" where
  "profile mcycle body w =
     (let (t1, w) = mcycle w;
          (result, w) = body w;
          (t2, w) = mcycle w
      in ((result, t2 - t1), w))"

text \<open>\<open>while !idle && timeout > 0\<close>\<close>

fun wait_in_idle :: "('h, 'q) env \<Rightarrow> nat \<Rightarrow> ('h, 'q) world \<Rightarrow> ('h, 'q) world" where
  "wait_in_idle env timeout w =
     (let (idle, w) = read_bit env (USB Usb0 InIdle) w in
      if \<not> idle \<and> timeout > 0 then wait_in_idle env (timeout - 1) w else w)"

declare wait_in_idle.simps [simp del]

fun write_in_bytes :: "('h, 'q) env \<Rightarrow> bytes \<Rightarrow> ('h, 'q) world \<Rightarrow> ('h, 'q) world" where
  "write_in_bytes env [] w = w"
| "write_in_bytes env (byte # data) w = write_in_bytes env data (write_field env 8 (USB Usb0 InData) byte w)"

definition test_write_slice ::
  "('h, 'q) env \<Rightarrow> u8 \<Rightarrow> bytes \<Rightarrow> ('h, 'q) world \<Rightarrow> bool \<times> ('h, 'q) world" where
  "test_write_slice env endpoint data w =
     (let (have, w) = read_bit env (USB Usb0 InHave) w;
          (did_reset, w) = (if have then (True, write_bit env (USB Usb0 InReset) True w) else (False, w));
          w = write_in_bytes env data w;
          w = write_field env 4 (USB Usb0 InEpno) (endpoint AND 0xf) w
      in (did_reset, w))"

definition test_in_speed ::
  "('h, 'q) env \<Rightarrow> (('h, 'q) world \<Rightarrow> u32 \<times> ('h, 'q) world) \<Rightarrow> bytes \<Rightarrow> test_stats \<Rightarrow> ('h, 'q) world \<Rightarrow>
     test_stats \<times> ('h, 'q) world" where
  "test_in_speed env mcycle data stats w =
     (let ((_, t_flush), w) = profile mcycle (\<lambda>w. ((), wait_in_idle env 100 w)) w;
          ((did_reset, t_write), w) = profile mcycle (test_write_slice env 0x1 data) w;
          stats = stats\<lparr>ts_write_count := ts_write_count stats + 1\<rparr>
      in (update_in t_write t_flush did_reset stats, w))"

section \<open>Descriptors\<close>

definition bManufacturerString_bulk_speed_test :: rust_str where
  "bManufacturerString_bulk_speed_test = str_lit ''Luna Project''"

definition bProductString_bulk_speed_test :: rust_str where
  "bProductString_bulk_speed_test = str_lit ''Bulk Speed Test''"

definition speed_DEVICE_DESCRIPTOR :: device_descriptor where
  "speed_DEVICE_DESCRIPTOR = device_descriptor_new
     \<lparr>dd_bcdUSB := 0x0200, dd_bDeviceClass := 0x00, dd_bDeviceSubClass := 0x00,
      dd_bDeviceProtocol := 0x00, dd_bMaxPacketSize := 64, dd_idVendor := bVendorId_example,
      dd_idProduct := bProductId_example, dd_iManufacturer := 1, dd_iProduct := 2,
      dd_iSerialNumber := 3, dd_bNumConfigurations := 1\<rparr>"

definition speed_DEVICE_QUALIFIER_DESCRIPTOR :: device_qualifier_descriptor where
  "speed_DEVICE_QUALIFIER_DESCRIPTOR = device_qualifier_new
     \<lparr>dq_bcdUSB := 0x0200, dq_bDeviceClass := 0x00, dq_bDeviceSubClass := 0x00,
      dq_bDeviceProtocol := 0x00, dq_bMaxPacketSize0 := 64, dq_bNumConfigurations := 1,
      dq_bReserved := 0\<rparr>"

definition speed_CONFIGURATION_DESCRIPTOR_0 :: configuration_descriptor where
  "speed_CONFIGURATION_DESCRIPTOR_0 = configuration_new
     (configuration_header_new
        \<lparr>cfg_bConfigurationValue := 1, cfg_iConfiguration := 1, cfg_bmAttributes := 0x80,
         cfg_bMaxPower := 50\<rparr>)
     [interface_new
       (interface_header_new
        \<lparr>ifd_iInterfaceNumber := 0, ifd_bAlternateSetting := 0, ifd_bInterfaceClass := 0x00,
         ifd_bInterfaceSubClass := 0x00, ifd_bInterfaceProtocol := 0x00, ifd_iInterface := 2\<rparr>)
       [endpoint_descriptor_new
         \<lparr>epd_bEndpointAddress := 0x01, epd_bmAttributes := 0x02, epd_wMaxPacketSize := 512,
          epd_bInterval := 0\<rparr>,
        endpoint_descriptor_new
         \<lparr>epd_bEndpointAddress := 0x02, epd_bmAttributes := 0x02, epd_wMaxPacketSize := 8,
          epd_bInterval := 0\<rparr>,
        endpoint_descriptor_new
         \<lparr>epd_bEndpointAddress := 0x81, epd_bmAttributes := 0x02, epd_wMaxPacketSize := 512,
          epd_bInterval := 0\<rparr>]]"

definition speed_OTHER_SPEED_CONFIGURATION_DESCRIPTOR_0 :: configuration_descriptor where
  "speed_OTHER_SPEED_CONFIGURATION_DESCRIPTOR_0 = configuration_new
     (configuration_header_new
        \<lparr>cfg_bDescriptorType := descriptor_type_code DtOtherSpeedConfiguration,
         cfg_bConfigurationValue := 1, cfg_iConfiguration := 1, cfg_bmAttributes := 0x80,
         cfg_bMaxPower := 50\<rparr>)
     [interface_new
       (interface_header_new
        \<lparr>ifd_iInterfaceNumber := 0, ifd_bAlternateSetting := 0, ifd_bInterfaceClass := 0x00,
         ifd_bInterfaceSubClass := 0x00, ifd_bInterfaceProtocol := 0x00, ifd_iInterface := 2\<rparr>)
       [endpoint_descriptor_new
         \<lparr>epd_bEndpointAddress := 0x01, epd_bmAttributes := 0x02, epd_wMaxPacketSize := 64,
          epd_bInterval := 0\<rparr>,
        endpoint_descriptor_new
         \<lparr>epd_bEndpointAddress := 0x02, epd_bmAttributes := 0x02, epd_wMaxPacketSize := 8,
          epd_bInterval := 0\<rparr>,
        endpoint_descriptor_new
         \<lparr>epd_bEndpointAddress := 0x81, epd_bmAttributes := 0x02, epd_wMaxPacketSize := 64,
          epd_bInterval := 0\<rparr>]]"

definition speed_STRING_DESCRIPTOR_0 :: string_descriptor_zero where
  "speed_STRING_DESCRIPTOR_0 = string_zero_new [EnglishUnitedStates]"

definition speed_STRINGS :: "rust_str list" where
  "speed_STRINGS =
     [bManufacturerString_bulk_speed_test, bProductString_bulk_speed_test, str_lit ''0000000000000000'']"

definition speed_STRING_DESCRIPTORS :: "string_descriptor list" where
  "speed_STRING_DESCRIPTORS = map string_descriptor_new speed_STRINGS"

section \<open>Interrupts and start\<close>

definition speed_dispatch_event :: "interrupt_event \<Rightarrow> 'h fw_world \<Rightarrow> 'h fw_world rust" where
  "speed_dispatch_event event w =
     (case enqueue 32 event (irq_ext w) of Some q \<Rightarrow> Ret (w\<lparr>irq_ext := q\<rparr>) | None \<Rightarrow> Panic)"

definition speed_MachineExternal :: "'h fw_env \<Rightarrow> 'h fw_world \<Rightarrow> 'h fw_world rust" where
  "speed_MachineExternal env w =
     rbind (target_interrupt_event env w) (\<lambda>(event, w). speed_dispatch_event event w)"

definition speed_DEVICE_SPEED :: speed where
  "speed_DEVICE_SPEED = SpeedHigh"

definition speed_descriptors :: "ms_descriptors option \<Rightarrow> descriptors" where
  "speed_descriptors microsoft10 =
     \<lparr>ds_device_speed = speed_DEVICE_SPEED,
      ds_device_descriptor = speed_DEVICE_DESCRIPTOR,
      ds_configuration_descriptor = speed_CONFIGURATION_DESCRIPTOR_0,
      ds_string_descriptor_zero = speed_STRING_DESCRIPTOR_0,
      ds_string_descriptors = speed_STRING_DESCRIPTORS,
      ds_device_qualifier_descriptor = Some speed_DEVICE_QUALIFIER_DESCRIPTOR,
      ds_other_speed_configuration_descriptor = Some speed_OTHER_SPEED_CONFIGURATION_DESCRIPTOR_0,
      ds_microsoft10 = microsoft10\<rparr>"

text \<open>The locals of the main loop; \<open>counter\<close> is an \<open>i32\<close>, the queue length of the round a \<open>usize\<close>.\<close>

record speed_test =
  st_control :: control
  st_command :: test_command
  st_stats :: test_stats
  st_counter :: u32
  st_rx_buffer :: bytes
  st_queue_length :: u32

text \<open>\<open>(n % usize::from(u8::MAX)) as u8\<close>\<close>

definition speed_test_data :: bytes where
  "speed_test_data = map (\<lambda>n. of_nat (n mod 255)) [0..<EP_MAX_PACKET_SIZE]"

definition speed_main ::
  "'h fw_env \<Rightarrow> ms_descriptors option \<Rightarrow> 'h fw_world \<Rightarrow> (speed_test \<times> 'h fw_world) rust" where
  "speed_main env microsoft10 w =
     (let control = control_new EP_MAX_PACKET_SIZE 0 (set_total_lengths (speed_descriptors microsoft10));
          w = hal_connect env Usb0 speed_DEVICE_SPEED w
      in
      rbind (interrupt_enable env USB0 w) (\<lambda>w.
      rbind (interrupt_enable env USB0_EP_CONTROL w) (\<lambda>w.
      rbind (interrupt_enable env USB0_EP_IN w) (\<lambda>w.
      rbind (interrupt_enable env USB0_EP_OUT w) (\<lambda>w.
      let w = enable_events env Usb0 w;
          w = ep_out_prime_receive env Usb0 0 w;
          w = ep_out_prime_receive env Usb0 1 w;
          w = ep_out_prime_receive env Usb0 2 w
      in Ret
        (\<lparr>st_control = control, st_command = CmdStop, st_stats = test_stats_new, st_counter = 0,
          st_rx_buffer = replicate EP_MAX_PACKET_SIZE 0, st_queue_length = 0\<rparr>, w))))))"

section \<open>The main loop\<close>

text \<open>Packets of data: every hundredth is shown in a trace message, with its first and last eight bytes.\<close>

definition speed_data ::
  "'h fw_env \<Rightarrow> bool \<Rightarrow> nat \<Rightarrow> speed_test \<Rightarrow> 'h fw_world \<Rightarrow> (speed_test \<times> 'h fw_world) rust" where
  "speed_data env tracing bytes_read s w =
     (let w = write_leds env 0b111000 w;
          shown = (8 \<le> length (st_rx_buffer s) \<and> 8 \<le> bytes_read \<and> bytes_read - 8 \<le> length (st_rx_buffer s))
      in
      if sint (st_counter s) mod 100 = 0 \<and> tracing \<and> \<not> shown then Panic
      else Ret (s\<lparr>st_counter := st_counter s + 1\<rparr>, w))"

text \<open>Commands are packets of one byte; any other packet is shown in an error message.\<close>

definition speed_command :: "nat \<Rightarrow> speed_test \<Rightarrow> speed_test rust" where
  "speed_command bytes_read s =
     (if st_rx_buffer s = [] then Panic
      else
        let command = test_command_from (st_rx_buffer s ! 0) in
        if bytes_read = 1 then
          (case command of
             CmdIn \<Rightarrow> Ret (s\<lparr>st_stats := test_stats_reset (st_stats s), st_command := CmdIn\<rparr>)
           | CmdOut \<Rightarrow> Ret (s\<lparr>st_stats := test_stats_reset (st_stats s), st_command := CmdOut\<rparr>)
           | _ \<Rightarrow> Ret (s\<lparr>st_command := CmdStop\<rparr>))
        else if 8 \<le> length (st_rx_buffer s) \<and> 8 \<le> bytes_read \<and> bytes_read \<le> length (st_rx_buffer s) then Ret s
        else Panic)"

definition speed_packet ::
  "'h fw_env \<Rightarrow> bool \<Rightarrow> u8 \<Rightarrow> speed_test \<Rightarrow> 'h fw_world \<Rightarrow> (speed_test \<times> 'h fw_world) rust" where
  "speed_packet env tracing endpoint s w =
     rbind (hal_read env Usb0 endpoint (st_rx_buffer s) w) (\<lambda>(bytes_read, rx_buffer, w).
     let s = s\<lparr>st_rx_buffer := rx_buffer\<rparr> in
     rbind (if endpoint = 1 then speed_data env tracing bytes_read s w
            else if endpoint = 2 then rbind (speed_command bytes_read s) (\<lambda>s. Ret (s, w))
            else Ret (s, w)) (\<lambda>(s, w).
     Ret (s, ep_out_prime_receive env Usb0 endpoint w)))"

definition speed_event ::
  "'h fw_env \<Rightarrow> bool \<Rightarrow> interrupt_event \<Rightarrow> speed_test \<Rightarrow> 'h fw_world \<Rightarrow>
     (speed_test \<times> 'h fw_world) rust" where
  "speed_event env tracing event s w =
     (let w = write_leds env 0 w in
      rbind
        (case event of
           UsbEv Target event \<Rightarrow>
             if control_port_event event then
               rbind (control_dispatch_event (hal_driver env Usb0) event (st_control s) w) (\<lambda>(_, c, w).
               Ret (s\<lparr>st_control := c\<rparr>, w))
             else
               (case event of
                  ReceivePacket endpoint \<Rightarrow> speed_packet env tracing endpoint s w
                | SendComplete _ \<Rightarrow> Ret (s, write_leds env 0b000111 w)
                | _ \<Rightarrow> Ret (s, w))
         | _ \<Rightarrow> Ret (s, w)) (\<lambda>(s, w).
      Ret (s\<lparr>st_queue_length := st_queue_length s + 1\<rparr>, w)))"

text \<open>The end of a round, when the queue is empty: a packet is sent, if the test is on.\<close>

definition speed_round ::
  "'h fw_env \<Rightarrow> ('h fw_world \<Rightarrow> u32 \<times> 'h fw_world) \<Rightarrow> speed_test \<Rightarrow> 'h fw_world \<Rightarrow> speed_test \<times> 'h fw_world" where
  "speed_round env mcycle s w =
     (let (stats, w) =
            (case st_command s of
               CmdIn \<Rightarrow> test_in_speed env mcycle speed_test_data (st_stats s) w
             | _ \<Rightarrow> (st_stats s, w));
          stats = (if st_queue_length s > ts_max_queue_length stats
            then stats\<lparr>ts_max_queue_length := st_queue_length s\<rparr> else stats)
      in (s\<lparr>st_stats := stats, st_queue_length := 0\<rparr>, w))"

inductive speed_step ::
  "'h fw_env \<Rightarrow> bool \<Rightarrow> ('h fw_world \<Rightarrow> u32 \<times> 'h fw_world) \<Rightarrow> speed_test \<times> 'h fw_world \<Rightarrow>
     speed_test \<times> 'h fw_world \<Rightarrow> bool" for env tracing mcycle where
  speed_irq: "env_irq env w = Ret w' \<Longrightarrow> speed_step env tracing mcycle (s, w) (s, w')"
| speed_next: "dequeue (irq_ext w) = Some (event, q) \<Longrightarrow>
     speed_event env tracing event s (w\<lparr>irq_ext := q\<rparr>) = Ret r \<Longrightarrow> speed_step env tracing mcycle (s, w) r"
| speed_empty: "dequeue (irq_ext w) = None \<Longrightarrow> speed_step env tracing mcycle (s, w) (speed_round env mcycle s w)"

inductive_simps speed_step_simps: "speed_step env tracing mcycle (s, w) r"

section \<open>Lemmas\<close>

text \<open>
  A command is one byte; a packet of any other length below eight, also an empty one, stops the program
  in the message that reports it.
\<close>

lemma speed_command_packet:
  assumes "rx_fifo env (USB Usb0 OutHave) (USB Usb0 OutData) contents"
    and "length (st_rx_buffer s) = EP_MAX_PACKET_SIZE" and "n = length (contents (hw w))"
  shows "n = 1 \<Longrightarrow> \<exists>s' w'. speed_packet env tracing 2 s w = Ret (s', w') \<and>
      (let cmd = test_command_from (hd (contents (hw w))) in
        st_command s' = (if cmd = CmdIn \<or> cmd = CmdOut then cmd else CmdStop) \<and>
        st_stats s' = (if cmd = CmdIn \<or> cmd = CmdOut then test_stats_new else st_stats s))"
    and "n \<noteq> 1 \<Longrightarrow> 8 \<le> n \<Longrightarrow> n \<le> EP_MAX_PACKET_SIZE \<Longrightarrow>
      \<exists>s' w'. speed_packet env tracing 2 s w = Ret (s', w') \<and> st_command s' = st_command s"
    and "n \<noteq> 1 \<Longrightarrow> n < 8 \<or> EP_MAX_PACKET_SIZE < n \<Longrightarrow> speed_packet env tracing 2 s w = Panic"
proof -
  let ?c = "contents (hw w)" and ?b = "st_rx_buffer s"
  let ?rx = "take (length ?b) ?c @ drop (length ?c) ?b"
  obtain w1 where w1: "hal_read env Usb0 2 ?b w = Ret (n, ?rx, w1)"
    using hal_read_fifo [OF assms(1), of 2 ?b w] assms(3) by blast
  have len: "length ?rx = 512" using assms(2) by (simp add: EP_MAX_PACKET_SIZE_def)
  then have ne: "?rx \<noteq> []" by (metis list.size(3) zero_neq_numeral)
  have run: "speed_packet env tracing 2 s w =
      rbind (speed_command n (s\<lparr>st_rx_buffer := ?rx\<rparr>)) (\<lambda>s. Ret (s, ep_out_prime_receive env Usb0 2 w1))"
    by (simp add: speed_packet_def w1 Let_def rbind_assoc)
  show "\<exists>s' w'. speed_packet env tracing 2 s w = Ret (s', w') \<and>
      (let cmd = test_command_from (hd ?c) in
        st_command s' = (if cmd = CmdIn \<or> cmd = CmdOut then cmd else CmdStop) \<and>
        st_stats s' = (if cmd = CmdIn \<or> cmd = CmdOut then test_stats_new else st_stats s))"
    if one: "n = 1"
  proof -
    have "?rx ! 0 = hd ?c"
      using one assms(2,3) by (cases ?c; cases ?b) (auto simp: EP_MAX_PACKET_SIZE_def)
    then show ?thesis using ne one unfolding run
      by (cases "test_command_from (hd ?c)") (simp_all add: speed_command_def test_stats_reset_def Let_def)
  qed
  show "\<exists>s' w'. speed_packet env tracing 2 s w = Ret (s', w') \<and> st_command s' = st_command s"
    if "n \<noteq> 1" "8 \<le> n" "n \<le> EP_MAX_PACKET_SIZE"
    using that ne len unfolding run by (simp add: speed_command_def Let_def EP_MAX_PACKET_SIZE_def)
  show "speed_packet env tracing 2 s w = Panic" if "n \<noteq> 1" "n < 8 \<or> EP_MAX_PACKET_SIZE < n"
    using that ne len unfolding run by (auto simp: speed_command_def Let_def EP_MAX_PACKET_SIZE_def)
qed

text \<open>A packet of the test is on the bus whole, behind a reset of the FIFO if it was not empty.\<close>

lemma write_in_bytes_log:
  "logs_writes env log \<Longrightarrow> log (hw (write_in_bytes env data w)) =
     log (hw w) @ map (\<lambda>b. (USB Usb0 InData, ucast b)) data"
  by (induction data arbitrary: w) (simp_all add: log_write_field ucast_mask_8)

lemma test_write_slice_log:
  assumes "logs_writes env log" and "quiet_reads env log"
    and "test_write_slice env ep data w = (did_reset, w')"
  shows "log (hw w') = log (hw w) @ (if did_reset then [(USB Usb0 InReset, 1)] else []) @
    packet_writes Usb0 (ep AND 0xf) data"
proof -
  obtain b w1 where r: "read_bit env (USB Usb0 InHave) w = (b, w1)" by fastforce
  then have w1: "log (hw w1) = log (hw w)" using assms(2) by (auto simp: read_bit_eq quiet_reads_def)
  have reset: "log (hw (write_bit env (USB Usb0 InReset) True v)) = log (hw v) @ [(USB Usb0 InReset, 1)]" for v
    using assms(1) by (simp add: logs_writes_def write_bit_def reg_write_def field_bits_zero reset_value_def)
  show ?thesis using assms(3)
    by (cases b) (auto simp: test_write_slice_def r Let_def log_write_field [OF assms(1)]
        write_in_bytes_log [OF assms(1)] reset w1 packet_writes_def)
qed

text \<open>The statistics are the extremes of the samples since the test was started.\<close>

definition update_all :: "(u32 \<times> u32 \<times> bool) list \<Rightarrow> test_stats \<Rightarrow> test_stats" where
  "update_all = fold (\<lambda>(t_write, t_flush, did_reset). update_in t_write t_flush did_reset)"

lemma update_all_extremes:
  "ts_max_write_time (update_all xs s) = fold max (map fst xs) (ts_max_write_time s)"
  "ts_min_write_time (update_all xs s) = fold min (map fst xs) (ts_min_write_time s)"
  "ts_max_flush_time (update_all xs s) = fold max (map (fst \<circ> snd) xs) (ts_max_flush_time s)"
  "ts_min_flush_time (update_all xs s) = fold min (map (fst \<circ> snd) xs) (ts_min_flush_time s)"
  "ts_reset_count (update_all xs s) = ts_reset_count s + of_nat (length (filter (snd \<circ> snd) xs))"
  unfolding update_all_def
  by (induction xs arbitrary: s)
    (auto simp: update_in_def Let_def max_def min_def ac_simps not_less)

text \<open>The bounds of the control endpoint and the size of the receive buffer stay as they are.\<close>

definition speed_ok :: "speed_test \<Rightarrow> bool" where
  "speed_ok s \<longleftrightarrow> ctl_ok (st_control s) \<and> length (st_rx_buffer s) = EP_MAX_PACKET_SIZE"

lemma speed_command_frame:
  "speed_command n s = Ret s' \<Longrightarrow> st_control s' = st_control s \<and> st_rx_buffer s' = st_rx_buffer s"
  by (auto simp: speed_command_def Let_def split: if_splits test_command.splits)

lemma speed_packet_ok:
  assumes "speed_packet env tracing ep s w = Ret (s', w')" and "speed_ok s"
  shows "speed_ok s'"
proof -
  obtain n rx w1 where r: "hal_read env Usb0 ep (st_rx_buffer s) w = Ret (n, rx, w1)"
    using assms(1) by (auto simp: speed_packet_def rust_simps)
  have "length rx = length (st_rx_buffer s)" using hal_read_buffer [OF r] by simp
  with assms r show ?thesis
    by (auto simp: speed_packet_def speed_ok_def Let_def speed_data_def rust_simps split: if_splits
        dest!: speed_command_frame)
qed

lemma speed_event_ok: "speed_event env tracing e s w = Ret (s', w') \<Longrightarrow> speed_ok s \<Longrightarrow> speed_ok s'"
  by (auto simp: speed_event_def Let_def rust_simps speed_ok_def ctl_step_ok_def
      split: interrupt_event.splits usb_interface.splits usb_event.splits if_splits
      dest!: control_dispatch_event_ok speed_packet_ok)

lemma speed_step_ok: "speed_step env tracing mcycle (s, w) (s', w') \<Longrightarrow> speed_ok s \<Longrightarrow> speed_ok s'"
  by (auto simp: speed_step_simps speed_round_def speed_ok_def Let_def split: prod.splits test_command.splits
      dest!: speed_event_ok [unfolded speed_ok_def])

text \<open>The descriptors are well formed, and their strings are in the table.\<close>

lemmas speed_config_defs =
  speed_CONFIGURATION_DESCRIPTOR_0_def speed_OTHER_SPEED_CONFIGURATION_DESCRIPTOR_0_def

lemma speed_configurations:
  "configuration_sized speed_CONFIGURATION_DESCRIPTOR_0"
  "configuration_sized speed_OTHER_SPEED_CONFIGURATION_DESCRIPTOR_0"
  "length (configuration_iter speed_CONFIGURATION_DESCRIPTOR_0) = 39"
  "length (configuration_iter speed_OTHER_SPEED_CONFIGURATION_DESCRIPTOR_0) = 39"
proof -
  show "configuration_sized speed_CONFIGURATION_DESCRIPTOR_0"
    "configuration_sized speed_OTHER_SPEED_CONFIGURATION_DESCRIPTOR_0"
    unfolding speed_config_defs
    by (intro configuration_new_sized, simp add: interface_new_def interface_sized_def
        endpoint_descriptor_new_def)+
qed (simp_all add: length_configuration_iter speed_config_defs configuration_new_def interface_new_def)

lemma speed_strings_text: "list_all descriptor_text speed_STRINGS"
  by (simp add: speed_STRINGS_def descriptor_text_def str_lit_def str_len_def utf8_width_def
      bManufacturerString_bulk_speed_test_def bProductString_bulk_speed_test_def)

lemma speed_string_indices:
  "string_indices speed_DEVICE_DESCRIPTOR
     [speed_CONFIGURATION_DESCRIPTOR_0, speed_OTHER_SPEED_CONFIGURATION_DESCRIPTOR_0] = [1, 2, 3, 1, 2, 1, 2]"
  by (simp add: string_indices_def speed_config_defs speed_DEVICE_DESCRIPTOR_def configuration_new_def
      interface_new_def)

end
