(* ===== verification/DataProperties.thy ===== *)
theory DataProperties
  imports GcpTests ExampleSpeed
begin

text \<open>
  Properties of the data the firmware exchanges: the wire formats, the error numbers, the registry
  of classes, the descriptors, the queues, and the text and tick conversions.
\<close>

section \<open>Formats\<close>

text \<open>
  C36: a command is parsed from its prelude of class and verb number and the arguments behind it:
  parsing fails exactly for fewer than eight bytes, and a command is the one way to read its bytes.
\<close>

lemma command_parse_correct:
  "(command_parse bs = None \<longleftrightarrow> length bs < 8) \<and>
   (command_parse bs = Some c \<longleftrightarrow> bs = prelude_enc (cmd_prelude c) @ cmd_arguments c)"
  by (simp add: command_parse_None_iff command_parse_Some_iff)

text \<open>
  The eight bytes of the SETUP FIFO and the SETUP packet determine each other, and no other
  number of bytes is one.
\<close>

lemma setup_packet_correct:
  "(setup_from bs = None \<longleftrightarrow> length bs \<noteq> 8) \<and>
   (setup_from bs = Some p \<longleftrightarrow> bs = setup_as_bytes p)"
  by (simp add: setup_pkt.dec_None_iff setup_from_Some_iff)

text \<open>
  The error enumeration of the firmware build and the table of the full build give the same
  name the same number, in increasing order of the numbers, and a number names one error.
\<close>

lemma great_error_codes_agree:
  "map (\<lambda>e. (great_error_fmt e, great_error_code e)) great_errors =
     filter (\<lambda>(_, c). great_error_of_code c \<noteq> None) great_error_full \<and>
   successively (<) (map snd great_error_full) \<and>
   (great_error_of_code c = Some e \<longleftrightarrow> great_error_code e = c)"
  using great_error_builds_agree great_error_full_sorted by (simp add: great_error_of_code_Some)


text \<open>
  The speed register always holds a speed, so reading it never reaches the \<open>unimplemented!()\<close>
  arm, and the number that libusb has for a speed reads back as that speed, except SuperPlus.
\<close>

lemma speeds_correct:
  "returns (speed_from v) \<and>
   from_libusb (to_libusb s) = (if s = SpeedSuperPlus then SpeedUnknown else s)"
  using speed_from_returns [of v] by (auto simp: from_to_libusb)

section \<open>Registry\<close>

text \<open>
  A host can discover the whole interface through the class \<open>core\<close>: for every registered class and
  verb the introspection verbs return the name, the documentation, the list of verbs and the five
  descriptor strings that the class registers; a verb number that is not listed is refused.
\<close>

lemma core_introspection:
  assumes "registry_ok (core_classes c)" and "cl \<in> set (core_classes c)"
    and "v \<in> set (class_verbs cl)"
  shows "core_dispatch c 5 (le32 (into_u32 (class_id cl))) buf =
      respond (Inr (concat (map (\<lambda>v. le32 (verb_id v)) (class_verbs cl)))) buf \<and>
    core_dispatch c 6 (le32 (into_u32 (class_id cl)) @ le32 (verb_id v)) buf = respond (Inr (as_bytes (verb_name v))) buf \<and>
    map (\<lambda>d. core_dispatch c 7 (le32 (into_u32 (class_id cl)) @ le32 (verb_id v) @ [d]) buf) [0, 1, 2, 3, 4, 5] =
      map (\<lambda>s. respond (Inr (as_bytes s)) buf)
        [out_signature v, in_signature v, verb_doc v, out_param_names v, in_param_names v] @
      [Inl InvalidRequestDescriptor] \<and>
    core_dispatch c 8 (le32 (into_u32 (class_id cl))) buf = respond (Inr (as_bytes (class_name cl))) buf \<and>
    core_dispatch c 9 (le32 (into_u32 (class_id cl))) buf = respond (Inr (as_bytes (class_docs cl))) buf \<and>
    (class_verb cl n = None \<longrightarrow>
       core_dispatch c 6 (le32 (into_u32 (class_id cl)) @ le32 n) buf = Inl InvalidArgument)"
proof -
  note f = find_class_registered [OF assms(1,2)]
  have "class_ok cl" using assms(1,2) by (simp add: registry_ok_def list_all_iff)
  note g = class_verb_registered [OF this assms(3)]
  show ?thesis
    by (simp add: core_dispatch_def get_available_verbs_def get_verb_name_def get_verb_descriptor_def
        get_class_name_def get_class_docs_def f g verb_descriptor_from_def
        del: respond_Inr)
qed

lemma core_introspection_witness:
  "core_dispatch (core_new CLASSES BOARD_INFORMATION) 8 (le32 0) response_buffer =
     respond (Inr (as_bytes ''core'')) response_buffer"
proof -
  have "core_CLASS \<in> set CLASSES" "hd core_VERBS \<in> set (class_verbs core_CLASS)"
    by (simp_all add: CLASSES_def core_CLASS_def core_VERBS_def)
  then show ?thesis
    using core_introspection [of "core_new CLASSES BOARD_INFORMATION" core_CLASS "hd core_VERBS"
        response_buffer 0] CLASSES_ok
    by (simp add: core_new_def core_CLASS_def)
qed

section \<open>Descriptors\<close>

text \<open>
  C38: a host that walks the configuration block by the length bytes in it finds exactly the
  configuration, interface, class-specific and endpoint descriptors it is made of, and after
  \<open>set_total_length\<close> the total length in its header is the length of the block.
\<close>

lemma configuration_walk:
  assumes "configuration_sized d" and "length (configuration_iter d) < 65536"
  shows "walk (configuration_iter (snd (set_total_length d))) =
      Some (configuration_parts (snd (set_total_length d))) \<and>
    unat (cfg_wTotalLength (cd_head (snd (set_total_length d)))) = length (configuration_iter d) \<and>
    cd_tail (snd (set_total_length d)) = cd_tail d"
  using assms by (simp add: walk_configuration set_total_length_value)

lemma configuration_walk_witness:
  "unat (cfg_wTotalLength (cd_head (snd (set_total_length md_CONFIGURATION_DESCRIPTOR_0)))) = 41"
  using configuration_walk [of md_CONFIGURATION_DESCRIPTOR_0]
  by (simp add: device_configurations_sized device_configuration_lengths)



text \<open>
  The code units of a string descriptor decode to the text again, surrogate pairs included: the
  body is the little-endian code units of the text and UTF-16 decoding gives the text back.
\<close>

lemma string_descriptor_text:
  assumes "\<forall>c \<in> set s. scalar c"
  shows "\<exists>units. drop 2 (string_descriptor_iter (string_descriptor_new s)) = concat (map le16 units) \<and>
    decode_utf16 units = Some s"
  using decode_encode_utf16 [OF assms]
  by (auto simp: string_descriptor_iter_eq string_descriptor_new_def Let_def string_header_bytes_def)

lemma string_descriptor_text_witness:
  "\<exists>units. drop 2 (string_descriptor_iter (string_descriptor_new [0x61, 0x1F600])) =
      concat (map le16 units) \<and> decode_utf16 units = Some [0x61, 0x1F600]"
  by (rule string_descriptor_text) (simp add: scalar_def)

text \<open>
  C40: the descriptors of the firmware, of the serial device and of the two test devices of the examples are
  consistent: all configurations are walkable and fit their length field, every string index they use
  is in the string table, and all strings are ASCII and short enough for their length byte.
\<close>

lemma device_descriptors_consistent:
  "list_all (\<lambda>d. configuration_sized d \<and> length (configuration_iter d) < 65536)
     [md_CONFIGURATION_DESCRIPTOR_0, md_OTHER_SPEED_CONFIGURATION_DESCRIPTOR_0,
      acm_CONFIGURATION_DESCRIPTOR_0, acm_OTHER_SPEED_CONFIGURATION_DESCRIPTOR_0,
      hal_CONFIGURATION_DESCRIPTOR_0, hal_OTHER_SPEED_CONFIGURATION_DESCRIPTOR_0,
      speed_CONFIGURATION_DESCRIPTOR_0, speed_OTHER_SPEED_CONFIGURATION_DESCRIPTOR_0] \<and>
   list_all (\<lambda>n. 0 < unat n \<and> unat n \<le> length md_STRING_DESCRIPTORS)
     (string_indices md_DEVICE_DESCRIPTOR
        [md_CONFIGURATION_DESCRIPTOR_0, md_OTHER_SPEED_CONFIGURATION_DESCRIPTOR_0]) \<and>
   list_all (\<lambda>n. 0 < unat n \<and> unat n \<le> length acm_STRING_DESCRIPTORS)
     (string_indices acm_DEVICE_DESCRIPTOR
        [acm_CONFIGURATION_DESCRIPTOR_0, acm_OTHER_SPEED_CONFIGURATION_DESCRIPTOR_0]) \<and>
   list_all (\<lambda>n. 0 < unat n \<and> unat n \<le> length hal_STRING_DESCRIPTORS)
     (string_indices hal_DEVICE_DESCRIPTOR
        [hal_CONFIGURATION_DESCRIPTOR_0, hal_OTHER_SPEED_CONFIGURATION_DESCRIPTOR_0]) \<and>
   list_all (\<lambda>n. 0 < unat n \<and> unat n \<le> length speed_STRING_DESCRIPTORS)
     (string_indices speed_DEVICE_DESCRIPTOR
        [speed_CONFIGURATION_DESCRIPTOR_0, speed_OTHER_SPEED_CONFIGURATION_DESCRIPTOR_0]) \<and>
   list_all descriptor_text (md_STRINGS @ acm_STRINGS @ hal_STRINGS @ speed_STRINGS)"
proof -
  have "length md_STRING_DESCRIPTORS = 9" "length acm_STRING_DESCRIPTORS = 6"
    "length hal_STRING_DESCRIPTORS = 7" "length speed_STRING_DESCRIPTORS = 3"
    by (simp_all add: md_STRING_DESCRIPTORS_def md_STRINGS_def acm_STRING_DESCRIPTORS_def
        acm_STRINGS_def hal_STRING_DESCRIPTORS_def hal_STRINGS_def speed_STRING_DESCRIPTORS_def
        speed_STRINGS_def)
  moreover have "list_all descriptor_text (md_STRINGS @ acm_STRINGS @ hal_STRINGS @ speed_STRINGS)"
    using device_strings_text hal_strings_text speed_strings_text by simp
  ultimately show ?thesis
    unfolding md_string_indices acm_string_indices hal_string_indices speed_string_indices
    by (simp add: device_configurations_sized device_configuration_lengths hal_configurations
        speed_configurations del: list_all_append)
qed

section \<open>Queues, text and ticks\<close>

text \<open>
  A queue of the firmware refuses an element exactly when it is full, never holds more than its
  capacity, and gives the elements back in the order in which it took them.
\<close>

lemma queue_first_in_first_out:
  "(enqueue n x q = None \<longleftrightarrow> n \<le> length q) \<and>
   (dequeue q = None \<longleftrightarrow> q = queue_new) \<and>
   (case enqueue n x q of None \<Rightarrow> True
    | Some q' \<Rightarrow> length q' \<le> n \<and>
        dequeue q' = Some (case dequeue q of None \<Rightarrow> (x, queue_new) | Some (y, r) \<Rightarrow> (y, r @ [x])))"
  by (cases q) (auto simp: fifo.enq_None_iff enqueue_def queue_new_def)

text \<open>
  A timeout of seconds and nanoseconds is turned into the ticks of the clock, rounded down, at
  least one and at most what the reload register holds, whenever the products fit 64 bits.
\<close>

lemma timeout_ticks_correct:
  assumes "unat clk * unat secs + unat clk * unat nanos < 2 ^ 64"
  shows "unat (timeout_ticks clk secs nanos) =
    max 1 (min (2 ^ 32 - 1) (unat clk * unat secs + unat clk * unat nanos div 1000000000))"
  using assms by (rule timeout_ticks_exact)

lemma timeout_ticks_correct_witness:
  "unat (timeout_ticks 60000000 1 500000000) = 90000000"
  using timeout_ticks_correct [of 60000000 1 500000000] by simp

text \<open>
  Reading the flash UUID always returns, with eight bytes or one of two errors; the serial number
  made of it is ASCII of at most sixteen characters, but different UUIDs can have the same one.
\<close>

lemma flash_uuid_correct:
  "(\<exists>r w'. read_flash_uuid env w = Ret (r, w') \<and>
      (case r of Inr uuid \<Rightarrow> length uuid = 8 | Inl e \<Rightarrow> e \<in> {StreamIoctlTimeout, BadMessage})) \<and>
   descriptor_text (format_flash_uuid uuid) \<and>
   format_flash_uuid [0x12, 0x03, 0, 0, 0, 0, 0, 0] = format_flash_uuid [0x02, 0x31, 0, 0, 0, 0, 0, 0]"
proof -
  obtain r w' where "read_flash_uuid env w = Ret (r, w')" "\<forall>bs. r = Inr bs \<longrightarrow> length bs = 8"
      "\<forall>e. r = Inl e \<longrightarrow> e \<in> {StreamIoctlTimeout, BadMessage}"
    using read_flash_uuid_Ret by blast
  then show ?thesis
    using format_flash_uuid_text [of uuid] format_flash_uuid_collides
    by (auto simp: descriptor_text_def split: sum.splits)
qed

text \<open>
  The buffer writer of the logger holds the front of everything written to it, cut at the size of
  its buffer, and never writes behind it.
\<close>

lemma buffer_writer_correct:
  "bw_as_bytes (fold bw_write_str ss (bw_new buffer)) = take (length buffer) (concat ss) \<and>
   length (bw_buffer (bw_write_str s (bw_new buffer))) = length buffer"
  using bw_fold_bytes [OF bw_new_ok, of ss buffer] length_bw_write_str [OF bw_new_ok, of s buffer]
  by (simp add: bw_as_bytes_def bw_new_def)

end
