(* ===== verification/FirmwareExchange.thy ===== *)
theory FirmwareExchange
  imports FirmwareEvents UsbConnect "HOL-Library.Sublist"
begin

text \<open>
  A whole exchange through the main loop: the host sends a command and asks for the response, the
  interrupt handler queues the events, and the loop takes them one by one, with interrupts and idle
  rounds between any two. The exchange has phases; each event takes it to the next one, and nothing
  else the loop does disturbs it.
\<close>

section \<open>Exchanges\<close>

text \<open>
  The two requests, the packets of the data stage of the first, the register writes of the class that
  takes the command, and its outcome, a response or an error.
\<close>

record exchange =
  ex_command :: setup_packet
  ex_packets :: "bytes list"
  ex_response :: setup_packet
  ex_writes :: "(reg \<times> u32) list"
  ex_outcome :: "great_response great_result"

definition command_events :: "exchange \<Rightarrow> usb_event list" where
  "command_events X =
     ReceiveSetupPacket 0 (ex_command X) # replicate (length (ex_packets X)) (ReceivePacket 0) @
     [SendComplete 0, ReceiveSetupPacket 0 (ex_response X)]"

text \<open>
  The packets are a command that its class always takes, with the same register writes and the same
  outcome; the class \<open>moondancer\<close> goes from the state \<open>m\<close> to \<open>m'\<close>.
\<close>

definition class_exchange ::
  "'h fw_env \<Rightarrow> ('h \<Rightarrow> (reg \<times> u32) list) \<Rightarrow> core \<Rightarrow> moondancer \<Rightarrow> exchange \<Rightarrow> moondancer \<Rightarrow> bool" where
  "class_exchange env log core m X m' \<longleftrightarrow>
     is_execute HostToDevice (ex_command X) \<and> fetches (ex_outcome X) (ex_response X) \<and>
     data_stage LIBGREAT_MAX_COMMAND_SIZE (unat (sp_length (ex_command X))) (ex_packets X) \<and>
     (case command_parse (concat (ex_packets X)) of None \<Rightarrow> False
      | Some cmd \<Rightarrow> \<forall>fw w. fw_core fw = core \<longrightarrow> fw_moondancer fw = m \<longrightarrow> acks_ok w \<longrightarrow>
          (\<exists>w'. fw_class_dispatch env (command_class_id cmd) (command_verb_number cmd) (cmd_arguments cmd)
                fw w = Ret (ex_outcome X, fw\<lparr>fw_moondancer := m'\<rparr>, w') \<and>
             acks_ok w' \<and> log (hw w') = log (hw w) @ ex_writes X))"

text \<open>Every command of the class \<open>core\<close> is one.\<close>

definition command_exchange :: "exchange \<Rightarrow> u32 \<Rightarrow> u32 \<Rightarrow> bytes \<Rightarrow> bool" where
  "command_exchange X c v args \<longleftrightarrow>
     is_execute HostToDevice (ex_command X) \<and> fetches (ex_outcome X) (ex_response X) \<and>
     data_stage LIBGREAT_MAX_COMMAND_SIZE (unat (sp_length (ex_command X))) (ex_packets X) \<and>
     concat (ex_packets X) = prelude_enc \<lparr>prelude_class = c, prelude_verb = v\<rparr> @ args"

lemma command_exchange_parse:
  assumes "command_exchange X c v args"
  shows "command_parse (concat (ex_packets X)) =
    Some \<lparr>cmd_prelude = \<lparr>prelude_class = c, prelude_verb = v\<rparr>, cmd_arguments = args\<rparr>"
  using assms by (simp add: command_exchange_def command_parse_Some_iff)

lemma class_exchange_data_stage:
  "class_exchange env log core m X m' \<Longrightarrow>
     data_stage LIBGREAT_MAX_COMMAND_SIZE (unat (sp_length (ex_command X))) (ex_packets X)"
  by (simp add: class_exchange_def)

lemma core_exchange:
  assumes "command_exchange X 0 v args" and "core_dispatch core v args response_buffer = ex_outcome X"
    and "ex_writes X = []"
  shows "class_exchange env log core m X m"
  using assms command_exchange_parse [OF assms(1)]
  by (auto simp: command_exchange_def class_exchange_def fw_class_dispatch_def command_class_id_def
      command_verb_number_def class_id_from_known)

lemma moondancer_exchange:
  assumes "command_exchange X 0x120 v args"
    and "\<And>w. acks_ok w \<Longrightarrow> \<exists>w'. md_dispatch env v args response_buffer (m, w) = Ret (ex_outcome X, m', w') \<and>
      acks_ok w' \<and> log (hw w') = log (hw w) @ ex_writes X"
  shows "class_exchange env log core m X m'"
  using assms command_exchange_parse [OF assms(1)]
  by (fastforce simp: command_exchange_def class_exchange_def fw_class_dispatch_def command_class_id_def
      command_verb_number_def class_id_from_known)

text \<open>A verb that no class registers is refused by every class, also by those that are not registered.\<close>

definition registered :: "class_id \<Rightarrow> u32 \<Rightarrow> bool" where
  "registered cid v \<longleftrightarrow> (\<exists>cl \<in> set CLASSES. class_id cl = cid \<and> v \<in> verb_id ` set (class_verbs cl))"

lemma unregistered_dispatch:
  assumes "\<not> registered cid v"
  shows "fw_class_dispatch env cid v args fw w = Ret (Inl InvalidArgument, fw, w)"
proof -
  have "v \<notin> verb_id ` set core_VERBS" if "cid = ClassCore"
    using assms that by (auto simp: registered_def CLASSES_def core_CLASS_def)
  moreover have "v \<notin> verb_id ` set fw_VERBS" if "cid = ClassFirmware"
    using assms that by (auto simp: registered_def CLASSES_def fw_CLASS_def)
  moreover have "v \<notin> verb_id ` set st_VERBS" if "cid = ClassSelftest"
    using assms that by (auto simp: registered_def CLASSES_def st_CLASS_def)
  moreover have "v \<notin> verb_id ` set md_VERBS" if "cid = ClassMoondancer"
    using assms that by (auto simp: registered_def CLASSES_def md_CLASS_def)
  ultimately show ?thesis
    using core_disp.dispatch_unknown [of v "fw_core fw" args response_buffer "()"]
      fw_disp.dispatch_unknown [of v args response_buffer "()"]
      st_disp.dispatch_unknown [of v args response_buffer "()"]
      md_disp.dispatch_unknown [of v env args response_buffer "(fw_moondancer fw, w)"]
    by (cases cid) (auto simp: fw_class_dispatch_def stateless_def st_dispatcher_def rbind_Ret_iff)
qed

lemma unregistered_exchange:
  assumes "command_exchange X c v args" and "\<not> registered (class_id_from c) v"
    and "ex_outcome X = Inl InvalidArgument" and "ex_writes X = []"
  shows "class_exchange env log core m X m"
  using assms command_exchange_parse [OF assms(1)]
  by (auto simp: command_exchange_def class_exchange_def command_class_id_def command_verb_number_def
      unregistered_dispatch)

text \<open>The hardware of the control port: a receiving and a sending side, and LEDs that are neither.\<close>

definition control_board ::
  "'h fw_env \<Rightarrow> ('h \<Rightarrow> bytes) \<Rightarrow> ('h \<Rightarrow> bytes list) \<Rightarrow> ('h \<Rightarrow> (reg \<times> u32) list) \<Rightarrow> bool" where
  "control_board env contents host log \<longleftrightarrow>
     out_endpoint env Usb2 0 contents host \<and> logs_writes env log \<and> quiet_reads env log \<and>
     patient_host env Usb2 0 log \<and>
     (\<forall>v h. contents (env_write env LEDS v h) = contents h \<and> host (env_write env LEDS v h) = host h)"

definition answer_packets :: "exchange \<Rightarrow> (reg \<times> u32) list" where
  "answer_packets X = concat (map (packet_writes Usb2 0)
     (in_packets 64 (Some (unat (sp_length (ex_response X)))) (outcome_bytes (ex_outcome X))))"

section \<open>Phases\<close>

datatype phase =
    Waiting
  | Receiving "bytes list" bytes "bytes list"
  | Finishing
  | Answering
  | Answered

fun phase_events :: "exchange \<Rightarrow> phase \<Rightarrow> usb_event list" where
  "phase_events X Waiting = []"
| "phase_events X (Receiving taken p rest) =
     ReceiveSetupPacket 0 (ex_command X) # replicate (length taken) (ReceivePacket 0)"
| "phase_events X Finishing =
     ReceiveSetupPacket 0 (ex_command X) # replicate (length (ex_packets X)) (ReceivePacket 0)"
| "phase_events X Answering = butlast (command_events X)"
| "phase_events X Answered = command_events X"

fun in_phase ::
  "exchange \<Rightarrow> moondancer \<Rightarrow> moondancer \<Rightarrow> ('h \<Rightarrow> bytes) \<Rightarrow> ('h \<Rightarrow> bytes list) \<Rightarrow>
     ('h \<Rightarrow> (reg \<times> u32) list) \<Rightarrow> phase \<Rightarrow> firmware \<Rightarrow> 'h fw_world \<Rightarrow> bool" where
  "in_phase X m m' contents host log Waiting fw w \<longleftrightarrow>
     fw_moondancer fw = m \<and> port_ok host w \<and> contents (hw w) = [] \<and> host (hw w) = ex_packets X \<and>
     ctl_next (fw_usb2_control fw) \<in> {StIdle, StStall}"
| "in_phase X m m' contents host log (Receiving taken p rest) fw w \<longleftrightarrow>
     fw_moondancer fw = m \<and> port_ok host w \<and> contents (hw w) = p \<and> host (hw w) = rest \<and> taken @ p # rest = ex_packets X \<and>
     ctl_next (fw_usb2_control fw) = StReceiveHostData (ex_command X) \<and>
     received (fw_usb2_control fw) = concat taken"
| "in_phase X m m' contents host log Finishing fw w \<longleftrightarrow>
     fw_moondancer fw = m \<and> port_ok host w \<and> ctl_next (fw_usb2_control fw) = StFinishHostData (ex_command X) \<and>
     received (fw_usb2_control fw) = concat (ex_packets X)"
| "in_phase X m m' contents host log Answering fw w \<longleftrightarrow>
     fw_moondancer fw = m' \<and> acks_ok w \<and> ctl_next (fw_usb2_control fw) = StIdle \<and>
     fw_protocol fw = protocol_outcome (ex_outcome X) \<and>
     (\<exists>before between. log (hw w) = before @ ex_writes X @ between)"
| "in_phase X m m' contents host log Answered fw w \<longleftrightarrow>
     fw_moondancer fw = m' \<and> acks_ok w \<and> ctl_next (fw_usb2_control fw) = StIdle \<and> fw_protocol fw = Quiet \<and>
     (\<exists>before between leds. log (hw w) = before @ ex_writes X @ between @ answer_packets X @ leds \<and>
        list_all (\<lambda>(r, _). r = LEDS) leds)"

lemma in_phase_acks: "in_phase X m m' contents host log ph fw w \<Longrightarrow> acks_ok w"
  by (cases ph) (simp_all add: port_ok_def)

text \<open>What the loop does between two events keeps the phase.\<close>

lemma in_phase_frame:
  assumes "in_phase X m m' contents host log ph fw w" and "acks_ok w'"
    and "contents (hw w') = contents (hw w)" and "host (hw w') = host (hw w)"
    and "log (hw w') = log (hw w) @ leds" and "list_all (\<lambda>(r, _). r = LEDS) leds"
  shows "in_phase X m m' contents host log ph fw w'"
proof (cases ph)
  case Answering
  then obtain before between where "log (hw w) = before @ ex_writes X @ between" using assms(1) by auto
  then have "log (hw w') = before @ ex_writes X @ (between @ leds)" using assms(5) by simp
  with Answering assms(1,2) show ?thesis unfolding Answering in_phase.simps by blast
next
  case Answered
  then obtain before between leds' where "log (hw w) = before @ ex_writes X @ between @ answer_packets X @ leds'"
      "list_all (\<lambda>(r, _). r = LEDS) leds'"
    using assms(1) by auto
  then have "log (hw w') = before @ ex_writes X @ between @ answer_packets X @ (leds' @ leds)"
    "list_all (\<lambda>(r, _). r = LEDS) (leds' @ leds)"
    using assms(5,6) by simp_all
  with Answered assms(1,2) show ?thesis unfolding Answered in_phase.simps by blast
qed (use assms in \<open>auto simp: port_ok_def\<close>)

lemma in_phase_queue:
  "in_phase X m m' contents host log ph fw (w\<lparr>irq_ext := q\<rparr>) = in_phase X m m' contents host log ph fw w"
  by (cases ph) (simp_all add: port_ok_def acks_ok_def)

lemma in_phase_leds:
  assumes "control_board env contents host log" and "in_phase X m m' contents host log ph fw w"
  shows "in_phase X m m' contents host log ph fw (write_leds env v w)"
proof (rule in_phase_frame [OF assms(2)])
  show "acks_ok (write_leds env v w)" using in_phase_acks [OF assms(2)] by simp
  show "log (hw (write_leds env v w)) = log (hw w) @ [(LEDS, ucast v AND mask 6)]"
    using assms(1) by (simp add: control_board_def logs_writes_def write_leds_def write_field_def
        reg_write_def reset_value_def field_bits_zero)
qed (use assms(1) in \<open>simp_all add: control_board_def write_leds_def write_field_def reg_write_def\<close>)

lemma in_phase_irq:
  assumes "control_board env contents host log" and "in_phase X m m' contents host log ph fw w"
    and "env_irq env w = Ret w'"
  shows "in_phase X m m' contents host log ph fw w'"
proof (rule in_phase_frame [OF assms(2), where leds = "[]"])
  have "acks_ok w" using assms(2) by (rule in_phase_acks)
  then show "acks_ok w'" "contents (hw w') = contents (hw w)" "host (hw w') = host (hw w)"
    "log (hw w') = log (hw w) @ []"
    using assms(1,3) by (auto simp: control_board_def out_endpoint_def dest!: patient_host_irq)
qed simp

lemma in_phase_idle:
  assumes "control_board env contents host log" and "in_phase X m m' contents host log ph fw w"
    and "loop_idle env l w = (l', w')"
  shows "in_phase X m m' contents host log ph fw w'"
  using assms(3) in_phase_leds [OF assms(1,2)] by (auto simp: loop_idle_def Let_def)

section \<open>Events\<close>

lemma data_stage_nonempty: "data_stage cap len ps \<Longrightarrow> p \<in> set ps \<Longrightarrow> p \<noteq> [] \<and> length p \<le> EP_MAX_PACKET_SIZE"
  by (simp add: data_stage_def list_all_iff)

lemma data_stage_middle:
  assumes "data_stage cap len (taken @ p # rest)"
  shows "rest \<noteq> [] \<Longrightarrow> length (concat taken) + length p < len"
    and "rest = [] \<Longrightarrow> len \<le> length (concat taken) + length p"
    and "length (concat taken) + length p \<le> cap"
  using assms by (auto simp: data_stage_def butlast_append split: if_splits)

lemma exchangeI:
  "fw_control_event env e fw w = Ret (fw', w') \<Longrightarrow> in_phase X m m' contents host log ph' fw' w' \<Longrightarrow>
     phase_events X ph' = phase_events X ph @ [e] \<Longrightarrow>
     \<exists>fw' w' ph'. fw_control_event env e fw w = Ret (fw', w') \<and> in_phase X m m' contents host log ph' fw' w' \<and>
       phase_events X ph' = phase_events X ph @ [e]"
  by blast

text \<open>The request and the packets of the data stage hand nothing out yet.\<close>

lemma exchange_request:
  assumes "control_board env contents host log" and "class_exchange env log (fw_core fw) m X m'"
    and "fw_ok fw" and "in_phase X m m' contents host log Waiting fw w"
  shows "\<exists>fw' w' ph. fw_control_event env (ReceiveSetupPacket 0 (ex_command X)) fw w = Ret (fw', w') \<and>
    in_phase X m m' contents host log ph fw' w' \<and>
    phase_events X ph = phase_events X Waiting @ [ReceiveSetupPacket 0 (ex_command X)]"
proof -
  let ?D = "hal_driver env Usb2" and ?c = "fw_usb2_control fw" and ?sp = "ex_command X"
  have c: "ctl_endpoint_number ?c = 0" using assms(3) by (simp add: fw_ok_def fw_control_ok_def)
  have del: "delivers ?D 0 (port_ok host) (fifo_inbox contents) (\<lambda>w. host (hw w))"
    using assms(1) by (intro out_endpoint_delivers) (simp_all add: control_board_def)
  have ds: "data_stage LIBGREAT_MAX_COMMAND_SIZE (unat (sp_length ?sp)) (ex_packets X)"
    and ex: "is_execute HostToDevice ?sp"
    using assms(2) by (simp_all add: class_exchange_def)
  obtain p rest where ps: "ex_packets X = p # rest" using ds by (cases "ex_packets X") (auto simp: data_stage_def)
  then have "p \<noteq> []" using data_stage_nonempty [OF ds] by simp
  have "sp_length ?sp > 0" using ds by (auto simp: data_stage_def unat_gt_0 word_gt_0)
  with ex assms(4) have run: "control_dispatch_event ?D (ReceiveSetupPacket 0 ?sp) ?c w =
      Ret (None, receiving ?sp ?c, drv_ep_out_prime_receive ?D 0 w)"
    using control_out_setup [of ?c ?sp ?D w] by (simp add: c is_execute_def)
  have "port_ok host (drv_ep_out_prime_receive ?D 0 w) \<and>
      fifo_inbox contents (drv_ep_out_prime_receive ?D 0 w) = Some p \<and>
      host (hw (drv_ep_out_prime_receive ?D 0 w)) = rest"
    using assms(4) ps by (intro delivers_prime [OF del]) (simp_all add: fifo_inbox_def)
  then have "in_phase X m m' contents host log (Receiving [] p rest)
      (fw\<lparr>fw_usb2_control := receiving ?sp ?c\<rparr>) (drv_ep_out_prime_receive ?D 0 w)"
    using assms(4) by (simp add: ps fifo_inbox_def split: if_splits)
  then show ?thesis by (rule exchangeI [rotated]) (simp_all add: fw_control_event_def run)
qed

lemma exchange_packet:
  assumes "control_board env contents host log" and "class_exchange env log (fw_core fw) m X m'"
    and "fw_ok fw" and "in_phase X m m' contents host log (Receiving taken p rest) fw w"
  shows "\<exists>fw' w' ph. fw_control_event env (ReceivePacket 0) fw w = Ret (fw', w') \<and>
    in_phase X m m' contents host log ph fw' w' \<and>
    phase_events X ph = phase_events X (Receiving taken p rest) @ [ReceivePacket 0]"
proof -
  let ?D = "hal_driver env Usb2" and ?c = "fw_usb2_control fw" and ?sp = "ex_command X"
  have c: "ctl_endpoint_number ?c = 0" "ctl_rx_buffer_position ?c \<le> length (ctl_rx_buffer ?c)"
    "length (ctl_rx_buffer ?c) = LIBGREAT_MAX_COMMAND_SIZE"
    using assms(3) by (auto simp: fw_ok_def fw_control_ok_def ctl_ok_def)
  have del: "delivers ?D (ctl_endpoint_number ?c) (port_ok host) (fifo_inbox contents) (\<lambda>w. host (hw w))"
    unfolding c using assms(1) by (intro out_endpoint_delivers) (simp_all add: control_board_def)
  have ps: "ex_packets X = taken @ p # rest" and w: "port_ok host w" "contents (hw w) = p" "host (hw w) = rest"
    and st: "ctl_next ?c = StReceiveHostData ?sp" and rx: "received ?c = concat taken"
    using assms(4) by simp_all
  have ds: "data_stage LIBGREAT_MAX_COMMAND_SIZE (unat (sp_length ?sp)) (taken @ p # rest)"
    using assms(2) ps by (simp add: class_exchange_def)
  have p: "p \<noteq> []" "length p \<le> EP_MAX_PACKET_SIZE" using data_stage_nonempty [OF ds] by simp_all
  have inbox: "fifo_inbox contents w = Some p" using w p by (simp add: fifo_inbox_def)
  have pos: "ctl_rx_buffer_position ?c = length (concat taken)"
    using length_received [OF c(2)] rx by simp
  have room: "ctl_rx_buffer_position ?c + length p \<le> length (ctl_rx_buffer ?c)"
    using data_stage_middle(3) [OF ds] by (simp add: pos c)
  have rx': "received (rx_append p ?c) = concat (taken @ [p])" using received_append [OF room] rx by simp
  show ?thesis
  proof (cases rest)
    case Nil
    obtain w' where w': "control_dispatch_event ?D (ReceivePacket 0) ?c w =
        Ret (None, to_state (StFinishHostData ?sp) (rx_append p ?c), w')" "port_ok host w'"
      using control_packet_last [OF del w(1) inbox st p room] data_stage_middle(2) [OF ds Nil]
      by (auto simp: c pos)
    then have "in_phase X m m' contents host log Finishing
        (fw\<lparr>fw_usb2_control := to_state (StFinishHostData ?sp) (rx_append p ?c)\<rparr>) w'"
      using rx' assms(4) by (simp add: ps Nil)
    then show ?thesis
      by (rule exchangeI [rotated]) (simp_all add: fw_control_event_def w'(1) ps Nil replicate_append_same)
  next
    case (Cons q qs)
    have h: "host (hw w) = q # qs" using w(3) Cons by simp
    have less: "ctl_rx_buffer_position ?c + length p < unat (sp_length ?sp)"
      using data_stage_middle(1) [OF ds] Cons by (simp add: pos)
    obtain w' where w': "control_dispatch_event ?D (ReceivePacket 0) ?c w =
        Ret (None, to_state (StReceiveHostData ?sp) (rx_append p ?c), w')" "port_ok host w'"
        "fifo_inbox contents w' = Some q" "host (hw w') = qs"
      using control_packet_more [OF del w(1) inbox h st p room less] by (auto simp: c)
    then have "in_phase X m m' contents host log (Receiving (taken @ [p]) q qs)
        (fw\<lparr>fw_usb2_control := to_state (StReceiveHostData ?sp) (rx_append p ?c)\<rparr>) w'"
      using rx' assms(4) by (simp add: ps Cons fifo_inbox_def split: if_splits)
    then show ?thesis
      by (rule exchangeI [rotated]) (simp_all add: fw_control_event_def w'(1) replicate_append_same)
  qed
qed

lemma command_events_parts:
  "butlast (command_events X) = ReceiveSetupPacket 0 (ex_command X) #
     replicate (length (ex_packets X)) (ReceivePacket 0) @ [SendComplete 0]"
  "command_events X = butlast (command_events X) @ [ReceiveSetupPacket 0 (ex_response X)]"
  by (simp_all add: command_events_def butlast_append)

lemma log_writes_append:
  assumes "logs_writes env log"
  shows "\<exists>ys. log (hw (stall_endpoint_in env i ep w)) = log (hw w) @ ys"
    and "quiet_reads env log \<Longrightarrow> \<exists>ys. log (hw (ep_out_prime_receive env i ep w)) = log (hw w) @ ys"
  using assms
  by (auto simp: stall_endpoint_in_def ep_out_prime_receive_def Let_def logs_writes_def quiet_reads_def
      write_bit_def write_field_def reg_write_def read_bit_def reg_read_def split_beta)

lemma log_outcome_world:
  assumes "control_board env contents host log"
  shows "\<exists>ys. log (hw (fw_outcome_world env r w)) = log (hw w) @ ys"
  using assms log_writes_append(1) [of env log Usb2 0 w]
  by (cases r) (auto simp: fw_outcome_world_def control_board_def)

lemma acks_outcome_world: "acks_ok w \<Longrightarrow> acks_ok (fw_outcome_world env r w)"
  by (cases r) (simp_all add: fw_outcome_world_def)

lemma exchange_status:
  assumes "control_board env contents host log" and "class_exchange env log (fw_core fw) m X m'"
    and "fw_ok fw" and "in_phase X m m' contents host log Finishing fw w"
  shows "\<exists>fw' w' ph. fw_control_event env (SendComplete 0) fw w = Ret (fw', w') \<and>
    in_phase X m m' contents host log ph fw' w' \<and>
    phase_events X ph = phase_events X Finishing @ [SendComplete 0]"
proof -
  let ?c = "fw_usb2_control fw" and ?sp = "ex_command X"
  let ?fw = "fw\<lparr>fw_usb2_control := to_state StIdle ?c\<rparr>"
  have c: "ctl_endpoint_number ?c = 0" "ctl_ok ?c"
    using assms(3) by (simp_all add: fw_ok_def fw_control_ok_def)
  let ?fw' = "fw_outcome (ex_outcome X) (?fw\<lparr>fw_moondancer := m'\<rparr>)"
  have acks: "acks_ok w" using assms(4) by (rule in_phase_acks)
  obtain cmd where cmd: "command_parse (received ?c) = Some cmd"
    and "\<forall>fw1 w. fw_core fw1 = fw_core fw \<longrightarrow> fw_moondancer fw1 = m \<longrightarrow> acks_ok w \<longrightarrow>
      (\<exists>w'. fw_class_dispatch env (command_class_id cmd) (command_verb_number cmd) (cmd_arguments cmd) fw1 w =
         Ret (ex_outcome X, fw1\<lparr>fw_moondancer := m'\<rparr>, w') \<and> acks_ok w' \<and>
         log (hw w') = log (hw w) @ ex_writes X)"
    using assms(2,4) by (auto simp: class_exchange_def split: option.splits)
  from this(2) [rule_format, of ?fw w] acks assms(4) obtain w1
    where answer: "fw_class_dispatch env (command_class_id cmd) (command_verb_number cmd) (cmd_arguments cmd)
        ?fw w = Ret (ex_outcome X, ?fw\<lparr>fw_moondancer := m'\<rparr>, w1)"
      and w1: "acks_ok w1" "log (hw w1) = log (hw w) @ ex_writes X"
    by auto
  let ?w' = "fw_outcome_world env (ex_outcome X) w1"
  have log: "\<exists>between. log (hw ?w') = log (hw w) @ ex_writes X @ between"
    using log_outcome_world [OF assms(1), of "ex_outcome X" w1] w1(2) by auto
  have ex: "is_execute HostToDevice ?sp" using assms(2) by (simp add: class_exchange_def)
  have ok: "ctl_ok (fw_usb2_control ?fw)" "command_parse (received (fw_usb2_control ?fw)) = Some cmd"
    using c(2) cmd by (simp_all add: ctl_ok_def)
  have "dispatch_libgreat_request env ?fw w = Ret (?fw', ?w')"
    unfolding dispatch_libgreat_request_eq [OF ok] answer by simp
  moreover have "control_dispatch_event (hal_driver env Usb2) (SendComplete 0) ?c w =
      Ret (Some ?sp, to_state StIdle ?c, w)"
    using assms(4) c(1) by (simp add: control_dispatch_event_def)
  ultimately have "fw_control_event env (SendComplete 0) fw w = Ret (?fw', ?w')"
    by (simp add: fw_control_event_def handle_execute(1) [OF ex])
  moreover have "in_phase X m m' contents host log Answering ?fw' ?w'"
    using log w1(1) fw_outcome_protocol [of "ex_outcome X" "?fw\<lparr>fw_moondancer := m'\<rparr>"]
    by (auto simp: fw_outcome_def acks_outcome_world)
  moreover have "phase_events X Answering = phase_events X Finishing @ [SendComplete 0]"
    by (simp add: command_events_parts(1))
  ultimately show ?thesis by (rule exchangeI)
qed

lemma exchange_response:
  assumes "control_board env contents host log" and "class_exchange env log (fw_core fw) m X m'"
    and "fw_ok fw" and "in_phase X m m' contents host log Answering fw w"
  shows "\<exists>fw' w' ph. fw_control_event env (ReceiveSetupPacket 0 (ex_response X)) fw w = Ret (fw', w') \<and>
    in_phase X m m' contents host log ph fw' w' \<and>
    phase_events X ph = phase_events X Answering @ [ReceiveSetupPacket 0 (ex_response X)]"
proof -
  have w: "acks_ok w" "ctl_next (fw_usb2_control fw) \<in> {StIdle, StStall}"
    "fw_protocol fw = protocol_outcome (ex_outcome X)"
    using assms(4) by simp_all
  have env: "logs_writes env log" "patient_host env Usb2 0 log" using assms(1) by (simp_all add: control_board_def)
  have ex: "fetches (ex_outcome X) (ex_response X)" using assms(2) by (simp add: class_exchange_def)
  obtain fw' w' where r: "fw_control_event env (ReceiveSetupPacket 0 (ex_response X)) fw w = Ret (fw', w')"
      "log (hw w') = log (hw (ep_out_prime_receive env Usb2 0 w)) @ answer_packets X"
      "fw_protocol fw' = Quiet" "ctl_next (fw_usb2_control fw') = StIdle" "fw_moondancer fw' = fw_moondancer fw"
      "acks_ok w'"
    using fw_read_outcome [OF env w(1) assms(3) w(2) ex w(3)] by (auto simp: answer_packets_def)
  obtain ys where "log (hw (ep_out_prime_receive env Usb2 0 w)) = log (hw w) @ ys"
    using log_writes_append(2) [OF env(1), of Usb2 0 w] assms(1) by (auto simp: control_board_def)
  moreover obtain before between where "log (hw w) = before @ ex_writes X @ between" using assms(4) by auto
  ultimately have "\<exists>before between leds. log (hw w') = before @ ex_writes X @ between @ answer_packets X @ leds \<and>
      list_all (\<lambda>(r, _). r = LEDS) leds"
    using r(2) by (intro exI [of _ before] exI [of _ "between @ ys"] exI [of _ "[]"]) simp
  with r assms(4) have "in_phase X m m' contents host log Answered fw' w'" by simp
  with r(1) show ?thesis
    by (rule exchangeI) (simp add: command_events_parts(2) [of X, symmetric])
qed

section \<open>Runs\<close>

text \<open>The event that takes the exchange from a phase to the next one.\<close>

fun next_event :: "exchange \<Rightarrow> phase \<Rightarrow> usb_event option" where
  "next_event X Waiting = Some (ReceiveSetupPacket 0 (ex_command X))"
| "next_event X (Receiving taken p rest) = Some (ReceivePacket 0)"
| "next_event X Finishing = Some (SendComplete 0)"
| "next_event X Answering = Some (ReceiveSetupPacket 0 (ex_response X))"
| "next_event X Answered = None"

lemma exchange_step:
  assumes "control_board env contents host log" and "class_exchange env log (fw_core fw) m X m'"
    and "fw_ok fw" and "in_phase X m m' contents host log ph fw w" and "next_event X ph = Some e"
  shows "\<exists>fw' w' ph'. fw_control_event env e fw w = Ret (fw', w') \<and>
    in_phase X m m' contents host log ph' fw' w' \<and> phase_events X ph' = phase_events X ph @ [e]"
proof (cases ph)
  case Waiting
  with assms exchange_request [OF assms(1-3), of w] show ?thesis by simp
next
  case (Receiving taken p rest)
  with assms exchange_packet [OF assms(1-3), of taken p rest w] show ?thesis by simp
next
  case Finishing
  with assms exchange_status [OF assms(1-3), of w] show ?thesis by simp
next
  case Answering
  with assms exchange_response [OF assms(1-3), of w] show ?thesis by simp
qed (use assms(5) in simp)

text \<open>The next event of the phase is the next one of the exchange.\<close>

lemma next_event_prefix:
  assumes "in_phase X m m' contents host log ph fw w" and "prefix (phase_events X ph @ [e]) (command_events X)"
  shows "next_event X ph = Some e"
proof -
  have nth: "command_events X ! length (phase_events X ph) = e" "length (phase_events X ph) < length (command_events X)"
    using assms(2) by (auto simp: prefix_def)
  show ?thesis
  proof (cases ph)
    case (Receiving taken p rest)
    then have "length taken < length (ex_packets X)" using assms(1) by (auto dest: arg_cong [where f = length])
    with Receiving nth(1) show ?thesis by (simp add: command_events_def nth_append)
  qed (use nth in \<open>simp_all add: command_events_parts(1), simp_all add: command_events_def nth_append\<close>)
qed

lemma exchange_loop_event:
  assumes "control_board env contents host log" and "class_exchange env log (fw_core fw) m X m'"
    and "fw_ok fw" and "in_phase X m m' contents host log ph fw w" and "prefix (phase_events X ph @ [e]) (command_events X)"
  shows "\<exists>l' fw' w' ph'. loop_event env (UsbEv ControlPort e) l fw (w\<lparr>irq_ext := q\<rparr>) = Ret (l', fw', w') \<and>
    in_phase X m m' contents host log ph' fw' w' \<and> phase_events X ph' = phase_events X ph @ [e] \<and>
    fw_core fw' = fw_core fw \<and> fw_ok fw'"
proof -
  let ?w = "write_leds env 1 (w\<lparr>irq_ext := q\<rparr>)"
  have ph: "in_phase X m m' contents host log ph fw ?w"
    using in_phase_leds [OF assms(1)] assms(4) by (simp add: in_phase_queue)
  obtain fw' w' ph' where step: "fw_control_event env e fw ?w = Ret (fw', w')"
    "in_phase X m m' contents host log ph' fw' w'" "phase_events X ph' = phase_events X ph @ [e]"
    using exchange_step [OF assms(1-3) ph next_event_prefix [OF assms(4,5)]] by blast
  have "e \<in> set (command_events X)" using assms(5) by (auto dest: set_mono_prefix)
  then have "control_port_event e" by (auto simp: command_events_def)
  with step show ?thesis
    using fw_control_event_ok [OF step(1) assms(3)] fw_control_event_identity [OF step(1)]
    by (auto simp: loop_event_def fw_handle_event_def Let_def fw_frame_def)
qed

text \<open>
  Every run that handles events of the exchange is in the phase that belongs to them, and it can always
  handle the next one.
\<close>

lemma exchange_run:
  assumes "control_board env contents host log" and "class_exchange env log (fw_core fw) m X m'"
    and "fw_ok fw" and "in_phase X m m' contents host log Waiting fw w"
    and "main_run env (map (UsbEv ControlPort) es) (l, fw, w) (l', fw', w')"
    and "prefix es (command_events X)"
  shows "\<exists>ph. in_phase X m m' contents host log ph fw' w' \<and> phase_events X ph = es \<and>
    fw_core fw' = fw_core fw \<and> fw_ok fw'"
  using assms(5,6)
proof (induction "map (UsbEv ControlPort) es" "(l, fw, w)" "(l', fw', w')" arbitrary: es l' fw' w'
    rule: main_run.induct)
  case run_start
  with assms(3,4) show ?case by (intro exI [of _ Waiting]) simp
next
  case (run_irq l1 fw1 w1 w2)
  with in_phase_irq [OF assms(1)] show ?case by blast
next
  case (run_event es1 l1 fw1 w1 e q)
  obtain es2 e2 where es: "es = es2 @ [e2]" "es1 = map (UsbEv ControlPort) es2" "e = UsbEv ControlPort e2"
    using run_event(5) by (auto simp: append_eq_map_conv)
  have "prefix es2 (command_events X)" using run_event(6) es(1) append_prefixD by blast
  then obtain ph where ph: "in_phase X m m' contents host log ph fw1 w1" "phase_events X ph = es2"
    "fw_core fw1 = fw_core fw" "fw_ok fw1"
    using run_event(2) es(2) by blast
  have core: "class_exchange env log (fw_core fw1) m X m'" using assms(2) ph(3) by simp
  have pre: "prefix (phase_events X ph @ [e2]) (command_events X)" using run_event(6) es(1) ph(2) by simp
  obtain l2 fw2 w2 ph2 where step: "loop_event env (UsbEv ControlPort e2) l1 fw1 (w1\<lparr>irq_ext := q\<rparr>) =
      Ret (l2, fw2, w2)"
    and ph2: "in_phase X m m' contents host log ph2 fw2 w2" "phase_events X ph2 = es"
      "fw_core fw2 = fw_core fw" "fw_ok fw2"
    using exchange_loop_event [OF assms(1) core ph(4,1) pre] ph(2,3) es(1) by metis
  from step run_event(4) es(3) have "fw2 = fw'" "w2 = w'" by simp_all
  with ph2 show ?case by blast
next
  case (run_idle l1 fw1 w1 l2 w2)
  then obtain ph where ph: "in_phase X m m' contents host log ph fw1 w1" "phase_events X ph = es"
    "fw_core fw1 = fw_core fw" "fw_ok fw1"
    by blast
  moreover have "in_phase X m m' contents host log ph fw1 w2"
    using in_phase_idle [OF assms(1) ph(1) run_idle(4)] .
  ultimately show ?case by blast
qed

section \<open>Answers\<close>

text \<open>
  The answer is on the bus behind the writes of the class and everything before, and nothing is pending any
  more.
\<close>

definition answered ::
  "exchange \<Rightarrow> ('h \<Rightarrow> (reg \<times> u32) list) \<Rightarrow> firmware \<Rightarrow> 'h fw_world \<Rightarrow> bool" where
  "answered X log fw w \<longleftrightarrow> fw_protocol fw = Quiet \<and> ctl_next (fw_usb2_control fw) = StIdle \<and>
     (\<exists>before between leds. log (hw w) = before @ ex_writes X @ between @ answer_packets X @ leds \<and>
        list_all (\<lambda>(r, _). r = LEDS) leds)"

lemma answered_log:
  "answered X log fw w \<Longrightarrow>
     \<exists>before leds. log (hw w) = before @ answer_packets X @ leds \<and> list_all (\<lambda>(r, _). r = LEDS) leds"
  unfolding answered_def by (metis append.assoc)

text \<open>The state of the port before an exchange.\<close>

definition awaits ::
  "exchange \<Rightarrow> ('h \<Rightarrow> bytes) \<Rightarrow> ('h \<Rightarrow> bytes list) \<Rightarrow> firmware \<Rightarrow> 'h fw_world \<Rightarrow> bool" where
  "awaits X contents host fw w \<longleftrightarrow>
     acks_ok w \<and> contents (hw w) = [] \<and> host (hw w) = ex_packets X \<and>
     ctl_next (fw_usb2_control fw) \<in> {StIdle, StStall}"

lemma awaits_waiting:
  assumes "data_stage cap len (ex_packets X)"
  shows "awaits X contents host fw w \<longleftrightarrow>
    in_phase X (fw_moondancer fw) m' contents host log Waiting fw w"
proof -
  have "[] \<notin> set (ex_packets X)" using assms by (auto simp: data_stage_def list_all_iff)
  then show ?thesis by (auto simp: awaits_def port_ok_def list_all_iff)
qed

lemma class_exchange_waiting:
  assumes "class_exchange env log core m X m'" and "awaits X contents host fw w"
  shows "in_phase X (fw_moondancer fw) m' contents host log Waiting fw w"
  using awaits_waiting [OF class_exchange_data_stage [OF assms(1)]] assms(2) by blast

lemma exchange_progress:
  assumes "control_board env contents host log" and "class_exchange env log (fw_core fw) (fw_moondancer fw) X m'"
    and "fw_ok fw" and "awaits X contents host fw w"
    and "main_run env (map (UsbEv ControlPort) es) (l, fw, w) (l', fw', w')"
    and "prefix (es @ [e]) (command_events X)"
  shows "returns (loop_event env (UsbEv ControlPort e) l' fw' (w'\<lparr>irq_ext := q\<rparr>)) \<and> returns (env_irq env w')"
proof -
  have "prefix es (command_events X)" using assms(6) append_prefixD by blast
  then obtain ph where ph: "in_phase X (fw_moondancer fw) m' contents host log ph fw' w'" "phase_events X ph = es"
    "fw_core fw' = fw_core fw" "fw_ok fw'"
    using exchange_run [OF assms(1-3) class_exchange_waiting [OF assms(2,4)] assms(5)] by blast
  have "class_exchange env log (fw_core fw') (fw_moondancer fw) X m'" using assms(2) ph(3) by simp
  from exchange_loop_event [OF assms(1) this ph(4,1), of e l' q] assms(6) ph(2)
  have "returns (loop_event env (UsbEv ControlPort e) l' fw' (w'\<lparr>irq_ext := q\<rparr>))"
    by (auto simp: returns_iff)
  moreover have "returns (env_irq env w')"
    using assms(1) in_phase_acks [OF ph(1)] by (auto simp: control_board_def returns_iff dest!: patient_host_irq)
  ultimately show ?thesis by simp
qed

lemma exchange_answered:
  assumes "control_board env contents host log" and "class_exchange env log (fw_core fw) (fw_moondancer fw) X m'"
    and "fw_ok fw" and "awaits X contents host fw w"
    and "main_run env (map (UsbEv ControlPort) (command_events X)) (l, fw, w) (l', fw', w')"
  shows "answered X log fw' w' \<and> fw_moondancer fw' = m'"
proof -
  obtain ph where ph: "in_phase X (fw_moondancer fw) m' contents host log ph fw' w'" "phase_events X ph = command_events X"
    using exchange_run [OF assms(1-3) class_exchange_waiting [OF assms(2,4)] assms(5)] by blast
  have "ph = Answered"
  proof (rule ccontr)
    assume other: "ph \<noteq> Answered"
    have "length (phase_events X ph) < length (command_events X)"
    proof (cases ph)
      case (Receiving taken p rest)
      then have "length taken < length (ex_packets X)" using ph(1) by (auto dest: arg_cong [where f = length])
      with Receiving show ?thesis by (simp add: command_events_def)
    qed (use other in \<open>simp_all add: command_events_parts(1), simp_all add: command_events_def\<close>)
    then show False using ph(2) by simp
  qed
  with ph(1) show ?thesis by (simp add: answered_def)
qed

text \<open>
  A run that handled the first events of an exchange is on course: it can handle the next one, and the
  next interrupt, or it has answered and the class \<open>moondancer\<close> is in the state \<open>m'\<close>.
\<close>

definition on_course ::
  "'h fw_env \<Rightarrow> exchange \<Rightarrow> ('h \<Rightarrow> (reg \<times> u32) list) \<Rightarrow> moondancer \<Rightarrow> usb_event list \<Rightarrow>
     loop_state \<times> firmware \<times> 'h fw_world \<Rightarrow> bool" where
  "on_course env X log m' es s \<longleftrightarrow>
     (case s of (l, fw, w) \<Rightarrow>
        if es = command_events X then answered X log fw w \<and> fw_moondancer fw = m'
        else returns (env_irq env w) \<and>
          (\<forall>q. returns (loop_event env (UsbEv ControlPort (command_events X ! length es)) l fw
             (w\<lparr>irq_ext := q\<rparr>))))"

lemma exchange_on_course:
  assumes "control_board env contents host log" and "class_exchange env log (fw_core fw) (fw_moondancer fw) X m'"
    and "fw_ok fw" and "awaits X contents host fw w"
    and "main_run env (map (UsbEv ControlPort) es) (l, fw, w) s" and "prefix es (command_events X)"
  shows "on_course env X log m' es s"
proof -
  obtain l' fw' w' where s: "s = (l', fw', w')" by (cases s)
  show ?thesis
  proof (cases "es = command_events X")
    case True
    with exchange_answered [OF assms(1-4)] assms(5) s show ?thesis by (simp add: on_course_def)
  next
    case False
    with assms(6) have "prefix (es @ [command_events X ! length es]) (command_events X)"
      by (auto simp: prefix_def nth_append neq_Nil_conv)
    with False exchange_progress [OF assms(1-4)] assms(5) s show ?thesis by (simp add: on_course_def)
  qed
qed

text \<open>When interrupts leave the queue alone, an exchange whose events are in it takes place.\<close>

lemma exchange_takes_place:
  assumes "control_board env contents host log" and "class_exchange env log (fw_core fw) (fw_moondancer fw) X m'"
    and "fw_ok fw" and "awaits X contents host fw w" and "\<And>q. world_invariant env (\<lambda>w. irq_ext w = q)"
    and "irq_ext w = map (UsbEv ControlPort) (command_events X)"
  shows "\<exists>l' fw' w'. main_run env (map (UsbEv ControlPort) (command_events X)) (l, fw, w) (l', fw', w')"
proof -
  have "\<exists>l' fw' w'. main_run env (map (UsbEv ControlPort) es) (l, fw, w) (l', fw', w') \<and>
      irq_ext w' = map (UsbEv ControlPort) rest" if "es @ rest = command_events X" for es rest
    using that
  proof (induction es arbitrary: rest rule: rev_induct)
    case Nil
    then show ?case using run_start assms(6) by fastforce
  next
    case (snoc e es)
    then obtain l1 fw1 w1 where run: "main_run env (map (UsbEv ControlPort) es) (l, fw, w) (l1, fw1, w1)"
      and q: "irq_ext w1 = map (UsbEv ControlPort) (e # rest)"
      by fastforce
    let ?q = "map (UsbEv ControlPort) rest"
    have "prefix (es @ [e]) (command_events X)" using snoc.prems by (metis prefixI)
    from exchange_progress [OF assms(1-4) run this, of ?q] obtain l2 fw2 w2 where
      step: "loop_event env (UsbEv ControlPort e) l1 fw1 (w1\<lparr>irq_ext := ?q\<rparr>) = Ret (l2, fw2, w2)"
      by (auto simp: returns_iff)
    have "irq_ext w2 = ?q"
      using world_invariant.loop_keep [OF assms(5) [of ?q], of "w1\<lparr>irq_ext := ?q\<rparr>" "UsbEv ControlPort e" l1 fw1]
        step by simp
    moreover have "main_run env (map (UsbEv ControlPort) es @ [UsbEv ControlPort e]) (l, fw, w) (l2, fw2, w2)"
      using run by (rule run_event) (use q step in simp_all)
    ultimately show ?case by auto
  qed
  from this [of "command_events X" "[]"] show ?thesis by auto
qed

end
