(* ===== verification/MoondancerInbox.thy ===== *)
theory MoondancerInbox
  imports MoondancerReturns
begin

text \<open>
  The packet buffer of the class \<open>moondancer\<close> as the host uses it: one queue of payloads for each
  OUT endpoint, although the code keeps a single vector of packets that carry their endpoint, and
  what a disconnect leaves in it.
\<close>

section \<open>The inbox of an endpoint\<close>

definition packet_payload :: "packet \<Rightarrow> bytes" where
  "packet_payload p = take (pkt_bytes_read p) (pkt_buffer p)"

definition endpoint_inbox :: "moondancer \<Rightarrow> u8 \<Rightarrow> bytes list" where
  "endpoint_inbox m ep = map packet_payload (filter (\<lambda>p. pkt_endpoint_number p = ep) (md_packet_buffer m))"

lemma inbox_new [simp]: "md_packet_buffer moondancer_new = []" "endpoint_inbox moondancer_new ep = []"
  by (simp_all add: endpoint_inbox_def moondancer_new_def)

text \<open>A packet that is too long for the buffer is kept as that many zero bytes.\<close>

definition received_payload :: "bytes \<Rightarrow> bytes" where
  "received_payload bs = (if length bs \<le> EP_MAX_PACKET_SIZE then bs else replicate EP_MAX_PACKET_SIZE 0)"

lemma packet_payload_md_packet:
  "length rx = EP_MAX_PACKET_SIZE \<Longrightarrow> packet_payload (md_packet ep n rx) =
     (if n \<le> EP_MAX_PACKET_SIZE then take n rx else replicate EP_MAX_PACKET_SIZE 0)"
  by (simp add: packet_payload_def md_packet_take md_packet_overflow)

lemma filter_take_none: "\<forall>x \<in> set (take i xs). \<not> p x \<Longrightarrow> filter p xs = filter p (drop i xs)"
  by (subst append_take_drop_id [of i xs, symmetric], subst filter_append) simp

lemma position_filter:
  assumes "position p xs = Some i"
  shows "filter p xs = xs ! i # filter p (vec_remove i xs)"
proof -
  have i: "i < length xs" "p (xs ! i)" "\<forall>x \<in> set (take i xs). \<not> p x"
    using position_Some [OF assms] by simp_all
  have "filter p (drop i xs) = xs ! i # filter p (drop (Suc i) xs)"
    using i(1,2) by (simp add: Cons_nth_drop_Suc [symmetric])
  moreover have "filter p (vec_remove i xs) = filter p (drop (Suc i) xs)"
    using i(3) by (simp add: vec_remove_def)
  ultimately show ?thesis using filter_take_none [OF i(3)] by simp
qed

lemma filter_vec_remove:
  "i < length xs \<Longrightarrow> \<not> q (xs ! i) \<Longrightarrow> filter q (vec_remove i xs) = filter q xs"
  by (subst (2) id_take_nth_drop [of i xs]) (simp_all add: vec_remove_def)

section \<open>Refinement\<close>

lemma inbox_enqueue_irq [simp]: "endpoint_inbox (md_enqueue_irq event m) = endpoint_inbox m"
  by (rule ext) (simp add: endpoint_inbox_def md_enqueue_irq_def split: option.split)

lemma inbox_push:
  "pkt_endpoint_number p = ep \<Longrightarrow> endpoint_inbox (md_push_packet p m) =
    (if length (md_packet_buffer m) < 4 then (endpoint_inbox m)(ep := endpoint_inbox m ep @ [packet_payload p])
     else endpoint_inbox m)"
  by (rule ext) (auto simp: endpoint_inbox_def md_push_packet_def enqueue_def PACKET_BUFFER_SIZE_def)

lemma md_irq_enqueue:
  "md_irq_queue (md_enqueue_irq event m) =
     (if length (md_irq_queue m) < 63 then md_irq_queue m @ [event] else md_irq_queue m)"
  by (simp add: md_enqueue_irq_def enqueue_def IRQ_QUEUE_SIZE_def)

lemma inbox_receives:
  assumes "rx_fifo env (USB Usb0 OutHave) (USB Usb0 OutData) contents"
  shows "\<exists>m' w'. md_dispatch_event env (ReceivePacket ep) m w = Ret (m', w') \<and>
    contents (hw w') = [] \<and>
    endpoint_inbox m' = (if length (md_packet_buffer m) < 4
      then (endpoint_inbox m)(ep := endpoint_inbox m ep @ [received_payload (contents (hw w))]) else endpoint_inbox m) \<and>
    md_irq_queue m' = (if length (md_irq_queue m) < 63 then md_irq_queue m @ [ReceivePacket ep]
      else md_irq_queue m)"
proof -
  let ?c = "contents (hw w)"
  let ?buf = "replicate EP_MAX_PACKET_SIZE 0 :: bytes"
  let ?rx = "take (length ?buf) ?c @ drop (length ?c) ?buf"
  obtain w1 where w1: "hal_read env Usb0 ep ?buf w = Ret (length ?c, ?rx, w1)" "contents (hw w1) = []"
    using hal_read_fifo [OF assms] by blast
  let ?m = "md_enqueue_irq (ReceivePacket ep) (md_push_packet (md_packet ep (length ?c) ?rx) m)"
  have e: "md_dispatch_event env (ReceivePacket ep) m w = Ret (?m, w1)"
    using w1 by (simp add: md_dispatch_event_def)
  have "packet_payload (md_packet ep (length ?c) ?rx) = received_payload ?c"
    by (subst packet_payload_md_packet) (simp_all add: received_payload_def)
  then show ?thesis using e w1(2) by (simp add: inbox_push md_irq_enqueue)
qed

lemma inbox_read:
  "\<exists>m'. (\<forall>w. md_read_endpoint env [ep] m w =
      Ret (Inr (case endpoint_inbox m ep of [] \<Rightarrow> [] | payload # _ \<Rightarrow> payload), m', w)) \<and>
    endpoint_inbox m' = (endpoint_inbox m)(ep := tl (endpoint_inbox m ep))"
proof (cases "position (\<lambda>p. pkt_endpoint_number p = ep) (md_packet_buffer m)")
  case None
  then have "endpoint_inbox m ep = []" by (auto simp: endpoint_inbox_def position_None_iff filter_empty_conv)
  with None show ?thesis
    by (auto simp: md_read_endpoint_def read_from_def packet_new_def fun_eq_iff)
next
  case (Some i)
  let ?ps = "md_packet_buffer m"
  let ?m = "m\<lparr>md_packet_buffer := vec_remove i ?ps\<rparr>"
  have i: "i < length ?ps" "pkt_endpoint_number (?ps ! i) = ep"
    using position_Some [OF Some] by simp_all
  have "endpoint_inbox m ep = packet_payload (?ps ! i) # endpoint_inbox ?m ep"
    using position_filter [OF Some] by (simp add: endpoint_inbox_def)
  moreover have "endpoint_inbox ?m e = endpoint_inbox m e" if "e \<noteq> ep" for e
    using filter_vec_remove [OF i(1), of "\<lambda>p. pkt_endpoint_number p = e"] i(2) that
    by (simp add: endpoint_inbox_def)
  moreover have "md_read_endpoint env [ep] m w = Ret (Inr (packet_payload (?ps ! i)), ?m, w)" for w
    using Some by (simp add: md_read_endpoint_def read_from_def packet_payload_def)
  ultimately show ?thesis by (auto simp: fun_eq_iff)
qed

section \<open>Disconnecting\<close>

lemma disable_usb_interrupts_mask:
  assumes "mim_private env mim" and "acks_ok w"
  shows "\<exists>w'. disable_usb_interrupts env w = Ret w' \<and> acks_ok w' \<and> mim (hw w') = mim (hw w) AND NOT 0xF0"
proof -
  have m: "mim_storage env mim" using assms(1) by (simp add: mim_private_def)
  have off: "\<exists>w'. interrupt_disable env i v = Ret w' \<and> acks_ok w' \<and>
      mim (hw w') = mim (hw v) AND NOT (interrupt_bit i)" if "acks_ok v" for i v
    using interrupt_disable_mask [OF m, of i v] interrupt_acks(2) that by blast
  let ?w = "disable_events env Usb0 w"
  have "acks_ok ?w" using assms(2) by simp
  then obtain w1 w2 w3 w4 where ws: "interrupt_disable env USB0 ?w = Ret w1"
      "interrupt_disable env USB0_EP_CONTROL w1 = Ret w2" "interrupt_disable env USB0_EP_IN w2 = Ret w3"
      "interrupt_disable env USB0_EP_OUT w3 = Ret w4" "acks_ok w4"
    and mask: "mim (hw w1) = mim (hw ?w) AND NOT (interrupt_bit USB0)"
      "mim (hw w2) = mim (hw w1) AND NOT (interrupt_bit USB0_EP_CONTROL)"
      "mim (hw w3) = mim (hw w2) AND NOT (interrupt_bit USB0_EP_IN)"
      "mim (hw w4) = mim (hw w3) AND NOT (interrupt_bit USB0_EP_OUT)"
    using off by meson
  have "mim (hw w4) = mim (hw w) AND NOT 0xF0"
    unfolding mask mim_disable_events [OF assms(1)] by (simp add: interrupt_bit_def and.assoc)
  with ws show ?thesis by (simp add: disable_usb_interrupts_def)
qed

lemma md_disconnect_state:
  assumes "mim_private env mim" and "acks_ok w"
  shows "\<exists>w'. md_disconnect env args m w =
      Ret (Inr [], moondancer_new\<lparr>md_packet_buffer := md_packet_buffer m\<rparr>, w') \<and>
    acks_ok w' \<and> mim (hw w') = mim (hw w) AND NOT 0xF0"
proof -
  obtain w1 where w1: "disable_usb_interrupts env w = Ret w1" "acks_ok w1"
      "mim (hw w1) = mim (hw w) AND NOT 0xF0"
    using disable_usb_interrupts_mask [OF assms] by blast
  have "md_disconnect env args m w =
      Ret (Inr [], moondancer_new\<lparr>md_packet_buffer := md_packet_buffer m\<rparr>, hal_disconnect env Usb0 w1)"
    using w1(1)
    by (simp add: md_disconnect_def Let_def moondancer_new_def)
  with w1(2,3) mim_hal_disconnect [OF assms(1)] show ?thesis by simp
qed

end
