(* ===== verification/FirmwareRelay.thy ===== *)
theory FirmwareRelay
  imports FirmwareExchange MoondancerInbox
begin

text \<open>
  From the target port to the host: the SETUP packets of the device under emulation arrive as events of
  the target port, the class \<open>moondancer\<close> keeps them, and the host fetches them one by one with commands
  on the control port.
\<close>

section \<open>Runs in two parts\<close>

lemma main_run_split:
  assumes "main_run env (es @ fs) s s''"
  shows "\<exists>s'. main_run env es s s' \<and> main_run env fs s' s''"
  using assms
proof (induction "es @ fs" s s'' arbitrary: fs rule: main_run.induct)
  case (run_event es1 s l fw w e q s'')
  show ?case
  proof (cases fs rule: rev_cases)
    case Nil
    have "main_run env (es1 @ [e]) s s''" using run_event(1,3,4) by (rule main_run.run_event)
    with Nil run_event(5) show ?thesis by (intro exI [of _ s'']) (simp add: run_start)
  next
    case (snoc fs1 f)
    with run_event(5) have "es1 = es @ fs1" "f = e" by simp_all
    with run_event(2) obtain s' where "main_run env es s s'" "main_run env fs1 s' (l, fw, w)" by blast
    with run_event(3,4) snoc \<open>f = e\<close> show ?thesis by (blast intro: main_run.run_event)
  qed
qed (blast intro: main_run.intros)+

lemma main_run_trans:
  assumes "main_run env fs s' s''" and "main_run env es s s'"
  shows "main_run env (es @ fs) s s''"
  using assms
proof (induction rule: main_run.induct)
  case (run_event fs s' l fw w e q s'')
  then have "main_run env (es @ fs) s (l, fw, w)" by blast
  from main_run.run_event [OF this run_event(2,3)] show ?case by simp
qed (auto intro: main_run.intros)

section \<open>SETUP packets of the target\<close>

definition target_setup :: "setup_packet \<Rightarrow> interrupt_event" where
  "target_setup sp = UsbEv Target (ReceiveSetupPacket 0 sp)"

lemma target_setup_step:
  assumes "\<not> is_set_address sp" and "loop_event env (target_setup sp) l fw w = Ret (l', fw', w')"
  shows "w' = write_leds env 1 w \<and> fw' = fw\<lparr>fw_moondancer := fw_moondancer fw'\<rparr> \<and>
    md_control_queue (fw_moondancer fw') = md_control_queue (fw_moondancer fw) @ [sp]"
  using assms
  by (auto simp: loop_event_def fw_handle_event_def target_setup_def md_dispatch_event_def Let_def
      md_enqueue_irq_def enqueue_def split: option.splits if_splits)

lemma target_setup_returns:
  assumes "\<not> is_set_address sp" and "length (md_control_queue (fw_moondancer fw)) < 7"
  shows "\<exists>l' fw'. loop_event env (target_setup sp) l fw w = Ret (l', fw', write_leds env 1 w)"
  using assms
  by (auto simp: loop_event_def fw_handle_event_def target_setup_def md_dispatch_event_def Let_def
      enqueue_def CONTROL_QUEUE_SIZE_def)

text \<open>They do not disturb the control port and are kept in order.\<close>

lemma target_run:
  assumes "control_board env contents host log" and "in_phase X m m' contents host log Waiting fw w"
    and "list_all (\<lambda>sp. \<not> is_set_address sp) sps"
    and "main_run env (map target_setup sps) (l, fw, w) (l', fw', w')"
  shows "in_phase X (fw_moondancer fw') m' contents host log Waiting fw' w' \<and>
    md_control_queue (fw_moondancer fw') = md_control_queue m @ sps"
  using assms(4,3)
proof (induction "map target_setup sps" "(l, fw, w)" "(l', fw', w')" arbitrary: sps l' fw' w'
    rule: main_run.induct)
  case run_start
  with assms(2) show ?case by simp
next
  case (run_irq l1 fw1 w1 w2)
  with in_phase_irq [OF assms(1)] show ?case by blast
next
  case (run_event es1 l1 fw1 w1 e q)
  obtain sps1 sp where sps: "sps = sps1 @ [sp]" "es1 = map target_setup sps1" "e = target_setup sp"
    using run_event(5) by (auto simp: append_eq_map_conv)
  have "\<not> is_set_address sp" using run_event(6) sps(1) by simp
  from target_setup_step [OF this] run_event(4) sps(3) have step: "w' = write_leds env 1 (w1\<lparr>irq_ext := q\<rparr>)"
    "fw' = fw1\<lparr>fw_moondancer := fw_moondancer fw'\<rparr>"
    "md_control_queue (fw_moondancer fw') = md_control_queue (fw_moondancer fw1) @ [sp]"
    by blast+
  have IH: "in_phase X (fw_moondancer fw1) m' contents host log Waiting fw1 w1"
    "md_control_queue (fw_moondancer fw1) = md_control_queue m @ sps1"
    using run_event(2,6) sps(1,2) by simp_all
  have "in_phase X (fw_moondancer fw1) m' contents host log Waiting fw1 w'"
    unfolding step(1) using IH(1) by (intro in_phase_leds [OF assms(1)]) (simp add: in_phase_queue)
  moreover have "ctl_next (fw_usb2_control fw') = ctl_next (fw_usb2_control fw1)"
    by (subst step(2)) simp
  ultimately show ?case using IH(2) step(3) sps(1) by simp
next
  case (run_idle l1 fw1 w1 l2 w2)
  then have "in_phase X (fw_moondancer fw1) m' contents host log Waiting fw1 w1 \<and>
      md_control_queue (fw_moondancer fw1) = md_control_queue m @ sps" by blast
  with in_phase_idle [OF assms(1) _ run_idle(4)] show ?case by blast
qed

section \<open>The host fetches them\<close>

lemma read_control_exchange:
  assumes "command_exchange X 0x120 3 args" and "md_control_queue m = sp # rest"
    and "ex_outcome X = Inr (setup_as_bytes sp)" and "ex_writes X = []"
  shows "class_exchange env log core m X (m\<lparr>md_control_queue := rest\<rparr>)"
proof (rule moondancer_exchange [OF assms(1)])
  fix w :: "'a fw_world" assume "acks_ok w"
  moreover have "md_dispatch env 3 args response_buffer (m, w) =
      Ret (ex_outcome X, m\<lparr>md_control_queue := rest\<rparr>, w)"
    using assms(2,3) by (simp add: md_dispatch_def md_read_control_def md_respond_def)
  ultimately show "\<exists>w'. md_dispatch env 3 args response_buffer (m, w) =
      Ret (ex_outcome X, m\<lparr>md_control_queue := rest\<rparr>, w') \<and> acks_ok w' \<and>
      log (hw w') = log (hw w) @ ex_writes X"
    using assms(4) by simp
qed

text \<open>The oldest one is answered, and then it is the turn of the next.\<close>

lemma setup_relayed:
  assumes "control_board env contents host log" and "main_reachable env (l, fw, w)"
    and "awaits X contents host fw w" and "command_exchange X 0x120 3 args"
    and "md_control_queue (fw_moondancer fw) @ sps = sp # rest"
    and "list_all (\<lambda>sp. \<not> is_set_address sp) sps" and "ex_outcome X = Inr (setup_as_bytes sp)"
    and "ex_writes X = []"
    and "main_run env (map target_setup sps @ map (UsbEv ControlPort) es) (l, fw, w) s"
    and "prefix es (command_events X)"
  shows "\<exists>m'. md_control_queue m' = rest \<and> on_course env X log m' es s"
proof -
  have ds: "data_stage LIBGREAT_MAX_COMMAND_SIZE (unat (sp_length (ex_command X))) (ex_packets X)"
    using assms(4) by (simp add: command_exchange_def)
  obtain l1 fw1 w1 where first: "main_run env (map target_setup sps) (l, fw, w) (l1, fw1, w1)"
    and second: "main_run env (map (UsbEv ControlPort) es) (l1, fw1, w1) s"
    using main_run_split [OF assms(9)] by (metis prod_cases3)
  have "main_reachable env (l1, fw1, w1)" using first assms(2) by (rule main_run_reachable)
  then have ok: "fw_ok fw1" using main_reachable_ok by fastforce
  let ?m' = "fw_moondancer fw1\<lparr>md_control_queue := rest\<rparr>"
  have "in_phase X (fw_moondancer fw) ?m' contents host log Waiting fw w"
    using awaits_waiting [OF ds] assms(3) by blast
  from target_run [OF assms(1) this assms(6) first]
  have waits: "awaits X contents host fw1 w1" and q: "md_control_queue (fw_moondancer fw1) = sp # rest"
    using awaits_waiting [OF ds] assms(5) by (blast, metis)
  have "class_exchange env log (fw_core fw1) (fw_moondancer fw1) X ?m'"
    using assms(4) q assms(7,8) by (rule read_control_exchange)
  from exchange_on_course [OF assms(1) this ok waits second assms(10)]
  show ?thesis by (intro exI [of _ ?m']) simp
qed

section \<open>Data for the target\<close>

text \<open>
  The host writes to an IN endpoint of the emulated device: the class puts the payload on the bus of the
  target port.
\<close>

lemma write_endpoint_exchange:
  assumes "logs_writes env log" and "patient_host env Usb0 ep log" and "unat ep < 16" and "md_ok m"
    and "0 < unat (md_ep_in_max_packet_size m ! unat ep)"
    and "command_exchange X 0x120 0x0c (ep # blocking # payload)" and "ex_outcome X = Inr []"
    and "ex_writes X = concat (map (packet_writes Usb0 ep)
      (md_in_packets (unat (md_ep_in_max_packet_size m ! unat ep)) payload))"
  shows "class_exchange env log core m X m"
proof (rule moondancer_exchange [OF assms(6)])
  fix w :: "'a fw_world" assume "acks_ok w"
  from md_write_endpoint_packets [OF assms(1-4) this assms(5), of blocking payload] obtain w'
    where "md_write_endpoint env (ep # blocking # payload) m w = Ret (Inr [], m, w')" "acks_ok w'"
      "log (hw w') = log (hw w) @ ex_writes X"
    unfolding assms(8) by blast
  moreover from this(1) have "md_dispatch env 0x0c (ep # blocking # payload) response_buffer (m, w) =
      Ret (ex_outcome X, m, w')"
    by (simp add: md_dispatch_def md_respond_def assms(7) del: md_write_endpoint.simps)
  ultimately show "\<exists>w'. md_dispatch env 0x0c (ep # blocking # payload) response_buffer (m, w) =
      Ret (ex_outcome X, m, w') \<and> acks_ok w' \<and> log (hw w') = log (hw w) @ ex_writes X"
    by blast
qed

section \<open>Data of the target\<close>

text \<open>
  The receive FIFO of the target port: it gives back what it holds, reading it does not disturb the
  control port, and neither the LEDs nor the interrupts disturb it (no bus reset comes in between).
\<close>

definition target_fifo :: "'h fw_env \<Rightarrow> ('h \<Rightarrow> bytes) \<Rightarrow> ('h \<Rightarrow> bytes) \<Rightarrow> bool" where
  "target_fifo env fifo contents \<longleftrightarrow>
     rx_fifo env (USB Usb0 OutHave) (USB Usb0 OutData) fifo \<and>
     (\<forall>h. \<forall>r \<in> {USB Usb0 OutHave, USB Usb0 OutData}. contents (snd (env_read env r h)) = contents h) \<and>
     (\<forall>v h. fifo (env_write env LEDS v h) = fifo h) \<and>
     (\<forall>w w'. env_irq env w = Ret w' \<longrightarrow> fifo (hw w') = fifo (hw w))"

lemma target_fifo_leds:
  "target_fifo env fifo contents \<Longrightarrow> fifo (hw (write_leds env v w)) = fifo (hw w)"
  by (simp add: target_fifo_def write_leds_def write_field_def reg_write_def)

lemma quiet_run:
  assumes "control_board env contents host log" and "target_fifo env fifo contents"
    and "main_run env [] (l, fw, w) (l', fw', w')" and "in_phase X m m' contents host log ph fw w"
  shows "fw' = fw \<and> in_phase X m m' contents host log ph fw w' \<and> fifo (hw w') = fifo (hw w)"
  using assms(3)
proof (induction "[] :: interrupt_event list" "(l, fw, w)" "(l', fw', w')" arbitrary: l' fw' w' rule: main_run.induct)
  case run_start
  with assms(4) show ?case by simp
next
  case (run_irq l1 fw1 w1 w2)
  then show ?case using assms(2) in_phase_irq [OF assms(1)] by (auto simp: target_fifo_def)
next
  case (run_idle l1 fw1 w1 l2 w2)
  then have "fw1 = fw \<and> in_phase X m m' contents host log ph fw w1 \<and> fifo (hw w1) = fifo (hw w)" by blast
  with run_idle(4) in_phase_idle [OF assms(1) _ run_idle(4)] show ?case
    by (auto simp: loop_idle_def Let_def target_fifo_leds [OF assms(2)])
qed simp

text \<open>The packet that is in the FIFO when its event is handled joins the inbox of its endpoint.\<close>

lemma target_packet_step:
  assumes "control_board env contents host log" and "target_fifo env fifo contents"
    and "in_phase X (fw_moondancer fw) m' contents host log Waiting fw w" and "fw_ok fw"
    and "length (md_packet_buffer (fw_moondancer fw)) < 4"
    and "loop_event env (UsbEv Target (ReceivePacket ep)) l fw w = Ret (l', fw', w')"
  shows "in_phase X (fw_moondancer fw') m' contents host log Waiting fw' w' \<and> fw_ok fw' \<and>
    endpoint_inbox (fw_moondancer fw') = (endpoint_inbox (fw_moondancer fw))
      (ep := endpoint_inbox (fw_moondancer fw) ep @ [received_payload (fifo (hw w))])"
proof -
  let ?w = "write_leds env 1 w" and ?m = "fw_moondancer fw"
  have rx: "rx_fifo env (USB Usb0 OutHave) (USB Usb0 OutData) fifo" using assms(2) by (simp add: target_fifo_def)
  have ph: "in_phase X ?m m' contents host log Waiting fw ?w" using assms(1,3) by (rule in_phase_leds)
  obtain m1 w1 where m1: "md_dispatch_event env (ReceivePacket ep) ?m ?w = Ret (m1, w1)"
      "endpoint_inbox m1 =
        (endpoint_inbox ?m)(ep := endpoint_inbox ?m ep @ [received_payload (fifo (hw w))])"
    using inbox_receives [OF rx, of ep ?m ?w] assms(5) target_fifo_leds [OF assms(2)] by auto
  have keep: "out_reads_keep env Usb0 (\<lambda>v. port_ok host v \<and> contents (hw v) = [] \<and> host (hw v) = ex_packets X)"
    using assms(1,2)
    by (auto simp: out_reads_keep_def port_ok_def acks_ok_def control_board_def out_endpoint_def target_fifo_def)
  have rest: "port_ok host ?w \<and> contents (hw ?w) = [] \<and> host (hw ?w) = ex_packets X" using ph by simp
  obtain n rx1 where "hal_read env Usb0 ep (replicate EP_MAX_PACKET_SIZE 0) ?w = Ret (n, rx1, w1)"
    using m1(1) by (auto simp: md_dispatch_event_def rbind_Ret_iff)
  from hal_read_keep [OF keep rest this]
  have "port_ok host w1 \<and> contents (hw w1) = [] \<and> host (hw w1) = ex_packets X" .
  moreover have "fw' = fw\<lparr>fw_moondancer := m1\<rparr>" "w' = w1"
    using assms(6) m1(1) by (simp_all add: loop_event_def fw_handle_event_def Let_def)
  ultimately show ?thesis using ph m1(2) loop_event_ok [OF assms(6,4)] by simp
qed

lemma target_packet_run:
  assumes "control_board env contents host log" and "target_fifo env fifo contents"
    and "in_phase X (fw_moondancer fw) m' contents host log Waiting fw w" and "fw_ok fw"
    and "length (md_packet_buffer (fw_moondancer fw)) < 4"
    and "main_run env [UsbEv Target (ReceivePacket ep)] (l, fw, w) (l', fw', w')"
  shows "in_phase X (fw_moondancer fw') m' contents host log Waiting fw' w' \<and> fw_ok fw' \<and>
    endpoint_inbox (fw_moondancer fw') = (endpoint_inbox (fw_moondancer fw))
      (ep := endpoint_inbox (fw_moondancer fw) ep @ [received_payload (fifo (hw w))])"
  using assms(6)
proof (induction "[UsbEv Target (ReceivePacket ep)]" "(l, fw, w)" "(l', fw', w')" arbitrary: l' fw' w'
    rule: main_run.induct)
  case (run_irq l1 fw1 w1 w2)
  with in_phase_irq [OF assms(1)] show ?case by blast
next
  case (run_event es l1 fw1 w1 e q)
  then have "es = []" and e: "e = UsbEv Target (ReceivePacket ep)" by simp_all
  with run_event(1) have "main_run env [] (l, fw, w) (l1, fw1, w1)" by simp
  from quiet_run [OF assms(1,2) this assms(3)]
  have q: "fw1 = fw" "in_phase X (fw_moondancer fw) m' contents host log Waiting fw w1"
    "fifo (hw w1) = fifo (hw w)" by simp_all
  have "in_phase X (fw_moondancer fw) m' contents host log Waiting fw (w1\<lparr>irq_ext := q\<rparr>)"
    using q(2) by (simp add: in_phase_queue)
  from target_packet_step [OF assms(1,2) this assms(4,5)] run_event(4) e q(1,3) show ?case by simp
next
  case (run_idle l1 fw1 w1 l2 w2)
  with in_phase_idle [OF assms(1) _ run_idle(4)] show ?case by blast
qed

lemma endpoint_inbox_length:
  assumes "md_ok m" and "p \<in> set (endpoint_inbox m ep)"
  shows "length p \<le> EP_MAX_PACKET_SIZE"
  using assms by (auto simp: endpoint_inbox_def packet_payload_def md_ok_def md_queues_ok_def packet_ok_def)

lemma read_endpoint_exchange:
  assumes "command_exchange X 0x120 9 [ep]" and "md_ok m" and "endpoint_inbox m ep = p # rest"
    and "ex_outcome X = Inr p" and "ex_writes X = []"
  shows "\<exists>m'. endpoint_inbox m' = (endpoint_inbox m)(ep := rest) \<and> class_exchange env log core m X m'"
proof -
  obtain m' where m': "\<And>w. md_read_endpoint env [ep] m w = Ret (Inr p, m', w)"
      "endpoint_inbox m' = (endpoint_inbox m)(ep := rest)"
    using inbox_read [of env ep m] assms(3) by auto
  have "length p \<le> 1024" using endpoint_inbox_length [OF assms(2), of p ep] assms(3)
    by (simp add: EP_MAX_PACKET_SIZE_def)
  then have "md_dispatch env 9 [ep] response_buffer (m, w) = Ret (ex_outcome X, m', w)" for w
    using m'(1) assms(4) by (simp add: md_dispatch_def md_respond_def respond_def iter_to_response_eq)
  then have "class_exchange env log core m X m'"
    using assms(5) by (intro moondancer_exchange [OF assms(1)]) simp
  with m'(2) show ?thesis by blast
qed

lemma packet_relayed:
  assumes "control_board env contents host log" and "target_fifo env fifo contents" and "fw_ok fw"
    and "awaits X contents host fw w" and "command_exchange X 0x120 9 [ep]"
    and "length (md_packet_buffer (fw_moondancer fw)) < 4"
    and "endpoint_inbox (fw_moondancer fw) ep @ [received_payload (fifo (hw w))] = p # rest"
    and "ex_outcome X = Inr p" and "ex_writes X = []"
    and "main_run env (UsbEv Target (ReceivePacket ep) # map (UsbEv ControlPort) es) (l, fw, w) s"
    and "prefix es (command_events X)"
  shows "\<exists>m'. endpoint_inbox m' = (endpoint_inbox (fw_moondancer fw))(ep := rest) \<and> on_course env X log m' es s"
proof -
  have ds: "data_stage LIBGREAT_MAX_COMMAND_SIZE (unat (sp_length (ex_command X))) (ex_packets X)"
    using assms(5) by (simp add: command_exchange_def)
  have "main_run env ([UsbEv Target (ReceivePacket ep)] @ map (UsbEv ControlPort) es) (l, fw, w) s"
    using assms(10) by simp
  then obtain l1 fw1 w1 where first: "main_run env [UsbEv Target (ReceivePacket ep)] (l, fw, w) (l1, fw1, w1)"
    and second: "main_run env (map (UsbEv ControlPort) es) (l1, fw1, w1) s"
    using main_run_split by (metis prod_cases3)
  have "in_phase X (fw_moondancer fw) m' contents host log Waiting fw w" for m'
    using awaits_waiting [OF ds] assms(4) by blast
  note run = target_packet_run [OF assms(1,2) this assms(3,6) first]
  have ok: "fw_ok fw1" and waits: "awaits X contents host fw1 w1"
    and inbox: "endpoint_inbox (fw_moondancer fw1) = (endpoint_inbox (fw_moondancer fw))(ep := p # rest)"
    using run awaits_waiting [OF ds] assms(7) by (blast, blast, simp)
  have "md_ok (fw_moondancer fw1)" using ok by (simp add: fw_ok_def)
  moreover have "endpoint_inbox (fw_moondancer fw1) ep = p # rest" using inbox by simp
  ultimately obtain m' where "endpoint_inbox m' = (endpoint_inbox (fw_moondancer fw1))(ep := rest)"
      "class_exchange env log (fw_core fw1) (fw_moondancer fw1) X m'"
    using read_endpoint_exchange [OF assms(5) _ _ assms(8,9)] by blast
  then show ?thesis using exchange_on_course [OF assms(1) _ ok waits second assms(11)] inbox
    by (intro exI [of _ m']) simp
qed

end
