(* ===== verification/Testbench.thy ===== *)
theory Testbench
  imports FirmwareRelay
begin

text \<open>
  A simulated board on which the assumptions about the hardware hold: its FIFOs are FIFOs, a primed
  OUT endpoint receives the next packet of the host, IN packets are acknowledged at the next
  interrupt, and every register write is recorded. The theorems about hardware are evaluated on it.
\<close>

record bench =
  b_log :: "(reg \<times> u32) list"
  b_out :: "usb_idx \<Rightarrow> bytes"
  b_setup :: "usb_idx \<Rightarrow> bytes"
  b_host :: "usb_idx \<Rightarrow> bytes list"
  b_mim :: u32
  b_mip :: u32
  b_counter :: u32

definition pop :: "bytes \<Rightarrow> u32 \<times> bytes" where
  "pop bs = (case bs of [] \<Rightarrow> (0, []) | b # bs \<Rightarrow> (ucast b, bs))"

fun bench_read :: "reg \<Rightarrow> bench \<Rightarrow> u32 \<times> bench" where
  "bench_read (USB i OutHave) h = (of_bool (b_out h i \<noteq> []), h)"
| "bench_read (USB i OutData) h =
     (let (v, bs) = pop (b_out h i) in (v, h\<lparr>b_out := (b_out h)(i := bs)\<rparr>))"
| "bench_read (USB i CtlHave) h = (of_bool (b_setup h i \<noteq> []), h)"
| "bench_read (USB i CtlData) h =
     (let (v, bs) = pop (b_setup h i) in (v, h\<lparr>b_setup := (b_setup h)(i := bs)\<rparr>))"
| "bench_read (CSR Mim) h = (b_mim h, h)"
| "bench_read (CSR Mip) h = (b_mip h, h)"
| "bench_read (TimerReg k TimerCtr) h = (b_counter h, h\<lparr>b_counter := b_counter h - 1\<rparr>)"
| "bench_read (UartReg k UartTxRdy) h = (1, h)"
| "bench_read r h = (0, h)"

definition bench_receive :: "usb_idx \<Rightarrow> bench \<Rightarrow> bench" where
  "bench_receive i h =
     (case b_host h i of
        [] \<Rightarrow> h
      | p # ps \<Rightarrow>
          if b_out h i = [] then h\<lparr>b_out := (b_out h)(i := p), b_host := (b_host h)(i := ps)\<rparr> else h)"

definition bench_write :: "reg \<Rightarrow> u32 \<Rightarrow> bench \<Rightarrow> bench" where
  "bench_write r v h =
     (let h = h\<lparr>b_log := b_log h @ [(r, v)]\<rparr> in
      case r of
        USB i OutEnable \<Rightarrow> if v = 1 then bench_receive i h else h
      | CSR Mim \<Rightarrow> h\<lparr>b_mim := v\<rparr>
      | _ \<Rightarrow> h)"

text \<open>Every packet in flight has been acknowledged when an interrupt is taken.\<close>

definition bench_irq :: "(bench, 'q) world \<Rightarrow> (bench, 'q) world rust" where
  "bench_irq w =
     Ret (w\<lparr>tx_ack_active := (\<lambda>i. replicate (length (tx_ack_active w i)) False)\<rparr>)"

definition bench_env :: "(bench, 'q) env" where
  "bench_env = \<lparr>env_read = bench_read, env_write = bench_write, env_irq = bench_irq\<rparr>"

definition bench_start :: "bytes list \<Rightarrow> bench" where
  "bench_start host =
     \<lparr>b_log = [], b_out = (\<lambda>_. []), b_setup = (\<lambda>_. []), b_host = (\<lambda>_. host), b_mim = 0,
      b_mip = 0, b_counter = 0\<rparr>"

definition bench_world :: "bench \<Rightarrow> (bench, event_queue) world" where
  "bench_world h =
     \<lparr>hw = h, tx_ack_active = (\<lambda>_. replicate 16 False), device_speed = (\<lambda>_. SpeedHigh), irq_ext = []\<rparr>"

section \<open>The assumptions hold on it\<close>

lemma bench_sel [simp]:
  "env_read bench_env = bench_read" "env_write bench_env = bench_write" "env_irq bench_env = bench_irq"
  by (simp_all add: bench_env_def)

lemma bench_world_sel [simp]:
  "hw (bench_world h) = h" "device_speed (bench_world h) i = SpeedHigh" "irq_ext (bench_world h) = []"
  "acks_ok (bench_world h)"
  by (simp_all add: bench_world_def acks_ok_def EP_MAX_ENDPOINTS_def)

lemma bench_start_sel [simp]:
  "b_out (bench_start ps) i = []" "b_host (bench_start ps) i = ps" "b_log (bench_start ps) = []"
  by (simp_all add: bench_start_def)

lemma bench_acks_ok: "acks_ok w \<Longrightarrow>
    acks_ok (w\<lparr>tx_ack_active := (\<lambda>i. replicate (length (tx_ack_active w i)) False)\<rparr>)"
  by (simp add: acks_ok_def)

lemma bench_irq_returns: "irq_returns bench_env"
  by (auto simp: irq_returns_def bench_irq_def bench_acks_ok)

lemma bench_receive_log [simp]: "b_log (bench_receive i h) = b_log h"
  by (simp add: bench_receive_def split: list.splits)

lemma bench_logs: "logs_writes bench_env b_log"
  by (auto simp: logs_writes_def bench_write_def Let_def split: reg.splits usb_reg.splits csr_reg.splits)

lemma bench_read_log: "b_log (snd (bench_read r h)) = b_log h"
  by (cases "(r, h)" rule: bench_read.cases) (auto split: prod.splits)

lemma bench_rx_fifo:
  "rx_fifo bench_env (USB i OutHave) (USB i OutData) (\<lambda>h. b_out h i)"
  "rx_fifo bench_env (USB i CtlHave) (USB i CtlData) (\<lambda>h. b_setup h i)"
  by (auto simp: rx_fifo_def pop_def ucast_mask_8 simp del: mask_numeral)

lemma bench_wait_fifo:
  "acks_ok w \<Longrightarrow> \<exists>w'. wait_fifo_empty bench_env i ep 0 w = Ret (True, w') \<and> acks_ok w' \<and> hw w' = hw w"
  by (subst wait_fifo_empty.simps) (simp add: bench_irq_def read_bit_eq bench_acks_ok)

lemma bench_wait_ack:
  assumes "acks_ok w" and "unat ep < 16"
  shows "\<exists>w'. wait_tx_ack bench_env i ep 0 w = Ret (True, w') \<and> acks_ok w' \<and> hw w' = hw w"
  using assms is_tx_ack_active_Ret [OF bench_acks_ok [OF assms(1)] assms(2), of i]
  by (subst wait_tx_ack.simps)
    (simp add: bench_irq_def bench_acks_ok acks_ok_def EP_MAX_ENDPOINTS_def)

lemma bench_patient: "unat ep < 16 \<Longrightarrow> patient_host bench_env i ep b_log"
  unfolding patient_host_def
  using bench_wait_fifo bench_wait_ack
  by (fastforce simp: bench_irq_def bench_acks_ok)

lemma bench_next_packet:
  "b_out h i = [] \<Longrightarrow> b_host h i = p # ps \<Longrightarrow>
     b_out (next_packet bench_env i ep h) i = p \<and> b_host (next_packet bench_env i ep h) i = ps"
  by (simp add: next_packet_def bench_write_def bench_receive_def)

lemma bench_read_host: "b_host (snd (bench_read r h)) = b_host h"
  by (cases "(r, h)" rule: bench_read.cases) (auto split: prod.splits)

lemma bench_out_endpoint:
  "out_endpoint bench_env i ep (\<lambda>h. b_out h i) (\<lambda>h. b_host h i)"
  unfolding out_endpoint_def
  by (intro conjI allI impI bench_rx_fifo bench_next_packet [THEN conjunct1]
      bench_next_packet [THEN conjunct2])
    (auto simp: bench_read_host bench_write_def bench_irq_def bench_acks_ok)

lemma bench_quiet: "quiet_reads bench_env b_log"
  by (simp add: quiet_reads_def bench_read_log)

lemma bench_control_board:
  "control_board bench_env (\<lambda>h. b_out h Usb2) (\<lambda>h. b_host h Usb2) b_log"
  unfolding control_board_def
  by (intro conjI allI bench_out_endpoint bench_logs bench_quiet bench_patient)
    (simp_all add: bench_write_def)

text \<open>Its interrupts only clear the acknowledge flags.\<close>

interpretation bench_queue: world_invariant bench_env "\<lambda>w. irq_ext w = q" for q
  by unfold_locales (simp_all add: bench_irq_def)

lemma bench_mim: "mim_storage bench_env b_mim"
  by (simp add: mim_storage_def bench_write_def)

lemma bench_isr_hw: "isr_hw bench_env (\<lambda>i h. b_setup h i)"
  by (simp add: isr_hw_def bench_rx_fifo)

lemma bench_setup_stable: "setup_stable bench_env i (\<lambda>h. b_setup h i)"
  by (simp add: setup_stable_def bench_write_def)

lemma bench_counts_down: "counts_down bench_env (timer_new k clk) (\<lambda>h. unat (b_counter h))"
  by (auto simp: counts_down_def timer_new_def unat_minus_one unat_gt_0 split: if_splits)

lemma bench_serial_ready: "serial_ready bench_env k (\<lambda>h. 0) b_log"
  by (simp add: serial_ready_def)

lemma bench_mim_private: "mim_private bench_env b_mim"
proof -
  have "b_mim (snd (bench_read r h)) = b_mim h" for r h
    by (cases "(r, h)" rule: bench_read.cases) (auto split: prod.splits)
  then show ?thesis
    by (auto simp: mim_private_def bench_mim bench_write_def bench_receive_def Let_def
        split: reg.splits usb_reg.splits csr_reg.splits list.splits)
qed

section \<open>Requests of a host\<close>

definition vendor_out :: "u16 \<Rightarrow> setup_packet" where
  "vendor_out n = \<lparr>sp_request_type = 0x40, sp_request = 0x65, sp_value = 0, sp_index = 0, sp_length = n\<rparr>"

definition vendor_in :: "u16 \<Rightarrow> setup_packet" where
  "vendor_in n = \<lparr>sp_request_type = 0xc0, sp_request = 0x65, sp_value = 0, sp_index = 0, sp_length = n\<rparr>"

lemma vendor_request_simps:
  "setup_direction (vendor_out n) = HostToDevice" "setup_direction (vendor_in n) = DeviceToHost"
  "setup_request_type (vendor_out n) = Vendor" "setup_request_type (vendor_in n) = Vendor"
  "setup_recipient (vendor_out n) = RDevice" "setup_recipient (vendor_in n) = RDevice"
  "sp_request (vendor_out n) = 0x65" "sp_request (vendor_in n) = 0x65"
  "sp_value (vendor_out n) = 0" "sp_value (vendor_in n) = 0"
  "sp_length (vendor_out n) = n" "sp_length (vendor_in n) = n"
  by (simp_all add: vendor_out_def vendor_in_def setup_direction_def direction_from_def
      setup_request_type_def request_type_from_def setup_recipient_def recipient_from_def)

definition get_descriptor :: "u8 \<Rightarrow> u8 \<Rightarrow> u16 \<Rightarrow> setup_packet" where
  "get_descriptor ty n len =
     \<lparr>sp_request_type = 0x80, sp_request = 6, sp_value = u16_of n ty, sp_index = 0, sp_length = len\<rparr>"

lemma get_descriptor_request:
  "setup_direction (get_descriptor ty n len) = DeviceToHost"
  "setup_request_type (get_descriptor ty n len) = Standard"
  "setup_request (get_descriptor ty n len) = GetDescriptor"
  "descriptor_request ty n (get_descriptor ty n len)"
  "sp_length (get_descriptor ty n len) = len"
  by (simp_all add: get_descriptor_def setup_direction_def direction_from_def setup_request_type_def
      request_type_from_def setup_request_def request_from_def descriptor_request_def)

definition set_address_request :: "u16 \<Rightarrow> setup_packet" where
  "set_address_request v =
     \<lparr>sp_request_type = 0, sp_request = 5, sp_value = v, sp_index = 0, sp_length = 0\<rparr>"

lemma set_address_request_simps:
  "setup_direction (set_address_request v) = HostToDevice"
  "setup_request_type (set_address_request v) = Standard"
  "setup_request (set_address_request v) = SetAddress"
  "sp_value (set_address_request v) = v"
  by (simp_all add: set_address_request_def setup_direction_def direction_from_def
      setup_request_type_def request_type_from_def setup_request_def request_from_def)

lemma bench_write_zlp: "\<exists>n w'. hal_write bench_env i 0 [] (bench_world h) = Ret (n, w') \<and> acks_ok w'"
  using write_with_packet_size_Ret [OF bench_irq_returns, of 0 64 "bench_world h" i None "[]"]
  by (auto simp: hal_write_def)

section \<open>The firmware on it\<close>

text \<open>The board at rest: the host has its packets ready and nothing is in a FIFO.\<close>

definition bench_rest :: "bytes list \<Rightarrow> (bench, event_queue) world \<Rightarrow> bool" where
  "bench_rest ps w \<longleftrightarrow> acks_ok w \<and> (\<forall>i. b_out (hw w) i = [] \<and> b_host (hw w) i = ps)"

lemma bench_rest_start: "bench_rest ps (bench_world (bench_start ps))"
  by (simp add: bench_rest_def)

interpretation bench_boot: boot_invariant bench_env "\<lambda>w. bench_rest ps w \<and> irq_ext w = q" for ps q
proof
  fix w :: "(bench, event_queue) world" and r v i s
  assume P: "bench_rest ps w \<and> irq_ext w = q"
  have "b_out (snd (bench_read r h)) i = []" if "b_out h i = []" for h i
    using that by (cases "(r, h)" rule: bench_read.cases) (auto simp: pop_def split: prod.splits)
  then show "bench_rest ps (w\<lparr>hw := snd (env_read bench_env r (hw w))\<rparr>) \<and>
      irq_ext (w\<lparr>hw := snd (env_read bench_env r (hw w))\<rparr>) = q"
    using P by (simp add: bench_rest_def acks_ok_def bench_read_host)
  show "bench_rest ps (w\<lparr>hw := env_write bench_env r v (hw w)\<rparr>) \<and>
      irq_ext (w\<lparr>hw := env_write bench_env r v (hw w)\<rparr>) = q"
    if "v = 0 \<or> (\<forall>i. r \<noteq> USB i OutEnable)"
    using P that
    by (auto simp: bench_rest_def acks_ok_def bench_write_def Let_def
        split: reg.splits usb_reg.splits csr_reg.splits)
  show "bench_rest ps (set_speed i s w) \<and> irq_ext (set_speed i s w) = q"
    using P by (simp add: bench_rest_def acks_ok_def set_speed_def)
qed

text \<open>Started with the events of the host in the queue, the firmware is ready for them.\<close>

lemma bench_reachable:
  "\<exists>fw w. main_reachable bench_env (loop_start, fw, w) \<and> bench_rest ps w \<and> irq_ext w = q \<and>
     ctl_next (fw_usb2_control fw) = StIdle \<and> fw_moondancer fw = moondancer_new"
proof -
  let ?w = "bench_world (bench_start ps)\<lparr>irq_ext := q\<rparr>"
  have "bench_rest ps ?w \<and> irq_ext ?w = q"
    using bench_rest_start [of ps] by (simp add: bench_rest_def acks_ok_def)
  from bench_boot.starts [OF bench_mim_private this] show ?thesis by blast
qed

lemma bench_awaits:
  "bench_rest (ex_packets X) w \<Longrightarrow> ctl_next (fw_usb2_control fw) = StIdle \<Longrightarrow>
     awaits X (\<lambda>h. b_out h Usb2) (\<lambda>h. b_host h Usb2) fw w"
  by (simp add: bench_rest_def awaits_def)

lemma bench_starts:
  "\<exists>fw w. main_reachable bench_env (loop_start, fw, w) \<and>
     awaits X (\<lambda>h. b_out h Usb2) (\<lambda>h. b_host h Usb2) fw w \<and> irq_ext w = q \<and> fw_ok fw \<and>
     fw_core fw = core_new CLASSES BOARD_INFORMATION \<and> fw_moondancer fw = moondancer_new"
proof -
  obtain fw w where r: "main_reachable bench_env (loop_start, fw, w)" "bench_rest (ex_packets X) w"
      "irq_ext w = q" "ctl_next (fw_usb2_control fw) = StIdle" "fw_moondancer fw = moondancer_new"
    using bench_reachable by blast
  moreover have "fw_ok fw" "fw_core fw = core_new CLASSES BOARD_INFORMATION"
    using main_reachable_identity [OF r(1)] main_reachable_ok [OF r(1)] by (simp_all add: fw_identity_def)
  ultimately show ?thesis using bench_awaits by blast
qed

text \<open>Every exchange whose events are in the queue takes place, also behind a SETUP packet of the target.\<close>

lemma bench_exchange:
  assumes "class_exchange bench_env b_log (core_new CLASSES BOARD_INFORMATION) moondancer_new X m'"
  shows "\<exists>fw w s'. main_reachable bench_env (loop_start, fw, w) \<and>
     awaits X (\<lambda>h. b_out h Usb2) (\<lambda>h. b_host h Usb2) fw w \<and> fw_moondancer fw = moondancer_new \<and>
     main_run bench_env (map (UsbEv ControlPort) (command_events X)) (loop_start, fw, w) s'"
proof -
  obtain fw w where r: "main_reachable bench_env (loop_start, fw, w)"
      "awaits X (\<lambda>h. b_out h Usb2) (\<lambda>h. b_host h Usb2) fw w"
      "irq_ext w = map (UsbEv ControlPort) (command_events X)"
    and fw: "fw_ok fw" "fw_core fw = core_new CLASSES BOARD_INFORMATION" "fw_moondancer fw = moondancer_new"
    using bench_starts by blast
  have "class_exchange bench_env b_log (fw_core fw) (fw_moondancer fw) X m'" using assms fw by simp
  from exchange_takes_place [OF bench_control_board this fw(1) r(2) bench_queue.world_invariant_axioms r(3)]
  show ?thesis using r(1,2) fw(3) by metis
qed

lemma bench_relay:
  assumes "command_exchange X 0x120 3 args" and "ex_outcome X = Inr (setup_as_bytes sp)"
    and "ex_writes X = []" and "\<not> is_set_address sp"
  shows "\<exists>fw w s. main_reachable bench_env (loop_start, fw, w) \<and>
     awaits X (\<lambda>h. b_out h Usb2) (\<lambda>h. b_host h Usb2) fw w \<and> fw_moondancer fw = moondancer_new \<and>
     main_run bench_env (target_setup sp # map (UsbEv ControlPort) (command_events X)) (loop_start, fw, w) s"
proof -
  let ?q = "map (UsbEv ControlPort) (command_events X)"
  obtain fw w where r: "main_reachable bench_env (loop_start, fw, w)"
      "awaits X (\<lambda>h. b_out h Usb2) (\<lambda>h. b_host h Usb2) fw w" "irq_ext w = target_setup sp # ?q"
    and m: "fw_moondancer fw = moondancer_new"
    using bench_starts by blast
  let ?w = "write_leds bench_env 1 (w\<lparr>irq_ext := ?q\<rparr>)"
  have "length (md_control_queue (fw_moondancer fw)) < 7" by (simp add: m moondancer_new_def queue_new_def)
  from target_setup_returns [OF assms(4) this, of bench_env loop_start "w\<lparr>irq_ext := ?q\<rparr>"] obtain l1 fw1
    where step: "loop_event bench_env (target_setup sp) loop_start fw (w\<lparr>irq_ext := ?q\<rparr>) = Ret (l1, fw1, ?w)"
    by blast
  have "main_run bench_env ([] @ [target_setup sp]) (loop_start, fw, w) (l1, fw1, ?w)"
    using run_start by (rule run_event) (use r(3) step in simp_all)
  then have first: "main_run bench_env (map target_setup [sp]) (loop_start, fw, w) (l1, fw1, ?w)" by simp
  have ds: "data_stage LIBGREAT_MAX_COMMAND_SIZE (unat (sp_length (ex_command X))) (ex_packets X)"
    using assms(1) by (simp add: command_exchange_def)
  note waiting = awaits_waiting [OF ds]
  have "list_all (\<lambda>sp. \<not> is_set_address sp) [sp]" using assms(4) by simp
  from target_run [OF bench_control_board r(2) [unfolded waiting [of _ _ fw w "fw_moondancer fw" b_log]] this
      first]
  have awaits: "awaits X (\<lambda>h. b_out h Usb2) (\<lambda>h. b_host h Usb2) fw1 ?w"
    and queue: "md_control_queue (fw_moondancer fw1) = sp # []"
    using waiting by (blast, simp add: m moondancer_new_def queue_new_def)
  note ex = read_control_exchange [OF assms(1) queue assms(2,3), of bench_env b_log]
  have ok: "fw_ok fw1" using main_reachable_ok [OF main_run_reachable [OF first r(1)]] by simp
  have "irq_ext ?w = ?q" by simp
  from exchange_takes_place [OF bench_control_board ex ok awaits bench_queue.world_invariant_axioms this]
  obtain s where "main_run bench_env ?q (l1, fw1, ?w) s" by blast
  from main_run_trans [OF this first] have
    "main_run bench_env (target_setup sp # ?q) (loop_start, fw, w) s" by simp
  with r(1,2) m show ?thesis by blast
qed

definition idle_firmware :: firmware where
  "idle_firmware =
     \<lparr>fw_usb2_control = control_new LIBGREAT_MAX_COMMAND_SIZE 0 (fw_descriptors (str_lit ''0'') 1),
      fw_libgreat_response = None, fw_libgreat_response_last_error = None,
      fw_core = core_new CLASSES BOARD_INFORMATION, fw_moondancer = moondancer_new\<rparr>"

lemma idle_firmware_ok: "fw_ok idle_firmware"
  by (simp add: idle_firmware_def fw_ok_def fw_control_ok_def fw_protocol_ok_def moondancer_new_ok
      control_new_ok) (simp add: control_new_def)

lemma idle_firmware_sel [simp]:
  "ctl_next (fw_usb2_control idle_firmware) = StIdle"
  "fw_core idle_firmware = core_new CLASSES BOARD_INFORMATION"
  "fw_libgreat_response idle_firmware = None" "fw_libgreat_response_last_error idle_firmware = None"
  by (simp_all add: idle_firmware_def control_new_def)

text \<open>A packet for the target waits in the FIFO, its event and the exchange that fetches it in the queue.\<close>

lemma bench_target_fifo: "target_fifo bench_env (\<lambda>h. b_out h Usb0) (\<lambda>h. b_out h Usb2)"
  by (auto simp: target_fifo_def bench_rx_fifo bench_write_def bench_irq_def split: prod.splits)

definition packet_world :: "exchange \<Rightarrow> u8 \<Rightarrow> bytes \<Rightarrow> (bench, event_queue) world" where
  "packet_world X ep bs =
     bench_world (bench_start (ex_packets X)\<lparr>b_out := (\<lambda>i. if i = Usb0 then bs else [])\<rparr>)
       \<lparr>irq_ext := UsbEv Target (ReceivePacket ep) # map (UsbEv ControlPort) (command_events X)\<rparr>"

lemma packet_world_sel:
  "acks_ok (packet_world X ep bs)" "b_out (hw (packet_world X ep bs)) Usb0 = bs"
  "awaits X (\<lambda>h. b_out h Usb2) (\<lambda>h. b_host h Usb2) idle_firmware (packet_world X ep bs)"
  by (simp_all add: packet_world_def awaits_def acks_ok_def bench_world_def EP_MAX_ENDPOINTS_def)

lemma bench_packet_relay:
  assumes "command_exchange X 0x120 9 [ep]" and "ex_outcome X = Inr (received_payload bs)"
    and "ex_writes X = []"
  shows "\<exists>s. main_run bench_env (UsbEv Target (ReceivePacket ep) # map (UsbEv ControlPort) (command_events X))
    (loop_start, idle_firmware, packet_world X ep bs) s"
proof -
  let ?q = "map (UsbEv ControlPort) (command_events X)" and ?w = "packet_world X ep bs"
  let ?e = "UsbEv Target (ReceivePacket ep)" and ?w1 = "write_leds bench_env 1 (packet_world X ep bs\<lparr>irq_ext := map (UsbEv ControlPort) (command_events X)\<rparr>)"
  obtain m1 w2 where d: "md_dispatch_event bench_env (ReceivePacket ep) moondancer_new ?w1 = Ret (m1, w2)"
    using inbox_receives [OF bench_rx_fifo(1), of ep moondancer_new ?w1] by auto
  then obtain n rx where "hal_read bench_env Usb0 ep (replicate EP_MAX_PACKET_SIZE 0) ?w1 = Ret (n, rx, w2)"
    by (auto simp: md_dispatch_event_def rbind_Ret_iff)
  then have q: "irq_ext w2 = ?q"
    using hal_read_keep [of bench_env Usb0 "\<lambda>v. irq_ext v = ?q" ?w1] by (simp add: out_reads_keep_def)
  have "\<exists>l1 fw1. loop_event bench_env ?e loop_start idle_firmware (?w\<lparr>irq_ext := ?q\<rparr>) = Ret (l1, fw1, w2)"
    using d by (simp add: loop_event_def fw_handle_event_def Let_def idle_firmware_def)
  then obtain l1 fw1 where step: "loop_event bench_env ?e loop_start idle_firmware (?w\<lparr>irq_ext := ?q\<rparr>) =
      Ret (l1, fw1, w2)" by blast
  have "main_run bench_env ([] @ [?e]) (loop_start, idle_firmware, ?w) (l1, fw1, w2)"
    using run_start by (rule run_event) (use step in \<open>simp_all add: packet_world_def\<close>)
  then have first: "main_run bench_env [?e] (loop_start, idle_firmware, ?w) (l1, fw1, w2)" by simp
  have ds: "data_stage LIBGREAT_MAX_COMMAND_SIZE (unat (sp_length (ex_command X))) (ex_packets X)"
    using assms(1) by (simp add: command_exchange_def)
  have new: "fw_moondancer idle_firmware = moondancer_new" by (simp add: idle_firmware_def)
  have "in_phase X (fw_moondancer idle_firmware) m' (\<lambda>h. b_out h Usb2) (\<lambda>h. b_host h Usb2) b_log Waiting
      idle_firmware ?w" for m'
    using awaits_waiting [OF ds] packet_world_sel(3) by blast
  from target_packet_run [OF bench_control_board bench_target_fifo this idle_firmware_ok _ first]
  have run: "in_phase X (fw_moondancer fw1) m' (\<lambda>h. b_out h Usb2) (\<lambda>h. b_host h Usb2) b_log Waiting fw1 w2"
    "fw_ok fw1" "endpoint_inbox (fw_moondancer fw1) ep = [received_payload bs]" for m'
    by (simp_all add: new packet_world_sel(2))
  have awaits: "awaits X (\<lambda>h. b_out h Usb2) (\<lambda>h. b_host h Usb2) fw1 w2"
    using run(1) awaits_waiting [OF ds] by blast
  obtain m' where "class_exchange bench_env b_log (fw_core fw1) (fw_moondancer fw1) X m'"
    using read_endpoint_exchange [OF assms(1) _ run(3) assms(2,3), of bench_env b_log "fw_core fw1"] run(2)
    by (auto simp: fw_ok_def)
  from exchange_takes_place [OF bench_control_board this run(2) awaits bench_queue.world_invariant_axioms q]
  obtain s where "main_run bench_env ?q (l1, fw1, w2) s" by blast
  from main_run_trans [OF this first] show ?thesis by (intro exI [of _ s]) simp
qed

definition vendor_abort :: setup_packet where
  "vendor_abort =
     \<lparr>sp_request_type = 0xc0, sp_request = 0x65, sp_value = 0xdead, sp_index = 0, sp_length = 64\<rparr>"

lemma abort_length [simp]: "sp_length vendor_abort = 64"
  by (simp add: vendor_abort_def)

lemma abort_request: "is_abort vendor_abort"
  by (simp add: is_abort_def vendor_abort_def setup_direction_def setup_request_type_def
      direction_from_def request_type_from_def vendor_request_from_def vendor_value_from_def)

lemma vendor_execute:
  "is_execute HostToDevice (vendor_out n)" "is_execute DeviceToHost (vendor_in n)"
  by (simp_all add: is_execute_def vendor_request_simps vendor_request_from_def vendor_value_from_def)

lemma asks_get_descriptor: "asks_descriptor (get_descriptor ty n len)"
  by (simp add: asks_descriptor_def get_descriptor_request)

lemma read_board_id_response:
  "core_dispatch (core_new CLASSES BOARD_INFORMATION) 0 [] response_buffer = Inr [0x10, 0, 0, 0]"
  by (simp add: core_dispatch_def read_board_id_def core_new_def BOARD_INFORMATION_def le32_def)

text \<open>The board of the tests, but each interrupt leaves the bus reset of the host in the queue.\<close>

definition reset_irq :: "(bench, event_queue) world \<Rightarrow> (bench, event_queue) world rust" where
  "reset_irq w = Ret (w\<lparr>tx_ack_active := (\<lambda>_. replicate 16 False), irq_ext := [UsbEv ControlPort BusReset]\<rparr>)"

definition reset_env :: "(bench, event_queue) env" where
  "reset_env = bench_env\<lparr>env_irq := reset_irq\<rparr>"

lemma reset_env_sel [simp]:
  "env_read reset_env = bench_read" "env_write reset_env = bench_write" "env_irq reset_env = reset_irq"
  by (simp_all add: reset_env_def)

lemma reset_env_ready: "acks_ok w \<Longrightarrow> fw_ready reset_env b_mim (\<lambda>h. b_out h Usb0) (\<lambda>h. b_out h Usb2) w"
  using bench_rx_fifo bench_mim
  by (simp add: fw_ready_def md_ready_def hal_ready_def irq_returns_def rx_fifo_def mim_storage_def
      reset_irq_def acks_ok_def EP_MAX_ENDPOINTS_def)

lemma reset_mim_private: "mim_private reset_env b_mim"
  using bench_mim_private by (simp add: mim_private_def mim_storage_def)

end
