(* ===== verification/RegisterSpecs.thy ===== *)
theory RegisterSpecs
  imports Hardware
begin

text \<open>
  The registers of the crate \<open>moondancer-pac\<close>, one definition per file of
  \<open>moondancer-pac/src/generated/<block>/\<close>: the size in bytes (\<open>type Ux\<close>), the traits \<open>Readable\<close> and
  \<open>Writable\<close>, the fields of the reader and of the writer with their offset and width, the reset value and
  the two bitmaps that tell \<open>modify\<close> which bits to force.
\<close>

record pac_register =
  rg_size :: nat
  rg_readable :: bool
  rg_writable :: bool
  rg_reads :: "(string \<times> nat \<times> nat) list"
  rg_writes :: "(string \<times> nat \<times> nat) list"
  rg_reset :: u32
  rg_zero_to_modify :: u32
  rg_one_to_modify :: u32

definition read_only :: "nat \<Rightarrow> (string \<times> nat \<times> nat) list \<Rightarrow> u32 \<Rightarrow> pac_register" where
  "read_only bytes reads reset =
     \<lparr>rg_size = bytes, rg_readable = True, rg_writable = False, rg_reads = reads, rg_writes = [],
      rg_reset = reset, rg_zero_to_modify = 0, rg_one_to_modify = 0\<rparr>"

definition write_only ::
  "nat \<Rightarrow> (string \<times> nat \<times> nat) list \<Rightarrow> u32 \<Rightarrow> u32 \<Rightarrow> u32 \<Rightarrow> pac_register" where
  "write_only bytes writes reset zero one =
     \<lparr>rg_size = bytes, rg_readable = False, rg_writable = True, rg_reads = [], rg_writes = writes,
      rg_reset = reset, rg_zero_to_modify = zero, rg_one_to_modify = one\<rparr>"

definition read_write ::
  "nat \<Rightarrow> (string \<times> nat \<times> nat) list \<Rightarrow> (string \<times> nat \<times> nat) list \<Rightarrow> u32 \<Rightarrow> u32 \<Rightarrow> u32 \<Rightarrow> pac_register"
  where
  "read_write bytes reads writes reset zero one =
     \<lparr>rg_size = bytes, rg_readable = True, rg_writable = True, rg_reads = reads, rg_writes = writes,
      rg_reset = reset, rg_zero_to_modify = zero, rg_one_to_modify = one\<rparr>"

section \<open>timer\<close>

definition timer_reload :: pac_register where
  "timer_reload = read_write 4 [(''reload'', 0, 32)]
     [(''reload'', 0, 32)] 0 0 0"

definition timer_en :: pac_register where
  "timer_en = read_write 4 [(''en'', 0, 1)]
     [(''en'', 0, 1)] 0 0 0"

definition timer_ctr :: pac_register where
  "timer_ctr = read_write 4 [(''ctr'', 0, 32)]
     [(''ctr'', 0, 32)] 0 0 0"

definition timer_ev_status :: pac_register where
  "timer_ev_status = read_only 4 [(''status'', 0, 1)] 0"

definition timer_ev_pending :: pac_register where
  "timer_ev_pending = read_write 4 [(''pending'', 0, 1)]
     [(''pending'', 0, 1)] 0 0 0"

definition timer_ev_enable :: pac_register where
  "timer_ev_enable = read_write 4 [(''enable'', 0, 1)]
     [(''enable'', 0, 1)] 0 0 0"

section \<open>uart\<close>

definition uart_divisor :: pac_register where
  "uart_divisor = read_write 4 [(''divisor'', 0, 10)]
     [(''divisor'', 0, 10)] 0 0 0"

definition uart_rx_data :: pac_register where
  "uart_rx_data = read_only 4 [(''rx_data'', 0, 8)] 0"

definition uart_rx_rdy :: pac_register where
  "uart_rx_rdy = read_only 4 [(''rx_rdy'', 0, 1)] 0"

definition uart_rx_err :: pac_register where
  "uart_rx_err = read_only 4 [(''rx_err'', 0, 3)] 0"

definition uart_tx_data :: pac_register where
  "uart_tx_data = write_only 4 [(''tx_data'', 0, 8)] 0 0 0"

definition uart_tx_rdy :: pac_register where
  "uart_tx_rdy = read_only 4 [(''tx_rdy'', 0, 1)] 0"

definition uart_ev_status :: pac_register where
  "uart_ev_status = read_only 4 [(''status'', 0, 3)] 0"

definition uart_ev_pending :: pac_register where
  "uart_ev_pending = read_write 4 [(''pending'', 0, 3)]
     [(''pending'', 0, 3)] 0 0 0"

definition uart_ev_enable :: pac_register where
  "uart_ev_enable = read_write 4 [(''enable'', 0, 3)]
     [(''enable'', 0, 3)] 0 0 0"

section \<open>spi0\<close>

definition spi0_phy_len :: pac_register where
  "spi0_phy_len = read_write 1 [(''phy_len'', 0, 6)]
     [(''phy_len'', 0, 6)] 0 0 0"

definition spi0_phy_width :: pac_register where
  "spi0_phy_width = read_write 1 [(''phy_width'', 0, 4)]
     [(''phy_width'', 0, 4)] 0 0 0"

definition spi0_phy_mask :: pac_register where
  "spi0_phy_mask = read_write 1 [(''phy_mask'', 0, 8)]
     [(''phy_mask'', 0, 8)] 0 0 0"

definition spi0_cs :: pac_register where
  "spi0_cs = read_write 1 [(''cs'', 0, 1)]
     [(''cs'', 0, 1)] 0 0 0"

definition spi0_rxtx :: pac_register where
  "spi0_rxtx = read_write 4 [(''rxtx'', 0, 32)]
     [(''rxtx'', 0, 32)] 0 0 0"

definition spi0_tx_rdy :: pac_register where
  "spi0_tx_rdy = read_only 1 [(''tx_rdy'', 0, 1)] 0"

definition spi0_rx_rdy :: pac_register where
  "spi0_rx_rdy = read_only 1 [(''rx_rdy'', 0, 1)] 0"

section \<open>leds\<close>

definition leds_output :: pac_register where
  "leds_output = write_only 4 [(''output'', 0, 6)] 0 0 0"

section \<open>gpioa\<close>

definition gpioa_moder :: pac_register where
  "gpioa_moder = read_write 4 [(''moder'', 0, 8)]
     [(''moder'', 0, 8)] 0 0 0"

definition gpioa_odr :: pac_register where
  "gpioa_odr = write_only 4 [(''odr'', 0, 8)] 0 0 0"

definition gpioa_idr :: pac_register where
  "gpioa_idr = read_only 4 [(''idr'', 0, 8)] 0"

definition gpioa_ev_status :: pac_register where
  "gpioa_ev_status = read_only 4 [(''status'', 0, 1)] 0"

definition gpioa_ev_pending :: pac_register where
  "gpioa_ev_pending = read_write 4 [(''pending'', 0, 1)]
     [(''pending'', 0, 1)] 0 0 0"

definition gpioa_ev_enable :: pac_register where
  "gpioa_ev_enable = read_write 4 [(''enable'', 0, 1)]
     [(''enable'', 0, 1)] 0 0 0"

section \<open>gpiob\<close>

definition gpiob_moder :: pac_register where
  "gpiob_moder = read_write 4 [(''moder'', 0, 8)]
     [(''moder'', 0, 8)] 0 0 0"

definition gpiob_odr :: pac_register where
  "gpiob_odr = write_only 4 [(''odr'', 0, 8)] 0 0 0"

definition gpiob_idr :: pac_register where
  "gpiob_idr = read_only 4 [(''idr'', 0, 8)] 0"

definition gpiob_ev_status :: pac_register where
  "gpiob_ev_status = read_only 4 [(''status'', 0, 1)] 0"

definition gpiob_ev_pending :: pac_register where
  "gpiob_ev_pending = read_write 4 [(''pending'', 0, 1)]
     [(''pending'', 0, 1)] 0 0 0"

definition gpiob_ev_enable :: pac_register where
  "gpiob_ev_enable = read_write 4 [(''enable'', 0, 1)]
     [(''enable'', 0, 1)] 0 0 0"

section \<open>usb0\<close>

definition usb0_connect :: pac_register where
  "usb0_connect = read_write 4 [(''connect'', 0, 1)]
     [(''connect'', 0, 1)] 0 0 0"

definition usb0_speed :: pac_register where
  "usb0_speed = read_only 4 [(''speed'', 0, 2)] 0"

definition usb0_low_speed_only :: pac_register where
  "usb0_low_speed_only = read_write 4 [(''low_speed_only'', 0, 1)]
     [(''low_speed_only'', 0, 1)] 0 0 0"

definition usb0_full_speed_only :: pac_register where
  "usb0_full_speed_only = read_write 4 [(''full_speed_only'', 0, 1)]
     [(''full_speed_only'', 0, 1)] 0 0 0"

definition usb0_ev_status :: pac_register where
  "usb0_ev_status = read_only 4 [(''status'', 0, 1)] 0"

definition usb0_ev_pending :: pac_register where
  "usb0_ev_pending = read_write 4 [(''pending'', 0, 1)]
     [(''pending'', 0, 1)] 0 0 0"

definition usb0_ev_enable :: pac_register where
  "usb0_ev_enable = read_write 4 [(''enable'', 0, 1)]
     [(''enable'', 0, 1)] 0 0 0"

section \<open>usb0_ep_control\<close>

definition usb0_ep_control_data :: pac_register where
  "usb0_ep_control_data = read_only 4 [(''data'', 0, 8)] 0"

definition usb0_ep_control_reset :: pac_register where
  "usb0_ep_control_reset = write_only 4 [(''reset'', 0, 1)] 0 0 0"

definition usb0_ep_control_epno :: pac_register where
  "usb0_ep_control_epno = read_only 4 [(''epno'', 0, 4)] 0"

definition usb0_ep_control_have :: pac_register where
  "usb0_ep_control_have = read_only 4 [(''have'', 0, 1)] 0"

definition usb0_ep_control_pend :: pac_register where
  "usb0_ep_control_pend = read_only 4 [(''pend'', 0, 1)] 0"

definition usb0_ep_control_address :: pac_register where
  "usb0_ep_control_address = read_write 4 [(''address'', 0, 8)]
     [(''address'', 0, 8)] 0 0 0"

definition usb0_ep_control_ev_status :: pac_register where
  "usb0_ep_control_ev_status = read_only 4 [(''status'', 0, 1)] 0"

definition usb0_ep_control_ev_pending :: pac_register where
  "usb0_ep_control_ev_pending = read_write 4 [(''pending'', 0, 1)]
     [(''pending'', 0, 1)] 0 0 0"

definition usb0_ep_control_ev_enable :: pac_register where
  "usb0_ep_control_ev_enable = read_write 4 [(''enable'', 0, 1)]
     [(''enable'', 0, 1)] 0 0 0"

section \<open>usb0_ep_in\<close>

definition usb0_ep_in_data :: pac_register where
  "usb0_ep_in_data = write_only 4 [(''data'', 0, 8)] 0 0 0"

definition usb0_ep_in_epno :: pac_register where
  "usb0_ep_in_epno = read_write 4 [(''epno'', 0, 4)]
     [(''epno'', 0, 4)] 0 0 0"

definition usb0_ep_in_reset :: pac_register where
  "usb0_ep_in_reset = write_only 4 [(''reset'', 0, 1)] 0 0 0"

definition usb0_ep_in_stall :: pac_register where
  "usb0_ep_in_stall = read_write 4 [(''stall'', 0, 1)]
     [(''stall'', 0, 1)] 0 0 0"

definition usb0_ep_in_idle :: pac_register where
  "usb0_ep_in_idle = read_only 4 [(''idle'', 0, 1)] 0"

definition usb0_ep_in_have :: pac_register where
  "usb0_ep_in_have = read_only 4 [(''have'', 0, 1)] 0"

definition usb0_ep_in_pend :: pac_register where
  "usb0_ep_in_pend = read_only 4 [(''pend'', 0, 1)] 0"

definition usb0_ep_in_pid :: pac_register where
  "usb0_ep_in_pid = read_write 4 [(''pid'', 0, 1)]
     [(''pid'', 0, 1)] 0 0 0"

definition usb0_ep_in_nak :: pac_register where
  "usb0_ep_in_nak = read_only 4 [(''nak'', 0, 16)] 0"

definition usb0_ep_in_ev_status :: pac_register where
  "usb0_ep_in_ev_status = read_only 4 [(''status'', 0, 1)] 0"

definition usb0_ep_in_ev_pending :: pac_register where
  "usb0_ep_in_ev_pending = read_write 4 [(''pending'', 0, 1)]
     [(''pending'', 0, 1)] 0 0 0"

definition usb0_ep_in_ev_enable :: pac_register where
  "usb0_ep_in_ev_enable = read_write 4 [(''enable'', 0, 1)]
     [(''enable'', 0, 1)] 0 0 0"

section \<open>usb0_ep_out\<close>

definition usb0_ep_out_data :: pac_register where
  "usb0_ep_out_data = read_only 4 [(''data'', 0, 8)] 0"

definition usb0_ep_out_data_ep :: pac_register where
  "usb0_ep_out_data_ep = read_only 4 [(''data_ep'', 0, 4)] 0"

definition usb0_ep_out_reset :: pac_register where
  "usb0_ep_out_reset = write_only 4 [(''reset'', 0, 1)] 0 0 0"

definition usb0_ep_out_epno :: pac_register where
  "usb0_ep_out_epno = read_write 4 [(''epno'', 0, 4)]
     [(''epno'', 0, 4)] 0 0 0"

definition usb0_ep_out_enable :: pac_register where
  "usb0_ep_out_enable = read_write 4 [(''enable'', 0, 1)]
     [(''enable'', 0, 1)] 0 0 0"

definition usb0_ep_out_prime :: pac_register where
  "usb0_ep_out_prime = write_only 4 [(''prime'', 0, 1)] 0 0 0"

definition usb0_ep_out_stall :: pac_register where
  "usb0_ep_out_stall = read_write 4 [(''stall'', 0, 1)]
     [(''stall'', 0, 1)] 0 0 0"

definition usb0_ep_out_have :: pac_register where
  "usb0_ep_out_have = read_only 4 [(''have'', 0, 1)] 0"

definition usb0_ep_out_pend :: pac_register where
  "usb0_ep_out_pend = read_only 4 [(''pend'', 0, 1)] 0"

definition usb0_ep_out_address :: pac_register where
  "usb0_ep_out_address = read_write 4 [(''address'', 0, 8)]
     [(''address'', 0, 8)] 0 0 0"

definition usb0_ep_out_pid :: pac_register where
  "usb0_ep_out_pid = read_write 4 [(''pid'', 0, 1)]
     [(''pid'', 0, 1)] 0 0 0"

definition usb0_ep_out_ev_status :: pac_register where
  "usb0_ep_out_ev_status = read_only 4 [(''status'', 0, 1)] 0"

definition usb0_ep_out_ev_pending :: pac_register where
  "usb0_ep_out_ev_pending = read_write 4 [(''pending'', 0, 1)]
     [(''pending'', 0, 1)] 0 0 0"

definition usb0_ep_out_ev_enable :: pac_register where
  "usb0_ep_out_ev_enable = read_write 4 [(''enable'', 0, 1)]
     [(''enable'', 0, 1)] 0 0 0"

section \<open>usb1\<close>

definition usb1_connect :: pac_register where
  "usb1_connect = read_write 4 [(''connect'', 0, 1)]
     [(''connect'', 0, 1)] 0 0 0"

definition usb1_speed :: pac_register where
  "usb1_speed = read_only 4 [(''speed'', 0, 2)] 0"

definition usb1_low_speed_only :: pac_register where
  "usb1_low_speed_only = read_write 4 [(''low_speed_only'', 0, 1)]
     [(''low_speed_only'', 0, 1)] 0 0 0"

definition usb1_full_speed_only :: pac_register where
  "usb1_full_speed_only = read_write 4 [(''full_speed_only'', 0, 1)]
     [(''full_speed_only'', 0, 1)] 0 0 0"

definition usb1_ev_status :: pac_register where
  "usb1_ev_status = read_only 4 [(''status'', 0, 1)] 0"

definition usb1_ev_pending :: pac_register where
  "usb1_ev_pending = read_write 4 [(''pending'', 0, 1)]
     [(''pending'', 0, 1)] 0 0 0"

definition usb1_ev_enable :: pac_register where
  "usb1_ev_enable = read_write 4 [(''enable'', 0, 1)]
     [(''enable'', 0, 1)] 0 0 0"

section \<open>usb1_ep_control\<close>

definition usb1_ep_control_data :: pac_register where
  "usb1_ep_control_data = read_only 4 [(''data'', 0, 8)] 0"

definition usb1_ep_control_reset :: pac_register where
  "usb1_ep_control_reset = write_only 4 [(''reset'', 0, 1)] 0 0 0"

definition usb1_ep_control_epno :: pac_register where
  "usb1_ep_control_epno = read_only 4 [(''epno'', 0, 4)] 0"

definition usb1_ep_control_have :: pac_register where
  "usb1_ep_control_have = read_only 4 [(''have'', 0, 1)] 0"

definition usb1_ep_control_pend :: pac_register where
  "usb1_ep_control_pend = read_only 4 [(''pend'', 0, 1)] 0"

definition usb1_ep_control_address :: pac_register where
  "usb1_ep_control_address = read_write 4 [(''address'', 0, 8)]
     [(''address'', 0, 8)] 0 0 0"

definition usb1_ep_control_ev_status :: pac_register where
  "usb1_ep_control_ev_status = read_only 4 [(''status'', 0, 1)] 0"

definition usb1_ep_control_ev_pending :: pac_register where
  "usb1_ep_control_ev_pending = read_write 4 [(''pending'', 0, 1)]
     [(''pending'', 0, 1)] 0 0 0"

definition usb1_ep_control_ev_enable :: pac_register where
  "usb1_ep_control_ev_enable = read_write 4 [(''enable'', 0, 1)]
     [(''enable'', 0, 1)] 0 0 0"

section \<open>usb1_ep_in\<close>

definition usb1_ep_in_data :: pac_register where
  "usb1_ep_in_data = write_only 4 [(''data'', 0, 8)] 0 0 0"

definition usb1_ep_in_epno :: pac_register where
  "usb1_ep_in_epno = read_write 4 [(''epno'', 0, 4)]
     [(''epno'', 0, 4)] 0 0 0"

definition usb1_ep_in_reset :: pac_register where
  "usb1_ep_in_reset = write_only 4 [(''reset'', 0, 1)] 0 0 0"

definition usb1_ep_in_stall :: pac_register where
  "usb1_ep_in_stall = read_write 4 [(''stall'', 0, 1)]
     [(''stall'', 0, 1)] 0 0 0"

definition usb1_ep_in_idle :: pac_register where
  "usb1_ep_in_idle = read_only 4 [(''idle'', 0, 1)] 0"

definition usb1_ep_in_have :: pac_register where
  "usb1_ep_in_have = read_only 4 [(''have'', 0, 1)] 0"

definition usb1_ep_in_pend :: pac_register where
  "usb1_ep_in_pend = read_only 4 [(''pend'', 0, 1)] 0"

definition usb1_ep_in_pid :: pac_register where
  "usb1_ep_in_pid = read_write 4 [(''pid'', 0, 1)]
     [(''pid'', 0, 1)] 0 0 0"

definition usb1_ep_in_nak :: pac_register where
  "usb1_ep_in_nak = read_only 4 [(''nak'', 0, 16)] 0"

definition usb1_ep_in_ev_status :: pac_register where
  "usb1_ep_in_ev_status = read_only 4 [(''status'', 0, 1)] 0"

definition usb1_ep_in_ev_pending :: pac_register where
  "usb1_ep_in_ev_pending = read_write 4 [(''pending'', 0, 1)]
     [(''pending'', 0, 1)] 0 0 0"

definition usb1_ep_in_ev_enable :: pac_register where
  "usb1_ep_in_ev_enable = read_write 4 [(''enable'', 0, 1)]
     [(''enable'', 0, 1)] 0 0 0"

section \<open>usb1_ep_out\<close>

definition usb1_ep_out_data :: pac_register where
  "usb1_ep_out_data = read_only 4 [(''data'', 0, 8)] 0"

definition usb1_ep_out_data_ep :: pac_register where
  "usb1_ep_out_data_ep = read_only 4 [(''data_ep'', 0, 4)] 0"

definition usb1_ep_out_reset :: pac_register where
  "usb1_ep_out_reset = write_only 4 [(''reset'', 0, 1)] 0 0 0"

definition usb1_ep_out_epno :: pac_register where
  "usb1_ep_out_epno = read_write 4 [(''epno'', 0, 4)]
     [(''epno'', 0, 4)] 0 0 0"

definition usb1_ep_out_enable :: pac_register where
  "usb1_ep_out_enable = read_write 4 [(''enable'', 0, 1)]
     [(''enable'', 0, 1)] 0 0 0"

definition usb1_ep_out_prime :: pac_register where
  "usb1_ep_out_prime = write_only 4 [(''prime'', 0, 1)] 0 0 0"

definition usb1_ep_out_stall :: pac_register where
  "usb1_ep_out_stall = read_write 4 [(''stall'', 0, 1)]
     [(''stall'', 0, 1)] 0 0 0"

definition usb1_ep_out_have :: pac_register where
  "usb1_ep_out_have = read_only 4 [(''have'', 0, 1)] 0"

definition usb1_ep_out_pend :: pac_register where
  "usb1_ep_out_pend = read_only 4 [(''pend'', 0, 1)] 0"

definition usb1_ep_out_address :: pac_register where
  "usb1_ep_out_address = read_write 4 [(''address'', 0, 8)]
     [(''address'', 0, 8)] 0 0 0"

definition usb1_ep_out_pid :: pac_register where
  "usb1_ep_out_pid = read_write 4 [(''pid'', 0, 1)]
     [(''pid'', 0, 1)] 0 0 0"

definition usb1_ep_out_ev_status :: pac_register where
  "usb1_ep_out_ev_status = read_only 4 [(''status'', 0, 1)] 0"

definition usb1_ep_out_ev_pending :: pac_register where
  "usb1_ep_out_ev_pending = read_write 4 [(''pending'', 0, 1)]
     [(''pending'', 0, 1)] 0 0 0"

definition usb1_ep_out_ev_enable :: pac_register where
  "usb1_ep_out_ev_enable = read_write 4 [(''enable'', 0, 1)]
     [(''enable'', 0, 1)] 0 0 0"

section \<open>usb2\<close>

definition usb2_connect :: pac_register where
  "usb2_connect = read_write 4 [(''connect'', 0, 1)]
     [(''connect'', 0, 1)] 0 0 0"

definition usb2_speed :: pac_register where
  "usb2_speed = read_only 4 [(''speed'', 0, 2)] 0"

definition usb2_low_speed_only :: pac_register where
  "usb2_low_speed_only = read_write 4 [(''low_speed_only'', 0, 1)]
     [(''low_speed_only'', 0, 1)] 0 0 0"

definition usb2_full_speed_only :: pac_register where
  "usb2_full_speed_only = read_write 4 [(''full_speed_only'', 0, 1)]
     [(''full_speed_only'', 0, 1)] 0 0 0"

definition usb2_ev_status :: pac_register where
  "usb2_ev_status = read_only 4 [(''status'', 0, 1)] 0"

definition usb2_ev_pending :: pac_register where
  "usb2_ev_pending = read_write 4 [(''pending'', 0, 1)]
     [(''pending'', 0, 1)] 0 0 0"

definition usb2_ev_enable :: pac_register where
  "usb2_ev_enable = read_write 4 [(''enable'', 0, 1)]
     [(''enable'', 0, 1)] 0 0 0"

section \<open>usb2_ep_control\<close>

definition usb2_ep_control_data :: pac_register where
  "usb2_ep_control_data = read_only 4 [(''data'', 0, 8)] 0"

definition usb2_ep_control_reset :: pac_register where
  "usb2_ep_control_reset = write_only 4 [(''reset'', 0, 1)] 0 0 0"

definition usb2_ep_control_epno :: pac_register where
  "usb2_ep_control_epno = read_only 4 [(''epno'', 0, 4)] 0"

definition usb2_ep_control_have :: pac_register where
  "usb2_ep_control_have = read_only 4 [(''have'', 0, 1)] 0"

definition usb2_ep_control_pend :: pac_register where
  "usb2_ep_control_pend = read_only 4 [(''pend'', 0, 1)] 0"

definition usb2_ep_control_address :: pac_register where
  "usb2_ep_control_address = read_write 4 [(''address'', 0, 8)]
     [(''address'', 0, 8)] 0 0 0"

definition usb2_ep_control_ev_status :: pac_register where
  "usb2_ep_control_ev_status = read_only 4 [(''status'', 0, 1)] 0"

definition usb2_ep_control_ev_pending :: pac_register where
  "usb2_ep_control_ev_pending = read_write 4 [(''pending'', 0, 1)]
     [(''pending'', 0, 1)] 0 0 0"

definition usb2_ep_control_ev_enable :: pac_register where
  "usb2_ep_control_ev_enable = read_write 4 [(''enable'', 0, 1)]
     [(''enable'', 0, 1)] 0 0 0"

section \<open>usb2_ep_in\<close>

definition usb2_ep_in_data :: pac_register where
  "usb2_ep_in_data = write_only 4 [(''data'', 0, 8)] 0 0 0"

definition usb2_ep_in_epno :: pac_register where
  "usb2_ep_in_epno = read_write 4 [(''epno'', 0, 4)]
     [(''epno'', 0, 4)] 0 0 0"

definition usb2_ep_in_reset :: pac_register where
  "usb2_ep_in_reset = write_only 4 [(''reset'', 0, 1)] 0 0 0"

definition usb2_ep_in_stall :: pac_register where
  "usb2_ep_in_stall = read_write 4 [(''stall'', 0, 1)]
     [(''stall'', 0, 1)] 0 0 0"

definition usb2_ep_in_idle :: pac_register where
  "usb2_ep_in_idle = read_only 4 [(''idle'', 0, 1)] 0"

definition usb2_ep_in_have :: pac_register where
  "usb2_ep_in_have = read_only 4 [(''have'', 0, 1)] 0"

definition usb2_ep_in_pend :: pac_register where
  "usb2_ep_in_pend = read_only 4 [(''pend'', 0, 1)] 0"

definition usb2_ep_in_pid :: pac_register where
  "usb2_ep_in_pid = read_write 4 [(''pid'', 0, 1)]
     [(''pid'', 0, 1)] 0 0 0"

definition usb2_ep_in_nak :: pac_register where
  "usb2_ep_in_nak = read_only 4 [(''nak'', 0, 16)] 0"

definition usb2_ep_in_ev_status :: pac_register where
  "usb2_ep_in_ev_status = read_only 4 [(''status'', 0, 1)] 0"

definition usb2_ep_in_ev_pending :: pac_register where
  "usb2_ep_in_ev_pending = read_write 4 [(''pending'', 0, 1)]
     [(''pending'', 0, 1)] 0 0 0"

definition usb2_ep_in_ev_enable :: pac_register where
  "usb2_ep_in_ev_enable = read_write 4 [(''enable'', 0, 1)]
     [(''enable'', 0, 1)] 0 0 0"

section \<open>usb2_ep_out\<close>

definition usb2_ep_out_data :: pac_register where
  "usb2_ep_out_data = read_only 4 [(''data'', 0, 8)] 0"

definition usb2_ep_out_data_ep :: pac_register where
  "usb2_ep_out_data_ep = read_only 4 [(''data_ep'', 0, 4)] 0"

definition usb2_ep_out_reset :: pac_register where
  "usb2_ep_out_reset = write_only 4 [(''reset'', 0, 1)] 0 0 0"

definition usb2_ep_out_epno :: pac_register where
  "usb2_ep_out_epno = read_write 4 [(''epno'', 0, 4)]
     [(''epno'', 0, 4)] 0 0 0"

definition usb2_ep_out_enable :: pac_register where
  "usb2_ep_out_enable = read_write 4 [(''enable'', 0, 1)]
     [(''enable'', 0, 1)] 0 0 0"

definition usb2_ep_out_prime :: pac_register where
  "usb2_ep_out_prime = write_only 4 [(''prime'', 0, 1)] 0 0 0"

definition usb2_ep_out_stall :: pac_register where
  "usb2_ep_out_stall = read_write 4 [(''stall'', 0, 1)]
     [(''stall'', 0, 1)] 0 0 0"

definition usb2_ep_out_have :: pac_register where
  "usb2_ep_out_have = read_only 4 [(''have'', 0, 1)] 0"

definition usb2_ep_out_pend :: pac_register where
  "usb2_ep_out_pend = read_only 4 [(''pend'', 0, 1)] 0"

definition usb2_ep_out_address :: pac_register where
  "usb2_ep_out_address = read_write 4 [(''address'', 0, 8)]
     [(''address'', 0, 8)] 0 0 0"

definition usb2_ep_out_pid :: pac_register where
  "usb2_ep_out_pid = read_write 4 [(''pid'', 0, 1)]
     [(''pid'', 0, 1)] 0 0 0"

definition usb2_ep_out_ev_status :: pac_register where
  "usb2_ep_out_ev_status = read_only 4 [(''status'', 0, 1)] 0"

definition usb2_ep_out_ev_pending :: pac_register where
  "usb2_ep_out_ev_pending = read_write 4 [(''pending'', 0, 1)]
     [(''pending'', 0, 1)] 0 0 0"

definition usb2_ep_out_ev_enable :: pac_register where
  "usb2_ep_out_ev_enable = read_write 4 [(''enable'', 0, 1)]
     [(''enable'', 0, 1)] 0 0 0"

section \<open>uart1\<close>

definition uart1_divisor :: pac_register where
  "uart1_divisor = read_write 4 [(''divisor'', 0, 10)]
     [(''divisor'', 0, 10)] 0 0 0"

definition uart1_rx_data :: pac_register where
  "uart1_rx_data = read_only 4 [(''rx_data'', 0, 8)] 0"

definition uart1_rx_rdy :: pac_register where
  "uart1_rx_rdy = read_only 4 [(''rx_rdy'', 0, 1)] 0"

definition uart1_rx_err :: pac_register where
  "uart1_rx_err = read_only 4 [(''rx_err'', 0, 3)] 0"

definition uart1_tx_data :: pac_register where
  "uart1_tx_data = write_only 4 [(''tx_data'', 0, 8)] 0 0 0"

definition uart1_tx_rdy :: pac_register where
  "uart1_tx_rdy = read_only 4 [(''tx_rdy'', 0, 1)] 0"

definition uart1_ev_status :: pac_register where
  "uart1_ev_status = read_only 4 [(''status'', 0, 3)] 0"

definition uart1_ev_pending :: pac_register where
  "uart1_ev_pending = read_write 4 [(''pending'', 0, 3)]
     [(''pending'', 0, 3)] 0 0 0"

definition uart1_ev_enable :: pac_register where
  "uart1_ev_enable = read_write 4 [(''enable'', 0, 3)]
     [(''enable'', 0, 3)] 0 0 0"

section \<open>advertiser\<close>

definition advertiser_enable :: pac_register where
  "advertiser_enable = read_write 4 [(''enable'', 0, 1)]
     [(''enable'', 0, 1)] 0 0 0"

section \<open>info\<close>

definition info_version_major :: pac_register where
  "info_version_major = read_only 4 [(''version_major'', 0, 8)] 0"

definition info_version_minor :: pac_register where
  "info_version_minor = read_only 4 [(''version_minor'', 0, 8)] 0"

end
