(* ===== verification/RegisterMap.thy ===== *)
theory RegisterMap
  imports RegisterSpecs
begin

text \<open>
  The memory map of the crate \<open>moondancer-pac\<close>: the register blocks of
  \<open>moondancer-pac/src/generated/*.rs\<close> as the fields of a \<open>#[repr(C)]\<close> struct, their addresses from
  \<open>moondancer-pac/src/generated.rs\<close>, and which register of which block each register of theory
  \<open>Hardware\<close> stands for. The three USB ports are copies of each other, which is what lets the code
  instantiate one driver for all of them.
\<close>

section \<open>Layout\<close>

text \<open>A field of a block: a register with the offset its accessor documents, or reserved bytes.\<close>

datatype block_item = Register string nat pac_register | Reserved nat

text \<open>The offsets that \<open>repr(C)\<close> gives: a register is aligned to its size, reserved bytes are not.\<close>

definition aligned :: "nat \<Rightarrow> nat \<Rightarrow> nat" where
  "aligned bytes offset = (offset + bytes - 1) div bytes * bytes"

fun layout :: "nat \<Rightarrow> block_item list \<Rightarrow> (string \<times> nat \<times> pac_register) list" where
  "layout offset [] = []"
| "layout offset (Reserved n # items) = layout (offset + n) items"
| "layout offset (Register name doc r # items) =
     (let a = aligned (rg_size r) offset in (name, a, r) # layout (a + rg_size r) items)"

fun documented :: "block_item list \<Rightarrow> (string \<times> nat \<times> pac_register) list" where
  "documented [] = []"
| "documented (Reserved n # items) = documented items"
| "documented (Register name doc r # items) = (name, doc, r) # documented items"

section \<open>Blocks\<close>

definition timer_block :: "block_item list" where
  "timer_block =
    [Register ''reload'' 0 timer_reload, Register ''en'' 4 timer_en,
     Register ''ctr'' 8 timer_ctr, Reserved 4, Register ''ev_status'' 16 timer_ev_status,
     Register ''ev_pending'' 20 timer_ev_pending, Register ''ev_enable'' 24 timer_ev_enable]"

definition uart_block :: "block_item list" where
  "uart_block =
    [Register ''divisor'' 0 uart_divisor, Register ''rx_data'' 4 uart_rx_data,
     Register ''rx_rdy'' 8 uart_rx_rdy, Register ''rx_err'' 12 uart_rx_err,
     Register ''tx_data'' 16 uart_tx_data, Register ''tx_rdy'' 20 uart_tx_rdy, Reserved 8,
     Register ''ev_status'' 32 uart_ev_status, Register ''ev_pending'' 36 uart_ev_pending,
     Register ''ev_enable'' 40 uart_ev_enable]"

definition spi0_block :: "block_item list" where
  "spi0_block =
    [Register ''phy_len'' 0 spi0_phy_len, Register ''phy_width'' 1 spi0_phy_width,
     Register ''phy_mask'' 2 spi0_phy_mask, Register ''cs'' 3 spi0_cs,
     Register ''rxtx'' 4 spi0_rxtx, Register ''tx_rdy'' 8 spi0_tx_rdy,
     Register ''rx_rdy'' 9 spi0_rx_rdy]"

definition leds_block :: "block_item list" where
  "leds_block =
    [Register ''output'' 0 leds_output]"

definition gpioa_block :: "block_item list" where
  "gpioa_block =
    [Register ''moder'' 0 gpioa_moder, Register ''odr'' 4 gpioa_odr,
     Register ''idr'' 8 gpioa_idr, Reserved 4, Register ''ev_status'' 16 gpioa_ev_status,
     Register ''ev_pending'' 20 gpioa_ev_pending, Register ''ev_enable'' 24 gpioa_ev_enable]"

definition gpiob_block :: "block_item list" where
  "gpiob_block =
    [Register ''moder'' 0 gpiob_moder, Register ''odr'' 4 gpiob_odr,
     Register ''idr'' 8 gpiob_idr, Reserved 4, Register ''ev_status'' 16 gpiob_ev_status,
     Register ''ev_pending'' 20 gpiob_ev_pending, Register ''ev_enable'' 24 gpiob_ev_enable]"

definition usb0_block :: "block_item list" where
  "usb0_block =
    [Register ''connect'' 0 usb0_connect, Register ''speed'' 4 usb0_speed,
     Register ''low_speed_only'' 8 usb0_low_speed_only,
     Register ''full_speed_only'' 12 usb0_full_speed_only,
     Register ''ev_status'' 16 usb0_ev_status, Register ''ev_pending'' 20 usb0_ev_pending,
     Register ''ev_enable'' 24 usb0_ev_enable]"

definition usb0_ep_control_block :: "block_item list" where
  "usb0_ep_control_block =
    [Register ''data'' 0 usb0_ep_control_data, Register ''reset'' 4 usb0_ep_control_reset,
     Register ''epno'' 8 usb0_ep_control_epno, Register ''have'' 12 usb0_ep_control_have,
     Register ''pend'' 16 usb0_ep_control_pend, Register ''address'' 20 usb0_ep_control_address,
     Reserved 8, Register ''ev_status'' 32 usb0_ep_control_ev_status,
     Register ''ev_pending'' 36 usb0_ep_control_ev_pending,
     Register ''ev_enable'' 40 usb0_ep_control_ev_enable]"

definition usb0_ep_in_block :: "block_item list" where
  "usb0_ep_in_block =
    [Register ''data'' 0 usb0_ep_in_data, Register ''epno'' 4 usb0_ep_in_epno,
     Register ''reset'' 8 usb0_ep_in_reset, Register ''stall'' 12 usb0_ep_in_stall,
     Register ''idle'' 16 usb0_ep_in_idle, Register ''have'' 20 usb0_ep_in_have,
     Register ''pend'' 24 usb0_ep_in_pend, Register ''pid'' 28 usb0_ep_in_pid,
     Register ''nak'' 32 usb0_ep_in_nak, Reserved 28,
     Register ''ev_status'' 64 usb0_ep_in_ev_status,
     Register ''ev_pending'' 68 usb0_ep_in_ev_pending,
     Register ''ev_enable'' 72 usb0_ep_in_ev_enable]"

definition usb0_ep_out_block :: "block_item list" where
  "usb0_ep_out_block =
    [Register ''data'' 0 usb0_ep_out_data, Register ''data_ep'' 4 usb0_ep_out_data_ep,
     Register ''reset'' 8 usb0_ep_out_reset, Register ''epno'' 12 usb0_ep_out_epno,
     Register ''enable'' 16 usb0_ep_out_enable, Register ''prime'' 20 usb0_ep_out_prime,
     Register ''stall'' 24 usb0_ep_out_stall, Register ''have'' 28 usb0_ep_out_have,
     Register ''pend'' 32 usb0_ep_out_pend, Register ''address'' 36 usb0_ep_out_address,
     Register ''pid'' 40 usb0_ep_out_pid, Reserved 20,
     Register ''ev_status'' 64 usb0_ep_out_ev_status,
     Register ''ev_pending'' 68 usb0_ep_out_ev_pending,
     Register ''ev_enable'' 72 usb0_ep_out_ev_enable]"

definition usb1_block :: "block_item list" where
  "usb1_block =
    [Register ''connect'' 0 usb1_connect, Register ''speed'' 4 usb1_speed,
     Register ''low_speed_only'' 8 usb1_low_speed_only,
     Register ''full_speed_only'' 12 usb1_full_speed_only,
     Register ''ev_status'' 16 usb1_ev_status, Register ''ev_pending'' 20 usb1_ev_pending,
     Register ''ev_enable'' 24 usb1_ev_enable]"

definition usb1_ep_control_block :: "block_item list" where
  "usb1_ep_control_block =
    [Register ''data'' 0 usb1_ep_control_data, Register ''reset'' 4 usb1_ep_control_reset,
     Register ''epno'' 8 usb1_ep_control_epno, Register ''have'' 12 usb1_ep_control_have,
     Register ''pend'' 16 usb1_ep_control_pend, Register ''address'' 20 usb1_ep_control_address,
     Reserved 8, Register ''ev_status'' 32 usb1_ep_control_ev_status,
     Register ''ev_pending'' 36 usb1_ep_control_ev_pending,
     Register ''ev_enable'' 40 usb1_ep_control_ev_enable]"

definition usb1_ep_in_block :: "block_item list" where
  "usb1_ep_in_block =
    [Register ''data'' 0 usb1_ep_in_data, Register ''epno'' 4 usb1_ep_in_epno,
     Register ''reset'' 8 usb1_ep_in_reset, Register ''stall'' 12 usb1_ep_in_stall,
     Register ''idle'' 16 usb1_ep_in_idle, Register ''have'' 20 usb1_ep_in_have,
     Register ''pend'' 24 usb1_ep_in_pend, Register ''pid'' 28 usb1_ep_in_pid,
     Register ''nak'' 32 usb1_ep_in_nak, Reserved 28,
     Register ''ev_status'' 64 usb1_ep_in_ev_status,
     Register ''ev_pending'' 68 usb1_ep_in_ev_pending,
     Register ''ev_enable'' 72 usb1_ep_in_ev_enable]"

definition usb1_ep_out_block :: "block_item list" where
  "usb1_ep_out_block =
    [Register ''data'' 0 usb1_ep_out_data, Register ''data_ep'' 4 usb1_ep_out_data_ep,
     Register ''reset'' 8 usb1_ep_out_reset, Register ''epno'' 12 usb1_ep_out_epno,
     Register ''enable'' 16 usb1_ep_out_enable, Register ''prime'' 20 usb1_ep_out_prime,
     Register ''stall'' 24 usb1_ep_out_stall, Register ''have'' 28 usb1_ep_out_have,
     Register ''pend'' 32 usb1_ep_out_pend, Register ''address'' 36 usb1_ep_out_address,
     Register ''pid'' 40 usb1_ep_out_pid, Reserved 20,
     Register ''ev_status'' 64 usb1_ep_out_ev_status,
     Register ''ev_pending'' 68 usb1_ep_out_ev_pending,
     Register ''ev_enable'' 72 usb1_ep_out_ev_enable]"

definition usb2_block :: "block_item list" where
  "usb2_block =
    [Register ''connect'' 0 usb2_connect, Register ''speed'' 4 usb2_speed,
     Register ''low_speed_only'' 8 usb2_low_speed_only,
     Register ''full_speed_only'' 12 usb2_full_speed_only,
     Register ''ev_status'' 16 usb2_ev_status, Register ''ev_pending'' 20 usb2_ev_pending,
     Register ''ev_enable'' 24 usb2_ev_enable]"

definition usb2_ep_control_block :: "block_item list" where
  "usb2_ep_control_block =
    [Register ''data'' 0 usb2_ep_control_data, Register ''reset'' 4 usb2_ep_control_reset,
     Register ''epno'' 8 usb2_ep_control_epno, Register ''have'' 12 usb2_ep_control_have,
     Register ''pend'' 16 usb2_ep_control_pend, Register ''address'' 20 usb2_ep_control_address,
     Reserved 8, Register ''ev_status'' 32 usb2_ep_control_ev_status,
     Register ''ev_pending'' 36 usb2_ep_control_ev_pending,
     Register ''ev_enable'' 40 usb2_ep_control_ev_enable]"

definition usb2_ep_in_block :: "block_item list" where
  "usb2_ep_in_block =
    [Register ''data'' 0 usb2_ep_in_data, Register ''epno'' 4 usb2_ep_in_epno,
     Register ''reset'' 8 usb2_ep_in_reset, Register ''stall'' 12 usb2_ep_in_stall,
     Register ''idle'' 16 usb2_ep_in_idle, Register ''have'' 20 usb2_ep_in_have,
     Register ''pend'' 24 usb2_ep_in_pend, Register ''pid'' 28 usb2_ep_in_pid,
     Register ''nak'' 32 usb2_ep_in_nak, Reserved 28,
     Register ''ev_status'' 64 usb2_ep_in_ev_status,
     Register ''ev_pending'' 68 usb2_ep_in_ev_pending,
     Register ''ev_enable'' 72 usb2_ep_in_ev_enable]"

definition usb2_ep_out_block :: "block_item list" where
  "usb2_ep_out_block =
    [Register ''data'' 0 usb2_ep_out_data, Register ''data_ep'' 4 usb2_ep_out_data_ep,
     Register ''reset'' 8 usb2_ep_out_reset, Register ''epno'' 12 usb2_ep_out_epno,
     Register ''enable'' 16 usb2_ep_out_enable, Register ''prime'' 20 usb2_ep_out_prime,
     Register ''stall'' 24 usb2_ep_out_stall, Register ''have'' 28 usb2_ep_out_have,
     Register ''pend'' 32 usb2_ep_out_pend, Register ''address'' 36 usb2_ep_out_address,
     Register ''pid'' 40 usb2_ep_out_pid, Reserved 20,
     Register ''ev_status'' 64 usb2_ep_out_ev_status,
     Register ''ev_pending'' 68 usb2_ep_out_ev_pending,
     Register ''ev_enable'' 72 usb2_ep_out_ev_enable]"

definition uart1_block :: "block_item list" where
  "uart1_block =
    [Register ''divisor'' 0 uart1_divisor, Register ''rx_data'' 4 uart1_rx_data,
     Register ''rx_rdy'' 8 uart1_rx_rdy, Register ''rx_err'' 12 uart1_rx_err,
     Register ''tx_data'' 16 uart1_tx_data, Register ''tx_rdy'' 20 uart1_tx_rdy, Reserved 8,
     Register ''ev_status'' 32 uart1_ev_status, Register ''ev_pending'' 36 uart1_ev_pending,
     Register ''ev_enable'' 40 uart1_ev_enable]"

definition advertiser_block :: "block_item list" where
  "advertiser_block =
    [Register ''enable'' 0 advertiser_enable]"

definition info_block :: "block_item list" where
  "info_block =
    [Register ''version_major'' 0 info_version_major,
     Register ''version_minor'' 4 info_version_minor]"

text \<open>The addresses of the register blocks, \<open>PTR\<close> of each peripheral.\<close>

definition timer_ptr :: nat where
  "timer_ptr = 0xf0000100"

definition uart_ptr :: nat where
  "uart_ptr = 0xf0000200"

definition spi0_ptr :: nat where
  "spi0_ptr = 0xf0008000"

definition leds_ptr :: nat where
  "leds_ptr = 0xf0001000"

definition gpioa_ptr :: nat where
  "gpioa_ptr = 0xf0002000"

definition gpiob_ptr :: nat where
  "gpiob_ptr = 0xf0002100"

definition usb0_ptr :: nat where
  "usb0_ptr = 0xf0003000"

definition usb0_ep_control_ptr :: nat where
  "usb0_ep_control_ptr = 0xf0003040"

definition usb0_ep_in_ptr :: nat where
  "usb0_ep_in_ptr = 0xf0003080"

definition usb0_ep_out_ptr :: nat where
  "usb0_ep_out_ptr = 0xf0003100"

definition usb1_ptr :: nat where
  "usb1_ptr = 0xf0004000"

definition usb1_ep_control_ptr :: nat where
  "usb1_ep_control_ptr = 0xf0004040"

definition usb1_ep_in_ptr :: nat where
  "usb1_ep_in_ptr = 0xf0004080"

definition usb1_ep_out_ptr :: nat where
  "usb1_ep_out_ptr = 0xf0004100"

definition usb2_ptr :: nat where
  "usb2_ptr = 0xf0005000"

definition usb2_ep_control_ptr :: nat where
  "usb2_ep_control_ptr = 0xf0005040"

definition usb2_ep_in_ptr :: nat where
  "usb2_ep_in_ptr = 0xf0005080"

definition usb2_ep_out_ptr :: nat where
  "usb2_ep_out_ptr = 0xf0005100"

definition uart1_ptr :: nat where
  "uart1_ptr = 0xf0006000"

definition advertiser_ptr :: nat where
  "advertiser_ptr = 0xf0007000"

definition info_ptr :: nat where
  "info_ptr = 0xf0007100"

text \<open>\<open>Peripherals\<close>: all of them.\<close>

definition peripherals :: "(nat \<times> block_item list) list" where
  "peripherals =
    [(timer_ptr, timer_block), (uart_ptr, uart_block), (spi0_ptr, spi0_block),
     (leds_ptr, leds_block), (gpioa_ptr, gpioa_block), (gpiob_ptr, gpiob_block),
     (usb0_ptr, usb0_block), (usb0_ep_control_ptr, usb0_ep_control_block),
     (usb0_ep_in_ptr, usb0_ep_in_block), (usb0_ep_out_ptr, usb0_ep_out_block),
     (usb1_ptr, usb1_block), (usb1_ep_control_ptr, usb1_ep_control_block),
     (usb1_ep_in_ptr, usb1_ep_in_block), (usb1_ep_out_ptr, usb1_ep_out_block),
     (usb2_ptr, usb2_block), (usb2_ep_control_ptr, usb2_ep_control_block),
     (usb2_ep_in_ptr, usb2_ep_in_block), (usb2_ep_out_ptr, usb2_ep_out_block),
     (uart1_ptr, uart1_block), (advertiser_ptr, advertiser_block), (info_ptr, info_block)]"

section \<open>The registers of the model\<close>

text \<open>Where a register of a USB port is: the block and the name it has there.\<close>

datatype usb_part = Controller | EpControl | EpIn | EpOut

fun usb_place :: "usb_reg \<Rightarrow> usb_part \<times> string" where
  "usb_place Connect = (Controller, ''connect'')"
| "usb_place FullSpeedOnly = (Controller, ''full_speed_only'')"
| "usb_place LowSpeedOnly = (Controller, ''low_speed_only'')"
| "usb_place SpeedReg = (Controller, ''speed'')"
| "usb_place CtrlEvPending = (Controller, ''ev_pending'')"
| "usb_place CtrlEvEnable = (Controller, ''ev_enable'')"
| "usb_place CtlData = (EpControl, ''data'')"
| "usb_place CtlReset = (EpControl, ''reset'')"
| "usb_place CtlEpno = (EpControl, ''epno'')"
| "usb_place CtlHave = (EpControl, ''have'')"
| "usb_place CtlAddress = (EpControl, ''address'')"
| "usb_place CtlEvPending = (EpControl, ''ev_pending'')"
| "usb_place CtlEvEnable = (EpControl, ''ev_enable'')"
| "usb_place InData = (EpIn, ''data'')"
| "usb_place InEpno = (EpIn, ''epno'')"
| "usb_place InReset = (EpIn, ''reset'')"
| "usb_place InStall = (EpIn, ''stall'')"
| "usb_place InIdle = (EpIn, ''idle'')"
| "usb_place InHave = (EpIn, ''have'')"
| "usb_place InPid = (EpIn, ''pid'')"
| "usb_place InNak = (EpIn, ''nak'')"
| "usb_place InEvPending = (EpIn, ''ev_pending'')"
| "usb_place InEvEnable = (EpIn, ''ev_enable'')"
| "usb_place OutData = (EpOut, ''data'')"
| "usb_place OutDataEp = (EpOut, ''data_ep'')"
| "usb_place OutReset = (EpOut, ''reset'')"
| "usb_place OutEpno = (EpOut, ''epno'')"
| "usb_place OutEnable = (EpOut, ''enable'')"
| "usb_place OutPrime = (EpOut, ''prime'')"
| "usb_place OutStall = (EpOut, ''stall'')"
| "usb_place OutHave = (EpOut, ''have'')"
| "usb_place OutPid = (EpOut, ''pid'')"
| "usb_place OutAddress = (EpOut, ''address'')"
| "usb_place OutEvPending = (EpOut, ''ev_pending'')"
| "usb_place OutEvEnable = (EpOut, ''ev_enable'')"

text \<open>The peripherals that \<open>lunasoc-hal\<close> is instantiated with for each port.\<close>

fun usb_peripheral :: "usb_idx \<Rightarrow> usb_part \<Rightarrow> nat \<times> block_item list" where
  "usb_peripheral Usb0 Controller = (usb0_ptr, usb0_block)"
| "usb_peripheral Usb0 EpControl = (usb0_ep_control_ptr, usb0_ep_control_block)"
| "usb_peripheral Usb0 EpIn = (usb0_ep_in_ptr, usb0_ep_in_block)"
| "usb_peripheral Usb0 EpOut = (usb0_ep_out_ptr, usb0_ep_out_block)"
| "usb_peripheral Usb1 Controller = (usb1_ptr, usb1_block)"
| "usb_peripheral Usb1 EpControl = (usb1_ep_control_ptr, usb1_ep_control_block)"
| "usb_peripheral Usb1 EpIn = (usb1_ep_in_ptr, usb1_ep_in_block)"
| "usb_peripheral Usb1 EpOut = (usb1_ep_out_ptr, usb1_ep_out_block)"
| "usb_peripheral Usb2 Controller = (usb2_ptr, usb2_block)"
| "usb_peripheral Usb2 EpControl = (usb2_ep_control_ptr, usb2_ep_control_block)"
| "usb_peripheral Usb2 EpIn = (usb2_ep_in_ptr, usb2_ep_in_block)"
| "usb_peripheral Usb2 EpOut = (usb2_ep_out_ptr, usb2_ep_out_block)"

fun spi_name :: "spi_reg \<Rightarrow> string" where
  "spi_name PhyLen = ''phy_len''" | "spi_name PhyWidth = ''phy_width''"
| "spi_name PhyMask = ''phy_mask''" | "spi_name SpiCs = ''cs''" | "spi_name TxRdy = ''tx_rdy''"
| "spi_name RxRdy = ''rx_rdy''" | "spi_name RxTx = ''rxtx''"

fun timer_name :: "timer_reg \<Rightarrow> string" where
  "timer_name TimerEn = ''en''" | "timer_name TimerReload = ''reload''"
| "timer_name TimerCtr = ''ctr''" | "timer_name TimerEvEnable = ''ev_enable''"
| "timer_name TimerEvPending = ''ev_pending''"

fun uart_name :: "uart_reg \<Rightarrow> string" where
  "uart_name UartTxData = ''tx_data''" | "uart_name UartTxRdy = ''tx_rdy''"

fun gpio_name :: "gpio_reg \<Rightarrow> string" where
  "gpio_name Moder = ''moder''" | "gpio_name Odr = ''odr''" | "gpio_name Idr = ''idr''"
| "gpio_name GpioEvPending = ''ev_pending''" | "gpio_name GpioEvEnable = ''ev_enable''"

definition in_block :: "nat \<times> block_item list \<Rightarrow> string \<Rightarrow> (nat \<times> pac_register) option" where
  "in_block p name = map_option (\<lambda>(offset, r). (fst p + offset, r)) (map_of (layout 0 (snd p)) name)"

text \<open>The address of a register and what it is; the CSRs of the CPU have no address.\<close>

fun pac_entry :: "reg \<Rightarrow> (nat \<times> pac_register) option" where
  "pac_entry (USB i r) = (case usb_place r of (part, name) \<Rightarrow> in_block (usb_peripheral i part) name)"
| "pac_entry (CSR _) = None"
| "pac_entry (SPI0 r) = in_block (spi0_ptr, spi0_block) (spi_name r)"
| "pac_entry (TimerReg k r) = (if k = 0 then in_block (timer_ptr, timer_block) (timer_name r) else None)"
| "pac_entry (UartReg k r) =
     (if k = 0 then in_block (uart_ptr, uart_block) (uart_name r)
      else if k = 1 then in_block (uart1_ptr, uart1_block) (uart_name r) else None)"
| "pac_entry (GpioReg k r) =
     (if k = 0 then in_block (gpioa_ptr, gpioa_block) (gpio_name r)
      else if k = 1 then in_block (gpiob_ptr, gpiob_block) (gpio_name r) else None)"
| "pac_entry LEDS = in_block (leds_ptr, leds_block) ''output''"
| "pac_entry ADVERTISER = in_block (advertiser_ptr, advertiser_block) ''enable''"
| "pac_entry VersionMajor = in_block (info_ptr, info_block) ''version_major''"
| "pac_entry VersionMinor = in_block (info_ptr, info_block) ''version_minor''"

end
