(* ===== verification/RegisterFacts.thy ===== *)
theory RegisterFacts
  imports RegisterMap
begin

text \<open>
  The memory map is sound, and the register interface of theory \<open>Hardware\<close> is the one of the package:
  what \<open>reg_write\<close> and \<open>reg_modify\<close> take for granted of a register holds for every register of it.
\<close>

section \<open>All registers\<close>

lemmas pac_specs =
  timer_reload_def timer_en_def timer_ctr_def timer_ev_status_def timer_ev_pending_def
  timer_ev_enable_def uart_divisor_def uart_rx_data_def uart_rx_rdy_def uart_rx_err_def
  uart_tx_data_def uart_tx_rdy_def uart_ev_status_def uart_ev_pending_def uart_ev_enable_def
  spi0_phy_len_def spi0_phy_width_def spi0_phy_mask_def spi0_cs_def spi0_rxtx_def spi0_tx_rdy_def
  spi0_rx_rdy_def leds_output_def gpioa_moder_def gpioa_odr_def gpioa_idr_def gpioa_ev_status_def
  gpioa_ev_pending_def gpioa_ev_enable_def gpiob_moder_def gpiob_odr_def gpiob_idr_def
  gpiob_ev_status_def gpiob_ev_pending_def gpiob_ev_enable_def usb0_connect_def usb0_speed_def
  usb0_low_speed_only_def usb0_full_speed_only_def usb0_ev_status_def usb0_ev_pending_def
  usb0_ev_enable_def usb0_ep_control_data_def usb0_ep_control_reset_def usb0_ep_control_epno_def
  usb0_ep_control_have_def usb0_ep_control_pend_def usb0_ep_control_address_def
  usb0_ep_control_ev_status_def usb0_ep_control_ev_pending_def usb0_ep_control_ev_enable_def
  usb0_ep_in_data_def usb0_ep_in_epno_def usb0_ep_in_reset_def usb0_ep_in_stall_def
  usb0_ep_in_idle_def usb0_ep_in_have_def usb0_ep_in_pend_def usb0_ep_in_pid_def
  usb0_ep_in_nak_def usb0_ep_in_ev_status_def usb0_ep_in_ev_pending_def usb0_ep_in_ev_enable_def
  usb0_ep_out_data_def usb0_ep_out_data_ep_def usb0_ep_out_reset_def usb0_ep_out_epno_def
  usb0_ep_out_enable_def usb0_ep_out_prime_def usb0_ep_out_stall_def usb0_ep_out_have_def
  usb0_ep_out_pend_def usb0_ep_out_address_def usb0_ep_out_pid_def usb0_ep_out_ev_status_def
  usb0_ep_out_ev_pending_def usb0_ep_out_ev_enable_def usb1_connect_def usb1_speed_def
  usb1_low_speed_only_def usb1_full_speed_only_def usb1_ev_status_def usb1_ev_pending_def
  usb1_ev_enable_def usb1_ep_control_data_def usb1_ep_control_reset_def usb1_ep_control_epno_def
  usb1_ep_control_have_def usb1_ep_control_pend_def usb1_ep_control_address_def
  usb1_ep_control_ev_status_def usb1_ep_control_ev_pending_def usb1_ep_control_ev_enable_def
  usb1_ep_in_data_def usb1_ep_in_epno_def usb1_ep_in_reset_def usb1_ep_in_stall_def
  usb1_ep_in_idle_def usb1_ep_in_have_def usb1_ep_in_pend_def usb1_ep_in_pid_def
  usb1_ep_in_nak_def usb1_ep_in_ev_status_def usb1_ep_in_ev_pending_def usb1_ep_in_ev_enable_def
  usb1_ep_out_data_def usb1_ep_out_data_ep_def usb1_ep_out_reset_def usb1_ep_out_epno_def
  usb1_ep_out_enable_def usb1_ep_out_prime_def usb1_ep_out_stall_def usb1_ep_out_have_def
  usb1_ep_out_pend_def usb1_ep_out_address_def usb1_ep_out_pid_def usb1_ep_out_ev_status_def
  usb1_ep_out_ev_pending_def usb1_ep_out_ev_enable_def usb2_connect_def usb2_speed_def
  usb2_low_speed_only_def usb2_full_speed_only_def usb2_ev_status_def usb2_ev_pending_def
  usb2_ev_enable_def usb2_ep_control_data_def usb2_ep_control_reset_def usb2_ep_control_epno_def
  usb2_ep_control_have_def usb2_ep_control_pend_def usb2_ep_control_address_def
  usb2_ep_control_ev_status_def usb2_ep_control_ev_pending_def usb2_ep_control_ev_enable_def
  usb2_ep_in_data_def usb2_ep_in_epno_def usb2_ep_in_reset_def usb2_ep_in_stall_def
  usb2_ep_in_idle_def usb2_ep_in_have_def usb2_ep_in_pend_def usb2_ep_in_pid_def
  usb2_ep_in_nak_def usb2_ep_in_ev_status_def usb2_ep_in_ev_pending_def usb2_ep_in_ev_enable_def
  usb2_ep_out_data_def usb2_ep_out_data_ep_def usb2_ep_out_reset_def usb2_ep_out_epno_def
  usb2_ep_out_enable_def usb2_ep_out_prime_def usb2_ep_out_stall_def usb2_ep_out_have_def
  usb2_ep_out_pend_def usb2_ep_out_address_def usb2_ep_out_pid_def usb2_ep_out_ev_status_def
  usb2_ep_out_ev_pending_def usb2_ep_out_ev_enable_def uart1_divisor_def uart1_rx_data_def
  uart1_rx_rdy_def uart1_rx_err_def uart1_tx_data_def uart1_tx_rdy_def uart1_ev_status_def
  uart1_ev_pending_def uart1_ev_enable_def advertiser_enable_def info_version_major_def
  info_version_minor_def

lemmas pac_blocks =
  timer_block_def uart_block_def spi0_block_def leds_block_def gpioa_block_def gpiob_block_def
  usb0_block_def usb0_ep_control_block_def usb0_ep_in_block_def usb0_ep_out_block_def
  usb1_block_def usb1_ep_control_block_def usb1_ep_in_block_def usb1_ep_out_block_def
  usb2_block_def usb2_ep_control_block_def usb2_ep_in_block_def usb2_ep_out_block_def
  uart1_block_def advertiser_block_def info_block_def

lemmas pac_ptrs =
  timer_ptr_def uart_ptr_def spi0_ptr_def leds_ptr_def gpioa_ptr_def gpiob_ptr_def usb0_ptr_def
  usb0_ep_control_ptr_def usb0_ep_in_ptr_def usb0_ep_out_ptr_def usb1_ptr_def
  usb1_ep_control_ptr_def usb1_ep_in_ptr_def usb1_ep_out_ptr_def usb2_ptr_def
  usb2_ep_control_ptr_def usb2_ep_in_ptr_def usb2_ep_out_ptr_def uart1_ptr_def advertiser_ptr_def
  info_ptr_def

lemmas pac_kinds = read_only_def write_only_def read_write_def

text \<open>A register on which writing starts at zero and \<open>modify\<close> forces nothing, with fields inside it.\<close>

definition register_ok :: "pac_register \<Rightarrow> bool" where
  "register_ok r \<longleftrightarrow>
     rg_reset r = 0 \<and> rg_zero_to_modify r = 0 \<and> rg_one_to_modify r = 0 \<and>
     (rg_readable r \<longleftrightarrow> rg_reads r \<noteq> []) \<and> (rg_writable r \<longleftrightarrow> rg_writes r \<noteq> []) \<and>
     list_all (\<lambda>(_, lo, width). 0 < width \<and> lo + width \<le> 8 * rg_size r) (rg_reads r @ rg_writes r)"

lemma pac_sizes [simp]:
  "rg_size timer_reload = 4" "rg_size timer_en = 4" "rg_size timer_ctr = 4"
  "rg_size timer_ev_status = 4" "rg_size timer_ev_pending = 4" "rg_size timer_ev_enable = 4"
  "rg_size uart_divisor = 4" "rg_size uart_rx_data = 4" "rg_size uart_rx_rdy = 4"
  "rg_size uart_rx_err = 4" "rg_size uart_tx_data = 4" "rg_size uart_tx_rdy = 4"
  "rg_size uart_ev_status = 4" "rg_size uart_ev_pending = 4" "rg_size uart_ev_enable = 4"
  "rg_size spi0_phy_len = 1" "rg_size spi0_phy_width = 1" "rg_size spi0_phy_mask = 1"
  "rg_size spi0_cs = 1" "rg_size spi0_rxtx = 4" "rg_size spi0_tx_rdy = 1"
  "rg_size spi0_rx_rdy = 1" "rg_size leds_output = 4" "rg_size gpioa_moder = 4"
  "rg_size gpioa_odr = 4" "rg_size gpioa_idr = 4" "rg_size gpioa_ev_status = 4"
  "rg_size gpioa_ev_pending = 4" "rg_size gpioa_ev_enable = 4" "rg_size gpiob_moder = 4"
  "rg_size gpiob_odr = 4" "rg_size gpiob_idr = 4" "rg_size gpiob_ev_status = 4"
  "rg_size gpiob_ev_pending = 4" "rg_size gpiob_ev_enable = 4" "rg_size usb0_connect = 4"
  "rg_size usb0_speed = 4" "rg_size usb0_low_speed_only = 4" "rg_size usb0_full_speed_only = 4"
  "rg_size usb0_ev_status = 4" "rg_size usb0_ev_pending = 4" "rg_size usb0_ev_enable = 4"
  "rg_size usb0_ep_control_data = 4" "rg_size usb0_ep_control_reset = 4"
  "rg_size usb0_ep_control_epno = 4" "rg_size usb0_ep_control_have = 4"
  "rg_size usb0_ep_control_pend = 4" "rg_size usb0_ep_control_address = 4"
  "rg_size usb0_ep_control_ev_status = 4" "rg_size usb0_ep_control_ev_pending = 4"
  "rg_size usb0_ep_control_ev_enable = 4" "rg_size usb0_ep_in_data = 4"
  "rg_size usb0_ep_in_epno = 4" "rg_size usb0_ep_in_reset = 4" "rg_size usb0_ep_in_stall = 4"
  "rg_size usb0_ep_in_idle = 4" "rg_size usb0_ep_in_have = 4" "rg_size usb0_ep_in_pend = 4"
  "rg_size usb0_ep_in_pid = 4" "rg_size usb0_ep_in_nak = 4" "rg_size usb0_ep_in_ev_status = 4"
  "rg_size usb0_ep_in_ev_pending = 4" "rg_size usb0_ep_in_ev_enable = 4"
  "rg_size usb0_ep_out_data = 4" "rg_size usb0_ep_out_data_ep = 4"
  "rg_size usb0_ep_out_reset = 4" "rg_size usb0_ep_out_epno = 4" "rg_size usb0_ep_out_enable = 4"
  "rg_size usb0_ep_out_prime = 4" "rg_size usb0_ep_out_stall = 4" "rg_size usb0_ep_out_have = 4"
  "rg_size usb0_ep_out_pend = 4" "rg_size usb0_ep_out_address = 4" "rg_size usb0_ep_out_pid = 4"
  "rg_size usb0_ep_out_ev_status = 4" "rg_size usb0_ep_out_ev_pending = 4"
  "rg_size usb0_ep_out_ev_enable = 4" "rg_size usb1_connect = 4" "rg_size usb1_speed = 4"
  "rg_size usb1_low_speed_only = 4" "rg_size usb1_full_speed_only = 4"
  "rg_size usb1_ev_status = 4" "rg_size usb1_ev_pending = 4" "rg_size usb1_ev_enable = 4"
  "rg_size usb1_ep_control_data = 4" "rg_size usb1_ep_control_reset = 4"
  "rg_size usb1_ep_control_epno = 4" "rg_size usb1_ep_control_have = 4"
  "rg_size usb1_ep_control_pend = 4" "rg_size usb1_ep_control_address = 4"
  "rg_size usb1_ep_control_ev_status = 4" "rg_size usb1_ep_control_ev_pending = 4"
  "rg_size usb1_ep_control_ev_enable = 4" "rg_size usb1_ep_in_data = 4"
  "rg_size usb1_ep_in_epno = 4" "rg_size usb1_ep_in_reset = 4" "rg_size usb1_ep_in_stall = 4"
  "rg_size usb1_ep_in_idle = 4" "rg_size usb1_ep_in_have = 4" "rg_size usb1_ep_in_pend = 4"
  "rg_size usb1_ep_in_pid = 4" "rg_size usb1_ep_in_nak = 4" "rg_size usb1_ep_in_ev_status = 4"
  "rg_size usb1_ep_in_ev_pending = 4" "rg_size usb1_ep_in_ev_enable = 4"
  "rg_size usb1_ep_out_data = 4" "rg_size usb1_ep_out_data_ep = 4"
  "rg_size usb1_ep_out_reset = 4" "rg_size usb1_ep_out_epno = 4" "rg_size usb1_ep_out_enable = 4"
  "rg_size usb1_ep_out_prime = 4" "rg_size usb1_ep_out_stall = 4" "rg_size usb1_ep_out_have = 4"
  "rg_size usb1_ep_out_pend = 4" "rg_size usb1_ep_out_address = 4" "rg_size usb1_ep_out_pid = 4"
  "rg_size usb1_ep_out_ev_status = 4" "rg_size usb1_ep_out_ev_pending = 4"
  "rg_size usb1_ep_out_ev_enable = 4" "rg_size usb2_connect = 4" "rg_size usb2_speed = 4"
  "rg_size usb2_low_speed_only = 4" "rg_size usb2_full_speed_only = 4"
  "rg_size usb2_ev_status = 4" "rg_size usb2_ev_pending = 4" "rg_size usb2_ev_enable = 4"
  "rg_size usb2_ep_control_data = 4" "rg_size usb2_ep_control_reset = 4"
  "rg_size usb2_ep_control_epno = 4" "rg_size usb2_ep_control_have = 4"
  "rg_size usb2_ep_control_pend = 4" "rg_size usb2_ep_control_address = 4"
  "rg_size usb2_ep_control_ev_status = 4" "rg_size usb2_ep_control_ev_pending = 4"
  "rg_size usb2_ep_control_ev_enable = 4" "rg_size usb2_ep_in_data = 4"
  "rg_size usb2_ep_in_epno = 4" "rg_size usb2_ep_in_reset = 4" "rg_size usb2_ep_in_stall = 4"
  "rg_size usb2_ep_in_idle = 4" "rg_size usb2_ep_in_have = 4" "rg_size usb2_ep_in_pend = 4"
  "rg_size usb2_ep_in_pid = 4" "rg_size usb2_ep_in_nak = 4" "rg_size usb2_ep_in_ev_status = 4"
  "rg_size usb2_ep_in_ev_pending = 4" "rg_size usb2_ep_in_ev_enable = 4"
  "rg_size usb2_ep_out_data = 4" "rg_size usb2_ep_out_data_ep = 4"
  "rg_size usb2_ep_out_reset = 4" "rg_size usb2_ep_out_epno = 4" "rg_size usb2_ep_out_enable = 4"
  "rg_size usb2_ep_out_prime = 4" "rg_size usb2_ep_out_stall = 4" "rg_size usb2_ep_out_have = 4"
  "rg_size usb2_ep_out_pend = 4" "rg_size usb2_ep_out_address = 4" "rg_size usb2_ep_out_pid = 4"
  "rg_size usb2_ep_out_ev_status = 4" "rg_size usb2_ep_out_ev_pending = 4"
  "rg_size usb2_ep_out_ev_enable = 4" "rg_size uart1_divisor = 4" "rg_size uart1_rx_data = 4"
  "rg_size uart1_rx_rdy = 4" "rg_size uart1_rx_err = 4" "rg_size uart1_tx_data = 4"
  "rg_size uart1_tx_rdy = 4" "rg_size uart1_ev_status = 4" "rg_size uart1_ev_pending = 4"
  "rg_size uart1_ev_enable = 4" "rg_size advertiser_enable = 4" "rg_size info_version_major = 4"
  "rg_size info_version_minor = 4"
  unfolding pac_specs pac_kinds by simp_all

lemma pac_registers_ok [simp]:
  "register_ok timer_reload" "register_ok timer_en" "register_ok timer_ctr"
  "register_ok timer_ev_status" "register_ok timer_ev_pending" "register_ok timer_ev_enable"
  "register_ok uart_divisor" "register_ok uart_rx_data" "register_ok uart_rx_rdy"
  "register_ok uart_rx_err" "register_ok uart_tx_data" "register_ok uart_tx_rdy"
  "register_ok uart_ev_status" "register_ok uart_ev_pending" "register_ok uart_ev_enable"
  "register_ok spi0_phy_len" "register_ok spi0_phy_width" "register_ok spi0_phy_mask"
  "register_ok spi0_cs" "register_ok spi0_rxtx" "register_ok spi0_tx_rdy"
  "register_ok spi0_rx_rdy" "register_ok leds_output" "register_ok gpioa_moder"
  "register_ok gpioa_odr" "register_ok gpioa_idr" "register_ok gpioa_ev_status"
  "register_ok gpioa_ev_pending" "register_ok gpioa_ev_enable" "register_ok gpiob_moder"
  "register_ok gpiob_odr" "register_ok gpiob_idr" "register_ok gpiob_ev_status"
  "register_ok gpiob_ev_pending" "register_ok gpiob_ev_enable" "register_ok usb0_connect"
  "register_ok usb0_speed" "register_ok usb0_low_speed_only" "register_ok usb0_full_speed_only"
  "register_ok usb0_ev_status" "register_ok usb0_ev_pending" "register_ok usb0_ev_enable"
  "register_ok usb0_ep_control_data" "register_ok usb0_ep_control_reset"
  "register_ok usb0_ep_control_epno" "register_ok usb0_ep_control_have"
  "register_ok usb0_ep_control_pend" "register_ok usb0_ep_control_address"
  "register_ok usb0_ep_control_ev_status" "register_ok usb0_ep_control_ev_pending"
  "register_ok usb0_ep_control_ev_enable" "register_ok usb0_ep_in_data"
  "register_ok usb0_ep_in_epno" "register_ok usb0_ep_in_reset" "register_ok usb0_ep_in_stall"
  "register_ok usb0_ep_in_idle" "register_ok usb0_ep_in_have" "register_ok usb0_ep_in_pend"
  "register_ok usb0_ep_in_pid" "register_ok usb0_ep_in_nak" "register_ok usb0_ep_in_ev_status"
  "register_ok usb0_ep_in_ev_pending" "register_ok usb0_ep_in_ev_enable"
  "register_ok usb0_ep_out_data" "register_ok usb0_ep_out_data_ep"
  "register_ok usb0_ep_out_reset" "register_ok usb0_ep_out_epno" "register_ok usb0_ep_out_enable"
  "register_ok usb0_ep_out_prime" "register_ok usb0_ep_out_stall" "register_ok usb0_ep_out_have"
  "register_ok usb0_ep_out_pend" "register_ok usb0_ep_out_address" "register_ok usb0_ep_out_pid"
  "register_ok usb0_ep_out_ev_status" "register_ok usb0_ep_out_ev_pending"
  "register_ok usb0_ep_out_ev_enable" "register_ok usb1_connect" "register_ok usb1_speed"
  "register_ok usb1_low_speed_only" "register_ok usb1_full_speed_only"
  "register_ok usb1_ev_status" "register_ok usb1_ev_pending" "register_ok usb1_ev_enable"
  "register_ok usb1_ep_control_data" "register_ok usb1_ep_control_reset"
  "register_ok usb1_ep_control_epno" "register_ok usb1_ep_control_have"
  "register_ok usb1_ep_control_pend" "register_ok usb1_ep_control_address"
  "register_ok usb1_ep_control_ev_status" "register_ok usb1_ep_control_ev_pending"
  "register_ok usb1_ep_control_ev_enable" "register_ok usb1_ep_in_data"
  "register_ok usb1_ep_in_epno" "register_ok usb1_ep_in_reset" "register_ok usb1_ep_in_stall"
  "register_ok usb1_ep_in_idle" "register_ok usb1_ep_in_have" "register_ok usb1_ep_in_pend"
  "register_ok usb1_ep_in_pid" "register_ok usb1_ep_in_nak" "register_ok usb1_ep_in_ev_status"
  "register_ok usb1_ep_in_ev_pending" "register_ok usb1_ep_in_ev_enable"
  "register_ok usb1_ep_out_data" "register_ok usb1_ep_out_data_ep"
  "register_ok usb1_ep_out_reset" "register_ok usb1_ep_out_epno" "register_ok usb1_ep_out_enable"
  "register_ok usb1_ep_out_prime" "register_ok usb1_ep_out_stall" "register_ok usb1_ep_out_have"
  "register_ok usb1_ep_out_pend" "register_ok usb1_ep_out_address" "register_ok usb1_ep_out_pid"
  "register_ok usb1_ep_out_ev_status" "register_ok usb1_ep_out_ev_pending"
  "register_ok usb1_ep_out_ev_enable" "register_ok usb2_connect" "register_ok usb2_speed"
  "register_ok usb2_low_speed_only" "register_ok usb2_full_speed_only"
  "register_ok usb2_ev_status" "register_ok usb2_ev_pending" "register_ok usb2_ev_enable"
  "register_ok usb2_ep_control_data" "register_ok usb2_ep_control_reset"
  "register_ok usb2_ep_control_epno" "register_ok usb2_ep_control_have"
  "register_ok usb2_ep_control_pend" "register_ok usb2_ep_control_address"
  "register_ok usb2_ep_control_ev_status" "register_ok usb2_ep_control_ev_pending"
  "register_ok usb2_ep_control_ev_enable" "register_ok usb2_ep_in_data"
  "register_ok usb2_ep_in_epno" "register_ok usb2_ep_in_reset" "register_ok usb2_ep_in_stall"
  "register_ok usb2_ep_in_idle" "register_ok usb2_ep_in_have" "register_ok usb2_ep_in_pend"
  "register_ok usb2_ep_in_pid" "register_ok usb2_ep_in_nak" "register_ok usb2_ep_in_ev_status"
  "register_ok usb2_ep_in_ev_pending" "register_ok usb2_ep_in_ev_enable"
  "register_ok usb2_ep_out_data" "register_ok usb2_ep_out_data_ep"
  "register_ok usb2_ep_out_reset" "register_ok usb2_ep_out_epno" "register_ok usb2_ep_out_enable"
  "register_ok usb2_ep_out_prime" "register_ok usb2_ep_out_stall" "register_ok usb2_ep_out_have"
  "register_ok usb2_ep_out_pend" "register_ok usb2_ep_out_address" "register_ok usb2_ep_out_pid"
  "register_ok usb2_ep_out_ev_status" "register_ok usb2_ep_out_ev_pending"
  "register_ok usb2_ep_out_ev_enable" "register_ok uart1_divisor" "register_ok uart1_rx_data"
  "register_ok uart1_rx_rdy" "register_ok uart1_rx_err" "register_ok uart1_tx_data"
  "register_ok uart1_tx_rdy" "register_ok uart1_ev_status" "register_ok uart1_ev_pending"
  "register_ok uart1_ev_enable" "register_ok advertiser_enable" "register_ok info_version_major"
  "register_ok info_version_minor"
  unfolding pac_specs pac_kinds by (simp_all add: register_ok_def)

text \<open>The registers of a peripheral with their addresses.\<close>

definition mapped :: "nat \<times> block_item list \<Rightarrow> (nat \<times> pac_register) list" where
  "mapped p = map (\<lambda>(_, offset, r). (fst p + offset, r)) (layout 0 (snd p))"

definition memory_map :: "(nat \<times> pac_register) list" where
  "memory_map = concat (map mapped (sort_key fst peripherals))"

lemma block_layouts [simp]:
  "layout 0 timer_block = documented timer_block" "layout 0 uart_block = documented uart_block"
  "layout 0 spi0_block = documented spi0_block" "layout 0 leds_block = documented leds_block"
  "layout 0 gpioa_block = documented gpioa_block" "layout 0 gpiob_block = documented gpiob_block"
  "layout 0 usb0_block = documented usb0_block"
  "layout 0 usb0_ep_control_block = documented usb0_ep_control_block"
  "layout 0 usb0_ep_in_block = documented usb0_ep_in_block"
  "layout 0 usb0_ep_out_block = documented usb0_ep_out_block"
  "layout 0 usb1_block = documented usb1_block"
  "layout 0 usb1_ep_control_block = documented usb1_ep_control_block"
  "layout 0 usb1_ep_in_block = documented usb1_ep_in_block"
  "layout 0 usb1_ep_out_block = documented usb1_ep_out_block"
  "layout 0 usb2_block = documented usb2_block"
  "layout 0 usb2_ep_control_block = documented usb2_ep_control_block"
  "layout 0 usb2_ep_in_block = documented usb2_ep_in_block"
  "layout 0 usb2_ep_out_block = documented usb2_ep_out_block"
  "layout 0 uart1_block = documented uart1_block"
  "layout 0 advertiser_block = documented advertiser_block"
  "layout 0 info_block = documented info_block"
  by (simp_all add: pac_blocks aligned_def)

lemma layouts_documented: "list_all (\<lambda>(_, block). layout 0 block = documented block) peripherals"
  by (simp add: peripherals_def)

text \<open>The SPI controller is the one peripheral that is not in the order of the addresses.\<close>

lemma sorted_peripherals: "sort_key fst peripherals =
   filter (\<lambda>(p, _). p \<noteq> spi0_ptr) peripherals @ [(spi0_ptr, spi0_block)]"
  by (simp add: peripherals_def pac_ptrs)

definition documented_map :: "nat \<Rightarrow> block_item list \<Rightarrow> (nat \<times> pac_register) list" where
  "documented_map p block = map (\<lambda>(_, offset, r). (p + offset, r)) (documented block)"

lemma memory_map_blocks: "memory_map = concat [
    documented_map timer_ptr timer_block,
    documented_map uart_ptr uart_block,
    documented_map leds_ptr leds_block,
    documented_map gpioa_ptr gpioa_block,
    documented_map gpiob_ptr gpiob_block,
    documented_map usb0_ptr usb0_block,
    documented_map usb0_ep_control_ptr usb0_ep_control_block,
    documented_map usb0_ep_in_ptr usb0_ep_in_block,
    documented_map usb0_ep_out_ptr usb0_ep_out_block,
    documented_map usb1_ptr usb1_block,
    documented_map usb1_ep_control_ptr usb1_ep_control_block,
    documented_map usb1_ep_in_ptr usb1_ep_in_block,
    documented_map usb1_ep_out_ptr usb1_ep_out_block,
    documented_map usb2_ptr usb2_block,
    documented_map usb2_ep_control_ptr usb2_ep_control_block,
    documented_map usb2_ep_in_ptr usb2_ep_in_block,
    documented_map usb2_ep_out_ptr usb2_ep_out_block,
    documented_map uart1_ptr uart1_block,
    documented_map advertiser_ptr advertiser_block,
    documented_map info_ptr info_block,
    documented_map spi0_ptr spi0_block]"
  unfolding memory_map_def sorted_peripherals
  by (simp add: peripherals_def mapped_def documented_map_def pac_ptrs)

lemma memory_map_successive: "successively (\<lambda>(a, r) (b, s). a + rg_size r \<le> b) memory_map"
  unfolding memory_map_blocks by (simp add: documented_map_def pac_ptrs pac_blocks)

lemma memory_map_registers: "list_all (\<lambda>(a, r). a mod rg_size r = 0 \<and> register_ok r) memory_map"
  unfolding memory_map_blocks by (simp add: documented_map_def pac_ptrs pac_blocks)

lemma memory_map_sorted: "sorted_wrt (\<lambda>(a, r) (b, s). a + rg_size r \<le> b) memory_map"
proof -
  have "transp (\<lambda>(a, r) (b, s :: pac_register). a + rg_size r \<le> (b :: nat))"
    by (auto simp: transp_def)
  then show ?thesis using memory_map_successive by (simp add: successively_conv_sorted_wrt)
qed

section \<open>The registers of the model\<close>

text \<open>The width with which the definitions of the model access each register, always at offset 0.\<close>

fun usb_width :: "usb_reg \<Rightarrow> nat" where
  "usb_width SpeedReg = 2"
| "usb_width CtlData = 8" | "usb_width InData = 8" | "usb_width OutData = 8"
| "usb_width CtlAddress = 8" | "usb_width OutAddress = 8"
| "usb_width CtlEpno = 4" | "usb_width InEpno = 4" | "usb_width OutEpno = 4" | "usb_width OutDataEp = 4"
| "usb_width InNak = 16"
| "usb_width _ = 1"

fun reg_width :: "reg \<Rightarrow> nat" where
  "reg_width (USB i r) = usb_width r"
| "reg_width (CSR r) = 32"
| "reg_width (SPI0 r) = (case r of PhyLen \<Rightarrow> 6 | PhyWidth \<Rightarrow> 4 | PhyMask \<Rightarrow> 8 | RxTx \<Rightarrow> 32 | _ \<Rightarrow> 1)"
| "reg_width (TimerReg k r) = (case r of TimerReload \<Rightarrow> 32 | TimerCtr \<Rightarrow> 32 | _ \<Rightarrow> 1)"
| "reg_width (UartReg k r) = (case r of UartTxData \<Rightarrow> 8 | UartTxRdy \<Rightarrow> 1)"
| "reg_width (GpioReg k r) = (case r of GpioEvPending \<Rightarrow> 1 | GpioEvEnable \<Rightarrow> 1 | _ \<Rightarrow> 8)"
| "reg_width LEDS = 6"
| "reg_width ADVERTISER = 1"
| "reg_width VersionMajor = 8"
| "reg_width VersionMinor = 8"

fun usb_port :: "usb_idx \<Rightarrow> nat" where
  "usb_port Usb0 = 0" | "usb_port Usb1 = 1" | "usb_port Usb2 = 2"

lemma usb_blocks_alike [simp]:
  "documented usb1_block = documented usb0_block"
  "documented usb1_ep_control_block = documented usb0_ep_control_block"
  "documented usb1_ep_in_block = documented usb0_ep_in_block"
  "documented usb1_ep_out_block = documented usb0_ep_out_block"
  "documented usb2_block = documented usb0_block"
  "documented usb2_ep_control_block = documented usb0_ep_control_block"
  "documented usb2_ep_in_block = documented usb0_ep_in_block"
  "documented usb2_ep_out_block = documented usb0_ep_out_block"
  unfolding pac_blocks pac_specs by simp_all

lemma usb_ptrs:
  "fst (usb_peripheral i part) = 0xf0003000 + 0x1000 * usb_port i +
     (case part of Controller \<Rightarrow> 0 | EpControl \<Rightarrow> 0x40 | EpIn \<Rightarrow> 0x80 | EpOut \<Rightarrow> 0x100)"
  by (cases i; cases part) (simp_all add: pac_ptrs)

lemma usb_layout: "layout 0 (snd (usb_peripheral i part)) = layout 0 (snd (usb_peripheral Usb0 part))"
  by (cases i; cases part) simp_all

lemma usb_entry_port:
  "pac_entry (USB i r) = map_option (\<lambda>(a, s). (a + 0x1000 * usb_port i, s)) (pac_entry (USB Usb0 r))"
  by (cases "usb_place r") (simp add: in_block_def usb_ptrs usb_layout [of i] option.map_comp o_def
      case_prod_beta' ac_simps del: usb_peripheral.simps)

definition usb_regs :: "usb_reg list" where
  "usb_regs =
    [Connect, FullSpeedOnly, LowSpeedOnly, SpeedReg, CtrlEvPending, CtrlEvEnable, CtlData,
     CtlReset, CtlEpno, CtlHave, CtlAddress, CtlEvPending, CtlEvEnable, InData, InEpno, InReset,
     InStall, InIdle, InHave, InPid, InNak, InEvPending, InEvEnable, OutData, OutDataEp, OutReset,
     OutEpno, OutEnable, OutPrime, OutStall, OutHave, OutPid, OutAddress, OutEvPending,
     OutEvEnable]"

lemma usb_regs_all: "r \<in> set usb_regs"
  by (cases r) (simp_all add: usb_regs_def)

definition usb_entry :: "usb_reg \<Rightarrow> nat \<times> pac_register" where
  "usb_entry r = the (pac_entry (USB Usb0 r))"

lemma usb_entry_Some: "pac_entry (USB Usb0 r) = Some (usb_entry r)"
  by (cases r) (simp_all add: usb_entry_def in_block_def, simp_all add: pac_blocks)

lemma usb_addresses: "map (fst \<circ> usb_entry) usb_regs =
    [0xf0003000, 0xf000300c, 0xf0003008, 0xf0003004, 0xf0003014, 0xf0003018, 0xf0003040,
     0xf0003044, 0xf0003048, 0xf000304c, 0xf0003054, 0xf0003064, 0xf0003068, 0xf0003080,
     0xf0003084, 0xf0003088, 0xf000308c, 0xf0003090, 0xf0003094, 0xf000309c, 0xf00030a0, 0xf00030c4,
     0xf00030c8, 0xf0003100, 0xf0003104, 0xf0003108, 0xf000310c, 0xf0003110, 0xf0003114,
     0xf0003118, 0xf000311c, 0xf0003128, 0xf0003124, 0xf0003144, 0xf0003148]"
  by (simp add: usb_regs_def usb_entry_def in_block_def, simp add: pac_blocks pac_ptrs)

definition other_regs :: "reg list" where
  "other_regs =
    [SPI0 PhyLen, SPI0 PhyWidth, SPI0 PhyMask, SPI0 SpiCs, SPI0 TxRdy, SPI0 RxRdy, SPI0 RxTx,
     TimerReg 0 TimerEn, TimerReg 0 TimerReload, TimerReg 0 TimerCtr, TimerReg 0 TimerEvEnable,
     TimerReg 0 TimerEvPending, UartReg 0 UartTxData, UartReg 0 UartTxRdy, UartReg 1 UartTxData,
     UartReg 1 UartTxRdy, GpioReg 0 Moder, GpioReg 0 Odr, GpioReg 0 Idr, GpioReg 0 GpioEvPending,
     GpioReg 0 GpioEvEnable, GpioReg 1 Moder, GpioReg 1 Odr, GpioReg 1 Idr, GpioReg 1 GpioEvPending,
     GpioReg 1 GpioEvEnable, LEDS, ADVERTISER, VersionMajor, VersionMinor]"

definition reg_entry :: "reg \<Rightarrow> nat \<times> pac_register" where
  "reg_entry r = the (pac_entry r)"

lemma other_entries_Some: "list_all (\<lambda>r. pac_entry r \<noteq> None) other_regs"
  by (simp add: other_regs_def in_block_def, simp add: pac_blocks)

lemma other_addresses: "map (fst \<circ> reg_entry) other_regs =
    [0xf0008000, 0xf0008001, 0xf0008002, 0xf0008003, 0xf0008008, 0xf0008009, 0xf0008004,
     0xf0000104, 0xf0000100, 0xf0000108, 0xf0000118, 0xf0000114, 0xf0000210, 0xf0000214,
     0xf0006010, 0xf0006014, 0xf0002000, 0xf0002004, 0xf0002008, 0xf0002014,
     0xf0002018, 0xf0002100, 0xf0002104, 0xf0002108, 0xf0002114, 0xf0002118, 0xf0001000, 0xf0007000, 0xf0007100, 0xf0007104]"
  by (simp add: other_regs_def reg_entry_def in_block_def, simp add: pac_blocks pac_ptrs)

section \<open>Addresses\<close>

lemma usb_address_range: "0xf0003000 \<le> fst (usb_entry r) \<and> fst (usb_entry r) < 0xf0004000"
proof -
  have "fst (usb_entry r) \<in> set (map (fst \<circ> usb_entry) usb_regs)" using usb_regs_all by simp
  then show ?thesis unfolding usb_addresses by auto
qed

lemma usb_entry_inj: "fst (usb_entry r) = fst (usb_entry r') \<Longrightarrow> r = r'"
proof -
  have "distinct (map (fst \<circ> usb_entry) usb_regs)" unfolding usb_addresses by simp
  then have "inj_on (fst \<circ> usb_entry) (set usb_regs)" by (simp add: distinct_map)
  then show "fst (usb_entry r) = fst (usb_entry r') \<Longrightarrow> r = r'"
    using usb_regs_all [of r] usb_regs_all [of r'] by (simp add: inj_on_def)
qed

lemma other_address_range:
  "r \<in> set other_regs \<Longrightarrow> fst (reg_entry r) < 0xf0003000 \<or> 0xf0006000 \<le> fst (reg_entry r)"
proof -
  assume "r \<in> set other_regs"
  then have "fst (reg_entry r) \<in> set (map (fst \<circ> reg_entry) other_regs)" by simp
  then show ?thesis unfolding other_addresses by auto
qed

lemma other_entry_inj:
  assumes "r \<in> set other_regs" and "r' \<in> set other_regs" and "fst (reg_entry r) = fst (reg_entry r')"
  shows "r = r'"
proof -
  have "distinct (map (fst \<circ> reg_entry) other_regs)" unfolding other_addresses by simp
  then show ?thesis using assms by (auto simp: distinct_map inj_on_def)
qed

lemma usb_entry_USB:
  "pac_entry (USB i r) = Some (fst (usb_entry r) + 0x1000 * usb_port i, snd (usb_entry r))"
  by (simp add: usb_entry_port [of i] usb_entry_Some case_prod_beta' del: pac_entry.simps)

lemma pac_entry_where: "pac_entry r \<noteq> None \<Longrightarrow> (\<exists>i u. r = USB i u) \<or> r \<in> set other_regs"
proof (cases r)
  case (SPI0 x) then show ?thesis by (cases x) (simp_all add: other_regs_def)
next
  case (TimerReg k x) then show "pac_entry r \<noteq> None \<Longrightarrow> ?thesis"
    by (cases x) (simp_all add: other_regs_def split: if_splits)
next
  case (UartReg k x) then show "pac_entry r \<noteq> None \<Longrightarrow> ?thesis"
    by (cases x) (auto simp: other_regs_def split: if_splits)
next
  case (GpioReg k x) then show "pac_entry r \<noteq> None \<Longrightarrow> ?thesis"
    by (cases x) (auto simp: other_regs_def split: if_splits)
qed (simp_all add: other_regs_def)

lemma pac_entry_address:
  "pac_entry r = Some (a, s) \<Longrightarrow>
     (\<exists>i u. r = USB i u \<and> a = fst (usb_entry u) + 0x1000 * usb_port i) \<or>
     r \<in> set other_regs \<and> a = fst (reg_entry r)"
  using pac_entry_where [of r] usb_entry_USB by (auto simp: reg_entry_def simp del: pac_entry.simps)

lemma usb_port_inj: "usb_port i = usb_port j \<Longrightarrow> i = j"
  by (cases i; cases j) simp_all

lemma usb_port_less: "usb_port i < 3"
  by (cases i) simp_all

text \<open>No two registers of the model have the same address.\<close>

lemma pac_entry_inj:
  assumes "pac_entry r = Some (a, s)" and "pac_entry r' = Some (a, s')"
  shows "r = r'"
proof -
  have usb: "\<not> (a < 0xf0003000 \<or> 0xf0006000 \<le> a)"
    if "a = fst (usb_entry u) + 0x1000 * usb_port i" for u i
    using that usb_address_range [of u] usb_port_less [of i] by linarith
  have same: "usb_port i = usb_port j \<and> fst (usb_entry u) = fst (usb_entry v)"
    if "fst (usb_entry u) + 0x1000 * usb_port i = fst (usb_entry v) + 0x1000 * usb_port j" for u v i j
    using that usb_address_range [of u] usb_address_range [of v]
    by (cases "usb_port i" "usb_port j" rule: linorder_cases) linarith+
  note at = pac_entry_address [OF assms(1)] pac_entry_address [OF assms(2)]
  show ?thesis
  proof (cases "r \<in> set other_regs")
    case True
    then have r: "a = fst (reg_entry r)" using assms(1) by (simp add: reg_entry_def del: pac_entry.simps)
    then have "r' \<in> set other_regs \<and> a = fst (reg_entry r')"
      using at(2) usb other_address_range [OF True] by metis
    then show ?thesis using other_entry_inj [OF True] r by simp
  next
    case False
    then obtain i u where r: "r = USB i u" "a = fst (usb_entry u) + 0x1000 * usb_port i"
      using at(1) by blast
    then obtain j v where r': "r' = USB j v" "a = fst (usb_entry v) + 0x1000 * usb_port j"
      using at(2) usb [OF r(2)] other_address_range [of r'] by metis
    then show ?thesis using r same usb_entry_inj usb_port_inj by metis
  qed
qed

section \<open>Fields\<close>

text \<open>A register has one field, at offset 0 and of that width, to read or to write or both.\<close>

definition one_field :: "pac_register \<Rightarrow> nat \<Rightarrow> bool" where
  "one_field s width \<longleftrightarrow> set (map snd (rg_reads s @ rg_writes s)) = {(0, width)}"

lemma usb_one_field: "one_field (snd (usb_entry r)) (usb_width r)"
  by (cases r) (simp_all add: usb_entry_def in_block_def, simp_all add: pac_blocks,
    simp_all add: pac_specs pac_kinds one_field_def)

lemma other_one_field: "list_all (\<lambda>r. one_field (snd (reg_entry r)) (reg_width r)) other_regs"
  by (simp add: other_regs_def reg_entry_def in_block_def, simp add: pac_blocks,
    simp add: pac_specs pac_kinds one_field_def)

lemma pac_entry_field: "pac_entry r = Some (a, s) \<Longrightarrow> one_field s (reg_width r)"
  using pac_entry_where [of r] usb_one_field other_one_field
  by (auto simp: usb_entry_USB reg_entry_def list_all_iff simp del: pac_entry.simps
      dest!: bspec [of _ _ r])

lemma in_block_mapped:
  "in_block p name = Some (a, s) \<Longrightarrow> p \<in> set peripherals \<Longrightarrow> (a, s) \<in> set memory_map"
  by (auto simp: in_block_def memory_map_def mapped_def dest!: map_of_SomeD intro!: bexI [of _ p])
    force

lemma pac_entry_mapped: "pac_entry r = Some (a, s) \<Longrightarrow> (a, s) \<in> set memory_map"
proof (cases r)
  case (USB i u)
  obtain part name where u: "usb_place u = (part, name)" by fastforce
  have "usb_peripheral i part \<in> set peripherals"
    by (cases i; cases part) (simp_all add: peripherals_def)
  with USB u show "pac_entry r = Some (a, s) \<Longrightarrow> ?thesis" by (simp add: in_block_mapped)
qed (auto simp: peripherals_def elim!: in_block_mapped split: if_splits)

lemma pac_entry_ok: "pac_entry r = Some (a, s) \<Longrightarrow> register_ok s \<and> a mod rg_size s = 0"
  using memory_map_registers pac_entry_mapped by (fastforce simp: list_all_iff)

end
