(* ===== verification/RegisterProxies.thy ===== *)
theory RegisterProxies
  imports RegisterFacts
begin

text \<open>
  The register access layer of \<open>moondancer-pac/src/generated/generic.rs\<close> and \<open>generic/raw.rs\<close> in full:
  registers of any width, with reset values, bits that \<open>modify\<close> forces, field writers with and without
  a range, and the seven kinds of bit writers. The cell behind a register (\<open>vcell\<close>, not part of the
  repository) is a parameter. The firmware model uses the special case of theory \<open>Hardware\<close>; the last
  section proves that on every register the model names it is the general definition.
\<close>

section \<open>Raw values\<close>

definition raw_mask :: "nat \<Rightarrow> 'w::len word" where
  "raw_mask wi = drop_bit (LENGTH('w) - wi) (- 1)"

definition raw_one :: "'w::len word" where
  "raw_one = 1"

lemma bit_raw_mask [simp]: "wi \<le> LENGTH('w) \<Longrightarrow> bit (raw_mask wi :: 'w::len word) n \<longleftrightarrow> n < wi"
  by (auto simp: raw_mask_def bit_simps)

lemma raw_mask_eq: "wi \<le> LENGTH('w) \<Longrightarrow> (raw_mask wi :: 'w::len word) = mask wi"
  by (rule bit_word_eqI) (auto simp: bit_simps)

section \<open>Registers\<close>

record (overloaded) ('h, 'w) volatile_cell =
  cell_get :: "'h \<Rightarrow> ('w::len) word \<times> 'h"
  cell_set :: "'w word \<Rightarrow> 'h \<Rightarrow> 'h"

record (overloaded) 'w register_spec =
  RESET_VALUE :: "('w::len) word"
  ZERO_TO_MODIFY_FIELDS_BITMAP :: "'w word"
  ONE_TO_MODIFY_FIELDS_BITMAP :: "'w word"

text \<open>What the closures given to \<open>write\<close> and \<open>modify\<close> start from.\<close>

definition unchanged :: "('w::len) register_spec \<Rightarrow> 'w word \<Rightarrow> 'w word" where
  "unchanged reg bits =
     (bits AND NOT (ONE_TO_MODIFY_FIELDS_BITMAP reg)) OR ZERO_TO_MODIFY_FIELDS_BITMAP reg"

definition Reg_read :: "('h, 'w::len) volatile_cell \<Rightarrow> 'h \<Rightarrow> 'w word \<times> 'h" where
  "Reg_read register h = cell_get register h"

definition Reg_reset ::
  "('w::len) register_spec \<Rightarrow> ('h, 'w) volatile_cell \<Rightarrow> 'h \<Rightarrow> 'h" where
  "Reg_reset reg register h = cell_set register (RESET_VALUE reg) h"

definition Reg_write ::
  "('w::len) register_spec \<Rightarrow> ('h, 'w) volatile_cell \<Rightarrow> ('w word \<Rightarrow> 'w word rust) \<Rightarrow> 'h \<Rightarrow> 'h rust" where
  "Reg_write reg register f h =
     rbind (f (unchanged reg (RESET_VALUE reg))) (\<lambda>bits. Ret (cell_set register bits h))"

definition Reg_write_with_zero ::
  "('h, 'w::len) volatile_cell \<Rightarrow> ('w word \<Rightarrow> 'w word rust) \<Rightarrow> 'h \<Rightarrow> 'h rust" where
  "Reg_write_with_zero register f h = rbind (f 0) (\<lambda>bits. Ret (cell_set register bits h))"

definition Reg_modify ::
  "('w::len) register_spec \<Rightarrow> ('h, 'w) volatile_cell \<Rightarrow> ('w word \<Rightarrow> 'w word \<Rightarrow> 'w word rust) \<Rightarrow>
     'h \<Rightarrow> 'h rust" where
  "Reg_modify reg register f h =
     (let (bits, h) = cell_get register h
      in rbind (f bits (unchanged reg bits)) (\<lambda>bits. Ret (cell_set register bits h)))"

text \<open>\<open>R::bits\<close>, its comparison with a value, \<open>W::bits\<close> and the safe \<open>W::set\<close>.\<close>

definition R_bits :: "('w::len) word \<Rightarrow> 'w word" where
  "R_bits r = r"

definition R_eq :: "('w::len) word \<Rightarrow> ('f::len) word \<Rightarrow> bool" where
  "R_eq r other \<longleftrightarrow> R_bits r = ucast other"

definition W_bits :: "('w::len) word \<Rightarrow> 'w word \<Rightarrow> 'w word" where
  "W_bits w bits = bits"

definition W_set :: "('w::len) word \<Rightarrow> 'w word \<Rightarrow> 'w word" where
  "W_set w bits = bits"

section \<open>Fields\<close>

text \<open>A field writer borrows the register writer, whose bits it updates, and holds the offset.\<close>

record (overloaded) 'w field_writer =
  fw_w :: "('w::len) word"
  fw_o :: nat

definition FieldWriter_new :: "('w::len) word \<Rightarrow> nat \<Rightarrow> 'w field_writer" where
  "FieldWriter_new w o' = \<lparr>fw_w = w, fw_o = o'\<rparr>"

definition FieldWriter_bits :: "nat \<Rightarrow> ('w::len) field_writer \<Rightarrow> ('f::len) word \<Rightarrow> 'w word" where
  "FieldWriter_bits wi self value =
     (let w = fw_w self AND NOT (push_bit (fw_o self) (raw_mask wi))
      in w OR push_bit (fw_o self) (ucast value AND raw_mask wi))"

definition FieldWriter_set_safe :: "nat \<Rightarrow> ('w::len) field_writer \<Rightarrow> ('f::len) word \<Rightarrow> 'w word rust" where
  "FieldWriter_set_safe wi self value = Ret (FieldWriter_bits wi self value)"

definition FieldWriter_set_range ::
  "nat \<Rightarrow> nat \<Rightarrow> nat \<Rightarrow> ('w::len) field_writer \<Rightarrow> ('f::len) word \<Rightarrow> 'w word rust" where
  "FieldWriter_set_range lo hi wi self value =
     (if lo \<le> unat value \<and> unat value \<le> hi then Ret (FieldWriter_bits wi self value) else Panic)"

definition FieldWriter_set_range_from ::
  "nat \<Rightarrow> nat \<Rightarrow> ('w::len) field_writer \<Rightarrow> ('f::len) word \<Rightarrow> 'w word rust" where
  "FieldWriter_set_range_from lo wi self value =
     (if lo \<le> unat value then Ret (FieldWriter_bits wi self value) else Panic)"

definition FieldWriter_set_range_to ::
  "nat \<Rightarrow> nat \<Rightarrow> ('w::len) field_writer \<Rightarrow> ('f::len) word \<Rightarrow> 'w word rust" where
  "FieldWriter_set_range_to hi wi self value =
     (if unat value \<le> hi then Ret (FieldWriter_bits wi self value) else Panic)"

text \<open>An enumerated value is converted by the \<open>From\<close> of its type.\<close>

definition FieldWriter_variant ::
  "('e \<Rightarrow> ('f::len) word) \<Rightarrow> nat \<Rightarrow> ('w::len) field_writer \<Rightarrow> 'e \<Rightarrow> 'w word" where
  "FieldWriter_variant into wi self variant = FieldWriter_bits wi self (into variant)"

text \<open>The getters of \<open>WIDTH\<close> and of the offset, and the readers of fields and bits.\<close>

definition FieldWriter_width :: "nat \<Rightarrow> ('w::len) field_writer \<Rightarrow> nat" where
  "FieldWriter_width wi self = wi"

definition FieldWriter_offset :: "('w::len) field_writer \<Rightarrow> nat" where
  "FieldWriter_offset self = fw_o self"

definition FieldReader_bits :: "('f::len) word \<Rightarrow> 'f word" where
  "FieldReader_bits bits = bits"

definition FieldReader_eq :: "('e \<Rightarrow> ('f::len) word) \<Rightarrow> 'f word \<Rightarrow> 'e \<Rightarrow> bool" where
  "FieldReader_eq into bits other \<longleftrightarrow> bits = into other"

definition BitReader_bit :: "bool \<Rightarrow> bool" where
  "BitReader_bit bits = bits"

definition BitReader_is_clear :: "bool \<Rightarrow> bool" where
  "BitReader_is_clear bits \<longleftrightarrow> \<not> BitReader_bit bits"

definition BitReader_is_set :: "bool \<Rightarrow> bool" where
  "BitReader_is_set bits = BitReader_bit bits"

definition BitReader_eq :: "('e \<Rightarrow> bool) \<Rightarrow> bool \<Rightarrow> 'e \<Rightarrow> bool" where
  "BitReader_eq into bits other \<longleftrightarrow> bits = into other"

section \<open>Bits\<close>

text \<open>
  The kinds of bit writers that \<open>bit_proxy!\<close> makes: \<open>BitM\<close> takes the written value; of the others the
  digit is the value that acts, and the letter says whether it sets, clears or toggles.
\<close>

datatype bit_kind = BitM | Bit1S | Bit0C | Bit1C | Bit0S | Bit1T | Bit0T

record (overloaded) 'w bit_writer =
  bw_w :: "('w::len) word"
  bw_o :: nat

definition BitWriter_new :: "('w::len) word \<Rightarrow> nat \<Rightarrow> 'w bit_writer" where
  "BitWriter_new w o' = \<lparr>bw_w = w, bw_o = o'\<rparr>"

definition BitWriter_bit :: "('w::len) bit_writer \<Rightarrow> bool \<Rightarrow> 'w word" where
  "BitWriter_bit self value =
     (let w = bw_w self AND NOT (push_bit (bw_o self) raw_one)
      in w OR push_bit (bw_o self) (of_bool value AND raw_one))"

definition BitWriter_variant :: "('e \<Rightarrow> bool) \<Rightarrow> ('w::len) bit_writer \<Rightarrow> 'e \<Rightarrow> 'w word" where
  "BitWriter_variant into self variant = BitWriter_bit self (into variant)"

definition BitWriter_width :: "('w::len) bit_writer \<Rightarrow> nat" where
  "BitWriter_width self = 1"

definition BitWriter_offset :: "('w::len) bit_writer \<Rightarrow> nat" where
  "BitWriter_offset self = bw_o self"

definition BitWriter_set_bit :: "('w::len) bit_writer \<Rightarrow> 'w word" where
  "BitWriter_set_bit self = bw_w self OR push_bit (bw_o self) raw_one"

definition BitWriter_clear_bit :: "('w::len) bit_writer \<Rightarrow> 'w word" where
  "BitWriter_clear_bit self = bw_w self AND NOT (push_bit (bw_o self) raw_one)"

definition BitWriter1S_set_bit :: "('w::len) bit_writer \<Rightarrow> 'w word" where
  "BitWriter1S_set_bit self = bw_w self OR push_bit (bw_o self) raw_one"

definition BitWriter0C_clear_bit :: "('w::len) bit_writer \<Rightarrow> 'w word" where
  "BitWriter0C_clear_bit self = bw_w self AND NOT (push_bit (bw_o self) raw_one)"

definition BitWriter1C_clear_bit_by_one :: "('w::len) bit_writer \<Rightarrow> 'w word" where
  "BitWriter1C_clear_bit_by_one self = bw_w self OR push_bit (bw_o self) raw_one"

definition BitWriter0S_set_bit_by_zero :: "('w::len) bit_writer \<Rightarrow> 'w word" where
  "BitWriter0S_set_bit_by_zero self = bw_w self AND NOT (push_bit (bw_o self) raw_one)"

definition BitWriter1T_toggle_bit :: "('w::len) bit_writer \<Rightarrow> 'w word" where
  "BitWriter1T_toggle_bit self = bw_w self OR push_bit (bw_o self) raw_one"

definition BitWriter0T_toggle_bit :: "('w::len) bit_writer \<Rightarrow> 'w word" where
  "BitWriter0T_toggle_bit self = bw_w self AND NOT (push_bit (bw_o self) raw_one)"

lemmas bit_writer_defs =
  BitWriter_new_def BitWriter_bit_def BitWriter_set_bit_def BitWriter_clear_bit_def
  BitWriter1S_set_bit_def BitWriter0C_clear_bit_def BitWriter1C_clear_bit_by_one_def
  BitWriter0S_set_bit_by_zero_def BitWriter1T_toggle_bit_def BitWriter0T_toggle_bit_def raw_one_def

section \<open>Several fields of a register\<close>

text \<open>The value of a field is what the reader of the field returns; the getters shift and mask.\<close>

definition field_value :: "nat \<times> nat \<Rightarrow> ('w::len) word \<Rightarrow> 'w word" where
  "field_value f bits = (case f of (o', wi) \<Rightarrow> drop_bit o' bits AND raw_mask wi)"

text \<open>The chain \<open>w.a().bits(x).b().bits(y)\<close>.\<close>

fun write_fields :: "((nat \<times> nat) \<times> 'f::len word) list \<Rightarrow> ('w::len) word \<Rightarrow> 'w word" where
  "write_fields [] w = w"
| "write_fields (((o', wi), v) # vs) w =
     write_fields vs (FieldWriter_bits wi (FieldWriter_new w o') v)"

fun field_within :: "nat \<Rightarrow> nat \<times> nat \<Rightarrow> bool" where
  "field_within n (o', wi) \<longleftrightarrow> 0 < wi \<and> o' + wi \<le> n"

fun fields_apart :: "nat \<times> nat \<Rightarrow> nat \<times> nat \<Rightarrow> bool" where
  "fields_apart (o1, w1) (o2, w2) \<longleftrightarrow> o1 + w1 \<le> o2 \<or> o2 + w2 \<le> o1"

lemma bit_field_value:
  "field_within LENGTH('w) f \<Longrightarrow>
     bit (field_value f (bits :: 'w::len word)) n \<longleftrightarrow> n < snd f \<and> bit bits (fst f + n)"
  by (cases f) (auto simp: field_value_def bit_simps)

lemma bit_FieldWriter_bits:
  "field_within LENGTH('w) (o', wi) \<Longrightarrow>
     bit (FieldWriter_bits wi (FieldWriter_new w o') v :: 'w::len word) n \<longleftrightarrow>
       (if o' \<le> n \<and> n < o' + wi then bit (ucast v :: 'w word) (n - o') else bit w n)"
  by (auto simp: FieldWriter_bits_def FieldWriter_new_def bit_simps Let_def dest: bit_imp_le_length)

lemma field_value_same:
  "field_within LENGTH('w) (o', wi) \<Longrightarrow>
     field_value (o', wi) (FieldWriter_bits wi (FieldWriter_new w o') v :: 'w::len word) =
       ucast v AND raw_mask wi"
  by (rule bit_word_eqI) (auto simp: bit_field_value bit_FieldWriter_bits bit_simps)

lemma field_value_other:
  "field_within LENGTH('w) f \<Longrightarrow> field_within LENGTH('w) (o', wi) \<Longrightarrow> fields_apart f (o', wi) \<Longrightarrow>
     field_value f (FieldWriter_bits wi (FieldWriter_new w o') v :: 'w::len word) = field_value f w"
  by (rule bit_word_eqI, cases f) (auto simp: bit_field_value bit_FieldWriter_bits)

text \<open>Writing fields is updating a map of their values: the last write of a field counts.\<close>

lemma write_fields_value:
  assumes "\<And>g v. (g, v) \<in> set vs \<Longrightarrow> field_within LENGTH('w) g \<and> (g = f \<or> fields_apart f g)"
    and "field_within LENGTH('w) f"
  shows "field_value f (write_fields vs w :: 'w::len word) =
    (case map_of (rev vs) f of None \<Rightarrow> field_value f w | Some v \<Rightarrow> ucast v AND raw_mask (snd f))"
  using assms(1)
proof (induction vs arbitrary: w)
  case (Cons gv vs)
  obtain o' wi v where gv: "gv = ((o', wi), v)" by (cases gv) auto
  have g: "field_within LENGTH('w) (o', wi)" "(o', wi) = f \<or> fields_apart f (o', wi)"
    using Cons.prems [of "(o', wi)" v] gv by auto
  define w' where "w' = FieldWriter_bits wi (FieldWriter_new w o') v"
  have ih: "field_value f (write_fields vs w') =
      (case map_of (rev vs) f of None \<Rightarrow> field_value f w' | Some v \<Rightarrow> ucast v AND raw_mask (snd f))"
    using Cons.prems by (intro Cons.IH) auto
  show ?case
  proof (cases "(o', wi) = f")
    case True
    then have "field_value f w' = ucast v AND raw_mask (snd f)"
      using field_value_same [OF g(1), of w v] by (auto simp: w'_def)
    then show ?thesis using ih by (auto simp: gv w'_def map_add_def simp flip: True split: option.splits)
  next
    case False
    then have "field_value f w' = field_value f w"
      using field_value_other [OF assms(2) g(1), of w v] g(2) by (auto simp: w'_def)
    then show ?thesis using ih False by (auto simp: gv w'_def map_add_def split: option.splits)
  qed
qed simp

section \<open>Bits with a meaning of their own\<close>

text \<open>
  What the hardware makes of a written bit, from the documentation of the two bitmaps: a bit of a kind
  with digit 0 changes when 0 is written, one with digit 1 when 1 is written.
\<close>

fun bit_effect :: "bit_kind \<Rightarrow> bool \<Rightarrow> bool \<Rightarrow> bool" where
  "bit_effect BitM old written = written"
| "bit_effect Bit1S old written = (old \<or> written)"
| "bit_effect Bit0C old written = (old \<and> written)"
| "bit_effect Bit1C old written = (old \<and> \<not> written)"
| "bit_effect Bit0S old written = (old \<or> \<not> written)"
| "bit_effect Bit1T old written = (old \<noteq> written)"
| "bit_effect Bit0T old written = (old = written)"

text \<open>The bitmaps that belong to the kinds of the bits of a register.\<close>

definition bitmaps_fit :: "(nat \<Rightarrow> bit_kind) \<Rightarrow> ('w::len) register_spec \<Rightarrow> bool" where
  "bitmaps_fit kind reg \<longleftrightarrow> list_all (\<lambda>n.
     bit (ZERO_TO_MODIFY_FIELDS_BITMAP reg) n = (kind n \<in> {Bit0C, Bit0S, Bit0T}) \<and>
     bit (ONE_TO_MODIFY_FIELDS_BITMAP reg) n = (kind n \<in> {Bit1S, Bit1C, Bit1T})) [0..<LENGTH('w)]"

text \<open>The writer method that acts on a bit of each kind, and what it is for.\<close>

fun bit_method :: "bit_kind \<Rightarrow> ('w::len) bit_writer \<Rightarrow> 'w word" where
  "bit_method BitM = BitWriter_set_bit"
| "bit_method Bit1S = BitWriter1S_set_bit"
| "bit_method Bit0C = BitWriter0C_clear_bit"
| "bit_method Bit1C = BitWriter1C_clear_bit_by_one"
| "bit_method Bit0S = BitWriter0S_set_bit_by_zero"
| "bit_method Bit1T = BitWriter1T_toggle_bit"
| "bit_method Bit0T = BitWriter0T_toggle_bit"

fun bit_goal :: "bit_kind \<Rightarrow> bool \<Rightarrow> bool" where
  "bit_goal kind old = (if kind \<in> {BitM, Bit1S, Bit0S} then True
     else if kind \<in> {Bit0C, Bit1C} then False else \<not> old)"

lemma bit_unchanged:
  "bitmaps_fit kind reg \<Longrightarrow> n < LENGTH('w) \<Longrightarrow>
     bit (unchanged reg (old :: 'w::len word)) n =
       (if kind n = BitM then bit old n else kind n \<in> {Bit0C, Bit0S, Bit0T})"
  by (cases "kind n") (auto simp: bitmaps_fit_def list_all_iff unchanged_def bit_simps)

lemma effect_unchanged:
  "bitmaps_fit kind reg \<Longrightarrow> n < LENGTH('w) \<Longrightarrow>
     bit_effect (kind n) (bit old n) (bit (unchanged reg (old :: 'w::len word)) n) = bit old n"
  by (cases "kind n") (simp_all add: bit_unchanged)

lemma bit_method_bit:
  "n < LENGTH('w) \<Longrightarrow> i < LENGTH('w) \<Longrightarrow>
     bit (bit_method k (BitWriter_new (w :: 'w::len word) i)) n =
       (if n = i then k \<in> {BitM, Bit1S, Bit1C, Bit1T} else bit w n)"
  by (cases k) (auto simp: bit_writer_defs bit_simps)

lemma effect_method:
  assumes "bitmaps_fit kind reg" and "i < LENGTH('w)" and "n < LENGTH('w)"
  shows "bit_effect (kind n) (bit old n)
      (bit (bit_method (kind i) (BitWriter_new (unchanged reg (old :: 'w::len word)) i)) n) =
    (if n = i then bit_goal (kind i) (bit old n) else bit old n)"
proof (cases "n = i")
  case True
  then show ?thesis using assms by (cases "kind i") (simp_all add: bit_method_bit del: bit_method.simps)
next
  case False
  then show ?thesis using assms by (simp add: bit_method_bit effect_unchanged)
qed

text \<open>So \<open>modify\<close> with the method of one bit does that to the bit and nothing to the others.\<close>

lemma modify_bit_method:
  assumes "bitmaps_fit kind reg" and "i < LENGTH('w)" and "cell_get register h = (old :: 'w::len word, h1)"
  shows "\<exists>written. Reg_modify reg register (\<lambda>_ w. Ret (bit_method (kind i) (BitWriter_new w i))) h =
      Ret (cell_set register written h1) \<and>
    (\<forall>n < LENGTH('w). bit_effect (kind n) (bit old n) (bit written n) =
       (if n = i then bit_goal (kind i) (bit old n) else bit old n))"
  using assms(3) effect_method [OF assms(1,2), where old = old]
  by (intro exI [of _ "bit_method (kind i) (BitWriter_new (unchanged reg old) i)"])
    (simp add: Reg_modify_def del: bit_method.simps bit_goal.simps)

section \<open>The registers of the model\<close>

text \<open>The constants of a register of the package, and the cell behind a register of the model.\<close>

definition spec_of :: "pac_register \<Rightarrow> ('w::len) register_spec" where
  "spec_of s = \<lparr>RESET_VALUE = ucast (rg_reset s),
     ZERO_TO_MODIFY_FIELDS_BITMAP = ucast (rg_zero_to_modify s),
     ONE_TO_MODIFY_FIELDS_BITMAP = ucast (rg_one_to_modify s)\<rparr>"

definition model_cell :: "('h, 'q) env \<Rightarrow> reg \<Rightarrow> ('h, 'w::len) volatile_cell" where
  "model_cell env r = \<lparr>cell_get = (\<lambda>h. map_prod ucast id (env_read env r h)),
     cell_set = (\<lambda>v. env_write env r (ucast v))\<rparr>"

lemma unchanged_ok: "register_ok s \<Longrightarrow> unchanged (spec_of s) bits = bits \<and> RESET_VALUE (spec_of s) = 0"
  by (simp add: register_ok_def unchanged_def spec_of_def)

lemma ucast_field_bits:
  "n \<le> LENGTH('w) \<Longrightarrow>
     ucast (FieldWriter_bits n (FieldWriter_new 0 0) v :: 'w::len word) = field_bits n (ucast v) 0"
  by (rule bit_word_eqI) (auto simp: FieldWriter_bits_def FieldWriter_new_def field_bits_def bit_simps)

lemma field_bits_u32:
  "n \<le> 32 \<Longrightarrow> FieldWriter_bits n (FieldWriter_new w 0) v = field_bits n (ucast v) w"
  by (rule bit_word_eqI) (auto simp: FieldWriter_bits_def FieldWriter_new_def field_bits_def bit_simps)

lemma one_field_width:
  "one_field s n \<Longrightarrow> register_ok s \<Longrightarrow> 0 < n \<and> n \<le> 8 * rg_size s"
proof -
  assume "one_field s n"
  then have "(0, n) \<in> set (map snd (rg_reads s @ rg_writes s))" by (simp add: one_field_def)
  then obtain name where "(name, 0, n) \<in> set (rg_reads s @ rg_writes s)" by force
  then show "register_ok s \<Longrightarrow> 0 < n \<and> n \<le> 8 * rg_size s"
    by (simp add: register_ok_def list_all_iff del: set_append) (metis (no_types, lifting) add_0 case_prod_conv)
qed

lemma pac_entry_width: "pac_entry r = Some (a, s) \<Longrightarrow> 0 < reg_width r \<and> reg_width r \<le> 8 * rg_size s"
  using pac_entry_ok pac_entry_field one_field_width by blast

lemma reg_write_general:
  assumes "pac_entry r = Some (a, s)" and "LENGTH('w) = 8 * rg_size s"
  shows "Reg_write (spec_of s) (model_cell env r :: ('h, 'w::len) volatile_cell)
      (\<lambda>w. Ret (FieldWriter_bits (reg_width r) (FieldWriter_new w 0) v)) (hw x) =
    Ret (hw (reg_write env r (field_bits (reg_width r) (ucast v)) x))"
  using assms pac_entry_ok [OF assms(1)] pac_entry_width [OF assms(1)]
  by (simp add: Reg_write_def unchanged_ok model_cell_def reg_write_def reset_value_def ucast_field_bits)

lemma reg_modify_general:
  assumes "pac_entry r = Some (a, s)" and "rg_size s = 4"
  shows "Reg_modify (spec_of s) (model_cell env r)
      (\<lambda>bits w. Ret (FieldWriter_bits (reg_width r) (FieldWriter_new w 0) (g bits))) (hw x) =
    Ret (hw (reg_modify env r (\<lambda>bits. field_bits (reg_width r) (ucast (g bits))) x))"
  using assms pac_entry_ok [OF assms(1)] pac_entry_width [OF assms(1)]
  by (simp add: Reg_modify_def unchanged_ok model_cell_def reg_modify_def reg_read_eq field_bits_u32
      map_prod_def case_prod_beta)

lemma reg_field_general:
  assumes "pac_entry r = Some (a, s)" and "LENGTH('w) = 8 * rg_size s"
  shows "field_value (0, reg_width r) (fst (Reg_read (model_cell env r :: ('h, 'w::len) volatile_cell) (hw x))) =
    ucast (fst (read_field env (reg_width r) r x))"
proof -
  have "reg_width r \<le> LENGTH('w)" using assms pac_entry_width [OF assms(1)] by simp
  then show ?thesis
    by (intro bit_word_eqI)
      (auto simp: field_value_def Reg_read_def model_cell_def read_field_eq bit_simps map_prod_def
        case_prod_beta dest: bit_imp_le_length)
qed

lemma BitWriter_field:
  "BitWriter_bit (BitWriter_new w i) b = FieldWriter_bits 1 (FieldWriter_new w i) (of_bool b :: 8 word)"
  by (rule bit_word_eqI)
    (auto simp: bit_writer_defs FieldWriter_bits_def FieldWriter_new_def raw_mask_eq Let_def bit_simps)

end
