(* ===== verification/Logging.thy ===== *)
theory Logging
  imports PeripheralsFacts Gcp
begin

text \<open>
  \<open>moondancer/src/log.rs\<close> and \<open>panic_log.rs\<close>: the logger on the two serial ports and the panic handler. The
  levels are those of the crate \<open>log\<close>: a linear order with a name for each level, both parameters here.
  A record holds the pieces of text in which \<open>core::fmt\<close> hands over the formatted arguments.
\<close>

section \<open>The logger\<close>

datatype log_port = LogUart0 | LogUart1 | LogBoth

record 'l logger =
  lg_port :: log_port
  lg_level :: 'l

record 'l log_record =
  rec_level :: 'l
  rec_args :: "bytes list"

definition logger_new :: "log_port \<Rightarrow> 'l \<Rightarrow> 'l logger" where
  "logger_new port level = \<lparr>lg_port = port, lg_level = level\<rparr>"

definition logger_set_port :: "log_port \<Rightarrow> 'l logger \<Rightarrow> 'l logger" where
  "logger_set_port port lg = lg\<lparr>lg_port := port\<rparr>"

definition logger_set_level :: "'l \<Rightarrow> 'l logger \<Rightarrow> 'l logger" where
  "logger_set_level level lg = lg\<lparr>lg_level := level\<rparr>"

definition logger_enabled :: "('l :: linorder) \<Rightarrow> 'l logger \<Rightarrow> bool" where
  "logger_enabled level lg \<longleftrightarrow> level \<le> lg_level lg"

text \<open>\<open>core::fmt::Write\<close> for a serial port: the result of the blocking write is ignored.\<close>

definition serial_write_str :: "('h, 'q) env \<Rightarrow> nat \<Rightarrow> bytes \<Rightarrow> ('h, 'q) world \<Rightarrow> ('h, 'q) world rust" where
  "serial_write_str env k s w = serial_write env k s w"

fun write_pieces :: "('h, 'q) env \<Rightarrow> nat \<Rightarrow> bytes list \<Rightarrow> ('h, 'q) world \<Rightarrow> ('h, 'q) world rust" where
  "write_pieces env k [] w = Ret w"
| "write_pieces env k (s # ss) w = rbind (serial_write_str env k s w) (write_pieces env k ss)"

text \<open>\<open>writeln!(writer, "{}\t{}", level, args)\<close>\<close>

definition writeln_record ::
  "('h, 'q) env \<Rightarrow> ('l \<Rightarrow> bytes) \<Rightarrow> nat \<Rightarrow> 'l log_record \<Rightarrow> ('h, 'q) world \<Rightarrow> ('h, 'q) world rust" where
  "writeln_record env level_name k r w =
     write_pieces env k (level_name (rec_level r) # [9] # rec_args r @ [[10]]) w"

definition logger_log ::
  "('h, 'q) env \<Rightarrow> ('l :: linorder \<Rightarrow> bytes) \<Rightarrow> 'l log_record \<Rightarrow> 'l logger \<Rightarrow> ('h, 'q) world \<Rightarrow>
     ('h, 'q) world rust" where
  "logger_log env level_name r lg w =
     (if \<not> logger_enabled (rec_level r) lg then Ret w
      else case lg_port lg of
          LogUart0 \<Rightarrow> writeln_record env level_name 0 r w
        | LogUart1 \<Rightarrow> writeln_record env level_name 1 r w
        | LogBoth \<Rightarrow>
            rbind (writeln_record env level_name 0 r w) (\<lambda>w.
            writeln_record env level_name 1 r w))"

definition logger_flush :: "('h, 'q) env \<Rightarrow> 'l logger \<Rightarrow> ('h, 'q) world \<Rightarrow> ('h, 'q) world rust" where
  "logger_flush env lg w =
     (case lg_port lg of
        LogUart0 \<Rightarrow> of_option (serial_flush env 0 w)
      | LogUart1 \<Rightarrow> of_option (serial_flush env 1 w)
      | LogBoth \<Rightarrow>
          rbind (of_option (serial_flush env 0 w)) (\<lambda>w.
          of_option (serial_flush env 1 w)))"

text \<open>
  The panic handler of a build without the feature \<open>nightly\<close>: it lights the LEDs, reports through the
  macro \<open>error!\<close> of the crate \<open>log\<close>, which is a parameter, and spins.
\<close>

definition panic_handler ::
  "('h, 'q) env \<Rightarrow> (bytes \<Rightarrow> ('h, 'q) world \<Rightarrow> ('h, 'q) world rust) \<Rightarrow> ('h, 'q) world \<Rightarrow>
     ('h, 'q) world rust" where
  "panic_handler env error w =
     (let w = write_field env 6 LEDS 0x2a w in
      rbind (error (as_bytes ''Firmware Panicked'') w) (\<lambda>_. Hang))"

section \<open>What is written\<close>

definition log_line :: "('l \<Rightarrow> bytes) \<Rightarrow> 'l log_record \<Rightarrow> bytes" where
  "log_line level_name r = level_name (rec_level r) @ [9] @ concat (rec_args r) @ [10]"

definition log_ports :: "'l logger \<Rightarrow> nat list" where
  "log_ports lg = (case lg_port lg of LogUart0 \<Rightarrow> [0] | LogUart1 \<Rightarrow> [1] | LogBoth \<Rightarrow> [0, 1])"

definition uart_writes :: "nat \<Rightarrow> bytes \<Rightarrow> (reg \<times> u32) list" where
  "uart_writes k bs = map (\<lambda>b. (UartReg k UartTxData, ucast b)) bs"

lemma write_pieces_log:
  assumes "serial_ready env k busy log" and "logs_writes env log"
  shows "\<exists>w'. write_pieces env k ps w = Ret w' \<and> log (hw w') = log (hw w) @ uart_writes k (concat ps)"
proof (induction ps arbitrary: w)
  case Nil
  show ?case by (simp add: uart_writes_def)
next
  case (Cons p ps)
  obtain w1 where "serial_write env k p w = Ret w1" "log (hw w1) = log (hw w) @ uart_writes k p"
    using serial_write_log [OF assms, of p w] by (auto simp: uart_writes_def)
  with Cons [of w1] show ?case by (auto simp: uart_writes_def serial_write_str_def)
qed

lemma writeln_record_log:
  assumes "serial_ready env k busy log" and "logs_writes env log"
  shows "\<exists>w'. writeln_record env level_name k r w = Ret w' \<and>
    log (hw w') = log (hw w) @ uart_writes k (log_line level_name r)"
  using write_pieces_log [OF assms, of "level_name (rec_level r) # [9] # rec_args r @ [[10]]" w]
  by (simp add: writeln_record_def log_line_def)

text \<open>An enabled record is one line on each port of the logger, in order; any other writes nothing.\<close>

lemma logger_log_lines:
  assumes "\<And>k. serial_ready env k (busy k) log" and "logs_writes env log"
  shows "\<exists>w'. logger_log env level_name r lg w = Ret w' \<and>
    log (hw w') = log (hw w) @
      (if rec_level r \<le> lg_level lg
       then concat (map (\<lambda>k. uart_writes k (log_line level_name r)) (log_ports lg)) else [])"
proof -
  note line = writeln_record_log [OF assms, of level_name _ r]
  obtain w1 where w1: "writeln_record env level_name 0 r w = Ret w1"
      "log (hw w1) = log (hw w) @ uart_writes 0 (log_line level_name r)"
    using line by blast
  show ?thesis
    using w1 line [of 1 w] line [of 1 w1]
    by (cases "lg_port lg") (auto simp: logger_log_def logger_enabled_def log_ports_def)
qed

text \<open>A panic is reported, and then nothing happens any more.\<close>

lemma panic_handler_spins:
  assumes "\<And>k. serial_ready env k (busy k) log" and "logs_writes env log"
  shows "panic_handler env (\<lambda>s. logger_log env level_name \<lparr>rec_level = l, rec_args = [s]\<rparr> lg) w = Hang"
proof -
  let ?r = "\<lparr>rec_level = l, rec_args = [as_bytes ''Firmware Panicked'']\<rparr>"
  obtain w' where "logger_log env level_name ?r lg (write_field env 6 LEDS 0x2a w) = Ret w'"
    using logger_log_lines [OF assms] by blast
  then show ?thesis by (simp add: panic_handler_def)
qed

end
