(* ===== verification/HardwareProperties.thy ===== *)
theory HardwareProperties
  imports Testbench UsbConnect RegisterProxies Logging
begin

text \<open>
  Properties of the driver, the interrupt handler and the small peripherals. A property that needs
  the hardware to behave states how; its witness evaluates it on the simulated board of theory
  \<open>Testbench\<close>.
\<close>

section \<open>The registers\<close>

text \<open>
  C27: the memory map of the register package is sound: the offsets that the layout of the blocks gives are
  the documented ones, no two registers overlap, and every register is aligned to its size, starts
  at zero when it is written, has no bits that \<open>modify\<close> forces, and contains its fields. The three
  USB ports have the same registers at the same distances, 0x1000 apart.
\<close>

lemma memory_map_sound:
  "list_all (\<lambda>(_, block). layout 0 block = documented block) peripherals \<and>
   sorted_wrt (\<lambda>(a, r) (b, s). a + rg_size r \<le> b) memory_map \<and>
   list_all (\<lambda>(a, r). a mod rg_size r = 0 \<and> register_ok r) memory_map \<and>
   pac_entry (USB i u) = Some (fst (usb_entry u) + 0x1000 * usb_port i, snd (usb_entry u))"
  using layouts_documented memory_map_sorted memory_map_registers usb_entry_USB by blast

text \<open>
  C28: every register that the model names is one register of the package: it has one field, at offset 0
  and of the width with which the model accesses it, and no other register of the model has its
  address, so that a write to one never changes another. Reading its field, writing it, and modifying
  it in a 32 bit register is what the general access methods of the package do with it.
\<close>

lemma registers_of_the_model:
  assumes "pac_entry r = Some (a, s)" and "LENGTH('w) = 8 * rg_size s"
  shows "(a, s) \<in> set memory_map \<and> register_ok s \<and> one_field s (reg_width r) \<and>
    (pac_entry r' = Some (a, s') \<longrightarrow> r' = r) \<and>
    field_value (0, reg_width r)
        (fst (Reg_read (model_cell env r :: ('h, 'w::len) volatile_cell) (hw x))) =
      ucast (fst (read_field env (reg_width r) r x)) \<and>
    Reg_write (spec_of s) (model_cell env r :: ('h, 'w) volatile_cell)
        (\<lambda>w. Ret (FieldWriter_bits (reg_width r) (FieldWriter_new w 0) v)) (hw x) =
      Ret (hw (reg_write env r (field_bits (reg_width r) (ucast v)) x)) \<and>
    (rg_size s = 4 \<longrightarrow>
      Reg_modify (spec_of s) (model_cell env r)
          (\<lambda>bits w. Ret (FieldWriter_bits (reg_width r) (FieldWriter_new w 0) (g bits))) (hw x) =
        Ret (hw (reg_modify env r (\<lambda>bits. field_bits (reg_width r) (ucast (g bits))) x)))"
  using assms pac_entry_mapped pac_entry_ok pac_entry_field pac_entry_inj
    reg_field_general [OF assms, of env x] reg_write_general [OF assms, of env v x]
    reg_modify_general [OF assms(1), of env g x]
  by blast

lemma registers_of_the_model_witness:
  "fst (usb_entry OutEpno) = 0xf000310c \<and> one_field (snd (usb_entry OutEpno)) 4 \<and>
   Reg_write (spec_of (snd (usb_entry OutEpno))) (model_cell (bench_env :: (bench, event_queue) env) (USB Usb0 OutEpno) :: (_, 32) volatile_cell)
       (\<lambda>w. Ret (FieldWriter_bits 4 (FieldWriter_new w 0) (0x13 :: u8))) (bench_start []) =
     Ret (hw (write_field bench_env 4 (USB Usb0 OutEpno) 0x13 (bench_world (bench_start []))))"
proof -
  have "usb_entry OutEpno = (0xf000310c, usb0_ep_out_epno)"
    by (simp add: usb_entry_def in_block_def, simp add: pac_blocks pac_ptrs)
  then show ?thesis
    using registers_of_the_model [OF usb_entry_USB [of Usb0 OutEpno], where 'w = 32
        and env = bench_env and x = "bench_world (bench_start [])" and v = "0x13 :: u8"
        and r' = LEDS and s' = leds_output and g = "id :: u32 \<Rightarrow> u32"]
    by (simp add: write_field_def)
qed

text \<open>
  C29: a chain of field writes in the closure of \<open>modify\<close> is an update of the values of the fields, which
  lie apart: a field that is written has the last value written to it, cut to its width, and a field
  that is not written has the value it had, but for the bits that \<open>modify\<close> forces.
\<close>

lemma modify_writes_fields:
  assumes "field_within LENGTH('w) f"
    and "list_all (\<lambda>(g, _). field_within LENGTH('w) g \<and> (g = f \<or> fields_apart f g)) vs"
    and "cell_get register h = (old :: 'w::len word, h')"
  shows "\<exists>new. Reg_modify reg register (\<lambda>_ w. Ret (write_fields vs w)) h =
      Ret (cell_set register new h') \<and>
    field_value f new = (case map_of (rev vs) f of
        Some v \<Rightarrow> ucast v AND raw_mask (snd f)
      | None \<Rightarrow> field_value f (unchanged reg old))"
proof -
  have "field_value f (write_fields vs (unchanged reg old)) = (case map_of (rev vs) f of
      None \<Rightarrow> field_value f (unchanged reg old) | Some v \<Rightarrow> ucast v AND raw_mask (snd f))"
    using assms(1,2) by (intro write_fields_value) (auto simp: list_all_iff)
  then show ?thesis using assms(3)
    by (intro exI [of _ "write_fields vs (unchanged reg old)"]) (simp add: Reg_modify_def)
qed

text \<open>The LED register of the bench, with a second field behind the six bits of the LEDs.\<close>

definition bench_leds :: "(bench, 32) volatile_cell" where
  "bench_leds = model_cell (bench_env :: (bench, event_queue) env) LEDS"

lemma modify_writes_fields_witness:
  "\<exists>new. Reg_modify (spec_of leds_output) bench_leds
      (\<lambda>_ w. Ret (write_fields [((0, 6), 0xFF), ((6, 2), 1), ((0, 6), 5 :: u8)] w)) (bench_start []) =
      Ret (cell_set bench_leds new (bench_start [])) \<and> field_value (0, 6) new = 5"
proof -
  have "cell_get bench_leds (bench_start []) = (0, bench_start [])"
    by (simp add: bench_leds_def model_cell_def bench_env_def)
  from modify_writes_fields [OF _ _ this, of "(0, 6)" "[((0, 6), 0xFF), ((6, 2), 1), ((0, 6), 5 :: u8)]"
      "spec_of leds_output"]
  show ?thesis by (simp add: raw_mask_eq mask_eq_exp_minus_1 del: write_fields.simps)
qed

section \<open>The USB driver\<close>



text \<open>
  C31: whatever the hardware does, a write with a packet size returns for the sixteen endpoints, because
  every wait has a bound, and it panics for every other endpoint number; the count it returns is at
  most the length of the data.
\<close>

lemma write_returns_iff_endpoint:
  assumes "irq_returns env" and "0 < packet_size" and "acks_ok w"
  shows "(returns (write_with_packet_size env i ep requested bs packet_size w) \<longleftrightarrow> unat ep < 16) \<and>
    (\<forall>n w'. write_with_packet_size env i ep requested bs packet_size w = Ret (n, w') \<longrightarrow>
       n \<le> length bs \<and> acks_ok w')"
proof (cases "unat ep < 16")
  case True
  with write_with_packet_size_Ret [OF assms(1) True assms(2,3), of i requested bs] show ?thesis
    by auto
next
  case False
  then show ?thesis using write_with_packet_size_Panic [OF assms(3), of ep] by simp
qed

lemma write_returns_iff_endpoint_witness:
  "\<not> returns (write_with_packet_size bench_env Usb0 16 None [] 64 (bench_world (bench_start [])))"
  using write_returns_iff_endpoint [OF bench_irq_returns, of 64 "bench_world (bench_start [])"
      Usb0 16 None "[]"]
  by simp

text \<open>
  A read hands over the packet in the receive FIFO, the front of it when the buffer is shorter, in
  the front of the buffer, returns the length of the whole packet and leaves the FIFO empty; the read
  of the SETUP FIFO does the same.
\<close>

lemma read_empties_fifo:
  assumes "rx_fifo env (USB i OutHave) (USB i OutData) contents"
    and "rx_fifo env (USB i CtlHave) (USB i CtlData) setup"
  shows "(\<exists>w'. hal_read env i ep buffer w = Ret (length (contents (hw w)),
        take (length buffer) (contents (hw w)) @ drop (length (contents (hw w))) buffer, w') \<and>
      contents (hw w') = []) \<and>
    (\<exists>w'. read_control env i buffer w = Ret (length (setup (hw w)),
        take (length buffer) (setup (hw w)) @ drop (length (setup (hw w))) buffer, w') \<and>
      setup (hw w') = [])"
  using hal_read_fifo [OF assms(1)] read_control_fifo [OF assms(2)] by blast

lemma read_empties_fifo_witness:
  "\<exists>w'. hal_read bench_env Usb0 1 [0, 0]
      (bench_world (bench_start []\<lparr>b_out := (\<lambda>_. [7, 8, 9])\<rparr>)) = Ret (3, [7, 8], w')"
  using read_empties_fifo [OF bench_rx_fifo, of Usb0 1 "[0, 0]"
      "bench_world (bench_start []\<lparr>b_out := (\<lambda>_. [7, 8, 9])\<rparr>)"]
  by auto

text \<open>
  A bus reset cannot fail; it clears the acknowledge flags of all sixteen endpoints of its own
  peripheral and of no other, and leaves the stored speeds and the event queue alone.
\<close>

lemma bus_reset_clears_flags:
  assumes "acks_ok w"
  shows "\<exists>w'. hal_bus_reset env i w = Ret w' \<and> tx_ack_active w' i = replicate 16 False \<and>
    (\<forall>j. j \<noteq> i \<longrightarrow> tx_ack_active w' j = tx_ack_active w j) \<and>
    device_speed w' = device_speed w \<and> irq_ext w' = irq_ext w"
  using hal_bus_reset_acks [OF assms, of env i] hal_bus_reset_frame by blast

lemma bus_reset_clears_flags_witness:
  "\<exists>w'. hal_bus_reset bench_env Usb0
      (bench_world (bench_start [])\<lparr>tx_ack_active := (\<lambda>_. replicate 16 True)\<rparr>) = Ret w' \<and>
    tx_ack_active w' Usb0 = replicate 16 False \<and> tx_ack_active w' Usb1 = replicate 16 True"
  using bus_reset_clears_flags
    [of "bench_world (bench_start [])\<lparr>tx_ack_active := (\<lambda>_. replicate 16 True)\<rparr>" bench_env Usb0]
  by (auto simp: acks_ok_def EP_MAX_ENDPOINTS_def)

text \<open>
  C32: connecting drops the connection, un-primes the sixteen OUT endpoints one by one, disables reception,
  resets the three FIFOs and only then connects again, without touching the address; disconnecting
  sets the address to 0 and drops the connection before it does the same. The port keeps the speed
  it was asked for where the peripheral has it, and no speed while it is disconnected.
\<close>

lemma connection_sequence:
  assumes "logs_writes env log" and "quiet_reads env log"
  shows "trace log (connection_registers i) w
      ((USB i Connect, 0) #
       concat (map (\<lambda>n. [(USB i OutEpno, of_nat n), (USB i OutPrime, 0)]) [0..<16]) @
       [(USB i OutEnable, 0), (USB i CtlReset, 1), (USB i InReset, 1), (USB i OutReset, 1),
        (USB i Connect, 1)])
      (hal_connect env i s w) \<and>
    trace log (connection_registers i) w
      ([(USB i OutAddress, 0), (USB i CtlAddress, 0), (USB i Connect, 0)] @
       concat (map (\<lambda>n. [(USB i OutEpno, of_nat n), (USB i OutPrime, 0)]) [0..<16]) @
       [(USB i OutEnable, 0), (USB i CtlReset, 1), (USB i InReset, 1), (USB i OutReset, 1)])
      (hal_disconnect env i w) \<and>
    device_speed (hal_connect env i s w) i = connect_speed s \<and>
    device_speed (hal_disconnect env i w) i = SpeedUnknown"
  using hal_connect_trace [OF assms, of i w s] hal_disconnect_trace [OF assms, of i w]
  unfolding unprime_writes_all reset_writes_def by simp

lemma connection_sequence_witness:
  "\<exists>full. b_log (hw (hal_connect bench_env Usb0 SpeedFull (bench_world (bench_start [])))) = full \<and>
    set full \<inter> {(USB Usb0 Connect, 1), (USB Usb0 OutAddress, 0)} = {(USB Usb0 Connect, 1)}"
proof -
  have "quiet_reads bench_env b_log" by (simp add: quiet_reads_def bench_read_log)
  from connection_sequence [OF bench_logs this, of Usb0 "bench_world (bench_start [])" SpeedFull]
  obtain full where full: "b_log (hw (hal_connect bench_env Usb0 SpeedFull (bench_world (bench_start [])))) = full"
      "filter (\<lambda>(r, _). r \<in> connection_registers Usb0) full =
        (USB Usb0 Connect, 0) #
        concat (map (\<lambda>n. [(USB Usb0 OutEpno, of_nat n), (USB Usb0 OutPrime, 0)]) [0..<16]) @
        [(USB Usb0 OutEnable, 0), (USB Usb0 CtlReset, 1), (USB Usb0 InReset, 1), (USB Usb0 OutReset, 1),
         (USB Usb0 Connect, 1)]"
    by (auto simp: trace_def)
  have "p \<in> set full \<longleftrightarrow> p \<in> set (filter (\<lambda>(r, _). r \<in> connection_registers Usb0) full)"
    if "p \<in> {(USB Usb0 Connect, 1), (USB Usb0 OutAddress, 0)}" for p
    using that by (auto simp: connection_registers_def)
  then have "set full \<inter> {(USB Usb0 Connect, 1), (USB Usb0 OutAddress, 0)} = {(USB Usb0 Connect, 1)}"
    unfolding full(2) by auto
  with full(1) show ?thesis by blast
qed

section \<open>Interrupts\<close>

text \<open>
  C33: the interrupt handler adds exactly one event to the queue of the main loop when the queue has
  room, and leaves the flag arrays at their size; with 64 events waiting it never returns.
\<close>

lemma handler_adds_one_event:
  assumes "acks_ok w" and "isr_hw env fifo"
  shows "if length (irq_ext w) < 64
    then \<exists>e w'. MachineExternal env w = Ret w' \<and> irq_ext w' = irq_ext w @ [e] \<and> acks_ok w' \<and>
      device_speed w' = device_speed w
    else MachineExternal env w = Hang"
  using MachineExternal_Ret [OF assms] MachineExternal_overflow [OF assms] by simp

lemma handler_adds_one_event_witness:
  "MachineExternal bench_env
     (bench_world (bench_start [])\<lparr>irq_ext := replicate 64 (UsbEv Target BusReset)\<rparr>) = Hang"
  using handler_adds_one_event [OF _ bench_isr_hw,
      of "bench_world (bench_start [])\<lparr>irq_ext := replicate 64 (UsbEv Target BusReset)\<rparr>"]
  by (simp add: acks_ok_def EP_MAX_ENDPOINTS_def bench_world_def)

text \<open>
  C34: a SETUP packet on the control port arrives in the event queue unchanged: its eight bytes in the
  FIFO become the one event that holds the packet, and the FIFO is empty afterwards.
\<close>

lemma setup_packet_arrives:
  assumes "interrupt_pending env w = (Inr USB2_EP_CONTROL, w1)"
    and "rx_fifo env (USB Usb2 CtlHave) (USB Usb2 CtlData) fifo" and "setup_stable env Usb2 fifo"
    and "fifo (hw w) = setup_as_bytes sp" and "length (irq_ext w) < 64"
  shows "\<exists>ep w'. MachineExternal env w = Ret w' \<and>
    irq_ext w' = irq_ext w @ [UsbEv ControlPort (ReceiveSetupPacket ep sp)] \<and> fifo (hw w') = []"
  using assms by (rule MachineExternal_setup)

lemma ilog2_8192: "ilog2 8192 = 13"
  by (simp add: ilog2.simps)

definition get_device_request :: setup_packet where
  "get_device_request =
     \<lparr>sp_request_type = 0x80, sp_request = 6, sp_value = 0x100, sp_index = 0, sp_length = 18\<rparr>"

lemma setup_packet_arrives_witness:
  "\<exists>ep w'. MachineExternal bench_env (bench_world (bench_start []
        \<lparr>b_mip := 0x2000, b_setup := (\<lambda>_. [0x80, 6, 0, 1, 0, 0, 18, 0])\<rparr>)) = Ret w' \<and>
    irq_ext w' = [UsbEv ControlPort (ReceiveSetupPacket ep get_device_request)]"
proof -
  let ?w = "bench_world (bench_start []
    \<lparr>b_mip := 0x2000, b_setup := (\<lambda>_. [0x80, 6, 0, 1, 0, 0, 18, 0])\<rparr>)"
  have "interrupt_pending bench_env ?w = (Inr USB2_EP_CONTROL, ?w)"
    by (simp add: interrupt_pending_def reg_read_eq ilog2_8192 interrupt_try_from_def)
  moreover have "setup_as_bytes get_device_request = [0x80, 6, 0, 1, 0, 0, 18, 0]"
    by (simp add: get_device_request_def setup_as_bytes_def le16_def)
  ultimately show ?thesis
    using setup_packet_arrives [OF _ bench_rx_fifo(2) bench_setup_stable, of ?w ?w get_device_request]
    by auto
qed

text \<open>
  C35: the handler learns of the pending interrupt with the highest number: reading the pending register
  gives nothing when it is zero, the register itself when a bit above the known interrupts is set, and
  otherwise the maximum of the interrupts whose bits are set, in the order of the interrupts by number,
  which is also the order of their vectors.
\<close>

lemma pending_interrupt_is_maximum:
  assumes "env_read env (CSR Mip) (hw w) = (bits, h)"
  shows "interrupt_pending env w =
      (if bits = 0 then Inl 0 else if 2 ^ 17 \<le> unat bits then Inl bits
       else Inr (Max {i. bit bits (interrupt_number i)}), w\<lparr>hw := h\<rparr>) \<and>
    EXTERNAL_INTERRUPTS ! interrupt_number i = i \<and> sorted_wrt (<) EXTERNAL_INTERRUPTS"
proof -
  have "sorted_wrt (<) EXTERNAL_INTERRUPTS"
    by (simp add: EXTERNAL_INTERRUPTS_def less_interrupt_def)
  then show ?thesis
    using interrupt_pending_eq [OF assms] EXTERNAL_INTERRUPTS_nth
    by (simp add: pending_interrupts_def)
qed

lemma pending_interrupt_is_maximum_witness:
  "fst (interrupt_pending bench_env (bench_world (bench_start []\<lparr>b_mip := 0x2030\<rparr>))) =
     Inr (Max {USB0, USB0_EP_CONTROL, USB2_EP_CONTROL}) \<and>
   Max {USB0, USB0_EP_CONTROL, USB2_EP_CONTROL} = USB2_EP_CONTROL"
proof -
  let ?h = "bench_start []\<lparr>b_mip := 0x2030\<rparr>"
  have "bit (0x2030 :: u32) (interrupt_number i) \<longleftrightarrow> i \<in> {USB0, USB0_EP_CONTROL, USB2_EP_CONTROL}" for i
    by (cases i) (simp_all add: bit_iff_odd_drop_bit)
  then have "{i. bit (0x2030 :: u32) (interrupt_number i)} = {USB0, USB0_EP_CONTROL, USB2_EP_CONTROL}"
    by blast
  moreover have "Max {USB0, USB0_EP_CONTROL, USB2_EP_CONTROL} = USB2_EP_CONTROL"
    by (simp add: max_def less_eq_interrupt_def)
  moreover have "env_read (bench_env :: (bench, event_queue) env) (CSR Mip) (hw (bench_world ?h)) = (0x2030, ?h)"
    by simp
  ultimately show ?thesis
    using pending_interrupt_is_maximum [of bench_env "bench_world ?h" "0x2030" ?h USB0] by simp
qed

text \<open>
  Enabling and disabling an interrupt return and change the one bit of the mask register, and the
  numbers of the interrupts convert to and from their positions in it.
\<close>

lemma interrupt_mask_bits:
  assumes "mim_storage env mim"
  shows "(\<exists>w'. interrupt_enable env i w = Ret w' \<and>
      mim (hw w') = mim (hw w) OR push_bit (interrupt_number i) 1) \<and>
    (\<exists>w'. interrupt_disable env i w = Ret w' \<and>
      mim (hw w') = mim (hw w) AND NOT (push_bit (interrupt_number i) 1)) \<and>
    interrupt_try_from (of_nat (interrupt_number i)) = Some i"
  using interrupt_enable_mask [OF assms, of i w] interrupt_disable_mask [OF assms, of i w]
  by (simp add: interrupt_try_from_number interrupt_bit_def)

lemma interrupt_mask_bits_witness:
  "\<exists>w'. interrupt_enable bench_env USB2 (bench_world (bench_start [])) = Ret w' \<and> b_mim (hw w') = 0x1000"
  using interrupt_mask_bits [OF bench_mim, of USB2 "bench_world (bench_start [])"]
  by (simp add: bench_start_def)

section \<open>Serial port and timer\<close>

text \<open>
  The serial port writes every byte of a buffer once and in order, however long the transmitter
  stays busy between two bytes.
\<close>

lemma serial_writes_all_bytes:
  assumes "serial_ready env k busy log" and "logs_writes env log"
  shows "\<exists>w'. serial_write env k bs w = Ret w' \<and>
    log (hw w') = log (hw w) @ map (\<lambda>b. (UartReg k UartTxData, ucast b)) bs"
  using assms by (rule serial_write_log)

lemma serial_writes_all_bytes_witness:
  "\<exists>w'. serial_write bench_env 0 [0x68, 0x69] (bench_world (bench_start [])) = Ret w' \<and>
    b_log (hw w') = [(UartReg 0 UartTxData, 0x68), (UartReg 0 UartTxData, 0x69)]"
  using serial_writes_all_bytes [OF bench_serial_ready bench_logs, of 0 "[0x68, 0x69]"
      "bench_world (bench_start [])"]
  by simp

text \<open>
  A delay returns on every timer that counts down.
\<close>

lemma delay_returns:
  assumes "counts_down env t count"
  shows "returns (delay_us env t us w)"
  using assms by (rule delay_us_returns)

lemma delay_returns_witness:
  "returns (delay_us bench_env (timer_new 0 60000000) 10 (bench_world (bench_start [])))"
  using bench_counts_down by (rule delay_returns)

end
