(* ===== verification/UsbProperties.thy ===== *)
theory UsbProperties
  imports Testbench MoondancerInbox
begin

text \<open>
  Properties of the control endpoint and of the class \<open>moondancer\<close>, which gives a host access to the
  target port: what each keeps, what it does with a transfer, and where it loses or refuses one.
\<close>

section \<open>The control endpoint\<close>

text \<open>
  The control endpoint keeps its invariant from its constructor on, over every driver and for every
  sequence of events: the receive position stays in the buffer, so the received data can always be
  taken, the configuration is none, 0 or 1, and endpoint, descriptors and buffer size do not change.
\<close>

lemma control_endpoint_invariant:
  assumes "control_reaches D (control_new n ep ds) w c w'"
  shows "control_data c = Ret (received c) \<and> length (received c) \<le> n \<and>
    ctl_configuration c \<in> {None, Some 0, Some 1} \<and>
    ctl_endpoint_number c = ep \<and> ctl_descriptors c = set_total_lengths ds"
proof -
  have s: "ctl_step_ok (control_new n ep ds) c" using assms by (rule control_reaches_ok)
  then have "ctl_ok c" using control_new_ok by (simp add: ctl_step_ok_def)
  then show ?thesis using s control_data_Ret [of c]
    by (auto simp: ctl_step_ok_def ctl_frame_def received_def ctl_ok_def control_new_def)
qed

definition some_descriptors :: descriptors where
  "some_descriptors = fw_descriptors (str_lit ''0'') 1"

lemma control_endpoint_invariant_witness:
  "ctl_configuration (control_new 8 0 some_descriptors) \<in> {None, Some 0, Some 1}"
  using control_endpoint_invariant [OF reach_refl] by blast







text \<open>
  C18: SET_ADDRESS takes effect only when the status stage is complete: the SETUP packet makes the
  driver send an empty packet and nothing else, and the address is set by the next completion.
\<close>

lemma control_address_deferred:
  assumes "ctl_next c \<in> {StIdle, StStall}" and "setup_direction sp = HostToDevice"
    and "setup_request_type sp = Standard" and "setup_request sp = SetAddress"
    and "drv_write D (ctl_endpoint_number c) [] w = Ret (k, w1)"
  shows "control_run D [ReceiveSetupPacket (ctl_endpoint_number c) sp] c w =
      Ret ([], to_state (StSetAddress (ucast (sp_value sp AND 0x7f))) c, w1) \<and>
    control_run D [ReceiveSetupPacket (ctl_endpoint_number c) sp,
        SendComplete (ctl_endpoint_number c)] c w =
      Ret ([], to_state StIdle c, drv_set_address D (ucast (sp_value sp AND 0x7f)) w1)"
proof -
  have "control_dispatch_event D (ReceiveSetupPacket (ctl_endpoint_number c) sp) c w =
      Ret (None, to_state (StSetAddress (ucast (sp_value sp AND 0x7f))) c, w1)"
    using assms
    by (auto simp: control_dispatch_event_def control_setup_def Let_def status_zlp_def write_zlp_def
        to_state_def)
  then show ?thesis by (simp add: control_dispatch_event_def to_state_def)
qed

lemma control_address_deferred_witness:
  "\<exists>w1. control_run (hal_driver bench_env Usb2)
      [ReceiveSetupPacket 0 (set_address_request 18), SendComplete 0]
      (control_new 8 0 some_descriptors) (bench_world (bench_start [])) =
    Ret ([], to_state StIdle (control_new 8 0 some_descriptors), set_address bench_env Usb2 18 w1)"
proof -
  obtain k w1 where "hal_write bench_env Usb2 0 [] (bench_world (bench_start [])) = Ret (k, w1)"
    using bench_write_zlp by blast
  then show ?thesis
    using control_address_deferred [of "control_new 8 0 some_descriptors" "set_address_request 18"
        "hal_driver bench_env Usb2" "bench_world (bench_start [])" k w1]
    by (auto simp: set_address_request_simps control_new_def hal_driver_def)
qed



section \<open>The class moondancer\<close>

text \<open>
  C20: events and verbs keep the state of the class within its bounds, for every hardware and every
  argument: at most 63 events, seven SETUP packets and four data packets of at most 512 bytes, and
  sixteen packet sizes per direction that never exceed 512, except for endpoint 0.
\<close>

lemma moondancer_keeps_bounds:
  assumes "md_ok m"
  shows "(\<forall>m' w'. md_dispatch_event env event m w = Ret (m', w') \<longrightarrow> md_ok m') \<and>
    (\<forall>r m' w'. md_dispatch env v args buf (m, w) = Ret (r, m', w') \<longrightarrow> md_ok m') \<and>
    length (md_irq_queue m) \<le> 63 \<and> length (md_control_queue m) \<le> 7 \<and>
    length (md_packet_buffer m) \<le> 4"
proof -
  have "length (md_irq_queue m) \<le> 63 \<and> length (md_control_queue m) \<le> 7 \<and>
      length (md_packet_buffer m) \<le> 4"
    using assms by (simp add: md_ok_def md_queues_ok_def)
  then show ?thesis
    using md_dispatch_event_ok [OF assms, of env event w] md_dispatch_ok [OF _ assms, of env v args buf w]
    by blast
qed

lemma moondancer_keeps_bounds_witness:
  "md_ok moondancer_new \<and> length (md_packet_buffer moondancer_new) \<le> 4"
  using moondancer_keeps_bounds [OF moondancer_new_ok] moondancer_new_ok by blast

text \<open>
  A verb the class does not list is refused and changes nothing, and a response never exceeds the
  buffer it was given.
\<close>

lemma moondancer_dispatch_contract:
  "(if v \<in> verb_id ` set md_VERBS
    then (case md_dispatch env v args buf (m, w) of
        Ret (Inr response, s) \<Rightarrow> length response \<le> length buf | _ \<Rightarrow> True)
    else md_dispatch env v args buf (m, w) = Ret (Inl InvalidArgument, m, w))"
  using md_disp.dispatch_unknown [of v env args buf "(m, w)"]
    md_disp.dispatch_fits [of env v args buf "(m, w)"]
  by (auto split: rust.splits sum.splits)



text \<open>
  C22: SETUP packets for the host come out of \<open>read_control\<close> in the order in which they came, SET_ADDRESS
  requests left out; but the eighth one that is not read stops the firmware for good, and so does a
  read of an empty queue.
\<close>

lemma setup_packets_queue:
  assumes "md_events env es m w = Ret (m', w')"
  shows "md_control_queue m' = md_control_queue m @ List.map_filter host_setup es \<and>
    (case md_control_queue m' of
       [] \<Rightarrow> md_read_control env args m' w' = Hang
     | sp # q \<Rightarrow>
         md_read_control env args m' w' = Ret (Inr (setup_as_bytes sp), m'\<lparr>md_control_queue := q\<rparr>, w')) \<and>
    (length (md_control_queue m') = 7 \<longrightarrow> \<not> is_set_address sp \<longrightarrow>
       md_dispatch_event env (ReceiveSetupPacket ep sp) m' w' = Hang)"
  using md_events_control [OF assms] md_read_control_empty [of m' env args w'] md_control_overflow [of m']
  by (auto simp: md_read_control_next split: list.splits)

lemma setup_packets_queue_witness:
  "md_read_control bench_env [] moondancer_new (bench_world (bench_start [])) = Hang"
  using setup_packets_queue [of bench_env "[]" moondancer_new "bench_world (bench_start [])"
      moondancer_new "bench_world (bench_start [])" "[]"]
  by (simp add: moondancer_new_def queue_new_def map_filter_simps)

text \<open>
  C23: the packet buffer of the class refines one queue of payloads per OUT endpoint: a packet of the
  target port is moved from its FIFO to the end of the queue of its endpoint, unless four packets
  are stored already, when it is dropped, and \<open>read_endpoint\<close> answers and removes the oldest payload
  of the endpoint it names and no other. The host is told of a packet in both cases.
\<close>

lemma packets_refine_inboxes:
  assumes "rx_fifo env (USB Usb0 OutHave) (USB Usb0 OutData) contents"
  shows "(\<exists>m' w'. md_dispatch_event env (ReceivePacket ep) m w = Ret (m', w') \<and>
      contents (hw w') = [] \<and>
      endpoint_inbox m' = (if length (md_packet_buffer m) < 4
        then (endpoint_inbox m)(ep := endpoint_inbox m ep @ [received_payload (contents (hw w))]) else endpoint_inbox m) \<and>
      md_irq_queue m' = (if length (md_irq_queue m) < 63 then md_irq_queue m @ [ReceivePacket ep]
        else md_irq_queue m)) \<and>
    (\<exists>m'. md_read_endpoint env [ep] m w =
        Ret (Inr (case endpoint_inbox m ep of [] \<Rightarrow> [] | payload # _ \<Rightarrow> payload), m', w) \<and>
      endpoint_inbox m' = (endpoint_inbox m)(ep := tl (endpoint_inbox m ep)))"
  using inbox_receives [OF assms] inbox_read by blast

lemma packets_refine_inboxes_witness:
  "\<exists>m' w'. md_dispatch_event bench_env (ReceivePacket 1) moondancer_new
      (bench_world (bench_start []\<lparr>b_out := (\<lambda>_. [1, 2, 3])\<rparr>)) = Ret (m', w') \<and>
    endpoint_inbox m' 1 = [[1, 2, 3]]"
  using packets_refine_inboxes [OF bench_rx_fifo(1), where ep = 1 and m = moondancer_new
      and w = "bench_world (bench_start []\<lparr>b_out := (\<lambda>_. [1, 2, 3])\<rparr>)"]
  by (auto simp: EP_MAX_PACKET_SIZE_def received_payload_def)

text \<open>
  C26: a disconnect returns, turns off exactly the four interrupts of the target port and takes the class
  back to its initial state, except for the packets that were not read: they are the answers of
  \<open>read_endpoint\<close> on the next connection.
\<close>

lemma disconnect_resets:
  assumes "mim_private env mim" and "acks_ok w"
  shows "\<exists>w'. md_disconnect env args m w =
      Ret (Inr [], moondancer_new\<lparr>md_packet_buffer := md_packet_buffer m\<rparr>, w') \<and>
    acks_ok w' \<and> mim (hw w') = mim (hw w) AND NOT 0xF0"
  using assms by (rule md_disconnect_state)

lemma disconnect_resets_witness:
  "\<exists>w'. md_disconnect bench_env [] (moondancer_new\<lparr>md_packet_buffer := [packet_new 1 0]\<rparr>)
      (bench_world (bench_start [])) = Ret (Inr [], moondancer_new\<lparr>md_packet_buffer := [packet_new 1 0]\<rparr>, w')"
  using disconnect_resets [OF bench_mim_private, of "bench_world (bench_start [])" "[]"
      "moondancer_new\<lparr>md_packet_buffer := [packet_new 1 0]\<rparr>"]
  by auto

text \<open>
  C24: \<open>write_endpoint\<close> returns success or a timeout for every configured endpoint whatever the hardware
  does, and panics for an endpoint number outside the table.
\<close>

lemma write_endpoint_returns:
  assumes "irq_returns env" and "md_ok m" and "acks_ok w"
  shows "(unat ep < 16 \<and> 0 < unat (md_ep_in_max_packet_size m ! unat ep) \<longrightarrow>
      (\<exists>r w'. md_write_endpoint env (ep # blocking # payload) m w = Ret (r, m, w') \<and>
         r \<in> {Inr [], Inl StreamIoctlTimeout} \<and> acks_ok w')) \<and>
    (16 \<le> unat ep \<longrightarrow> md_write_endpoint env (ep # blocking # payload) m w = Panic)"
  using md_write_endpoint_Ret [OF assms(1) _ assms(2,3)] md_write_endpoint_Panic [OF assms(2)] by blast

lemma write_endpoint_returns_witness:
  "md_write_endpoint bench_env [0x81, 0, 1, 2] moondancer_new (bench_world (bench_start [])) = Panic"
  using write_endpoint_returns [OF bench_irq_returns moondancer_new_ok,
      where w = "bench_world (bench_start [])" and ep = "0x81" and blocking = 0 and payload = "[1, 2]"]
  by simp

text \<open>
  The payload of \<open>write_endpoint\<close> is on the bus as packets of the endpoint's size with a short packet
  at the end, unless it is exactly one packet; concatenated they are the payload.
\<close>

lemma write_endpoint_sends_payload:
  assumes "logs_writes env log" and "patient_host env Usb0 ep log" and "unat ep < 16"
    and "md_ok m" and "acks_ok w" and "0 < unat (md_ep_in_max_packet_size m ! unat ep)"
  shows "\<exists>w' ps. md_write_endpoint env (ep # blocking # payload) m w = Ret (Inr [], m, w') \<and>
    log (hw w') = log (hw w) @ concat (map (packet_writes Usb0 ep) ps) \<and> concat ps = payload \<and>
    (\<forall>p \<in> set ps. length p \<le> unat (md_ep_in_max_packet_size m ! unat ep))"
  using md_write_endpoint_packets [OF assms] concat_md_in_packets [OF assms(6)]
    md_in_packets_length [OF assms(6)]
  by meson

definition configured :: moondancer where
  "configured = moondancer_new\<lparr>md_ep_in_max_packet_size := replicate 16 64\<rparr>"

lemma configured_ok: "md_ok configured"
  using moondancer_new_ok
  by (auto simp: configured_def md_ok_def md_tables_ok_def md_queues_ok_def EP_MAX_ENDPOINTS_def
      EP_MAX_PACKET_SIZE_def)

lemma write_endpoint_sends_payload_witness:
  "\<exists>w'. md_write_endpoint bench_env [1, 0, 7, 8, 9] configured (bench_world (bench_start [])) =
     Ret (Inr [], configured, w')"
  using write_endpoint_sends_payload [OF bench_logs bench_patient _ configured_ok,
      of 1 "bench_world (bench_start [])" 0 "[7, 8, 9]"]
  by (auto simp: configured_def)

text \<open>
  Writing to an endpoint that no configuration has set up stops the firmware: its packet size is
  zero and the code takes a remainder by it as soon as there is a byte to send.
\<close>

lemma write_unconfigured_endpoint_panics:
  assumes "patient_host env Usb0 ep log" and "unat ep < 16" and "md_ok m" and "acks_ok w"
    and "md_ep_in_max_packet_size m ! unat ep = 0"
  shows "md_write_endpoint env (ep # blocking # byte # payload) m w = Panic"
  using assms by (rule md_write_endpoint_unconfigured)

lemma write_unconfigured_endpoint_panics_witness:
  "md_write_endpoint bench_env [1, 0, 7] moondancer_new (bench_world (bench_start [])) = Panic"
  using write_unconfigured_endpoint_panics [OF bench_patient _ moondancer_new_ok,
      where w = "bench_world (bench_start [])" and ep = 1 and blocking = 0 and byte = 7
        and payload = "[]"]
  by (simp add: moondancer_new_def EP_MAX_ENDPOINTS_def)

text \<open>
  C25: a SET_ADDRESS for the target is acknowledged at once, takes effect with the next completed
  transmission, and is forgotten when the bus is reset before.
\<close>

lemma target_address_deferred:
  assumes "irq_returns env" and "unat ep < 16" and "acks_ok w" and "is_set_address sp"
  shows "\<exists>w1. hal_ack env Usb0 ep HostToDevice w = Ret w1 \<and>
    md_events env [ReceiveSetupPacket ep sp, SendComplete e] m w =
      Ret (m\<lparr>md_pending_set_address := None\<rparr>, set_address env Usb0 (requested_address sp) w1) \<and>
    md_events env [ReceiveSetupPacket ep sp, BusReset, SendComplete e] m w =
      Ret (md_enqueue_irq BusReset (m\<lparr>md_pending_set_address := None\<rparr>), w1)"
  using assms by (rule md_set_address_deferred)

lemma target_address_deferred_witness:
  "\<exists>w1. md_events bench_env [ReceiveSetupPacket 0 (set_address_request 5), SendComplete 0]
      moondancer_new (bench_world (bench_start [])) =
     Ret (moondancer_new\<lparr>md_pending_set_address := None\<rparr>, set_address bench_env Usb0 5 w1)"
proof -
  have "is_set_address (set_address_request 5)" "requested_address (set_address_request 5) = 5"
    by (simp_all add: is_set_address_def set_address_request_simps requested_address_def)
  then show ?thesis
    using target_address_deferred [OF bench_irq_returns, of 0 "bench_world (bench_start [])"
        "set_address_request 5" 0 moondancer_new]
    by auto
qed

end
