(* ===== verification/ExampleBoard.thy ===== *)
theory ExampleBoard
  imports FirmwareEvents UsbConnect
begin

text \<open>
  The small programs \<open>moondancer/examples/{hello,gpio,interrupts,spiflash}.rs\<close>: a running light, the GPIO
  port, the timer interrupt and the flash memory. The delays between two rounds (a provided method of the
  crate \<open>embedded-hal\<close> over the timer, or the CPU's) are the argument \<open>delay\<close>; logging is left out.
\<close>

section \<open>The running light\<close>

record running_light =
  rl_led_state :: u8
  rl_direction :: bool

definition hello_start :: running_light where
  "hello_start = \<lparr>rl_led_state = 0b110000, rl_direction = True\<rparr>"

definition hello_move :: "running_light \<Rightarrow> running_light" where
  "hello_move s =
     (if rl_direction s then
        let s = s\<lparr>rl_led_state := drop_bit 1 (rl_led_state s)\<rparr> in
        if rl_led_state s = 0b000011 then s\<lparr>rl_direction := False\<rparr> else s
      else
        let s = s\<lparr>rl_led_state := push_bit 1 (rl_led_state s)\<rparr> in
        if rl_led_state s = 0b110000 then s\<lparr>rl_direction := True\<rparr> else s)"

definition hello_round ::
  "'h fw_env \<Rightarrow> ('h fw_world \<Rightarrow> 'h fw_world rust) \<Rightarrow> running_light \<Rightarrow> 'h fw_world \<Rightarrow>
     (running_light \<times> 'h fw_world) rust" where
  "hello_round env delay s w =
     rbind (delay w) (\<lambda>w.
     let s = hello_move s in Ret (s, write_leds env (rl_led_state s) w))"

section \<open>The GPIO port\<close>

definition gpio_MachineExternal :: "'h fw_env \<Rightarrow> 'h fw_world \<Rightarrow> 'h fw_world" where
  "gpio_MachineExternal env w =
     (let (pending, w) = is_pending env GPIOA w in
      if pending then
        let (pending, w) = read_bit env (GpioReg 0 GpioEvPending) w;
            w = write_bit env (GpioReg 0 GpioEvPending) pending w;
            (bits_all, w) = reg_read env (GpioReg 0 Idr) w;
            (bits_in, w) = reg_read env (GpioReg 0 Idr) w
        in w
      else w)"

definition gpio_start :: "'h fw_env \<Rightarrow> 'h fw_world \<Rightarrow> 'h fw_world rust" where
  "gpio_start env w =
     (let w = write_field env 8 (GpioReg 0 Moder) 0b00001111 w;
          w = write_bit env (GpioReg 0 GpioEvEnable) True w
      in interrupt_enable env GPIOA w)"

definition gpio_round ::
  "'h fw_env \<Rightarrow> ('h fw_world \<Rightarrow> 'h fw_world rust) \<Rightarrow> u8 \<Rightarrow> 'h fw_world \<Rightarrow> (u8 \<times> 'h fw_world) rust" where
  "gpio_round env delay counter w =
     (let w = write_field env 8 (GpioReg 0 Odr) (counter AND 0b11110000) w;
          w = write_leds env counter w
      in rbind (delay w) (\<lambda>w. Ret (counter + 1, w)))"

section \<open>The timer interrupt\<close>

text \<open>The handler with the static variable \<open>TOGGLE\<close>.\<close>

definition blink_MachineExternal :: "'h fw_env \<Rightarrow> bool \<Rightarrow> 'h fw_world \<Rightarrow> bool \<times> 'h fw_world" where
  "blink_MachineExternal env toggle w =
     (let (pending, w) = is_pending env TIMER w in
      if pending then
        let w = timer_clear_pending env (timer_summon 0) w;
            w = (if toggle then write_leds env 0b1 w else write_leds env 0b0 w)
        in (\<not> toggle, w)
      else (toggle, w))"

definition blink_start :: "'h fw_env \<Rightarrow> u32 \<Rightarrow> 'h fw_world \<Rightarrow> 'h fw_world rust" where
  "blink_start env sysclk w =
     (let one_second = sysclk;
          timer = timer_new 0 one_second;
          w = set_timeout_ticks env timer (one_second div 2) w;
          w = timer_enable env timer w;
          w = timer_listen env timer TimeOut w
      in interrupt_enable env TIMER w)"

section \<open>The flash memory\<close>

text \<open>The UUID reader of this program reports what that of the firmware returns, and returns nothing.\<close>

definition spiflash_read_uuid :: "'h fw_env \<Rightarrow> 'h fw_world \<Rightarrow> 'h fw_world rust" where
  "spiflash_read_uuid env w =
     (let w = write_field env 6 (SPI0 PhyLen) 8 w;
          w = write_field env 4 (SPI0 PhyWidth) 1 w;
          w = write_field env 8 (SPI0 PhyMask) 1 w;
          w = write_bit env (SPI0 SpiCs) False w;
          (ready, w) = spi_ready env (SPI0 TxRdy) 0 w
      in
      if \<not> ready then Ret w
      else
        let w = spi_write_all env uuid_command w;
            (ready, w) = spi_ready env (SPI0 RxRdy) 0 w
        in
        if \<not> ready then Ret w
        else rbind (uuid_read env (replicate 32 0) 0 w) (\<lambda>(r, w). Ret w))"

section \<open>Lemmas\<close>

text \<open>Two neighbouring LEDs are on in every round, and the light is back after eight.\<close>

definition light_ok :: "running_light \<Rightarrow> bool" where
  "light_ok s \<longleftrightarrow> (rl_led_state s, rl_direction s) \<in>
     {(0x30, True), (0x18, True), (0x0c, True), (0x06, True),
      (0x03, False), (0x06, False), (0x0c, False), (0x18, False)}"

lemma hello_start_ok: "light_ok hello_start"
  by (simp add: light_ok_def hello_start_def)

lemma hello_move_ok:
  assumes "light_ok s"
  shows "light_ok (hello_move s)"
proof -
  have "rl_led_state s = 0x30 \<and> rl_direction s \<or> rl_led_state s = 0x18 \<and> rl_direction s \<or>
      rl_led_state s = 0x0c \<and> rl_direction s \<or> rl_led_state s = 0x06 \<and> rl_direction s \<or>
      rl_led_state s = 0x03 \<and> \<not> rl_direction s \<or> rl_led_state s = 0x06 \<and> \<not> rl_direction s \<or>
      rl_led_state s = 0x0c \<and> \<not> rl_direction s \<or> rl_led_state s = 0x18 \<and> \<not> rl_direction s"
    using assms unfolding light_ok_def by simp
  then show ?thesis by (elim disjE conjE) (simp_all add: light_ok_def hello_move_def)
qed

lemma hello_moves:
  "hello_move \<lparr>rl_led_state = 0x30, rl_direction = True\<rparr> = \<lparr>rl_led_state = 0x18, rl_direction = True\<rparr>"
  "hello_move \<lparr>rl_led_state = 0x18, rl_direction = True\<rparr> = \<lparr>rl_led_state = 0x0c, rl_direction = True\<rparr>"
  "hello_move \<lparr>rl_led_state = 0x0c, rl_direction = True\<rparr> = \<lparr>rl_led_state = 0x06, rl_direction = True\<rparr>"
  "hello_move \<lparr>rl_led_state = 0x06, rl_direction = True\<rparr> = \<lparr>rl_led_state = 0x03, rl_direction = False\<rparr>"
  "hello_move \<lparr>rl_led_state = 0x03, rl_direction = False\<rparr> = \<lparr>rl_led_state = 0x06, rl_direction = False\<rparr>"
  "hello_move \<lparr>rl_led_state = 0x06, rl_direction = False\<rparr> = \<lparr>rl_led_state = 0x0c, rl_direction = False\<rparr>"
  "hello_move \<lparr>rl_led_state = 0x0c, rl_direction = False\<rparr> = \<lparr>rl_led_state = 0x18, rl_direction = False\<rparr>"
  "hello_move \<lparr>rl_led_state = 0x18, rl_direction = False\<rparr> = \<lparr>rl_led_state = 0x30, rl_direction = True\<rparr>"
  by (simp_all add: hello_move_def)

lemma hello_period: "(hello_move ^^ 8) hello_start = hello_start"
proof -
  have "hello_move (hello_move (hello_move (hello_move (hello_move (hello_move (hello_move (hello_move hello_start))))))) =
      hello_start"
    unfolding hello_start_def by (simp only: hello_moves)
  then show ?thesis by (simp only: numeral_eq_Suc funpow.simps comp_apply id_apply pred_numeral_simps BitM.simps numeral.simps)
qed

lemma hello_rounds_ok:
  assumes "hello_round env delay s w = Ret (s', w')" and "light_ok s"
  shows "light_ok s'"
  using assms hello_move_ok [of s] by (auto simp: hello_round_def Let_def rust_simps)

text \<open>The upper half of the port shows the upper half of the counter.\<close>

lemma gpio_round_log:
  assumes "logs_writes env log" and "delay = Ret"
  shows "\<exists>w'. gpio_round env delay counter w = Ret (counter + 1, w') \<and> log (hw w') = log (hw w) @
    [(GpioReg 0 Odr, ucast (counter AND 0xf0)), (LEDS, ucast counter AND mask 6)]"
  using assms by (simp add: gpio_round_def Let_def write_leds_def log_write_field ucast_mask_8)

lemma gpio_start_returns:
  assumes "mim_storage env mim" and "acks_ok w"
  shows "\<exists>w'. gpio_start env w = Ret w' \<and> acks_ok w'"
  using interrupt_enable_mask [OF assms(1), of GPIOA] interrupt_acks(1) [of env GPIOA] assms(2)
  by (fastforce simp: gpio_start_def Let_def)

text \<open>Each timer interrupt switches the LED over; other interrupts leave everything as it is.\<close>

lemma blink_toggles:
  assumes "logs_writes env log" and "quiet_reads env log" and "is_pending env TIMER w = (b, w1)"
  shows "fst (blink_MachineExternal env toggle w) = (toggle \<noteq> b) \<and>
    (b \<longrightarrow> (\<exists>before. log (hw (snd (blink_MachineExternal env toggle w))) = before @ [(LEDS, of_bool toggle)])) \<and>
    (\<not> b \<longrightarrow> snd (blink_MachineExternal env toggle w) = w1)"
  using assms by (simp add: blink_MachineExternal_def Let_def write_leds_def log_write_field mask_eq_exp_minus_1)

text \<open>Reading the UUID always returns, and does to the hardware what the firmware does.\<close>

lemma spiflash_reads_uuid:
  "spiflash_read_uuid env w = rbind (read_flash_uuid env w) (\<lambda>(r, w). Ret w)"
  by (simp add: spiflash_read_uuid_def read_flash_uuid_def Let_def rbind_assoc case_prod_beta')

end
