(* ===== verification/ExampleLuna.thy ===== *)
theory ExampleLuna
  imports ExampleBoard Logging RegisterFacts
begin

text \<open>
  The programs \<open>lunasoc-hal/examples/*.rs\<close> and \<open>moondancer/examples/smollest.rs\<close>: running lights, uptime
  messages and the timer interrupt, with the drivers of the crate (\<open>blinky\<close>, \<open>uart\<close>, \<open>interrupts\<close>) and on
  the bare registers (\<open>*_pac\<close>, and \<open>smollest\<close> on addresses). The delay of \<open>embedded-hal\<close> over the driver
  of the timer, or the CPU's, is the argument \<open>delay\<close>, the decimal digits of \<open>core::fmt\<close> are the argument \<open>decimal\<close>.
\<close>

section \<open>Bare registers\<close>

definition sysclk :: u32 where
  "sysclk = 60000000"

definition pac_delay_ms ::
  "('h, 'q) env \<Rightarrow> u32 \<Rightarrow> u32 \<Rightarrow> ('h, 'q) world \<Rightarrow> ('h, 'q) world rust" where
  "pac_delay_ms env sys_clk ms w =
     (let ticks = sys_clk div 1000 * ms;
          w = write_u32 env (TimerReg 0 TimerReload) 0 w;
          w = write_u32 env (TimerReg 0 TimerCtr) ticks w;
          w = write_bit env (TimerReg 0 TimerEn) True w
      in rbind (of_option (wait_counter env (timer_summon 0) w)) (\<lambda>w.
         Ret (write_bit env (TimerReg 0 TimerEn) False w)))"

text \<open>\<open>while tx_rdy == false { nop }\<close>\<close>

partial_function (option) uart_wait :: "('h, 'q) env \<Rightarrow> ('h, 'q) world \<Rightarrow> ('h, 'q) world option" where
  "uart_wait env w =
     (let (rdy, w) = read_bit env (UartReg 0 UartTxRdy) w in if rdy = False then uart_wait env w else Some w)"

fun uart_tx :: "('h, 'q) env \<Rightarrow> rust_str \<Rightarrow> ('h, 'q) world \<Rightarrow> ('h, 'q) world rust" where
  "uart_tx env [] w = Ret w"
| "uart_tx env (c # string) w =
     rbind (of_option (uart_wait env w)) (\<lambda>w.
     uart_tx env string (write_field env 8 (UartReg 0 UartTxData) (of_nat c) w))"

section \<open>Running lights\<close>

definition blinky_round ::
  "'h fw_env \<Rightarrow> ('h fw_world \<Rightarrow> 'h fw_world rust) \<Rightarrow> running_light \<Rightarrow> 'h fw_world \<Rightarrow>
     (running_light \<times> 'h fw_world) rust" where
  "blinky_round env delay s w =
     rbind (delay w) (\<lambda>w. let s = hello_move s in Ret (s, write_leds env (rl_led_state s) w))"

text \<open>
  The other programs move two bits through all eight of the byte; the second result is the message of
  those that have one.
\<close>

definition luna_start :: running_light where
  "luna_start = \<lparr>rl_led_state = 0b11000000, rl_direction = True\<rparr>"

definition luna_move :: "running_light \<Rightarrow> running_light \<times> rust_str option" where
  "luna_move s =
     (if rl_direction s then
        let s = s\<lparr>rl_led_state := drop_bit 1 (rl_led_state s)\<rparr> in
        if rl_led_state s = 0b00000011 then (s\<lparr>rl_direction := False\<rparr>, Some (str_lit ''left'')) else (s, None)
      else
        let s = s\<lparr>rl_led_state := push_bit 1 (rl_led_state s)\<rparr> in
        if rl_led_state s = 0b11000000 then (s\<lparr>rl_direction := True\<rparr>, Some (str_lit ''right'')) else (s, None))"

definition blinky_pac_round ::
  "'h fw_env \<Rightarrow> running_light \<Rightarrow> 'h fw_world \<Rightarrow> (running_light \<times> 'h fw_world) rust" where
  "blinky_pac_round env s w =
     rbind (pac_delay_ms env sysclk 100 w) (\<lambda>w.
     let (s, _) = luna_move s in Ret (s, write_leds env (rl_led_state s) w))"

definition uart_pac_round ::
  "'h fw_env \<Rightarrow> running_light \<Rightarrow> 'h fw_world \<Rightarrow> (running_light \<times> 'h fw_world) rust" where
  "uart_pac_round env s w =
     rbind (pac_delay_ms env sysclk 100 w) (\<lambda>w.
     let (s, message) = luna_move s in
     rbind (case message of None \<Rightarrow> Ret w | Some text \<Rightarrow> uart_tx env (text @ [10]) w) (\<lambda>w.
     Ret (s, write_leds env (rl_led_state s) w)))"

text \<open>\<open>writeln!(serial, ..)\<close> writes the pieces of the text one after the other.\<close>

definition serial_line :: "'h fw_env \<Rightarrow> bytes list \<Rightarrow> 'h fw_world \<Rightarrow> 'h fw_world rust" where
  "serial_line env pieces w = serial_write env 0 (concat pieces @ [10]) w"

definition ascii :: "rust_str \<Rightarrow> bytes" where
  "ascii = map of_nat"

definition uart_round ::
  "'h fw_env \<Rightarrow> ('h fw_world \<Rightarrow> 'h fw_world rust) \<Rightarrow> (int \<Rightarrow> bytes) \<Rightarrow> running_light \<times> u32 \<Rightarrow> 'h fw_world \<Rightarrow>
     ((running_light \<times> u32) \<times> 'h fw_world) rust" where
  "uart_round env delay decimal state w =
     (case state of (s, uptime) \<Rightarrow>
        rbind (delay w) (\<lambda>w.
        rbind
          (if sint uptime mod 10 = 0 then
             serial_line env [ascii (str_lit ''Uptime: ''), decimal (sint uptime div 10), ascii (str_lit '' seconds'')] w
           else Ret w) (\<lambda>w.
        let (s, message) = luna_move s in
        rbind (case message of None \<Rightarrow> Ret w | Some text \<Rightarrow> serial_line env [ascii text] w) (\<lambda>w.
        Ret ((s, uptime + 1), write_leds env (rl_led_state s) w)))))"

section \<open>Timer interrupts\<close>

definition luna_MachineExternal :: "'h fw_env \<Rightarrow> bool \<Rightarrow> 'h fw_world \<Rightarrow> (bool \<times> 'h fw_world) rust" where
  "luna_MachineExternal env toggle w =
     (let (pending, w) = is_pending env TIMER w in
      if pending then
        let w = timer_clear_pending env (timer_summon 0) w in
        rbind (serial_line env [ascii (str_lit ''MachineExternal - timer interrupt'')] w) (\<lambda>w.
        let w = (if toggle then write_leds env 255 w else write_leds env 0 w)
        in Ret (\<not> toggle, w))
      else
        rbind (serial_line env [ascii (str_lit ''MachineExternal - unknown interrupt'')] w) (\<lambda>w.
        Ret (toggle, w)))"

definition luna_interrupts_start :: "'h fw_env \<Rightarrow> 'h fw_world \<Rightarrow> 'h fw_world rust" where
  "luna_interrupts_start env w =
     (let one_second = sysclk;
          timer = timer_new 0 one_second;
          w = set_timeout_ticks env timer (one_second div 2) w;
          w = timer_enable env timer w;
          w = timer_listen env timer TimeOut w
      in
      rbind (interrupt_enable env TIMER w) (\<lambda>w.
      serial_line env [ascii (str_lit ''Peripherals initialized, entering main loop.'')] w))"

definition luna_interrupts_round ::
  "'h fw_env \<Rightarrow> ('h fw_world \<Rightarrow> 'h fw_world rust) \<Rightarrow> (int \<Rightarrow> bytes) \<Rightarrow> u32 \<Rightarrow> 'h fw_world \<Rightarrow>
     (u32 \<times> 'h fw_world) rust" where
  "luna_interrupts_round env delay decimal uptime w =
     rbind
       (serial_line env [ascii (str_lit ''Uptime: ''), decimal (sint uptime), ascii (str_lit '' seconds'')] w)
       (\<lambda>w. rbind (delay w) (\<lambda>w. Ret (uptime + 1, w)))"

definition pac_interrupts_start :: "'h fw_env \<Rightarrow> 'h fw_world \<Rightarrow> 'h fw_world rust" where
  "pac_interrupts_start env w =
     (let w = write_u32 env (TimerReg 0 TimerReload) 0 w;
          w = write_u32 env (TimerReg 0 TimerCtr) (sysclk div 2) w;
          w = write_bit env (TimerReg 0 TimerEn) True w;
          w = write_bit env (TimerReg 0 TimerEvEnable) True w
      in interrupt_enable env TIMER w)"

definition pac_interrupts_round ::
  "'h fw_env \<Rightarrow> ('h fw_world \<Rightarrow> 'h fw_world rust) \<Rightarrow> 'h fw_world \<Rightarrow> 'h fw_world rust" where
  "pac_interrupts_round env delay w = rbind (delay w) (uart_tx env (str_lit ''Ping'' @ [10]))"

definition pac_MachineExternal :: "'h fw_env \<Rightarrow> bool \<Rightarrow> 'h fw_world \<Rightarrow> (bool \<times> 'h fw_world) rust" where
  "pac_MachineExternal env toggle w =
     (let (pending, w) = is_pending env TIMER w in
      if pending then
        let (pending, w) = read_bit env (TimerReg 0 TimerEvPending) w;
            w = write_bit env (TimerReg 0 TimerEvPending) pending w;
            w = (if toggle then write_leds env 255 w else write_leds env 0 w)
        in Ret (\<not> toggle, w)
      else
        rbind (uart_tx env (str_lit ''MachineExternal - unknown interrupt'' @ [10]) w) (\<lambda>w.
        Ret (toggle, w)))"

definition pac_ExceptionHandler :: "'h fw_env \<Rightarrow> 'h fw_world \<Rightarrow> 'h fw_world rust" where
  "pac_ExceptionHandler env w = rbind (uart_tx env (str_lit ''ExceptionHandler'' @ [10]) w) (\<lambda>w. Hang)"

section \<open>Addresses\<close>

text \<open>\<open>smollest.rs\<close> uses no register package: its registers are words of the memory at fixed addresses.\<close>

definition IO_BASE :: nat where
  "IO_BASE = 0x80000000"

definition IO_LEDS :: nat where
  "IO_LEDS = IO_BASE + 0x0080"

definition IO_UART_TX_DATA :: nat where
  "IO_UART_TX_DATA = IO_BASE + 0x0010"

definition IO_UART_TX_RDY :: nat where
  "IO_UART_TX_RDY = IO_BASE + 0x0014"

partial_function (option) smollest_wait :: "(nat \<Rightarrow> 'm \<Rightarrow> u32 \<times> 'm) \<Rightarrow> 'm \<Rightarrow> 'm option" where
  "smollest_wait read_volatile m =
     (let (rdy, m) = read_volatile IO_UART_TX_RDY m in
      if rdy = 0 then smollest_wait read_volatile m else Some m)"

fun smollest_uart_tx ::
  "(nat \<Rightarrow> 'm \<Rightarrow> u32 \<times> 'm) \<Rightarrow> (nat \<Rightarrow> u32 \<Rightarrow> 'm \<Rightarrow> 'm) \<Rightarrow> bytes \<Rightarrow> 'm \<Rightarrow> 'm rust" where
  "smollest_uart_tx read_volatile write_volatile [] m = Ret m"
| "smollest_uart_tx read_volatile write_volatile (b # s) m =
     rbind (of_option (smollest_wait read_volatile m)) (\<lambda>m.
     smollest_uart_tx read_volatile write_volatile s
       (write_volatile IO_UART_TX_DATA (ucast b AND 0b11111111) m))"

definition smollest_start ::
  "(nat \<Rightarrow> 'm \<Rightarrow> u32 \<times> 'm) \<Rightarrow> (nat \<Rightarrow> u32 \<Rightarrow> 'm \<Rightarrow> 'm) \<Rightarrow> 'm \<Rightarrow> 'm rust" where
  "smollest_start read_volatile write_volatile =
     smollest_uart_tx read_volatile write_volatile (ascii (str_lit ''Entering main loop.''))"

definition smollest_round :: "(nat \<Rightarrow> u32 \<Rightarrow> 'm \<Rightarrow> 'm) \<Rightarrow> u32 \<Rightarrow> 'm \<Rightarrow> u32 \<times> 'm" where
  "smollest_round write_volatile counter m =
     (counter + 1, write_volatile IO_LEDS (counter AND 0b111111) m)"

section \<open>Lemmas\<close>

text \<open>
  The light of eight LEDs is back after twelve rounds, but the output register has six bits: at the upper
  end of its way no LED is on.
\<close>

lemma luna_moves:
  "fst (luna_move \<lparr>rl_led_state = 0xc0, rl_direction = True\<rparr>) = \<lparr>rl_led_state = 0x60, rl_direction = True\<rparr>"
  "fst (luna_move \<lparr>rl_led_state = 0x60, rl_direction = True\<rparr>) = \<lparr>rl_led_state = 0x30, rl_direction = True\<rparr>"
  "fst (luna_move \<lparr>rl_led_state = 0x30, rl_direction = True\<rparr>) = \<lparr>rl_led_state = 0x18, rl_direction = True\<rparr>"
  "fst (luna_move \<lparr>rl_led_state = 0x18, rl_direction = True\<rparr>) = \<lparr>rl_led_state = 0x0c, rl_direction = True\<rparr>"
  "fst (luna_move \<lparr>rl_led_state = 0x0c, rl_direction = True\<rparr>) = \<lparr>rl_led_state = 0x06, rl_direction = True\<rparr>"
  "fst (luna_move \<lparr>rl_led_state = 0x06, rl_direction = True\<rparr>) = \<lparr>rl_led_state = 0x03, rl_direction = False\<rparr>"
  "fst (luna_move \<lparr>rl_led_state = 0x03, rl_direction = False\<rparr>) = \<lparr>rl_led_state = 0x06, rl_direction = False\<rparr>"
  "fst (luna_move \<lparr>rl_led_state = 0x06, rl_direction = False\<rparr>) = \<lparr>rl_led_state = 0x0c, rl_direction = False\<rparr>"
  "fst (luna_move \<lparr>rl_led_state = 0x0c, rl_direction = False\<rparr>) = \<lparr>rl_led_state = 0x18, rl_direction = False\<rparr>"
  "fst (luna_move \<lparr>rl_led_state = 0x18, rl_direction = False\<rparr>) = \<lparr>rl_led_state = 0x30, rl_direction = False\<rparr>"
  "fst (luna_move \<lparr>rl_led_state = 0x30, rl_direction = False\<rparr>) = \<lparr>rl_led_state = 0x60, rl_direction = False\<rparr>"
  "fst (luna_move \<lparr>rl_led_state = 0x60, rl_direction = False\<rparr>) = \<lparr>rl_led_state = 0xc0, rl_direction = True\<rparr>"
  by (simp_all add: luna_move_def)

lemma luna_period: "((fst \<circ> luna_move) ^^ 12) luna_start = luna_start"
proof -
  have "fst (luna_move (fst (luna_move (fst (luna_move (fst (luna_move (fst (luna_move (fst (luna_move
      (fst (luna_move (fst (luna_move (fst (luna_move (fst (luna_move (fst (luna_move (fst (luna_move
      luna_start))))))))))))))))))))))) = luna_start"
    unfolding luna_start_def by (simp only: luna_moves)
  then show ?thesis
    by (simp only: numeral_eq_Suc funpow.simps comp_apply id_apply pred_numeral_simps BitM.simps numeral.simps)
qed

lemma write_leds_log:
  assumes "logs_writes env log"
  shows "log (hw (write_leds env v w)) = log (hw w) @ [(LEDS, ucast v AND 0x3f)]"
  by (simp add: write_leds_def log_write_field [OF assms] mask_eq_exp_minus_1)

lemma luna_light_dark:
  assumes "logs_writes env log"
  shows "log (hw (write_leds env (rl_led_state luna_start) w)) = log (hw w) @ [(LEDS, 0)]"
  by (simp add: write_leds_log [OF assms] luna_start_def)

text \<open>The delay returns when the counter of the timer counts down.\<close>

lemma pac_delay_ms_returns:
  assumes "counts_down env (timer_summon 0) count"
  shows "returns (pac_delay_ms env sys_clk ms w)"
  using wait_counter_ends [OF assms, of "write_bit env (TimerReg 0 TimerEn) True
      (write_u32 env (TimerReg 0 TimerCtr) (sys_clk div 1000 * ms)
        (write_u32 env (TimerReg 0 TimerReload) 0 w))"]
  by (auto simp: pac_delay_ms_def Let_def)

text \<open>A text is on the serial port byte by byte, and the driver of the crate writes the same.\<close>

lemma uart_wait_ends:
  assumes "serial_ready env 0 busy log"
  shows "\<exists>w'. uart_wait env w = Some w' \<and> log (hw w') = log (hw w)"
proof (induction "busy (hw w)" arbitrary: w rule: less_induct)
  case less
  obtain v h where r: "env_read env (UartReg 0 UartTxRdy) (hw w) = (v, h)" by fastforce
  with assms have c: "(v AND 1 \<noteq> 0) = (busy (hw w) = 0)" "busy (hw w) > 0 \<longrightarrow> busy h < busy (hw w)"
    "log h = log (hw w)"
    unfolding serial_ready_def by blast+
  have rd: "read_bit env (UartReg 0 UartTxRdy) w = (v AND 1 \<noteq> 0, w\<lparr>hw := h\<rparr>)"
    using r by (simp add: read_bit_def reg_read_def)
  show ?case
  proof (cases "busy (hw w) = 0")
    case True
    with c rd show ?thesis by (simp add: uart_wait.simps [of env w])
  next
    case False
    with c have "v AND 1 = 0" by simp
    moreover obtain w' where "uart_wait env (w\<lparr>hw := h\<rparr>) = Some w'" "log (hw w') = log h"
      using less [of "w\<lparr>hw := h\<rparr>"] c False by auto
    ultimately show ?thesis using rd c by (simp add: uart_wait.simps [of env w])
  qed
qed

lemma uart_tx_log:
  assumes "serial_ready env 0 busy log" and "logs_writes env log"
  shows "\<exists>w'. uart_tx env s w = Ret w' \<and> log (hw w') = log (hw w) @ uart_writes 0 (ascii s)"
proof (induction s arbitrary: w)
  case Nil
  show ?case by (simp add: uart_writes_def ascii_def)
next
  case (Cons c s)
  obtain w1 where w1: "uart_wait env w = Some w1" "log (hw w1) = log (hw w)"
    using uart_wait_ends [OF assms(1)] by blast
  with Cons [of "write_field env 8 (UartReg 0 UartTxData) (of_nat c) w1"] show ?case
    by (auto simp: uart_writes_def ascii_def log_write_field [OF assms(2)] ucast_mask_8)
qed

lemma serial_line_log:
  assumes "serial_ready env 0 busy log" and "logs_writes env log"
  shows "\<exists>w'. serial_line env ps w = Ret w' \<and> log (hw w') = log (hw w) @ uart_writes 0 (concat ps @ [10])"
  unfolding serial_line_def uart_writes_def by (rule serial_write_log [OF assms])

text \<open>Each timer interrupt switches all LEDs over, and any other is reported, by both handlers.\<close>

lemma handlers_switch_leds:
  assumes "serial_ready env 0 busy log" and "logs_writes env log" and "quiet_reads env log"
    and "is_pending env TIMER w = (True, w1)"
  shows "\<exists>before w'. luna_MachineExternal env toggle w = Ret (\<not> toggle, w') \<and>
      log (hw w') = before @ [(LEDS, if toggle then 0x3f else 0)]"
    and "\<exists>before w'. pac_MachineExternal env toggle w = Ret (\<not> toggle, w') \<and>
      log (hw w') = before @ [(LEDS, if toggle then 0x3f else 0)]"
proof -
  show "\<exists>before w'. luna_MachineExternal env toggle w = Ret (\<not> toggle, w') \<and>
      log (hw w') = before @ [(LEDS, if toggle then 0x3f else 0)]"
    using assms(4) serial_line_log [OF assms(1,2), of "[ascii (str_lit ''MachineExternal - timer interrupt'')]"
        "timer_clear_pending env (timer_summon 0) w1"]
    by (auto simp: luna_MachineExternal_def Let_def write_leds_log [OF assms(2)])
  show "\<exists>before w'. pac_MachineExternal env toggle w = Ret (\<not> toggle, w') \<and>
      log (hw w') = before @ [(LEDS, if toggle then 0x3f else 0)]"
    using assms(4) by (simp add: pac_MachineExternal_def Let_def write_leds_log [OF assms(2)] case_prod_beta)
qed

lemma handlers_report_others:
  assumes "serial_ready env 0 busy log" and "logs_writes env log" and "is_pending env TIMER w = (False, w1)"
  shows "\<exists>w'. luna_MachineExternal env toggle w = Ret (toggle, w') \<and> log (hw w') = log (hw w1) @
      uart_writes 0 (ascii (str_lit ''MachineExternal - unknown interrupt'') @ [10])"
    and "\<exists>w'. pac_MachineExternal env toggle w = Ret (toggle, w') \<and> log (hw w') = log (hw w1) @
      uart_writes 0 (ascii (str_lit ''MachineExternal - unknown interrupt'') @ [10])"
  using assms(3) serial_line_log [OF assms(1,2), of "[ascii (str_lit ''MachineExternal - unknown interrupt'')]" w1]
    uart_tx_log [OF assms(1,2), of "str_lit ''MachineExternal - unknown interrupt'' @ [10]" w1]
  by (auto simp: luna_MachineExternal_def pac_MachineExternal_def ascii_def)

text \<open>No register of the package is at one of the addresses of \<open>smollest.rs\<close>.\<close>

lemma smollest_addresses_unmapped:
  "list_all (\<lambda>(a, r). list_all (\<lambda>io. io \<noteq> a) [IO_LEDS, IO_UART_TX_DATA, IO_UART_TX_RDY]) memory_map"
  unfolding memory_map_blocks
  by (simp add: documented_map_def pac_ptrs pac_blocks IO_LEDS_def IO_UART_TX_DATA_def
      IO_UART_TX_RDY_def IO_BASE_def)

end
