(* ===== verification/Spec2Isabelle.thy ===== *)
theory Spec2Isabelle
  imports DataProperties HardwareProperties UsbProperties ExampleLuna
begin

text \<open>
  \<^bold>\<open>The firmware of Cynthion.\<close> Cynthion is a USB test instrument. Its firmware (\<open>src/firmware\<close>, Rust, no
  operating system, a 32 bit RISC-V core) drives three USB device peripherals of the gateware. On the
  control port (USB2) it speaks the libgreat protocol: a host sends a command in a vendor request,
  the firmware dispatches it to a class and a verb, and the host fetches the response. The class
  \<open>moondancer\<close> gives the host the raw target port (USB0), so that it can emulate any USB device.

  \<^bold>\<open>Parts and theories\<close> (all sources are under \<open>src/firmware\<close>):

  \<^item> \<open>Prelude\<close>, \<open>ByteCodec\<close>, \<open>Queues\<close>: the outcomes of Rust code, little-endian data and the locale of
    byte formats, the queues of the crate \<open>heapless\<close> with the locale of FIFO queues.
  \<^item> \<open>GreatErr\<close>, \<open>Gcp\<close>, \<open>ClassCore\<close>, \<open>GcpClasses\<close>, \<open>Registry\<close>, \<open>GcpTests\<close>: \<open>libgreat/src\<close> and
    \<open>moondancer/src/gcp/{firmware,selftest}.rs\<close>: the error numbers, commands, classes and verbs, the
    introspection class, the two small classes, the registry as a host sees it, and the unit tests. The contract of a
    class is the locale \<open>gcp_dispatcher\<close>, interpreted on all four classes.
  \<^item> \<open>Setup\<close>, \<open>Descriptor\<close>, \<open>Microsoft10\<close>, \<open>UsbDescriptors\<close>, \<open>Device\<close>, \<open>DescriptorFacts\<close>: \<open>smolusb/src/{setup,
    event,device,descriptor}.rs\<close>, \<open>descriptor/microsoft10.rs\<close>, \<open>class/acm.rs\<close> and \<open>moondancer/src/usb.rs\<close>:
    SETUP packets, events, descriptors as bytes, the descriptor set of a device.
  \<^item> \<open>UsbDriver\<close>, \<open>Control\<close>, \<open>ControlFacts\<close>, \<open>ControlReturns\<close>: \<open>smolusb/src/{traits,control}.rs\<close>: the driver
    interface and the state machine of the control endpoint, for any driver.
  \<^item> \<open>Hardware\<close>, \<open>UsbHal\<close>, \<open>UsbHalFacts\<close>, \<open>UsbTransfer\<close>, \<open>UsbConnect\<close>, \<open>ControlPort\<close>: register access of
    \<open>moondancer-pac\<close> and the driver \<open>lunasoc-hal/src/usb.rs\<close>; what it puts on the bus; the driver as
    an instance of the interface of the control endpoint.
  \<^item> \<open>RegisterSpecs\<close>, \<open>RegisterMap\<close>, \<open>RegisterFacts\<close>, \<open>RegisterProxies\<close>: the memory map of
    \<open>moondancer-pac/src/generated\<close>, the fields of every register, the access methods of
    \<open>generated/generic.rs\<close> at any width, and the registers of \<open>Hardware\<close> found in them.
  \<^item> \<open>Interrupts\<close>, \<open>InterruptsFacts\<close>: \<open>moondancer-pac/src/csr.rs\<close> and the interrupt handler of
    \<open>moondancer/src/{util,event}.rs\<close>.
  \<^item> \<open>Peripherals\<close>, \<open>PeripheralsFacts\<close>, \<open>Logging\<close>: timer, GPIO, serial port, SPI flash, log buffer, logic
    analyser; the logger and the panic handler.
  \<^item> \<open>Moondancer\<close>, \<open>MoondancerFacts\<close>, \<open>MoondancerTransfer\<close>, \<open>MoondancerReturns\<close>, \<open>MoondancerInbox\<close>:
    \<open>moondancer/src/gcp/moondancer.rs\<close>, the events and verbs of the target port.
  \<^item> \<open>Firmware\<close>, \<open>FirmwareFacts\<close>, \<open>FirmwareSafety\<close>, \<open>FirmwareBoot\<close>: \<open>moondancer/src/bin/moondancer.rs\<close>,
    construction, initialisation, the main loop and the vendor requests. \<open>FirmwareEvents\<close>,
    \<open>FirmwareExchange\<close> and \<open>FirmwareRelay\<close> follow the runs of the main loop: the order of the events, a
    whole exchange with the host, and what passes between the host and the target port: SETUP packets,
    packets of an OUT endpoint and data for an IN endpoint.
  \<^item> \<open>ExampleSerial\<close>, \<open>ExampleHal\<close>, \<open>ExampleSpeed\<close>, \<open>ExampleBoard\<close>, \<open>ExampleLuna\<close>: the programs of
    \<open>moondancer/examples\<close> and \<open>lunasoc-hal/examples\<close>, other users of the same drivers and of the same
    control endpoint: a serial device, a device that tests the driver, a speed test, and small programs
    for the LEDs, the GPIO port, the timer, the flash and the serial port.
  \<^item> \<open>Testbench\<close>: a simulated board on which the assumptions about the hardware hold. The theorems with
    such assumptions are evaluated on it.
  \<^item> \<open>DataProperties\<close>, \<open>HardwareProperties\<close>, \<open>UsbProperties\<close> and this theory state the properties.

  \<^bold>\<open>State and effects.\<close> Every function returns a value of the type \<open>rust\<close>: \<open>Ret\<close>, a \<open>Panic\<close> (index out of
  range, division by zero, \<open>unwrap\<close>), \<open>Hang\<close> (a loop that spins for ever) or \<open>Undef\<close> (undefined behaviour
  of \<open>unsafe\<close> code); \<open>Result\<close> is a sum with the error on the left. The peripherals are not Rust: they
  are the argument \<open>env\<close> of every definition that touches a register, a device that answers reads
  (\<open>env_read\<close>), takes writes (\<open>env_write\<close>) and decides when the CPU takes an interrupt (\<open>env_irq\<close>). The
  record \<open>world\<close> holds what the threads of control share: the device, the static acknowledge flags,
  the speed of each driver and the event queue. What a theorem needs of the device is a named
  hypothesis: \<open>rx_fifo\<close> (a FIFO gives back what it holds), \<open>mim_storage\<close> and \<open>mim_private\<close> (the interrupt
  mask is memory), \<open>logs_writes\<close> and \<open>quiet_reads\<close> (a recorder of the register writes), \<open>patient_host\<close> (the
  host takes IN packets before the timeouts), \<open>out_endpoint\<close> (a primed OUT endpoint receives the next
  packet), \<open>control_board\<close> (the last four of these for the control port, and LEDs that disturb none of
  them), \<open>target_fifo\<close> (the FIFO of the target port keeps a packet until it is read),
  \<open>irq_returns\<close> (the handler returns). Interrupts occur at the waits of the driver and
  between any two steps of the main loop, which is the step relation \<open>main_step\<close>.

  \<^bold>\<open>Loops and bounds.\<close> The waits of the driver are recursions with the measure \<open>DEFAULT_TIMEOUT\<close> minus the
  count, the flash polls at most 1000 times, and the UUID reader is bounded by its buffer. Loops that
  may not end (reading back the interrupt mask, draining a FIFO, the timer and the serial port) are
  \<open>partial_function\<close>s whose \<open>None\<close> is not returning, and theorems that they return are proved under the
  hypotheses above. Nothing is cut off by fuel. Integers are words of their width; \<open>usize\<close> counters
  that wrap are 32 bit words, indices and lengths bounded by a buffer are natural numbers.

  \<^bold>\<open>What the lemmas show.\<close> C1 to C3: the invariant of the running firmware, that it comes up, and which
  events it survives. C4 to C8: a command is answered by the main loop, a SETUP packet of the emulated
  device reaches the host, data of the host reaches the target and a packet of the target the host, and
  what no class registers is refused. C9 to C11: the protocol refines an abstract one of a pending
  response or error, and where it replays. C12, C13: what a host finds by introspection and in the string
  table. C14: events are handled in order. The other theories state: the control endpoint for any
  driver, the class \<open>moondancer\<close> and the data between the host and the target port (\<open>UsbProperties\<close>);
  registers, packets on the bus, connection, interrupts (\<open>HardwareProperties\<close>); formats and descriptors
  (\<open>DataProperties\<close>). That every operation of the driver keeps an invariant of the shared world is proved
  once, in the locale \<open>driver_invariant\<close>, and for the whole firmware in \<open>world_invariant\<close>, which extends
  it. The lemmas on the examples are in their theories: the bounds they keep, what they put on the bus and
  on the serial port, and the packets that stop them.

  \<^bold>\<open>Not modelled.\<close> The gateware and the host software (Python); inline assembly; the formatting of log
  messages by \<open>core::fmt\<close>, which no behaviour here depends on; \<open>moondancer/src/gcp/gpio.rs\<close> and
  \<open>log_crit.rs\<close>, which are not part of the crate. Log messages and the signals to the logic analyser are
  left out of the operations that emit them, but for slices in their arguments that can panic.
  Interrupts are not taken between two statements outside the waits; what the code shares with the handler
  there is the queue, a lock-free queue of \<open>heapless\<close>, and the acknowledge flags, which are single bytes.
  An exchange through the main loop (C4) is followed for commands whose class always answers them with
  the same register writes, which C5 to C7 show of the commands that move data; the other verbs are covered one
  by one.
\<close>

section \<open>The running firmware\<close>

text \<open>
  C1: in every reachable state of the main loop, with interrupts between any two steps and whatever the
  hardware does, the control port is endpoint 0 with a receive buffer of 1024 bytes and a position
  inside it, a response of at most 1024 bytes and an error are never both pending, the queues and
  tables of the class \<open>moondancer\<close> are within their bounds, and the classes and descriptors are the
  ones the firmware was built with, but for the serial number and the version of the board.
\<close>

theorem firmware_invariant:
  assumes "main_reachable env (l, fw, w)"
  shows "ctl_endpoint_number (fw_usb2_control fw) = 0 \<and>
    length (ctl_rx_buffer (fw_usb2_control fw)) = 1024 \<and>
    ctl_rx_buffer_position (fw_usb2_control fw) \<le> 1024 \<and>
    (fw_libgreat_response fw = None \<or> fw_libgreat_response_last_error fw = None) \<and>
    (case fw_libgreat_response fw of Some response \<Rightarrow> length response \<le> 1024 | None \<Rightarrow> True) \<and>
    md_ok (fw_moondancer fw) \<and>
    fw_core fw = core_new CLASSES BOARD_INFORMATION \<and>
    (\<exists>uuid version. ctl_descriptors (fw_usb2_control fw) =
       set_total_lengths (fw_descriptors (format_flash_uuid uuid) version))"
proof -
  have "fw_identity fw" using main_reachable_identity [OF assms] by simp
  then show ?thesis
    using main_reachable_ok [OF assms]
    by (auto simp: fw_identity_def fw_ok_def fw_control_ok_def fw_protocol_ok_def ctl_ok_def
        LIBGREAT_MAX_COMMAND_SIZE_def split: option.splits)
qed

text \<open>
  C2: the firmware always comes up: constructing it returns whatever the SPI flash does, and
  initialising it returns on an interrupt mask that reads back what was written; then nothing is
  pending, the control endpoint is idle and the four interrupts of the control port are enabled.
\<close>

theorem firmware_boots:
  assumes "mim_private env mim"
  shows "\<exists>fw w1 w2. firmware_new env w = Ret (fw, w1) \<and> firmware_initialize env w1 = Ret w2 \<and>
    fw_protocol fw = Quiet \<and> ctl_next (fw_usb2_control fw) = StIdle \<and>
    mim (hw w2) AND 0xF000 = 0xF000"
  using firmware_new_Ret [of env w] firmware_initialize_mask [OF assms] by meson

lemma firmware_boots_witness:
  "\<exists>fw w1 w2. firmware_new bench_env (bench_world (bench_start [])) = Ret (fw, w1) \<and>
    firmware_initialize bench_env w1 = Ret w2 \<and> b_mim (hw w2) AND 0xF000 = 0xF000"
  using firmware_boots [OF bench_mim_private, of "bench_world (bench_start [])"] by blast

lemma firmware_invariant_witness:
  "\<exists>fw w. main_reachable bench_env (loop_start, fw, w) \<and> md_ok (fw_moondancer fw)"
  using bench_reachable [of "[]"] firmware_invariant by blast

section \<open>Commands\<close>





text \<open>
  C9: executing a command takes the protocol to the outcome of the class, whatever was pending before:
  a response or an error replaces it, and an error also stalls the endpoint; fewer than eight bytes
  are no command and change nothing.
\<close>

theorem execute_refines_protocol:
  assumes "fw_ok fw"
  shows "(case command_parse (received (fw_usb2_control fw)) of
      None \<Rightarrow> dispatch_libgreat_request env fw w = Ret (fw, w)
    | Some cmd \<Rightarrow>
        (\<forall>r fw1 w1. fw_class_dispatch env (command_class_id cmd) (command_verb_number cmd)
             (cmd_arguments cmd) fw w = Ret (r, fw1, w1) \<longrightarrow>
           (\<exists>fw'. dispatch_libgreat_request env fw w =
                Ret (fw', case r of Inl e \<Rightarrow> stall_endpoint_in env Usb2 0 w1 | Inr x \<Rightarrow> w1) \<and>
              fw_protocol fw' = protocol_outcome r \<and> fw_ok fw')))"
proof (cases "command_parse (received (fw_usb2_control fw))")
  case None
  then have "dispatch_libgreat_request env fw w = Ret (fw, w)"
    using dispatch_libgreat_request_short [of fw env w] assms
    by (simp add: command_parse_None_iff fw_ok_def fw_control_ok_def)
  with None show ?thesis by simp
next
  case (Some cmd)
  have ctl: "ctl_ok (fw_usb2_control fw)" using assms by (simp add: fw_ok_def fw_control_ok_def)
  note eq = dispatch_libgreat_request_eq [OF ctl Some, of env w]
  have ok: "fw_ok (fw_outcome r fw1)"
    if "fw_class_dispatch env (command_class_id cmd) (command_verb_number cmd) (cmd_arguments cmd)
      fw w = Ret (r, fw1, w1)" for r fw1 w1
  proof (rule fw_outcome_ok)
    show "fw_ok fw1" using that assms by (rule fw_class_dispatch_ok)
    show "length x \<le> LIBGREAT_MAX_COMMAND_SIZE" if "r = Inr x" for x
      using \<open>fw_class_dispatch _ _ _ _ _ _ = _\<close> unfolding that by (rule fw_class_dispatch_fits)
  qed
  show ?thesis
    unfolding Some option.case
    by (auto simp: eq fw_outcome_protocol ok fw_outcome_world_def)
qed

lemma execute_refines_protocol_witness:
  "dispatch_libgreat_request bench_env idle_firmware (bench_world (bench_start [])) =
     Ret (idle_firmware, bench_world (bench_start []))"
proof -
  have "received (fw_usb2_control idle_firmware) = []"
    by (simp add: received_def idle_firmware_def control_new_def)
  moreover have "command_parse [] = None" by (simp add: command_parse_None_iff)
  ultimately show ?thesis
    using execute_refines_protocol [OF idle_firmware_ok, of bench_env "bench_world (bench_start [])"]
    by simp
qed



text \<open>
  C11: an execute request without data runs the command of the last transfer again, because it does not
  reset the receive position: the class is dispatched on the bytes still in the buffer.
\<close>

theorem empty_execute_replays:
  assumes "fw_ok fw" and "ctl_next (fw_usb2_control fw) \<in> {StIdle, StStall}"
    and "is_execute HostToDevice sp" and "sp_length sp = 0"
    and "command_parse (received (fw_usb2_control fw)) = Some cmd"
  shows "fw_control_event env (ReceiveSetupPacket 0 sp) fw w =
    rbind (fw_class_dispatch env (command_class_id cmd) (command_verb_number cmd)
        (cmd_arguments cmd)
        (fw\<lparr>fw_usb2_control := (fw_usb2_control fw)\<lparr>ctl_next := StIdle\<rparr>\<rparr>) w)
      (\<lambda>(r, fw, w). Ret (fw_outcome r fw, fw_outcome_world env r w))"
  using assms by (rule fw_empty_execute)

definition after_command :: firmware where
  "after_command = idle_firmware\<lparr>fw_usb2_control :=
     (fw_usb2_control idle_firmware)\<lparr>ctl_rx_buffer_position := 8\<rparr>\<rparr>"

lemma empty_execute_replays_witness:
  "\<exists>fw'. fw_control_event bench_env (ReceiveSetupPacket 0 (vendor_out 0)) after_command
      (bench_world (bench_start [])) = Ret (fw', bench_world (bench_start [])) \<and>
    fw_libgreat_response fw' = Some [0x10, 0, 0, 0]"
proof -
  let ?cmd = "\<lparr>cmd_prelude = \<lparr>prelude_class = 0, prelude_verb = 0\<rparr>, cmd_arguments = []\<rparr>"
  have sel: "ctl_next (fw_usb2_control after_command) = StIdle"
    "fw_core after_command = core_new CLASSES BOARD_INFORMATION"
    by (simp_all add: after_command_def)
  have ok: "fw_ok after_command"
    using idle_firmware_ok
    by (auto simp: after_command_def fw_ok_def fw_control_ok_def fw_protocol_ok_def ctl_ok_def
        LIBGREAT_MAX_COMMAND_SIZE_def)
  have "received (fw_usb2_control after_command) = replicate 8 0"
    by (simp add: received_def after_command_def idle_firmware_def control_new_def
        LIBGREAT_MAX_COMMAND_SIZE_def)
  also have "\<dots> = prelude_enc (cmd_prelude ?cmd) @ cmd_arguments ?cmd"
    by (simp add: prelude_enc_def le32_def eval_nat_numeral)
  finally have cmd: "command_parse (received (fw_usb2_control after_command)) = Some ?cmd"
    by (simp only: command_parse_Some_iff)
  have "ctl_next (fw_usb2_control after_command) \<in> {StIdle, StStall}"
    "sp_length (vendor_out 0) = 0"
    by (simp_all add: sel vendor_request_simps)
  from empty_execute_replays [OF ok this(1) vendor_execute(1) this(2) cmd, of bench_env
      "bench_world (bench_start [])"]
  show ?thesis using sel read_board_id_response
    by (simp add: vendor_request_simps fw_class_dispatch_def command_class_id_def
        command_verb_number_def class_id_from_known fw_outcome_def fw_outcome_world_def)
qed

section \<open>What the host finds\<close>







section \<open>Survival\<close>

text \<open>
  C3: the running firmware survives every event that is not one of the few its code does not guard
  against (\<open>fw_event_safe\<close>): handling it returns, on any hardware whose registers and FIFOs behave,
  the new state is reachable again and the hardware still has what the next event needs.
\<close>

theorem firmware_survives:
  assumes "main_reachable env (l, fw, w)" and "fw_ready env mim target port w"
    and "dequeue (irq_ext w) = Some (event, q)"
    and "fw_event_safe fw (length (port (hw (write_leds env 1 (w\<lparr>irq_ext := q\<rparr>))))) event"
  shows "\<exists>l' fw' w'. loop_event env event l fw (w\<lparr>irq_ext := q\<rparr>) = Ret (l', fw', w') \<and>
    main_reachable env (l', fw', w') \<and> fw_ready env mim target port w'"
proof -
  let ?w = "w\<lparr>irq_ext := q\<rparr>"
  have ready: "fw_ready env mim target port ?w"
    using assms(2) by (rule fw_ready_frame) (use fw_readyD(2) [OF assms(2)] in \<open>simp add: acks_ok_def\<close>)
  obtain l' fw' w' where step: "loop_event env event l fw ?w = Ret (l', fw', w')" and acks: "acks_ok w'"
    using loop_event_returns [OF ready _ assms(4)] main_reachable_ok [OF assms(1)] by fastforce
  have "main_reachable env (l', fw', w')"
    using assms(1) step_event [OF assms(3) step] by (rule main_next)
  with step fw_ready_frame [OF ready acks] show ?thesis by blast
qed

lemma firmware_survives_witness:
  "\<exists>l fw w l' fw' w'. main_reachable reset_env (l, fw, w) \<and> irq_ext w = [UsbEv ControlPort BusReset] \<and>
     loop_event reset_env (UsbEv ControlPort BusReset) l fw (w\<lparr>irq_ext := []\<rparr>) = Ret (l', fw', w') \<and>
     main_reachable reset_env (l', fw', w')"
proof -
  obtain fw w where start: "main_reachable reset_env (loop_start, fw, w)"
    using firmware_new_Ret [of reset_env "bench_world (bench_start [])"]
      firmware_initialize_mask [OF reset_mim_private]
    by (meson main_start)
  obtain w1 where w1: "reset_irq w = Ret w1" "irq_ext w1 = [UsbEv ControlPort BusReset]" "acks_ok w1"
    by (simp add: reset_irq_def acks_ok_def EP_MAX_ENDPOINTS_def)
  have "main_step reset_env (loop_start, fw, w) (loop_start, fw, w1)"
    by (rule step_irq) (simp add: w1(1))
  with start have r: "main_reachable reset_env (loop_start, fw, w1)" by (rule main_next)
  have "dequeue (irq_ext w1) = Some (UsbEv ControlPort BusReset, [])" by (simp add: w1(2))
  moreover have "fw_event_safe fw n (UsbEv ControlPort BusReset)" for n
    by (simp add: fw_event_safe_def)
  ultimately show ?thesis
    using firmware_survives [OF r reset_env_ready [OF w1(3)]] r w1(2) by blast
qed

















end
